(* ===== verification/Prelude.thy ===== *)
theory Prelude
  imports Main
begin

text \<open>
  Shared vocabulary of the development.

  \<^item> The exceptions the program raises or catches (\<open>py_error\<close>) and the results of
    fallible code (\<open>'a result\<close>, \<open>Inl\<close> is the exception that leaves the function).
  \<^item> Sequencing of fallible code (\<open>res_bind\<close>) and the two loops that appear again and
    again: \<open>for\<close> with a body that may raise (\<open>res_mapM\<close>), and \<open>any(...)\<close>
    over a test that may raise (\<open>res_any\<close>).
  \<^item> The collections \<open>res_simps\<close> (how results compute), \<open>contract_defs\<close> (validity
    of the boundary contracts), \<open>sql_defs\<close> (the statements run against the
    database) and \<open>inv_intros\<close> (preservation of the invariants).
  \<^item> Generic facts on lists, and on dictionaries in insertion order (\<open>dict_set\<close>), used by
    several components.
\<close>

named_theorems res_simps \<open>computation rules for fallible results\<close>
named_theorems contract_defs \<open>definitions of contract validity\<close>
named_theorems sql_defs \<open>definitions of the database statements\<close>
named_theorems inv_intros \<open>preservation of table and system invariants\<close>

section \<open>Exceptions and fallible results\<close>

text \<open>
  One constructor per exception class the code raises, catches or lets through, with
  \<^verbatim>\<open>str(error)\<close> as its argument. \<open>UnparseablePayload\<close> is declared in
  \<^verbatim>\<open>receiver/normalizers/datadog.py\<close>, \<open>ConfigError\<close> in \<^verbatim>\<open>config.py\<close>; both, like
  pydantic's \<open>ValidationError\<close>, are subclasses of \<open>ValueError\<close>.
\<close>

datatype py_error =
    UnparseablePayload string
  | ValidationError string
  | ConfigError string
  | ValueError string
  | TypeError string
  | OverflowError string
  | OSError string
  | RuntimeError string
  | KeyError string
  | LookupError string
  | IndexError string
  | AttributeError string
  | IntegrityError string
  | DataError string
  | ProgrammingError string
  | InternalError string
  | RedisError string
  | ResponseError string
  | TimeoutError string

type_synonym 'a result = "py_error + 'a"

text \<open>What \<^verbatim>\<open>except ValueError\<close> and \<^verbatim>\<open>except (ValueError, TypeError)\<close> catch.\<close>

fun is_value_error :: "py_error \<Rightarrow> bool" where
  "is_value_error (UnparseablePayload _) = True"
| "is_value_error (ValidationError _) = True"
| "is_value_error (ConfigError _) = True"
| "is_value_error (ValueError _) = True"
| "is_value_error _ = False"

fun is_type_error :: "py_error \<Rightarrow> bool" where
  "is_type_error (TypeError _) = True"
| "is_type_error _ = False"

text \<open>\<^verbatim>\<open>str(error)\<close>\<close>

fun err_text :: "py_error \<Rightarrow> string" where
  "err_text (UnparseablePayload m) = m"
| "err_text (ValidationError m) = m"
| "err_text (ConfigError m) = m"
| "err_text (ValueError m) = m"
| "err_text (TypeError m) = m"
| "err_text (OverflowError m) = m"
| "err_text (OSError m) = m"
| "err_text (RuntimeError m) = m"
| "err_text (KeyError m) = m"
| "err_text (LookupError m) = m"
| "err_text (IndexError m) = m"
| "err_text (AttributeError m) = m"
| "err_text (IntegrityError m) = m"
| "err_text (DataError m) = m"
| "err_text (ProgrammingError m) = m"
| "err_text (InternalError m) = m"
| "err_text (RedisError m) = m"
| "err_text (ResponseError m) = m"
| "err_text (TimeoutError m) = m"

text \<open>\<^verbatim>\<open>type(error).__name__\<close>\<close>

fun err_class :: "py_error \<Rightarrow> string" where
  "err_class (UnparseablePayload _) = ''UnparseablePayload''"
| "err_class (ValidationError _) = ''ValidationError''"
| "err_class (ConfigError _) = ''ConfigError''"
| "err_class (ValueError _) = ''ValueError''"
| "err_class (TypeError _) = ''TypeError''"
| "err_class (OverflowError _) = ''OverflowError''"
| "err_class (OSError _) = ''OSError''"
| "err_class (RuntimeError _) = ''RuntimeError''"
| "err_class (KeyError _) = ''KeyError''"
| "err_class (LookupError _) = ''LookupError''"
| "err_class (IndexError _) = ''IndexError''"
| "err_class (AttributeError _) = ''AttributeError''"
| "err_class (IntegrityError _) = ''IntegrityError''"
| "err_class (DataError _) = ''DataError''"
| "err_class (ProgrammingError _) = ''ProgrammingError''"
| "err_class (InternalError _) = ''InternalError''"
| "err_class (RedisError _) = ''RedisError''"
| "err_class (ResponseError _) = ''ResponseError''"
| "err_class (TimeoutError _) = ''TimeoutError''"

definition res_bind :: "'a result \<Rightarrow> ('a \<Rightarrow> 'b result) \<Rightarrow> 'b result" where
  "res_bind m f = (case m of Inl e \<Rightarrow> Inl e | Inr x \<Rightarrow> f x)"

fun res_mapM :: "('a \<Rightarrow> 'b result) \<Rightarrow> 'a list \<Rightarrow> 'b list result" where
  "res_mapM f [] = Inr []"
| "res_mapM f (x # xs) =
     res_bind (f x) (\<lambda>y. res_bind (res_mapM f xs) (\<lambda>ys. Inr (y # ys)))"

text \<open>\<^verbatim>\<open>any(test(x) for x in xs)\<close>: stops at the first \<open>True\<close> or the first exception.\<close>

fun res_any :: "('a \<Rightarrow> bool result) \<Rightarrow> 'a list \<Rightarrow> bool result" where
  "res_any f [] = Inr False"
| "res_any f (x # xs) = res_bind (f x) (\<lambda>b. if b then Inr True else res_any f xs)"

lemma res_bind_simps [simp, res_simps]:
  "res_bind (Inl e) f = Inl e"
  "res_bind (Inr x) f = f x"
  by (simp_all add: res_bind_def)

lemma res_bind_eq_Inr [simp, res_simps]:
  "res_bind m f = Inr y \<longleftrightarrow> (\<exists>x. m = Inr x \<and> f x = Inr y)"
  by (cases m) auto

lemma res_bind_eq_Inl [res_simps]:
  "res_bind m f = Inl e \<longleftrightarrow> m = Inl e \<or> (\<exists>x. m = Inr x \<and> f x = Inl e)"
  by (cases m) auto

lemma res_bind_cong [fundef_cong]:
  assumes "m = m'" and "\<And>x. m' = Inr x \<Longrightarrow> f x = f' x"
  shows "res_bind m f = res_bind m' f'"
  using assms by (cases m') auto

lemma res_mapM_length: "res_mapM f xs = Inr ys \<Longrightarrow> length ys = length xs"
  by (induction xs arbitrary: ys) auto

lemma res_mapM_set:
  "res_mapM f xs = Inr ys \<Longrightarrow> y \<in> set ys \<Longrightarrow> \<exists>x \<in> set xs. f x = Inr y"
  by (induction xs arbitrary: ys) auto

lemma res_mapM_all_ok:
  "(\<And>x. x \<in> set xs \<Longrightarrow> f x = Inr (g x)) \<Longrightarrow> res_mapM f xs = Inr (map g xs)"
  by (induction xs) auto

lemma res_any_ok:
  "(\<And>x. x \<in> set xs \<Longrightarrow> f x = Inr (g x)) \<Longrightarrow> res_any f xs = Inr (\<exists>x \<in> set xs. g x)"
  by (induction xs) auto

lemma res_any_True:
  "res_any f xs = Inr True \<Longrightarrow> \<exists>x \<in> set xs. f x = Inr True"
  by (induction xs) (auto split: if_splits)

lemma res_any_False:
  "res_any f xs = Inr False \<longleftrightarrow> (\<forall>x \<in> set xs. f x = Inr False)"
  by (induction xs) (auto split: if_splits)

text \<open>
  Stateful code that may raise: the result or the exception, with the state it leaves.
  Unlike a rolled back transaction, an exception does not undo what was done before.
\<close>

definition st_bind ::
  "'a result \<times> 's \<Rightarrow> ('a \<Rightarrow> 's \<Rightarrow> 'b result \<times> 's) \<Rightarrow> 'b result \<times> 's" where
  "st_bind m k = (case fst m of Inl e \<Rightarrow> (Inl e, snd m) | Inr x \<Rightarrow> k x (snd m))"

lemma st_bind_simps [simp, res_simps]:
  "st_bind (Inl e, s) k = (Inl e, s)"
  "st_bind (Inr x, s) k = k x s"
  by (simp_all add: st_bind_def)

lemma st_bind_cong [fundef_cong]:
  assumes "m = m'" and "\<And>x s. m' = (Inr x, s) \<Longrightarrow> k x s = k' x s"
  shows "st_bind m k = st_bind m' k'"
  using assms by (cases m'; cases "fst m'") auto

lemma st_bind_eq_Inr:
  "st_bind m k = (Inr y, s') \<longleftrightarrow> (\<exists>x s. m = (Inr x, s) \<and> k x s = (Inr y, s'))"
  by (cases m; cases "fst m") auto

lemma st_bind_inv:
  assumes "P (snd m)" and "\<And>x. fst m = Inr x \<Longrightarrow> P (snd (k x (snd m)))"
  shows "P (snd (st_bind m k))"
  using assms by (cases m; cases "fst m") auto

section \<open>Lists\<close>

text \<open>The rows a statement selects and the rows it updates in place.\<close>

definition update_where :: "('a \<Rightarrow> bool) \<Rightarrow> ('a \<Rightarrow> 'a) \<Rightarrow> 'a list \<Rightarrow> 'a list" where
  "update_where p f xs = map (\<lambda>x. if p x then f x else x) xs"

lemma length_update_where [simp]: "length (update_where p f xs) = length xs"
  by (simp add: update_where_def)

lemma update_where_Nil [simp]: "update_where p f [] = []"
  by (simp add: update_where_def)

lemma update_where_Cons [simp]:
  "update_where p f (x # xs) = (if p x then f x else x) # update_where p f xs"
  by (simp add: update_where_def)

lemma update_where_append [simp]:
  "update_where p f (xs @ ys) = update_where p f xs @ update_where p f ys"
  by (simp add: update_where_def)

lemma set_update_where:
  "set (update_where p f xs) = (\<lambda>x. if p x then f x else x) ` set xs"
  by (simp add: update_where_def)

lemma update_where_none: "(\<And>x. x \<in> set xs \<Longrightarrow> \<not> p x) \<Longrightarrow> update_where p f xs = xs"
  by (induction xs) auto

lemma map_update_where:
  "(\<And>x. p x \<Longrightarrow> g (f x) = g x) \<Longrightarrow> map g (update_where p f xs) = map g xs"
  by (induction xs) auto

lemma image_update_where:
  "(\<And>x. p x \<Longrightarrow> g (f x) = g x) \<Longrightarrow> g ` set (update_where p f xs) = g ` set xs"
  by (metis image_set map_update_where)

lemma list_all_update_where:
  "(\<And>x. p x \<Longrightarrow> Q (f x) = Q x) \<Longrightarrow> list_all Q (update_where p f xs) = list_all Q xs"
  by (induction xs) auto

lemma filter_update_where_same:
  assumes "\<And>x. p x \<Longrightarrow> q (f x) \<longleftrightarrow> q x"
  shows "filter q (update_where p f xs) = update_where p f (filter q xs)"
  using assms by (induction xs) auto

lemma filter_update_where_disjoint:
  assumes "\<And>x. p x \<Longrightarrow> \<not> q x \<and> \<not> q (f x)"
  shows "filter q (update_where p f xs) = filter q xs"
  using assms by (induction xs) auto

lemma filter_update_where_shrink:
  assumes "filter q xs = []" and "\<And>x. p x \<Longrightarrow> \<not> q (f x)"
  shows "filter q (update_where p f xs) = []"
  using assms by (induction xs) (auto split: if_splits)

lemma filter_update_where_gone:
  assumes "\<And>x. q x \<Longrightarrow> p x" and "\<And>x. p x \<Longrightarrow> \<not> q (f x)"
  shows "filter q (update_where p f xs) = []"
  using assms by (induction xs) auto

text \<open>At most one element of a list satisfies \<open>p\<close>: partial unique indexes.\<close>

definition at_most_one :: "('a \<Rightarrow> bool) \<Rightarrow> 'a list \<Rightarrow> bool" where
  "at_most_one p xs \<longleftrightarrow> length (filter p xs) \<le> 1"

lemma at_most_one_Nil [simp]: "at_most_one p []"
  by (simp add: at_most_one_def)

lemma at_most_one_append1:
  "at_most_one p (xs @ [x]) \<longleftrightarrow> (if p x then filter p xs = [] else at_most_one p xs)"
  by (auto simp: at_most_one_def)

lemma at_most_one_mono:
  assumes "at_most_one p xs" and "\<And>x. x \<in> set xs \<Longrightarrow> q x \<Longrightarrow> p x"
  shows "at_most_one q xs"
proof -
  have "length (filter q xs) \<le> length (filter p xs)"
    using assms(2) by (induction xs) (auto simp: le_Suc_eq)
  then show ?thesis using assms(1) by (simp add: at_most_one_def)
qed

lemma at_most_one_unique:
  assumes "at_most_one p xs" and "i < length xs" and "j < length xs"
    and "p (xs ! i)" and "p (xs ! j)"
  shows "i = j"
proof (rule ccontr)
  assume neq: "i \<noteq> j"
  have sub: "{i, j} \<subseteq> {k. k < length xs \<and> p (xs ! k)}"
    using assms by auto
  have "card {i, j} \<le> card {k. k < length xs \<and> p (xs ! k)}"
    by (rule card_mono[OF _ sub]) simp
  then have "card {i, j} \<le> length (filter p xs)"
    by (simp add: length_filter_conv_card)
  with neq assms(1) show False by (simp add: at_most_one_def)
qed

lemma at_most_one_update_where:
  assumes "\<And>x. p x \<Longrightarrow> q (f x) \<longleftrightarrow> q x"
  shows "at_most_one q (update_where p f xs) = at_most_one q xs"
  using assms by (simp add: at_most_one_def filter_update_where_same)

lemma find_eq_hd_filter: "find p xs = (case filter p xs of [] \<Rightarrow> None | x # _ \<Rightarrow> Some x)"
  by (induction xs) auto

lemma find_Some_iff_hd: "find p xs = Some x \<Longrightarrow> x \<in> set xs \<and> p x"
  by (induction xs) (auto split: if_splits)

lemma find_append_not:
  "(\<And>x. x \<in> set xs \<Longrightarrow> \<not> p x) \<Longrightarrow> find p (xs @ ys) = find p ys"
  by (induction xs) auto

lemma find_distinct_key:
  assumes "distinct (map f xs)" and "x \<in> set xs"
  shows "find (\<lambda>y. f y = f x) xs = Some x"
  using assms by (induction xs) (auto simp: image_iff)

lemma find_distinct_key_and:
  assumes "distinct (map f xs)" and "x \<in> set xs" and "q x"
  shows "find (\<lambda>y. f y = f x \<and> q y) xs = Some x"
  using assms by (induction xs) (auto simp: image_iff)

lemma update_where_filter_gone:
  assumes "\<And>x. x \<in> set xs \<Longrightarrow> p x \<Longrightarrow> \<not> q (f x)"
  shows "filter q (update_where p f xs) = filter (\<lambda>x. \<not> p x) (filter q xs)"
  using assms by (induction xs) auto

lemma filter_ConsD: "filter q xs = y # ys \<Longrightarrow> y \<in> set xs \<and> q y"
  by (metis filter_set list.set_intros(1) mem_Collect_eq set_filter)

lemma distinct_map_key:
  "distinct (map f xs) \<Longrightarrow> x \<in> set xs \<Longrightarrow> y \<in> set xs \<Longrightarrow> f x = f y \<Longrightarrow> x = y"
  by (metis distinct_map inj_onD)

lemma distinct_key_count:
  "distinct (map f xs) \<Longrightarrow> length (filter (\<lambda>x. f x = k) xs) \<le> 1"
  by (induction xs) (auto simp: filter_empty_conv intro: rev_image_eqI)

section \<open>Dictionaries\<close>

text \<open>\<^verbatim>\<open>d[k] = v\<close>: an existing key keeps its place.\<close>

fun dict_set :: "'k \<Rightarrow> 'v \<Rightarrow> ('k \<times> 'v) list \<Rightarrow> ('k \<times> 'v) list" where
  "dict_set k v [] = [(k, v)]"
| "dict_set k v ((k', v') # d) = (if k' = k then (k, v) # d else (k', v') # dict_set k v d)"

lemma dict_set_new: "k \<notin> fst ` set d \<Longrightarrow> dict_set k v d = d @ [(k, v)]"
  by (induction d) auto

lemma keys_dict_set: "fst ` set (dict_set k v d) = insert k (fst ` set d)"
proof (induction d)
  case (Cons p d)
  then show ?case by (cases p) (auto simp: insert_commute)
qed simp

lemma distinct_dict_set: "distinct (map fst d) \<Longrightarrow> distinct (map fst (dict_set k v d))"
proof (induction d)
  case (Cons p d)
  obtain k' v' where p: "p = (k', v')" by (cases p)
  have "k' \<notin> set (map fst (dict_set k v d))" if "k' \<noteq> k"
    using that Cons.prems keys_dict_set[of k v d] by (simp add: p)
  then show ?case using Cons by (auto simp: p)
qed simp

end
