(* ===== verification/PyText.thy ===== *)
theory PyText
  imports Prelude
begin

text \<open>
  The text operations of the Python language the program uses.

  A Python \<^verbatim>\<open>str\<close> is a sequence of code points; here it is a \<open>string\<close>, so a
  character is a code point below 256 (the Latin-1 range, which is also the range HTTP
  header values are decoded to). Every operation is the Python one on that range:
  \<^verbatim>\<open>strip\<close> removes the twelve white-space code points below 256, \<^verbatim>\<open>lower\<close> and
  \<^verbatim>\<open>upper\<close> map the Latin-1 letters as well as the ASCII ones. The two letters whose
  capital lies outside the range (code points 181 and 255) are left as they are by
  \<open>py_upper\<close>; neither they nor their capitals occur in any key the code compares with.
\<close>

section \<open>Characters\<close>

definition cp :: "char \<Rightarrow> nat" where
  "cp c = of_char c"

text \<open>Text beyond Latin-1 as its code points.\<close>

type_synonym utext = "nat list"

definition uc :: "string \<Rightarrow> utext" where
  "uc s = map cp s"

text \<open>\<^verbatim>\<open>str.isspace\<close> on any code point, and on Latin-1.\<close>

definition uspace :: "nat \<Rightarrow> bool" where
  "uspace n \<longleftrightarrow> (9 \<le> n \<and> n \<le> 13) \<or> (28 \<le> n \<and> n \<le> 32) \<or> (8192 \<le> n \<and> n \<le> 8202)
     \<or> n \<in> {133, 160, 5760, 8232, 8233, 8239, 8287, 12288}"

definition is_space :: "char \<Rightarrow> bool" where
  "is_space c \<longleftrightarrow> (let n = cp c in (9 \<le> n \<and> n \<le> 13) \<or> (28 \<le> n \<and> n \<le> 32) \<or> n = 133 \<or> n = 160)"

definition is_ascii :: "char \<Rightarrow> bool" where
  "is_ascii c \<longleftrightarrow> cp c < 128"

definition is_digit :: "char \<Rightarrow> bool" where
  "is_digit c \<longleftrightarrow> 48 \<le> cp c \<and> cp c \<le> 57"

definition digit_val :: "char \<Rightarrow> nat" where
  "digit_val c = cp c - 48"

definition is_printable :: "char \<Rightarrow> bool" where
  "is_printable c \<longleftrightarrow> (let n = cp c in 32 \<le> n \<and> n \<le> 126 \<or> 161 \<le> n \<and> n \<noteq> 173)"

definition lower_char :: "char \<Rightarrow> char" where
  "lower_char c = (let n = cp c in
     if (65 \<le> n \<and> n \<le> 90) \<or> (192 \<le> n \<and> n \<le> 222 \<and> n \<noteq> 215) then char_of (n + 32) else c)"

definition upper_char :: "char \<Rightarrow> string" where
  "upper_char c = (let n = cp c in
     if n = 223 then ''SS''
     else if (97 \<le> n \<and> n \<le> 122) \<or> (224 \<le> n \<and> n \<le> 254 \<and> n \<noteq> 247) then [char_of (n - 32)]
     else [c])"

section \<open>Strings\<close>

definition py_lower :: "string \<Rightarrow> string" where
  "py_lower s = map lower_char s"

definition py_upper :: "string \<Rightarrow> string" where
  "py_upper s = concat (map upper_char s)"

definition py_strip :: "string \<Rightarrow> string" where
  "py_strip s = rev (dropWhile is_space (rev (dropWhile is_space s)))"

definition py_startswith :: "string \<Rightarrow> string \<Rightarrow> bool" where
  "py_startswith s p \<longleftrightarrow> take (length p) s = p"

definition py_endswith :: "string \<Rightarrow> string \<Rightarrow> bool" where
  "py_endswith s p \<longleftrightarrow> take (length p) (rev s) = rev p"

definition py_removeprefix :: "string \<Rightarrow> string \<Rightarrow> string" where
  "py_removeprefix s p = (if py_startswith s p then drop (length p) s else s)"

text \<open>\<^verbatim>\<open>s.split(c)\<close> for a one-character separator: always at least one part.\<close>

fun py_split :: "char \<Rightarrow> string \<Rightarrow> string list" where
  "py_split c [] = [[]]"
| "py_split c (x # xs) =
     (if x = c then [] # py_split c xs
      else (case py_split c xs of [] \<Rightarrow> [[x]] | y # ys \<Rightarrow> (x # y) # ys))"

text \<open>\<^verbatim>\<open>s.partition(c)\<close>: the text before, whether \<open>c\<close> occurs, and the text after.\<close>

definition py_partition :: "char \<Rightarrow> string \<Rightarrow> string \<times> bool \<times> string" where
  "py_partition c s =
     (if c \<in> set s then (takeWhile (\<lambda>x. x \<noteq> c) s, True, drop 1 (dropWhile (\<lambda>x. x \<noteq> c) s))
      else (s, False, []))"

fun py_join :: "string \<Rightarrow> string list \<Rightarrow> string" where
  "py_join sep [] = []"
| "py_join sep [x] = x"
| "py_join sep (x # y # zs) = x @ sep @ py_join sep (y # zs)"

text \<open>\<^verbatim>\<open>s.replace(old, new)\<close> for a one-character \<open>old\<close>.\<close>

definition py_replace_char :: "char \<Rightarrow> string \<Rightarrow> string \<Rightarrow> string" where
  "py_replace_char c new s = concat (map (\<lambda>x. if x = c then new else [x]) s)"

text \<open>\<^verbatim>\<open>pat in s\<close>\<close>

fun contains :: "string \<Rightarrow> string \<Rightarrow> bool" where
  "contains pat [] = (pat = [])"
| "contains pat (c # cs) = (py_startswith (c # cs) pat \<or> contains pat cs)"

text \<open>Truthiness of a string: \<^verbatim>\<open>a or b\<close> picks \<open>b\<close> when \<open>a\<close> is empty.\<close>

definition py_or :: "string \<Rightarrow> string \<Rightarrow> string" where
  "py_or a b = (if a = [] then b else a)"

section \<open>Integers as text\<close>

definition digit_char :: "nat \<Rightarrow> char" where
  "digit_char d = char_of (48 + d)"

fun show_nat :: "nat \<Rightarrow> string" where
  "show_nat n = (if n < 10 then [digit_char n] else show_nat (n div 10) @ [digit_char (n mod 10)])"

declare show_nat.simps [simp del]

definition show_int :: "int \<Rightarrow> string" where
  "show_int i = (if i < 0 then CHR ''-'' # show_nat (nat (- i)) else show_nat (nat i))"

text \<open>
  \<^verbatim>\<open>int(s)\<close>: white space around (a smaller set than \<^verbatim>\<open>strip\<close> removes), an optional
  sign, digits with single underscores between them, at most 4300 digits;
  \<open>None\<close> is the \<open>ValueError\<close>.
\<close>

definition is_int_space :: "char \<Rightarrow> bool" where
  "is_int_space c \<longleftrightarrow> (let n = cp c in (9 \<le> n \<and> n \<le> 13) \<or> n = 32 \<or> n = 133 \<or> n = 160)"

fun int_digits :: "bool \<Rightarrow> string \<Rightarrow> nat list option" where
  "int_digits after_digit [] = (if after_digit then Some [] else None)"
| "int_digits after_digit (c # cs) =
     (if is_digit c then map_option (\<lambda>ds. digit_val c # ds) (int_digits True cs)
      else if c = CHR ''_'' \<and> after_digit then int_digits False cs
      else None)"

definition digits_val :: "nat list \<Rightarrow> nat" where
  "digits_val ds = foldl (\<lambda>acc d. 10 * acc + d) 0 ds"

definition py_int :: "string \<Rightarrow> int option" where
  "py_int s =
     (let t = rev (dropWhile is_int_space (rev (dropWhile is_int_space s)));
          (neg, body) = (case t of
              [] \<Rightarrow> (False, [])
            | c # cs \<Rightarrow> if c = CHR ''-'' then (True, cs)
                        else if c = CHR ''+'' then (False, cs) else (False, t))
      in case int_digits False body of
           None \<Rightarrow> None
         | Some ds \<Rightarrow>
             if 4300 < length ds then None
             else Some (if neg then - int (digits_val ds) else int (digits_val ds)))"

section \<open>The printed representation of a string\<close>

definition hex_digit :: "nat \<Rightarrow> char" where
  "hex_digit d = (if d < 10 then char_of (48 + d) else char_of (87 + d))"

definition hex_byte :: "nat \<Rightarrow> string" where
  "hex_byte n = [hex_digit (n div 16), hex_digit (n mod 16)]"

abbreviation (input) dquote :: char where "dquote \<equiv> CHR 0x22"
abbreviation (input) squote :: char where "squote \<equiv> CHR 0x27"
abbreviation (input) bslash :: char where "bslash \<equiv> CHR 0x5C"

definition repr_char :: "char \<Rightarrow> char \<Rightarrow> string" where
  "repr_char q c =
     (if c = q \<or> c = bslash then [bslash, c]
      else if c = CHR 0x09 then [bslash, CHR ''t'']
      else if c = CHR 0x0A then [bslash, CHR ''n'']
      else if c = CHR 0x0D then [bslash, CHR ''r'']
      else if is_printable c then [c]
      else [bslash, CHR ''x''] @ hex_byte (cp c))"

text \<open>\<^verbatim>\<open>repr(s)\<close>: single quotes unless the text has a single and no double quote.\<close>

definition repr_str :: "string \<Rightarrow> string" where
  "repr_str s =
     (let q = (if squote \<in> set s \<and> dquote \<notin> set s then dquote else squote)
      in [q] @ concat (map (repr_char q) s) @ [q])"

section \<open>Facts\<close>

lemma cp_lt [simp]: "cp c < 256"
  by (simp add: cp_def)

lemma cp_inj [simp]: "cp c = cp d \<longleftrightarrow> c = d"
  by (simp add: cp_def)

lemma py_or_nonempty: "py_or a b \<noteq> [] \<longleftrightarrow> a \<noteq> [] \<or> b \<noteq> []"
  by (simp add: py_or_def)

lemma py_startswith_append [simp]: "py_startswith (p @ s) p"
  by (simp add: py_startswith_def)

lemma py_startswithE:
  assumes "py_startswith s p"
  obtains t where "s = p @ t"
  using assms unfolding py_startswith_def by (metis append_take_drop_id)

lemma py_removeprefix_append [simp]: "py_removeprefix (p @ s) p = s"
  by (simp add: py_removeprefix_def)

text \<open>Stripping leaves no white space at either end, and stripping twice changes nothing.\<close>

lemma dropWhile_idem2 [simp]: "dropWhile P (dropWhile P xs) = dropWhile P xs"
  by (induction xs) auto

lemma hd_dropWhile_not: "dropWhile P xs \<noteq> [] \<Longrightarrow> \<not> P (hd (dropWhile P xs))"
  by (rule hd_dropWhile)

lemma dropWhile_rev_dropWhile:
  "dropWhile P (rev (dropWhile P (rev (dropWhile P xs)))) = rev (dropWhile P (rev (dropWhile P xs)))"
proof (cases "dropWhile P xs")
  case (Cons y ys)
  then have ny: "\<not> P y" using hd_dropWhile[of P xs] by simp
  have "rev (dropWhile P (rev (y # ys))) = y # rev (dropWhile P (rev ys))"
  proof -
    have "dropWhile P (rev ys @ [y]) = dropWhile P (rev ys) @ [y]"
      using ny by (induction ys rule: rev_induct) auto
    then show ?thesis by simp
  qed
  with Cons ny show ?thesis by simp
next
  case Nil
  show ?thesis unfolding Nil by simp
qed

lemma py_strip_idem [simp]: "py_strip (py_strip s) = py_strip s"
proof -
  let ?t = "rev (dropWhile is_space (rev (dropWhile is_space s)))"
  have "dropWhile is_space ?t = ?t" by (rule dropWhile_rev_dropWhile)
  then show ?thesis by (simp add: py_strip_def)
qed

lemma set_py_strip: "set (py_strip s) \<subseteq> set s"
  unfolding py_strip_def by (metis set_rev set_dropWhileD subsetI)

lemma py_strip_hd: "py_strip s \<noteq> [] \<Longrightarrow> \<not> is_space (hd (py_strip s))"
  by (metis dropWhile_rev_dropWhile hd_dropWhile py_strip_def)

lemma py_split_not_Nil [simp]: "py_split c s \<noteq> []"
  by (induction s) (auto split: list.splits)

lemma py_join_split: "py_join [c] (py_split c s) = s"
proof (induction s)
  case (Cons x xs)
  then show ?case
    by (cases "py_split c xs"; cases "tl (py_split c xs)") auto
qed simp

lemma py_split_no_sep: "p \<in> set (py_split c s) \<Longrightarrow> c \<notin> set p"
proof (induction s arbitrary: p)
  case (Cons x xs)
  then show ?case by (cases "py_split c xs") (auto split: if_splits)
qed simp

lemma lower_char_idem [simp]: "lower_char (lower_char c) = lower_char c"
proof -
  have "of_char (char_of (cp c + 32)) = (cp c + 32) mod 256"
    by simp
  then show ?thesis
    by (auto simp: lower_char_def Let_def cp_def)
qed

lemma py_lower_idem [simp]: "py_lower (py_lower s) = py_lower s"
  by (simp add: py_lower_def)

lemma digit_char_digit: "d < 10 \<Longrightarrow> is_digit (digit_char d) \<and> digit_val (digit_char d) = d"
  by (simp add: is_digit_def digit_char_def digit_val_def cp_def)

lemma show_nat_not_Nil [simp]: "show_nat n \<noteq> []"
  by (subst show_nat.simps) simp

lemma show_nat_digits: "c \<in> set (show_nat n) \<Longrightarrow> is_digit c"
proof (induction n rule: show_nat.induct)
  case (1 n)
  show ?case
  proof (cases "n < 10")
    case True
    with 1 show ?thesis by (simp add: show_nat.simps[of n] digit_char_digit)
  next
    case False
    with 1 show ?thesis
      by (auto simp: show_nat.simps[of n] digit_char_digit)
  qed
qed

lemma digits_val_snoc: "digits_val (ds @ [d]) = 10 * digits_val ds + d"
  by (simp add: digits_val_def)

lemma digits_val_show_nat: "digits_val (map digit_val (show_nat n)) = n"
proof (induction n rule: show_nat.induct)
  case (1 n)
  show ?case
  proof (cases "n < 10")
    case True
    then show ?thesis by (simp add: show_nat.simps[of n] digits_val_def digit_char_digit)
  next
    case False
    with 1 show ?thesis
      by (simp add: show_nat.simps[of n] digits_val_snoc digit_char_digit)
  qed
qed

lemma int_digits_all:
  "(\<And>c. c \<in> set s \<Longrightarrow> is_digit c) \<Longrightarrow> s \<noteq> [] \<or> b \<Longrightarrow> int_digits b s = Some (map digit_val s)"
  by (induction s arbitrary: b) auto

lemma digit_not_int_space: "is_digit c \<Longrightarrow> \<not> is_int_space c"
  by (auto simp: is_digit_def is_int_space_def Let_def)

text \<open>Printing a number and reading it back gives the number.\<close>

lemma py_int_show_nat:
  assumes "length (show_nat n) \<le> 4300"
  shows "py_int (show_nat n) = Some (int n)"
proof -
  let ?s = "show_nat n"
  have dg: "\<And>c. c \<in> set ?s \<Longrightarrow> is_digit c" by (rule show_nat_digits)
  obtain c cs where s: "?s = c # cs" using show_nat_not_Nil[of n] by (cases ?s) auto
  obtain d ds where r: "rev ?s = d # ds" using show_nat_not_Nil[of n] by (cases "rev ?s") auto
  have "is_digit c" "is_digit d" using dg s r by (metis list.set_intros(1) set_rev)+
  then have ns: "\<not> is_int_space c" "\<not> is_int_space d" and sg: "c \<noteq> CHR ''-''" "c \<noteq> CHR ''+''"
    by (auto simp: digit_not_int_space is_digit_def cp_def)
  have "dropWhile is_int_space ?s = ?s" and "dropWhile is_int_space (rev ?s) = rev ?s"
    using s r ns by auto
  moreover have "int_digits False ?s = Some (map digit_val ?s)"
    by (rule int_digits_all) (use dg in auto)
  ultimately show ?thesis
    using assms s sg digits_val_show_nat[of n] by (simp add: py_int_def)
qed

lemma show_nat_inj: "show_nat m = show_nat n \<longleftrightarrow> m = n"
  by (metis digits_val_show_nat)

lemma py_startswith_iff: "py_startswith s p \<longleftrightarrow> (\<exists>b. s = p @ b)"
  by (auto simp: py_startswith_def intro: exI[of _ "drop (length p) s"]
      dest: sym[of "take (length p) s"]) (metis append_take_drop_id)

lemma contains_iff: "contains pat s \<longleftrightarrow> (\<exists>a b. s = a @ pat @ b)"
proof (induction s)
  case (Cons c s)
  have "(\<exists>a b. c # s = a @ pat @ b) \<longleftrightarrow> (\<exists>b. c # s = pat @ b) \<or> (\<exists>a b. s = a @ pat @ b)"
    by (metis append_Cons append_Nil append_eq_Cons_conv)
  then show ?case using Cons by (simp add: py_startswith_iff)
qed simp

lemma show_nat_length: "0 < w \<Longrightarrow> n < 10 ^ w \<Longrightarrow> length (show_nat n) \<le> w"
proof (induction n arbitrary: w rule: show_nat.induct)
  case (1 n)
  show ?case
  proof (cases "n < 10")
    case True
    then show ?thesis using 1 by (simp add: show_nat.simps[of n])
  next
    case False
    have "1 < w" using 1(2,3) False by (cases "w = 1") auto
    then obtain v where v: "w = Suc v" "0 < v" by (cases w) auto
    with 1 False have "length (show_nat (n div 10)) \<le> v" by (simp add: less_mult_imp_div_less)
    then show ?thesis using False v by (simp add: show_nat.simps[of n])
  qed
qed

end
