(* ===== verification/Json.thy ===== *)
theory Json
  imports PyText
begin

text \<open>
  JSON values as Python holds them after \<^verbatim>\<open>json.loads\<close>, with the conversions the
  normalizers apply to them: \<^verbatim>\<open>str(value)\<close> on any value (nested dicts and lists
  print their \<^verbatim>\<open>repr\<close>), truthiness, \<^verbatim>\<open>dict.get\<close>, and the compact
  \<^verbatim>\<open>json.dumps(..., separators=(",", ":"), ensure_ascii=False)\<close> that the fingerprint
  hashes. A float is kept as the text of its \<^verbatim>\<open>repr\<close>; a dict is its items in
  insertion order, keys distinct.
\<close>

datatype json =
    JNull
  | JBool bool
  | JInt int
  | JFloat string
  | JStr string
  | JList "json list"
  | JObj "(string \<times> json) list"

type_synonym json_obj = "(string \<times> json) list"

text \<open>\<^verbatim>\<open>repr(value)\<close>\<close>

fun py_repr :: "json \<Rightarrow> string"
  and py_repr_list :: "json list \<Rightarrow> string list"
  and py_repr_items :: "(string \<times> json) list \<Rightarrow> string list" where
  "py_repr JNull = ''None''"
| "py_repr (JBool b) = (if b then ''True'' else ''False'')"
| "py_repr (JInt i) = show_int i"
| "py_repr (JFloat r) = r"
| "py_repr (JStr s) = repr_str s"
| "py_repr (JList xs) = ''['' @ py_join '', '' (py_repr_list xs) @ '']''"
| "py_repr (JObj kvs) = ''{'' @ py_join '', '' (py_repr_items kvs) @ ''}''"
| "py_repr_list [] = []"
| "py_repr_list (x # xs) = py_repr x # py_repr_list xs"
| "py_repr_items [] = []"
| "py_repr_items ((k, v) # kvs) = (repr_str k @ '': '' @ py_repr v) # py_repr_items kvs"

text \<open>\<^verbatim>\<open>str(value)\<close>: a string is itself, anything else its \<^verbatim>\<open>repr\<close>.\<close>

fun py_str :: "json \<Rightarrow> string" where
  "py_str (JStr s) = s"
| "py_str v = py_repr v"

text \<open>\<^verbatim>\<open>bool(value)\<close>\<close>

fun py_truthy :: "json \<Rightarrow> bool" where
  "py_truthy JNull = False"
| "py_truthy (JBool b) = b"
| "py_truthy (JInt i) = (i \<noteq> 0)"
| "py_truthy (JFloat r) = (r \<noteq> ''0.0'' \<and> r \<noteq> ''-0.0'')"
| "py_truthy (JStr s) = (s \<noteq> [])"
| "py_truthy (JList xs) = (xs \<noteq> [])"
| "py_truthy (JObj kvs) = (kvs \<noteq> [])"

text \<open>\<^verbatim>\<open>d.get(key)\<close>, with \<open>JNull\<close> for both a missing key and a \<^verbatim>\<open>null\<close>.\<close>

definition py_get :: "json_obj \<Rightarrow> string \<Rightarrow> json" where
  "py_get d k = (case map_of d k of None \<Rightarrow> JNull | Some v \<Rightarrow> v)"

section \<open>Compact serialization\<close>

definition json_escape :: "char \<Rightarrow> string" where
  "json_escape c =
     (if c = dquote then [bslash, dquote]
      else if c = bslash then [bslash, bslash]
      else if c = CHR 0x0A then [bslash, CHR ''n'']
      else if c = CHR 0x0D then [bslash, CHR ''r'']
      else if c = CHR 0x09 then [bslash, CHR ''t'']
      else if c = CHR 0x0C then [bslash, CHR ''f'']
      else if c = CHR 0x08 then [bslash, CHR ''b'']
      else if cp c < 32 then [bslash, CHR ''u'', CHR ''0'', CHR ''0''] @ hex_byte (cp c)
      else [c])"

definition json_quote :: "string \<Rightarrow> string" where
  "json_quote s = [dquote] @ concat (map json_escape s) @ [dquote]"

fun json_dumps :: "json \<Rightarrow> string"
  and json_dumps_list :: "json list \<Rightarrow> string list"
  and json_dumps_items :: "(string \<times> json) list \<Rightarrow> string list" where
  "json_dumps JNull = ''null''"
| "json_dumps (JBool b) = (if b then ''true'' else ''false'')"
| "json_dumps (JInt i) = show_int i"
| "json_dumps (JFloat r) =
     (if r = ''nan'' then ''NaN'' else if r = ''inf'' then ''Infinity''
      else if r = ''-inf'' then ''-Infinity'' else r)"
| "json_dumps (JStr s) = json_quote s"
| "json_dumps (JList xs) = ''['' @ py_join '','' (json_dumps_list xs) @ '']''"
| "json_dumps (JObj kvs) = ''{'' @ py_join '','' (json_dumps_items kvs) @ ''}''"
| "json_dumps_list [] = []"
| "json_dumps_list (x # xs) = json_dumps x # json_dumps_list xs"
| "json_dumps_items [] = []"
| "json_dumps_items ((k, v) # kvs) = (json_quote k @ '':'' @ json_dumps v) # json_dumps_items kvs"

section \<open>Quoting is unambiguous\<close>

lemma hex_digit_inj: "a < 16 \<Longrightarrow> b < 16 \<Longrightarrow> hex_digit a = hex_digit b \<longleftrightarrow> a = b"
  by (auto simp: hex_digit_def char_of_eq_iff take_bit_eq_mod split: if_splits)

lemma hex_byte_inj: "m < 256 \<Longrightarrow> n < 256 \<Longrightarrow> hex_byte m = hex_byte n \<longleftrightarrow> m = n"
proof -
  assume mn: "m < 256" "n < 256"
  have "hex_byte m = hex_byte n \<longleftrightarrow> m div 16 = n div 16 \<and> m mod 16 = n mod 16"
    using mn by (simp add: hex_byte_def hex_digit_inj less_mult_imp_div_less)
  also have "\<dots> \<longleftrightarrow> m = n" by (metis div_mult_mod_eq)
  finally show ?thesis .
qed

lemma json_escape_not_Nil [simp]: "json_escape c \<noteq> []"
  by (simp add: json_escape_def)

lemma json_escape_hd: "hd (json_escape c @ xs) \<noteq> dquote"
  by (simp add: json_escape_def)

lemma json_escape_prefix:
  assumes "json_escape c @ xs = json_escape d @ ys"
  shows "c = d \<and> xs = ys"
proof -
  have hx: "hex_byte (cp c) @ xs = hex_byte (cp d) @ ys \<longleftrightarrow> c = d \<and> xs = ys" for xs ys
  proof -
    have "length (hex_byte (cp c)) = length (hex_byte (cp d))" by (simp add: hex_byte_def)
    then show ?thesis by (simp add: append_eq_append_conv hex_byte_inj)
  qed
  show ?thesis
    using assms unfolding json_escape_def
    by (simp split: if_splits add: hx)
qed

lemma json_escapes_prefix:
  "concat (map json_escape s) @ dquote # xs = concat (map json_escape t) @ dquote # ys
     \<Longrightarrow> s = t \<and> xs = ys"
proof (induction s arbitrary: t)
  case Nil
  then show ?case
  proof (cases t)
    case (Cons d ds)
    with Nil have "json_escape d @ (concat (map json_escape ds) @ dquote # ys) = dquote # xs"
      by simp
    then have False using json_escape_hd[of d "concat (map json_escape ds) @ dquote # ys"] by simp
    then show ?thesis ..
  qed simp
next
  case (Cons c cs)
  show ?case
  proof (cases t)
    case Nil
    with Cons.prems have "json_escape c @ (concat (map json_escape cs) @ dquote # xs) = dquote # ys"
      by simp
    then have False using json_escape_hd[of c "concat (map json_escape cs) @ dquote # xs"] by simp
    then show ?thesis ..
  next
    case t: (Cons d ds)
    with Cons.prems
    have "json_escape c @ (concat (map json_escape cs) @ dquote # xs)
          = json_escape d @ (concat (map json_escape ds) @ dquote # ys)" by simp
    from json_escape_prefix[OF this] Cons.IH[of ds] t show ?thesis by blast
  qed
qed

lemma json_quote_prefix:
  "json_quote s @ xs = json_quote t @ ys \<longleftrightarrow> s = t \<and> xs = ys"
  using json_escapes_prefix[of s xs t ys] by (auto simp: json_quote_def)

lemma json_quote_inj: "json_quote s = json_quote t \<longleftrightarrow> s = t"
  using json_quote_prefix[of s "[]" t "[]"] by simp

text \<open>What the normalizers read of a payload.\<close>

lemma py_get_Nil [simp]: "py_get [] k = JNull"
  by (simp add: py_get_def)

lemma py_get_Cons [simp]: "py_get ((k', v) # d) k = (if k' = k then v else py_get d k)"
  by (simp add: py_get_def)

end
