(* ===== verification/PyTime.thy ===== *)
theory PyTime
  imports PyText "HOL-Library.Log_Nat"
begin

text \<open>
  Aware datetimes of the standard library: the instant in microseconds since the epoch and
  the UTC offset it is displayed with. Comparisons and differences are those of the
  instants. \<open>fromtimestamp\<close> is \<^verbatim>\<open>datetime.fromtimestamp(n / d, tz=UTC)\<close>, with the
  binary64 quotient rounded to nearest (ties to even), its fraction scaled to microseconds
  in binary64 and rounded again, and the three ways it raises outside the years 1 to 9999.
  The definitions that call \<^verbatim>\<open>datetime.fromisoformat\<close> take it as an argument
  (\<open>isoparse\<close>), and what is proved of them holds for every such function; the standard
  library's is \<open>fromisoformat\<close> of \<open>IsoFormat\<close>.
\<close>

record py_datetime =
  dt_utc :: int
  dt_offset :: int

abbreviation utc :: "int \<Rightarrow> py_datetime" where
  "utc us \<equiv> \<lparr>dt_utc = us, dt_offset = 0\<rparr>"

text \<open>A parser of ISO-8601 text: local time and, for an aware result, its offset.\<close>

type_synonym isoparse = "string \<Rightarrow> (int \<times> int option) option"

section \<open>Calendar\<close>

definition us_per_second :: int where "us_per_second = 1000000"
definition us_per_day :: int where "us_per_day = 86400000000"

text \<open>Year, month and day of a day number (0 is 1970-01-01), proleptic Gregorian.\<close>

definition civil_from_days :: "int \<Rightarrow> int \<times> int \<times> int" where
  "civil_from_days days =
     (let z = days + 719468;
          era = z div 146097;
          doe = z mod 146097;
          yoe = (doe - doe div 1460 + doe div 36524 - doe div 146096) div 365;
          doy = doe - (365 * yoe + yoe div 4 - yoe div 100);
          mp = (5 * doy + 2) div 153;
          d = doy - (153 * mp + 2) div 5 + 1;
          m = (if mp < 10 then mp + 3 else mp - 9)
      in (yoe + era * 400 + (if m \<le> 2 then 1 else 0), m, d))"

definition pad_int :: "nat \<Rightarrow> int \<Rightarrow> string" where
  "pad_int w i = (let s = show_nat (nat i) in replicate (w - length s) (CHR ''0'') @ s)"

text \<open>\<^verbatim>\<open>datetime.isoformat()\<close>\<close>

definition iso_time :: "int \<Rightarrow> string" where
  "iso_time us =
     (let sec = us div us_per_second; frac = us mod us_per_second
      in pad_int 2 (sec div 3600) @ '':'' @ pad_int 2 (sec div 60 mod 60) @ '':''
           @ pad_int 2 (sec mod 60) @ (if frac = 0 then [] else ''.'' @ pad_int 6 frac))"

definition iso_offset :: "int \<Rightarrow> string" where
  "iso_offset off =
     (let a = \<bar>off\<bar>; sec = a div us_per_second; frac = a mod us_per_second
      in (if off < 0 then ''-'' else ''+'')
           @ pad_int 2 (sec div 3600) @ '':'' @ pad_int 2 (sec div 60 mod 60)
           @ (if sec mod 60 = 0 \<and> frac = 0 then []
              else '':'' @ pad_int 2 (sec mod 60)
                   @ (if frac = 0 then [] else ''.'' @ pad_int 6 frac)))"

definition isoformat :: "py_datetime \<Rightarrow> string" where
  "isoformat t =
     (let local = dt_utc t + dt_offset t;
          (y, m, d) = civil_from_days (local div us_per_day)
      in pad_int 4 y @ ''-'' @ pad_int 2 m @ ''-'' @ pad_int 2 d @ ''T''
           @ iso_time (local mod us_per_day) @ iso_offset (dt_offset t))"

section \<open>Timestamps\<close>

definition round_half_even :: "int \<Rightarrow> int \<Rightarrow> int" where
  "round_half_even n d =
     (let q = n div d; r = n mod d
      in if 2 * r < d then q else if d < 2 * r then q + 1 else if even q then q else q + 1)"

definition bit_len :: "int \<Rightarrow> int" where
  "bit_len n = int (floorlog 2 (nat n))"

text \<open>
  The binary64 value nearest to the positive rational \<open>n / d\<close>, as numerator and
  denominator: 53 significant bits, ties to even.
\<close>

definition ratio_exponent :: "int \<Rightarrow> int \<Rightarrow> int" where
  "ratio_exponent n d =
     (let k = bit_len n - bit_len d
      in if (if 0 \<le> k then d * 2 ^ nat k \<le> n else d \<le> n * 2 ^ nat (- k)) then k else k - 1)"

definition binary64 :: "int \<Rightarrow> int \<Rightarrow> int \<times> int" where
  "binary64 n d =
     (if n \<le> 0 then (0, 1)
      else let e = ratio_exponent n d - 52
           in if 0 \<le> e then (round_half_even n (d * 2 ^ nat e) * 2 ^ nat e, 1)
              else (round_half_even (n * 2 ^ nat (- e)) d, 2 ^ nat (- e)))"

definition max_timestamp_seconds :: int where
  "max_timestamp_seconds = 253402300799"

text \<open>
  \<^verbatim>\<open>datetime.fromtimestamp(n / d, tz=UTC)\<close> for positive \<open>n\<close> and \<open>d\<close>: the
  division overflows from \<open>2 ^ 1024\<close> on, the conversion to \<^verbatim>\<open>time_t\<close> from
  \<open>2 ^ 63\<close> on, \<^verbatim>\<open>gmtime\<close> where the year leaves 32 bits, and the constructor
  refuses years above 9999.
\<close>

definition fromtimestamp :: "int \<Rightarrow> int \<Rightarrow> py_datetime result" where
  "fromtimestamp n d =
     (if 1024 \<le> ratio_exponent n d
        then Inl (OverflowError ''integer division result too large for a float'')
      else
        let (q, p) = binary64 n d;
            whole = q div p;
            (fn, fd) = binary64 ((q mod p) * us_per_second) p;
            us = whole * us_per_second + round_half_even fn fd;
            sec = us div us_per_second
        in if 2 ^ 63 \<le> whole
             then Inl (OverflowError ''timestamp out of range for platform time_t'')
           else if 67768036191676800 \<le> sec
             then Inl (OSError ''[Errno 75] Value too large for defined data type'')
           else if max_timestamp_seconds < sec
             then Inl (ValueError (''year '' @ show_int (fst (civil_from_days (sec div 86400)))
                                     @ '' is out of range''))
           else Inr (utc us))"

lemma fromtimestamp_utc: "fromtimestamp n d = Inr t \<Longrightarrow> dt_offset t = 0"
  by (auto simp: fromtimestamp_def Let_def split: if_splits prod.splits)

end
