(* ===== verification/Sha256.thy ===== *)
theory Sha256
  imports PyText "HOL-Library.Word"
begin

text \<open>
  The cryptographic functions of the Python standard library that the program calls:
  \<^verbatim>\<open>str.encode("utf-8")\<close>, \<^verbatim>\<open>hashlib.sha256(...).hexdigest()\<close> and
  \<^verbatim>\<open>hmac.new(key, body, hashlib.sha256).hexdigest()\<close>, as FIPS 180-4 and RFC 2104
  define them, on bytes (\<open>8 word\<close>) and 32-bit words; and
  \<^verbatim>\<open>hmac.compare_digest\<close> on two strings, which raises \<open>TypeError\<close> when either
  has a character outside ASCII. The facts at the end say what the program relies on: a
  digest is 64 lowercase hexadecimal characters.
\<close>

unbundle bit_operations_syntax

type_synonym byte = "8 word"

section \<open>UTF-8\<close>

definition utf8_char :: "char \<Rightarrow> byte list" where
  "utf8_char c = (let n = cp c in
     if n < 128 then [word_of_nat n]
     else [word_of_nat (192 + n div 64), word_of_nat (128 + n mod 64)])"

definition utf8 :: "string \<Rightarrow> byte list" where
  "utf8 s = concat (map utf8_char s)"

section \<open>SHA-256\<close>

definition sha_K :: "32 word list" where
  "sha_K = [
      1116352408, 1899447441, 3049323471, 3921009573, 961987163, 1508970993, 2453635748, 2870763221,
      3624381080, 310598401, 607225278, 1426881987, 1925078388, 2162078206, 2614888103, 3248222580,
      3835390401, 4022224774, 264347078, 604807628, 770255983, 1249150122, 1555081692, 1996064986,
      2554220882, 2821834349, 2952996808, 3210313671, 3336571891, 3584528711, 113926993, 338241895,
      666307205, 773529912, 1294757372, 1396182291, 1695183700, 1986661051, 2177026350, 2456956037,
      2730485921, 2820302411, 3259730800, 3345764771, 3516065817, 3600352804, 4094571909, 275423344,
      430227734, 506948616, 659060556, 883997877, 958139571, 1322822218, 1537002063, 1747873779,
      1955562222, 2024104815, 2227730452, 2361852424, 2428436474, 2756734187, 3204031479, 3329325298]"

definition sha_H0 :: "32 word list" where
  "sha_H0 = [1779033703, 3144134277, 1013904242, 2773480762, 1359893119, 2600822924, 528734635, 1541459225]"

definition rotr32 :: "nat \<Rightarrow> 32 word \<Rightarrow> 32 word" where
  "rotr32 n w = (drop_bit n w OR push_bit (32 - n) w)"

definition sha_ch :: "32 word \<Rightarrow> 32 word \<Rightarrow> 32 word \<Rightarrow> 32 word" where
  "sha_ch x y z = ((x AND y) XOR (NOT x AND z))"

definition sha_maj :: "32 word \<Rightarrow> 32 word \<Rightarrow> 32 word \<Rightarrow> 32 word" where
  "sha_maj x y z = ((x AND y) XOR (x AND z) XOR (y AND z))"

definition sha_S0 :: "32 word \<Rightarrow> 32 word" where
  "sha_S0 x = (rotr32 2 x XOR rotr32 13 x XOR rotr32 22 x)"

definition sha_S1 :: "32 word \<Rightarrow> 32 word" where
  "sha_S1 x = (rotr32 6 x XOR rotr32 11 x XOR rotr32 25 x)"

definition sha_s0 :: "32 word \<Rightarrow> 32 word" where
  "sha_s0 x = (rotr32 7 x XOR rotr32 18 x XOR drop_bit 3 x)"

definition sha_s1 :: "32 word \<Rightarrow> 32 word" where
  "sha_s1 x = (rotr32 17 x XOR rotr32 19 x XOR drop_bit 10 x)"

text \<open>The message schedule, newest word first while it grows.\<close>

fun sha_extend :: "nat \<Rightarrow> 32 word list \<Rightarrow> 32 word list" where
  "sha_extend 0 ws = rev ws"
| "sha_extend (Suc n) ws =
     sha_extend n ((sha_s1 (ws ! 1) + ws ! 6 + sha_s0 (ws ! 14) + ws ! 15) # ws)"

definition sha_schedule :: "32 word list \<Rightarrow> 32 word list" where
  "sha_schedule block = sha_extend 48 (rev block)"

fun sha_rounds :: "(32 word \<times> 32 word) list \<Rightarrow> 32 word list \<Rightarrow> 32 word list" where
  "sha_rounds ((k, w) # kws) [a, b, c, d, e, f, g, h] =
     (let t1 = h + sha_S1 e + sha_ch e f g + k + w;
          t2 = sha_S0 a + sha_maj a b c
      in sha_rounds kws [t1 + t2, a, b, c, d + t1, e, f, g])"
| "sha_rounds _ st = st"

definition sha_block :: "32 word list \<Rightarrow> 32 word list \<Rightarrow> 32 word list" where
  "sha_block st block = map2 (+) st (sha_rounds (zip sha_K (sha_schedule block)) st)"

fun be_words :: "byte list \<Rightarrow> 32 word list" where
  "be_words (a # b # c # d # rest) =
     (push_bit 24 (ucast a) OR push_bit 16 (ucast b) OR push_bit 8 (ucast c) OR ucast d)
       # be_words rest"
| "be_words _ = []"

definition be_length :: "nat \<Rightarrow> byte list" where
  "be_length n = map (\<lambda>i. word_of_nat (n div 256 ^ i)) [7, 6, 5, 4, 3, 2, 1, 0]"

definition sha_pad :: "byte list \<Rightarrow> byte list" where
  "sha_pad bs = bs @ [0x80] @ replicate ((119 - length bs mod 64) mod 64) 0
                  @ be_length (8 * length bs)"

fun sha_blocks :: "nat \<Rightarrow> 32 word list \<Rightarrow> 32 word list \<Rightarrow> 32 word list" where
  "sha_blocks 0 st ws = st"
| "sha_blocks (Suc n) st ws = sha_blocks n (sha_block st (take 16 ws)) (drop 16 ws)"

definition sha256_words :: "byte list \<Rightarrow> 32 word list" where
  "sha256_words bs =
     (let ws = be_words (sha_pad bs) in sha_blocks (length ws div 16) sha_H0 ws)"

definition word_hex :: "32 word \<Rightarrow> string" where
  "word_hex w = map (\<lambda>i. hex_digit (unat w div 16 ^ i mod 16)) [7, 6, 5, 4, 3, 2, 1, 0]"

definition word_bytes :: "32 word \<Rightarrow> byte list" where
  "word_bytes w = map (\<lambda>i. word_of_nat (unat w div 256 ^ i)) [3, 2, 1, 0]"

definition sha256_digest :: "byte list \<Rightarrow> byte list" where
  "sha256_digest bs = concat (map word_bytes (sha256_words bs))"

definition sha256_hexdigest :: "byte list \<Rightarrow> string" where
  "sha256_hexdigest bs = concat (map word_hex (sha256_words bs))"

section \<open>HMAC\<close>

definition hmac_key_block :: "byte list \<Rightarrow> byte list" where
  "hmac_key_block k =
     (let k' = (if 64 < length k then sha256_digest k else k)
      in k' @ replicate (64 - length k') 0)"

definition hmac_sha256_hexdigest :: "byte list \<Rightarrow> byte list \<Rightarrow> string" where
  "hmac_sha256_hexdigest k body =
     (let kb = hmac_key_block k;
          inner = sha256_digest (map (\<lambda>b. b XOR 0x36) kb @ body)
      in sha256_hexdigest (map (\<lambda>b. b XOR 0x5c) kb @ inner))"

text \<open>\<^verbatim>\<open>hmac.compare_digest(a, b)\<close> on two \<^verbatim>\<open>str\<close> values.\<close>

definition compare_digest :: "string \<Rightarrow> string \<Rightarrow> bool result" where
  "compare_digest a b =
     (if list_all is_ascii a \<and> list_all is_ascii b then Inr (a = b)
      else Inl (TypeError ''comparing strings with non-ASCII characters is not supported''))"

section \<open>The shape of a digest\<close>

definition is_hex_lower :: "char \<Rightarrow> bool" where
  "is_hex_lower c \<longleftrightarrow> is_digit c \<or> (97 \<le> cp c \<and> cp c \<le> 102)"

lemma hex_digit_is_hex: "d < 16 \<Longrightarrow> is_hex_lower (hex_digit d)"
  by (auto simp: is_hex_lower_def is_digit_def hex_digit_def cp_def)

lemma is_hex_ascii: "is_hex_lower c \<Longrightarrow> is_ascii c"
  by (auto simp: is_hex_lower_def is_digit_def is_ascii_def)

lemma word_hex_hex: "c \<in> set (word_hex w) \<Longrightarrow> is_hex_lower c"
  by (auto simp: word_hex_def intro!: hex_digit_is_hex)

lemma length_word_hex [simp]: "length (word_hex w) = 8"
  by (simp add: word_hex_def)

lemma list8E:
  assumes "length xs = 8"
  obtains a b c d e f g h where "xs = [a, b, c, d, e, f, g, h]"
proof -
  have "\<exists>a b c d e f g h. xs = [a, b, c, d, e, f, g, h]"
    using assms by (auto simp: numeral_eq_Suc length_Suc_conv)
  then show thesis using that by blast
qed

lemma length_sha_rounds: "length st = 8 \<Longrightarrow> length (sha_rounds kws st) = 8"
proof (induction kws arbitrary: st)
  case (Cons kw kws)
  obtain k w where kw: "kw = (k, w)" by (cases kw)
  obtain a b c d e f g h where "st = [a, b, c, d, e, f, g, h]"
    using Cons.prems by (rule list8E)
  then show ?case using Cons.IH by (simp add: kw Let_def)
qed simp

lemma length_sha_block: "length st = 8 \<Longrightarrow> length (sha_block st b) = 8"
  by (simp add: sha_block_def length_sha_rounds)

lemma length_sha_blocks: "length st = 8 \<Longrightarrow> length (sha_blocks n st ws) = 8"
  by (induction n arbitrary: st ws) (auto simp: length_sha_block)

lemma length_sha256_words [simp]: "length (sha256_words bs) = 8"
  by (simp add: sha256_words_def Let_def length_sha_blocks sha_H0_def)

lemma length_concat_const:
  "(\<And>x. x \<in> set xs \<Longrightarrow> length (f x) = n) \<Longrightarrow> length (concat (map f xs)) = n * length xs"
  by (induction xs) auto

lemma sha256_hexdigest_length [simp]: "length (sha256_hexdigest bs) = 64"
  by (simp add: sha256_hexdigest_def length_concat_const[where n = 8])

lemma sha256_hexdigest_hex: "list_all is_hex_lower (sha256_hexdigest bs)"
  by (auto simp: sha256_hexdigest_def list_all_iff dest: word_hex_hex)

lemma sha256_hexdigest_ascii [simp]: "list_all is_ascii (sha256_hexdigest bs)"
  using sha256_hexdigest_hex[of bs] by (auto simp: list_all_iff intro: is_hex_ascii)

lemma hmac_hexdigest_ascii [simp]: "list_all is_ascii (hmac_sha256_hexdigest k body)"
  by (simp add: hmac_sha256_hexdigest_def Let_def)

lemma hmac_hexdigest_length [simp]: "length (hmac_sha256_hexdigest k body) = 64"
  by (simp add: hmac_sha256_hexdigest_def Let_def)

lemma compare_digest_ascii:
  "list_all is_ascii a \<Longrightarrow> list_all is_ascii b \<Longrightarrow> compare_digest a b = Inr (a = b)"
  by (simp add: compare_digest_def)

lemma compare_digest_True: "compare_digest a b = Inr True \<Longrightarrow> a = b"
  by (auto simp: compare_digest_def split: if_splits)

lemma compare_digest_Inl:
  "compare_digest a b = Inl e \<longleftrightarrow>
     \<not> (list_all is_ascii a \<and> list_all is_ascii b)
     \<and> e = TypeError ''comparing strings with non-ASCII characters is not supported''"
  by (auto simp: compare_digest_def)

end
