(* ===== verification/Contracts.thy ===== *)
theory Contracts
  imports Json PyTime Sha256 Complex_Main
    "HOL-Library.Multiset" "HOL-Library.Char_ord" "HOL-Library.List_Lexorder"
    "HOL-Library.Product_Lexorder"
begin

text \<open>
  The boundary contracts of \<^verbatim>\<open>src/smokejumper/contracts/\<close>: one record per model class, one
  datatype per \<^verbatim>\<open>StrEnum\<close>, and for every class the constraints its fields and its
  model validator state (\<open>..._valid\<close>). Constructing a model that violates one raises
  \<open>ValidationError\<close> (\<open>contract_make\<close>). \<open>event_fingerprint\<close> is the incident
  identity of \<^verbatim>\<open>fingerprint.py\<close>. The lemmas show what that identity depends on: the
  source, its key and the multiset of entities, nothing else, and nothing less unless
  SHA-256 collides.

  UUIDs are their canonical text. Probabilities and costs are rationals. The text of a
  pydantic error is not modelled.
\<close>

type_synonym uuid = string

record contract =
  schema_version :: int

definition contract_ok :: "('a) contract_scheme \<Rightarrow> bool" where
  "contract_ok c \<longleftrightarrow> schema_version c = 1"

definition contract_make :: "('a \<Rightarrow> bool) \<Rightarrow> 'a \<Rightarrow> 'a result" where
  "contract_make ok m = (if ok m then Inr m else Inl (ValidationError ''validation error''))"

definition Sha256Hex :: "string \<Rightarrow> bool" where
  "Sha256Hex s \<longleftrightarrow> length s = 64 \<and> list_all is_hex_lower s"

section \<open>B2: events and their fingerprint\<close>

definition canonical_identity :: "string \<Rightarrow> string \<Rightarrow> (string \<times> string) list \<Rightarrow> string" where
  "canonical_identity source key entities =
     json_dumps (JList [JStr source, JStr key,
       JList (map (\<lambda>(t, i). JList [JStr t, JStr i]) (sort entities))])"

definition event_fingerprint :: "string \<Rightarrow> string \<Rightarrow> (string \<times> string) list \<Rightarrow> string" where
  "event_fingerprint source source_event_key entities =
     sha256_hexdigest (utf8 (canonical_identity source source_event_key entities))"

datatype EventSource =
  GRAFANA | ALERTMANAGER | DATADOG | PAGERDUTY | GENERIC | SLACK | SCHEDULED

fun source_value :: "EventSource \<Rightarrow> string" where
  "source_value GRAFANA = ''grafana''"
| "source_value ALERTMANAGER = ''alertmanager''"
| "source_value DATADOG = ''datadog''"
| "source_value PAGERDUTY = ''pagerduty''"
| "source_value GENERIC = ''generic''"
| "source_value SLACK = ''slack''"
| "source_value SCHEDULED = ''scheduled''"

datatype EventKind = ALERT | CHAT | KIND_SCHEDULED | STORM

fun kind_value :: "EventKind \<Rightarrow> string" where
  "kind_value ALERT = ''alert''"
| "kind_value CHAT = ''chat''"
| "kind_value KIND_SCHEDULED = ''scheduled''"
| "kind_value STORM = ''storm''"

datatype Severity = CRITICAL | HIGH | MEDIUM | LOW | INFO

fun severity_value :: "Severity \<Rightarrow> string" where
  "severity_value CRITICAL = ''critical''"
| "severity_value HIGH = ''high''"
| "severity_value MEDIUM = ''medium''"
| "severity_value LOW = ''low''"
| "severity_value INFO = ''info''"

record Entity = contract +
  ent_type :: string
  ent_id :: string

definition Entity_valid :: "Entity \<Rightarrow> bool" where
  [contract_defs]: "Entity_valid e \<longleftrightarrow> contract_ok e \<and> ent_type e \<noteq> [] \<and> ent_id e \<noteq> []"

definition ent_pair :: "Entity \<Rightarrow> string \<times> string" where
  "ent_pair e = (ent_type e, ent_id e)"

record AgentEvent = contract +
  ev_id :: uuid
  ev_source :: EventSource
  ev_kind :: EventKind
  ev_key :: string
  ev_fingerprint :: string
  ev_severity :: Severity
  ev_title :: string
  ev_body :: string
  ev_entities :: "Entity list"
  ev_occurred_at :: py_datetime
  ev_received_at :: py_datetime
  ev_dedupe_count :: int
  ev_raw :: json_obj

definition AgentEvent_valid :: "AgentEvent \<Rightarrow> bool" where
  [contract_defs]: "AgentEvent_valid e \<longleftrightarrow>
     contract_ok e \<and> ev_key e \<noteq> [] \<and> Sha256Hex (ev_fingerprint e)
     \<and> list_all Entity_valid (ev_entities e) \<and> 1 \<le> ev_dedupe_count e
     \<and> ev_fingerprint e
         = event_fingerprint (source_value (ev_source e)) (ev_key e)
             (map ent_pair (ev_entities e))"

section \<open>B11, B6, B9: assignments, findings, conclusions, closed cases\<close>

record Budget = contract +
  bud_tool_calls :: int
  bud_tokens :: int

definition Budget_valid :: "Budget \<Rightarrow> bool" where
  [contract_defs]: "Budget_valid b \<longleftrightarrow> contract_ok b \<and> 0 \<le> bud_tool_calls b \<and> 0 \<le> bud_tokens b"

record Assignment = contract +
  asg_agent :: string
  asg_question :: string
  asg_context_slice :: string
  asg_budget :: Budget

definition Assignment_valid :: "Assignment \<Rightarrow> bool" where
  [contract_defs]: "Assignment_valid a \<longleftrightarrow>
     contract_ok a \<and> asg_agent a \<noteq> [] \<and> asg_question a \<noteq> [] \<and> Budget_valid (asg_budget a)"

record Finding = contract +
  fnd_agent :: string
  fnd_hypothesis :: string
  fnd_evidence :: "string list"
  fnd_confidence :: rat
  fnd_budget_spent :: Budget

definition Finding_valid :: "Finding \<Rightarrow> bool" where
  [contract_defs]: "Finding_valid f \<longleftrightarrow>
     contract_ok f \<and> fnd_agent f \<noteq> [] \<and> 0 \<le> fnd_confidence f \<and> fnd_confidence f \<le> 1
     \<and> Budget_valid (fnd_budget_spent f)"

datatype ConclusionStatus = ROOT_CAUSED | MITIGATED | INCONCLUSIVE | NEEDS_HUMAN

fun status_value :: "ConclusionStatus \<Rightarrow> string" where
  "status_value ROOT_CAUSED = ''root_caused''"
| "status_value MITIGATED = ''mitigated''"
| "status_value INCONCLUSIVE = ''inconclusive''"
| "status_value NEEDS_HUMAN = ''needs_human''"

record Conclusion = contract +
  con_run_id :: uuid
  con_fingerprint :: string
  con_status :: ConclusionStatus
  con_confidence :: rat
  con_summary_md :: string
  con_findings :: "Finding list"
  con_evidence_refs :: "string list"
  con_proposed_actions :: "string list"
  con_tokens_spent :: int
  con_wall_ms :: int

definition Conclusion_valid :: "Conclusion \<Rightarrow> bool" where
  [contract_defs]: "Conclusion_valid c \<longleftrightarrow>
     contract_ok c \<and> Sha256Hex (con_fingerprint c)
     \<and> 0 \<le> con_confidence c \<and> con_confidence c \<le> 1
     \<and> list_all Finding_valid (con_findings c)
     \<and> 0 \<le> con_tokens_spent c \<and> 0 \<le> con_wall_ms c"

record DistillationCandidate = contract +
  dis_run_id :: uuid
  dis_fingerprint :: string
  dis_conclusion :: Conclusion
  dis_closed_at :: py_datetime

definition DistillationCandidate_valid :: "DistillationCandidate \<Rightarrow> bool" where
  [contract_defs]: "DistillationCandidate_valid d \<longleftrightarrow>
     contract_ok d \<and> Sha256Hex (dis_fingerprint d) \<and> Conclusion_valid (dis_conclusion d)"

section \<open>B4, B5: tool calls and approvals\<close>

datatype ToolTier = READ | PRIVILEGED

fun tier_value :: "ToolTier \<Rightarrow> string" where
  "tier_value READ = ''read''"
| "tier_value PRIVILEGED = ''privileged''"

record ToolCall = contract +
  tc_run_id :: uuid
  tc_agent :: string
  tc_tool :: string
  tc_args :: json_obj
  tc_tier :: ToolTier

definition ToolCall_valid :: "ToolCall \<Rightarrow> bool" where
  [contract_defs]: "ToolCall_valid c \<longleftrightarrow> contract_ok c \<and> tc_agent c \<noteq> [] \<and> tc_tool c \<noteq> []"

record ToolResult = contract +
  tr_ok :: bool
  tr_value :: json
  tr_error :: "string option"
  tr_latency_ms :: int
  tr_cost :: rat

definition ToolResult_valid :: "ToolResult \<Rightarrow> bool" where
  [contract_defs]: "ToolResult_valid r \<longleftrightarrow>
     contract_ok r \<and> 0 \<le> tr_latency_ms r \<and> 0 \<le> tr_cost r
     \<and> \<not> ((tr_value r = JNull) = (tr_error r = None))
     \<and> tr_ok r = (tr_error r = None)"

record ApprovalRequest = contract +
  apr_id :: uuid
  apr_run_id :: uuid
  apr_channel_id :: string
  apr_message_ts :: string
  apr_thread_ts :: string
  apr_tool_call :: ToolCall
  apr_tool_call_sha256 :: string
  apr_reason :: string
  apr_requested_at :: py_datetime
  apr_expires_at :: py_datetime

definition ApprovalRequest_valid :: "ApprovalRequest \<Rightarrow> bool" where
  [contract_defs]: "ApprovalRequest_valid a \<longleftrightarrow>
     contract_ok a \<and> apr_channel_id a \<noteq> [] \<and> apr_message_ts a \<noteq> [] \<and> apr_thread_ts a \<noteq> []
     \<and> ToolCall_valid (apr_tool_call a) \<and> Sha256Hex (apr_tool_call_sha256 a)
     \<and> tc_tier (apr_tool_call a) = PRIVILEGED
     \<and> \<not> dt_utc (apr_expires_at a) \<le> dt_utc (apr_requested_at a)"

record ApprovalDecision = contract +
  apd_approved :: bool
  apd_decided_by :: string
  apd_decided_at :: py_datetime
  apd_token :: string

definition ApprovalDecision_valid :: "ApprovalDecision \<Rightarrow> bool" where
  [contract_defs]: "ApprovalDecision_valid d \<longleftrightarrow>
     contract_ok d \<and> apd_decided_by d \<noteq> [] \<and> apd_token d \<noteq> []"

section \<open>B8: the audit line\<close>

datatype AuditKind = EVENT | TRANSITION | LLM_CALL | TOOL_CALL | GATE | ACTION

fun audit_kind_value :: "AuditKind \<Rightarrow> string" where
  "audit_kind_value EVENT = ''event''"
| "audit_kind_value TRANSITION = ''transition''"
| "audit_kind_value LLM_CALL = ''llm_call''"
| "audit_kind_value TOOL_CALL = ''tool_call''"
| "audit_kind_value GATE = ''gate''"
| "audit_kind_value ACTION = ''action''"

record TokenUsage = contract +
  tok_input :: int
  tok_output :: int

definition TokenUsage_valid :: "TokenUsage \<Rightarrow> bool" where
  [contract_defs]: "TokenUsage_valid u \<longleftrightarrow> contract_ok u \<and> 0 \<le> tok_input u \<and> 0 \<le> tok_output u"

record LlmCallPayload = contract +
  llm_prompt_ref :: string
  llm_prompt_sha256 :: string
  llm_model :: string
  llm_request_sha256 :: string
  llm_response :: json
  llm_usage :: TokenUsage
  llm_cost_usd :: rat
  llm_latency_ms :: int

definition LlmCallPayload_valid :: "LlmCallPayload \<Rightarrow> bool" where
  [contract_defs]: "LlmCallPayload_valid p \<longleftrightarrow>
     contract_ok p \<and> llm_prompt_ref p \<noteq> [] \<and> Sha256Hex (llm_prompt_sha256 p) \<and> llm_model p \<noteq> []
     \<and> Sha256Hex (llm_request_sha256 p) \<and> TokenUsage_valid (llm_usage p)
     \<and> 0 \<le> llm_cost_usd p \<and> 0 \<le> llm_latency_ms p"

record AuditEvent = contract +
  aud_run_id :: uuid
  aud_seq :: int
  aud_ts :: py_datetime
  aud_actor :: string
  aud_kind :: AuditKind
  aud_payload :: json_obj

text \<open>
  \<open>read_llm\<close> is pydantic's reading of a JSON object as the fields of \<open>LlmCallPayload\<close>,
  \<open>None\<close> when a field is missing or has the wrong type.
\<close>

definition AuditEvent_valid ::
  "(json_obj \<Rightarrow> LlmCallPayload option) \<Rightarrow> AuditEvent \<Rightarrow> bool" where
  [contract_defs]: "AuditEvent_valid read_llm a \<longleftrightarrow>
     contract_ok a \<and> 0 \<le> aud_seq a \<and> aud_actor a \<noteq> []
     \<and> (if aud_kind a = LLM_CALL
        then (case read_llm (aud_payload a) of None \<Rightarrow> False | Some p \<Rightarrow> LlmCallPayload_valid p)
        else True)"

section \<open>B1, B3 and the ticketing models\<close>

record VerifiedInbound = contract +
  vin_source :: EventSource
  vin_headers :: "(string \<times> string) list"
  vin_body :: "byte list"

definition VerifiedInbound_valid :: "VerifiedInbound \<Rightarrow> bool" where
  [contract_defs]: "VerifiedInbound_valid v \<longleftrightarrow> contract_ok v"

record KnowledgeItem = contract +
  kit_content :: string
  kit_source_ref :: string
  kit_valid_at :: py_datetime
  kit_recorded_at :: py_datetime
  kit_score :: rat

definition KnowledgeItem_valid :: "KnowledgeItem \<Rightarrow> bool" where
  [contract_defs]: "KnowledgeItem_valid k \<longleftrightarrow> contract_ok k \<and> kit_source_ref k \<noteq> []"

record KnowledgeBundle = contract +
  kb_episodes :: "KnowledgeItem list"
  kb_graph_paths :: "KnowledgeItem list"
  kb_recipes :: "KnowledgeItem list"
  kb_federated :: "KnowledgeItem list"
  kb_tokens_used :: int

definition KnowledgeBundle_valid :: "KnowledgeBundle \<Rightarrow> bool" where
  [contract_defs]: "KnowledgeBundle_valid b \<longleftrightarrow>
     contract_ok b \<and> list_all KnowledgeItem_valid (kb_episodes b)
     \<and> list_all KnowledgeItem_valid (kb_graph_paths b)
     \<and> list_all KnowledgeItem_valid (kb_recipes b)
     \<and> list_all KnowledgeItem_valid (kb_federated b) \<and> 0 \<le> kb_tokens_used b"

datatype TicketProvider = LINEAR | GITHUB | JIRA | ASANA

record TicketRef = contract +
  tkr_provider :: TicketProvider
  tkr_external_id :: string
  tkr_url :: "string option"

definition TicketRef_valid :: "TicketRef \<Rightarrow> bool" where
  [contract_defs]: "TicketRef_valid r \<longleftrightarrow> contract_ok r \<and> tkr_external_id r \<noteq> []"

record TicketDraft = contract +
  tkd_fingerprint :: string
  tkd_run_id :: uuid
  tkd_title :: string
  tkd_body_md :: string

definition TicketDraft_valid :: "TicketDraft \<Rightarrow> bool" where
  [contract_defs]: "TicketDraft_valid d \<longleftrightarrow>
     contract_ok d \<and> Sha256Hex (tkd_fingerprint d) \<and> tkd_title d \<noteq> []"

record TicketUpdate = contract +
  tku_run_id :: uuid
  tku_comment_md :: string
  tku_status :: "ConclusionStatus option"

definition TicketUpdate_valid :: "TicketUpdate \<Rightarrow> bool" where
  [contract_defs]: "TicketUpdate_valid u \<longleftrightarrow> contract_ok u"

section \<open>The identity a fingerprint stands for\<close>

lemma source_value_inj [simp]: "source_value a = source_value b \<longleftrightarrow> a = b"
  by (cases a; cases b) auto

lemma Sha256Hex_sha256 [simp]: "Sha256Hex (sha256_hexdigest bs)"
  by (simp add: Sha256Hex_def sha256_hexdigest_hex)

lemma Sha256Hex_event_fingerprint [simp]: "Sha256Hex (event_fingerprint s k es)"
  by (simp add: event_fingerprint_def)

lemma contract_make_Inr [simp]: "contract_make ok m = Inr m' \<longleftrightarrow> ok m \<and> m' = m"
  by (auto simp: contract_make_def)

lemma contract_make_Inl:
  "contract_make ok m = Inl e \<longleftrightarrow> \<not> ok m \<and> e = ValidationError ''validation error''"
  by (auto simp: contract_make_def)

lemma contract_make_ok: "ok m \<Longrightarrow> contract_make ok m = Inr m"
  by (simp add: contract_make_def)

definition pair_dumps :: "string \<times> string \<Rightarrow> string" where
  "pair_dumps p = ''['' @ json_quote (fst p) @ '','' @ json_quote (snd p) @ '']''"

lemma json_dumps_list_map: "json_dumps_list (map f xs) = map (\<lambda>x. json_dumps (f x)) xs"
  by (induction xs) auto

lemma canonical_identity_eq:
  "canonical_identity s k es =
     ''['' @ json_quote s @ '','' @ json_quote k @ '','' @ ''[''
       @ py_join '','' (map pair_dumps (sort es)) @ '']]''"
  by (simp add: canonical_identity_def json_dumps_list_map pair_dumps_def [abs_def] case_prod_unfold)

lemma pair_dumps_prefix: "pair_dumps p @ xs = pair_dumps q @ ys \<longleftrightarrow> p = q \<and> xs = ys"
proof
  assume "pair_dumps p @ xs = pair_dumps q @ ys"
  then have "json_quote (fst p) @ (CHR '','' # json_quote (snd p) @ CHR '']'' # xs)
             = json_quote (fst q) @ (CHR '','' # json_quote (snd q) @ CHR '']'' # ys)"
    by (simp add: pair_dumps_def)
  then have "fst p = fst q" and
    "json_quote (snd p) @ CHR '']'' # xs = json_quote (snd q) @ CHR '']'' # ys"
    by (simp_all add: json_quote_prefix)
  then show "p = q \<and> xs = ys" by (simp add: json_quote_prefix prod_eq_iff)
qed simp

lemma pair_dumps_hd [simp]: "pair_dumps p \<noteq> []" "hd (pair_dumps p @ xs) = CHR ''[''"
  by (simp_all add: pair_dumps_def)

lemma join_pairs_inj:
  "py_join '','' (map pair_dumps ps) @ '']]'' = py_join '','' (map pair_dumps qs) @ '']]''
     \<Longrightarrow> ps = qs"
proof (induction ps arbitrary: qs)
  case Nil
  then show ?case
  proof (cases qs)
    case (Cons q qs')
    have "hd (py_join '','' (map pair_dumps qs) @ '']]'') = CHR ''[''"
      using Cons by (cases qs') (auto simp: pair_dumps_def)
    moreover have "py_join '','' (map pair_dumps qs) @ '']]'' = '']]''" using Nil by simp
    ultimately show ?thesis by simp
  qed simp
next
  case (Cons p ps)
  show ?case
  proof (cases qs)
    case Nil
    have "hd (py_join '','' (map pair_dumps (p # ps)) @ '']]'') = CHR ''[''"
      by (cases ps) (auto simp: pair_dumps_def)
    with Cons.prems Nil show ?thesis by simp
  next
    case qs: (Cons q qs')
    let ?rest = "\<lambda>xs. (case xs of [] \<Rightarrow> '']]'' | _ \<Rightarrow> '','' @ py_join '','' (map pair_dumps xs) @ '']]'')"
    have unfold: "py_join '','' (map pair_dumps (x # xs)) @ '']]'' = pair_dumps x @ ?rest xs" for x xs
      by (cases xs) auto
    have "pair_dumps p @ ?rest ps = pair_dumps q @ ?rest qs'"
      using Cons.prems unfolding qs unfold .
    then have pq: "p = q" and rest: "?rest ps = ?rest qs'" by (simp_all add: pair_dumps_prefix)
    from rest have "ps = qs'"
      using Cons.IH[of qs'] by (cases ps; cases qs') auto
    with pq qs show ?thesis by simp
  qed
qed

lemma canonical_identity_inj:
  "canonical_identity s k es = canonical_identity s' k' es'
     \<longleftrightarrow> s = s' \<and> k = k' \<and> mset es = mset es'"
proof
  assume "canonical_identity s k es = canonical_identity s' k' es'"
  then have e: "json_quote s @ (CHR '','' # json_quote k @ '',['' @ py_join '','' (map pair_dumps (sort es)) @ '']]'')
     = json_quote s' @ (CHR '','' # json_quote k' @ '',['' @ py_join '','' (map pair_dumps (sort es')) @ '']]'')"
    by (simp add: canonical_identity_eq)
  then have s: "s = s'" and
    "json_quote k @ '',['' @ py_join '','' (map pair_dumps (sort es)) @ '']]''
     = json_quote k' @ '',['' @ py_join '','' (map pair_dumps (sort es')) @ '']]''"
    by (simp_all add: json_quote_prefix)
  then have k: "k = k'" and
    "py_join '','' (map pair_dumps (sort es)) @ '']]'' = py_join '','' (map pair_dumps (sort es')) @ '']]''"
    by (simp_all add: json_quote_prefix)
  then have "sort es = sort es'" by (blast intro: join_pairs_inj)
  with s k show "s = s' \<and> k = k' \<and> mset es = mset es'" by (metis mset_sort)
next
  assume "s = s' \<and> k = k' \<and> mset es = mset es'"
  then have "sort es = sort es'"
    by (metis mset_sort properties_for_sort sorted_sort)
  with \<open>s = s' \<and> k = k' \<and> mset es = mset es'\<close>
  show "canonical_identity s k es = canonical_identity s' k' es'"
    by (simp add: canonical_identity_def)
qed

lemma map_unat_utf8_char:
  "map unat (utf8_char c) =
     (if cp c < 128 then [cp c] else [192 + cp c div 64, 128 + cp c mod 64])"
proof -
  have u: "unat (word_of_nat n :: byte) = n" if "n < 256" for n
    using that by (simp add: unat_of_nat)
  have "cp c div 64 < 4" by (rule less_mult_imp_div_less) simp
  then have "192 + cp c div 64 < 256" and "128 + cp c mod 64 < 256" by simp_all
  then show ?thesis by (simp add: utf8_char_def Let_def u del: of_nat_add)
qed

lemma utf8_char_prefix: "utf8_char c @ xs = utf8_char d @ ys \<Longrightarrow> c = d \<and> xs = ys"
proof -
  assume eq: "utf8_char c @ xs = utf8_char d @ ys"
  then have "map unat (utf8_char c) @ map unat xs = map unat (utf8_char d) @ map unat ys"
    by (metis map_append)
  then have "cp c = cp d"
    by (auto simp: map_unat_utf8_char simp del: cp_inj split: if_splits) (metis div_mult_mod_eq)
  with eq show ?thesis by simp
qed

lemma utf8_inj: "utf8 s = utf8 t \<longleftrightarrow> s = t"
proof
  show "utf8 s = utf8 t \<Longrightarrow> s = t"
  proof (induction s arbitrary: t)
    case Nil
    then show ?case by (cases t) (auto simp: utf8_def utf8_char_def Let_def split: if_splits)
  next
    case (Cons c cs)
    show ?case
    proof (cases t)
      case Nil
      with Cons.prems show ?thesis by (auto simp: utf8_def utf8_char_def Let_def split: if_splits)
    next
      case t: (Cons d ds)
      with Cons.prems have "utf8_char c @ utf8 cs = utf8_char d @ utf8 ds" by (simp add: utf8_def)
      from utf8_char_prefix[OF this] Cons.IH t show ?thesis by blast
    qed
  qed
qed simp

lemma event_fingerprint_mset:
  "mset es = mset es' \<Longrightarrow> event_fingerprint s k es = event_fingerprint s k es'"
  using canonical_identity_inj[of s k es s k es'] by (simp add: event_fingerprint_def)

lemma event_fingerprint_source: "length (event_fingerprint s k es) = 64"
  by (simp add: event_fingerprint_def)

end
