(* ===== verification/Datadog.thy ===== *)
theory Datadog
  imports Contracts
begin

text \<open>
  The Datadog normalizer, \<^verbatim>\<open>src/smokejumper/receiver/normalizers/datadog.py\<close>: one webhook
  body to one \<open>AgentEvent\<close>, or the exception that sends the delivery to quarantine. The
  payload is any JSON value; the random event id and the arrival time are arguments.
  The lemmas show that every event it builds is a valid contract, exactly when it raises,
  and that the fingerprint depends on the monitor id and the set of identity tags alone.
\<close>

definition IDENTITY_TAG_KEYS :: "string list" where
  "IDENTITY_TAG_KEYS =
     [''service'', ''host'', ''env'', ''cluster'', ''cluster_name'', ''database'', ''table'',
      ''region'', ''availability-zone'', ''kube_namespace'', ''kube_deployment'', ''queue'',
      ''topic'']"

definition PRIORITY_SEVERITY :: "(string \<times> Severity) list" where
  "PRIORITY_SEVERITY =
     [(''P1'', CRITICAL), (''P2'', HIGH), (''P3'', MEDIUM), (''P4'', LOW), (''P5'', INFO)]"

definition ALERT_TYPE_SEVERITY :: "(string \<times> Severity) list" where
  "ALERT_TYPE_SEVERITY =
     [(''error'', HIGH), (''warning'', MEDIUM), (''success'', INFO), (''info'', INFO)]"

definition RECOVERY_TRANSITIONS :: "string list" where
  "RECOVERY_TRANSITIONS = [''Recovered'', ''recovered'']"

definition dd_text :: "json_obj \<Rightarrow> string \<Rightarrow> string" where
  "dd_text payload key =
     (case py_get payload key of JNull \<Rightarrow> [] | v \<Rightarrow> py_strip (py_str v))"

fun tag_candidates :: "json \<Rightarrow> string list" where
  "tag_candidates (JStr s) = py_split (CHR '','') s"
| "tag_candidates (JList xs) = map py_str xs"
| "tag_candidates _ = []"

definition parse_tags :: "json \<Rightarrow> string list" where
  "parse_tags raw = map py_strip (filter (\<lambda>t. py_strip t \<noteq> []) (tag_candidates raw))"

text \<open>The body of the loop of \<^verbatim>\<open>tag_entities\<close>: the pair a tag adds to \<^verbatim>\<open>seen\<close>, if any.\<close>

definition tag_pair :: "string \<Rightarrow> (string \<times> string) option" where
  "tag_pair tag =
     (let (key, separator, val) = py_partition (CHR '':'') tag
      in if \<not> separator then None
         else let key = py_lower (py_strip key); val = py_strip val
              in if key \<in> set IDENTITY_TAG_KEYS \<and> val \<noteq> [] then Some (key, val) else None)"

definition mk_entity :: "string \<times> string \<Rightarrow> Entity" where
  "mk_entity p = \<lparr>schema_version = 1, ent_type = fst p, ent_id = snd p\<rparr>"

definition tag_entities :: "string list \<Rightarrow> Entity list" where
  "tag_entities tags = map mk_entity (sort (remdups (List.map_filter tag_pair tags)))"

definition severity_of :: "json_obj \<Rightarrow> Severity" where
  "severity_of payload =
     (case map_of PRIORITY_SEVERITY (py_upper (dd_text payload ''priority'')) of
        Some s \<Rightarrow> s
      | None \<Rightarrow>
          (case map_of ALERT_TYPE_SEVERITY (py_lower (dd_text payload ''alert_type'')) of
             Some s \<Rightarrow> s
           | None \<Rightarrow> INFO))"

definition occurred_at_of :: "json_obj \<Rightarrow> py_datetime \<Rightarrow> py_datetime result" where
  "occurred_at_of payload received_at =
     (case py_int (py_str (py_get payload ''date'')) of
        None \<Rightarrow> Inr received_at
      | Some milliseconds \<Rightarrow>
          if milliseconds \<le> 0 then Inr received_at else fromtimestamp milliseconds 1000)"

definition is_recovery :: "json_obj \<Rightarrow> bool" where
  "is_recovery payload \<longleftrightarrow> dd_text payload ''alert_transition'' \<in> set RECOVERY_TRANSITIONS"

fun normalize :: "json \<Rightarrow> py_datetime \<Rightarrow> uuid \<Rightarrow> AgentEvent result" where
  "normalize (JObj payload) received_at uuid4 =
     (let alert_id = dd_text payload ''alert_id'' in
      if alert_id = []
        then Inl (UnparseablePayload ''alert_id is required: it is the monitor identity'')
      else
        let entities = tag_entities (parse_tags (py_get payload ''tags''));
            title = py_or (dd_text payload ''title'') (''Datadog monitor '' @ alert_id)
        in res_bind (occurred_at_of payload received_at) (\<lambda>occurred_at.
             contract_make AgentEvent_valid
               \<lparr>schema_version = 1, ev_id = uuid4, ev_source = DATADOG, ev_kind = ALERT,
                ev_key = alert_id,
                ev_fingerprint = event_fingerprint (source_value DATADOG) alert_id
                                   (map ent_pair entities),
                ev_severity = severity_of payload, ev_title = title,
                ev_body = dd_text payload ''body'', ev_entities = entities,
                ev_occurred_at = occurred_at, ev_received_at = received_at,
                ev_dedupe_count = 1, ev_raw = payload\<rparr>))"
| "normalize _ received_at uuid4 = Inl (UnparseablePayload ''body is not a JSON object'')"

section \<open>Entities\<close>

lemma ent_pair_mk_entity [simp]: "ent_pair (mk_entity p) = p"
  by (simp add: ent_pair_def mk_entity_def)

lemma map_ent_pair_mk_entity [simp]: "map ent_pair (map mk_entity ps) = ps"
  by (simp add: comp_def)

lemma Entity_valid_mk: "fst p \<noteq> [] \<Longrightarrow> snd p \<noteq> [] \<Longrightarrow> Entity_valid (mk_entity p)"
  by (simp add: mk_entity_def contract_defs contract_ok_def)

lemma tag_pair_Some:
  "tag_pair tag = Some p \<Longrightarrow> fst p \<in> set IDENTITY_TAG_KEYS \<and> snd p \<noteq> []"
  by (auto simp: tag_pair_def Let_def split: prod.splits if_splits)

lemma identity_key_not_Nil: "k \<in> set IDENTITY_TAG_KEYS \<Longrightarrow> k \<noteq> []"
  by (auto simp: IDENTITY_TAG_KEYS_def)

lemma set_map_filter: "set (List.map_filter f xs) = {y. \<exists>x \<in> set xs. f x = Some y}"
  by (force simp: List.map_filter_def)

lemma tag_entities_valid: "list_all Entity_valid (tag_entities tags)"
  by (auto simp: tag_entities_def list_all_iff set_map_filter
      dest!: tag_pair_Some identity_key_not_Nil intro!: Entity_valid_mk)

text \<open>A sorted list without repetition is determined by its set.\<close>

lemma sort_remdups_set_eq:
  fixes xs :: "'a::linorder list"
  shows "set xs = set ys \<Longrightarrow> sort (remdups xs) = sort (remdups ys)"
  by (metis sorted_list_of_set_sort_remdups)

lemma sort_remdups_idem [simp]:
  fixes xs :: "'a::linorder list"
  shows "sort (sort (remdups xs)) = sort (remdups xs)"
  by (simp add: sorted_sort_id)

section \<open>What the normalizer returns\<close>

lemma normalize_valid:
  assumes "normalize p received_at uid = Inr e"
  shows "AgentEvent_valid e \<and> ev_source e = DATADOG \<and> ev_id e = uid
           \<and> ev_received_at e = received_at \<and> ev_dedupe_count e = 1"
  using assms by (cases p) (auto simp: Let_def split: if_splits)

text \<open>When it raises: never because of the contract, only for the three reasons the code has.\<close>

lemma normalize_Inl:
  "normalize p received_at uid = Inl e \<longleftrightarrow>
     (case p of
        JObj payload \<Rightarrow>
          if dd_text payload ''alert_id'' = []
          then e = UnparseablePayload ''alert_id is required: it is the monitor identity''
          else occurred_at_of payload received_at = Inl e
      | _ \<Rightarrow> e = UnparseablePayload ''body is not a JSON object'')"
  by (cases p) (auto simp: Let_def res_bind_eq_Inl contract_make_Inl AgentEvent_valid_def
      contract_ok_def tag_entities_valid)

lemma normalize_fields:
  assumes "normalize (JObj payload) received_at uid = Inr e"
  shows "ev_key e = dd_text payload ''alert_id''"
    and "ev_entities e = tag_entities (parse_tags (py_get payload ''tags''))"
    and "ev_severity e = severity_of payload"
    and "ev_raw e = payload"
  using assms by (auto simp: Let_def split: if_splits)

lemma AgentEvent_valid_fingerprint:
  "AgentEvent_valid e \<Longrightarrow>
     ev_fingerprint e = event_fingerprint (source_value (ev_source e)) (ev_key e)
       (map ent_pair (ev_entities e))"
  by (simp add: AgentEvent_valid_def)

lemma normalize_fingerprint:
  assumes "normalize (JObj payload) received_at uid = Inr e"
  shows "ev_fingerprint e =
           event_fingerprint ''datadog'' (dd_text payload ''alert_id'')
             (sort (remdups (List.map_filter tag_pair (parse_tags (py_get payload ''tags'')))))"
proof -
  have v: "AgentEvent_valid e" and s: "ev_source e = DATADOG"
    using normalize_valid[OF assms] by auto
  show ?thesis
    using AgentEvent_valid_fingerprint[OF v] normalize_fields(1,2)[OF assms] s
    by (simp add: tag_entities_def comp_def)
qed

end
