(* ===== verification/Sources.thy ===== *)
theory Sources
  imports Datadog
begin

text \<open>
  The PagerDuty, Grafana, Alertmanager and generic normalizers,
  \<^verbatim>\<open>src/smokejumper/receiver/normalizers/sources.py\<close>. Each takes the parsed body, the arrival
  time, a supply of event ids (the \<open>i\<close>-th alert of a batch takes the \<open>i\<close>-th id) and
  \<^verbatim>\<open>datetime.fromisoformat\<close> as \<open>isoparse\<close>, and returns the events or the exception.
  Trigger and resolution of the same alert are built by the same code, so they carry the
  same fingerprint; the lemmas say so per source.
\<close>

definition LABEL_SEVERITY :: "(string \<times> Severity) list" where
  "LABEL_SEVERITY =
     [(''critical'', CRITICAL), (''error'', HIGH), (''high'', HIGH), (''page'', HIGH),
      (''warning'', MEDIUM), (''warn'', MEDIUM), (''minor'', LOW), (''low'', LOW),
      (''info'', INFO), (''none'', INFO)]"

definition PD_PRIORITY :: "(string \<times> Severity) list" where
  "PD_PRIORITY =
     [(''P1'', CRITICAL), (''P2'', HIGH), (''P3'', MEDIUM), (''P4'', LOW), (''P5'', INFO)]"

definition PD_SEVERITY :: "(string \<times> Severity) list" where
  "PD_SEVERITY =
     [(''critical'', CRITICAL), (''error'', HIGH), (''warning'', MEDIUM), (''info'', INFO)]"

definition PD_URGENCY :: "(string \<times> Severity) list" where
  "PD_URGENCY = [(''high'', HIGH), (''low'', LOW)]"

definition src_text :: "json_obj \<Rightarrow> string \<Rightarrow> string" where
  "src_text src key = (case py_get src key of JNull \<Rightarrow> [] | v \<Rightarrow> py_strip (py_str v))"

definition src_obj :: "json_obj \<Rightarrow> string \<Rightarrow> json_obj" where
  "src_obj src key = (case py_get src key of JObj d \<Rightarrow> d | _ \<Rightarrow> [])"

definition dict_get :: "('k \<times> 'v) list \<Rightarrow> 'k \<Rightarrow> 'v \<Rightarrow> 'v" where
  "dict_get d k dflt = (case map_of d k of None \<Rightarrow> dflt | Some v \<Rightarrow> v)"

definition pagerduty_severity :: "json_obj \<Rightarrow> Severity" where
  "pagerduty_severity data =
     (case map_of PD_PRIORITY (py_upper (src_text (src_obj data ''priority'') ''summary'')) of
        Some s \<Rightarrow> s
      | None \<Rightarrow>
          (case map_of PD_SEVERITY (py_lower (src_text data ''severity'')) of
             Some s \<Rightarrow> s
           | None \<Rightarrow> dict_get PD_URGENCY (py_lower (src_text data ''urgency'')) HIGH))"

text \<open>The body of the loop of \<^verbatim>\<open>_entities_from_labels\<close>.\<close>

definition label_pair :: "string \<times> json \<Rightarrow> (string \<times> string) option" where
  "label_pair kv =
     (let name = py_lower (py_strip (fst kv)); txt = py_strip (py_str (snd kv))
      in if name \<in> set IDENTITY_TAG_KEYS \<and> txt \<noteq> [] then Some (name, txt) else None)"

definition entities_from_labels :: "json_obj \<Rightarrow> Entity list" where
  "entities_from_labels labels = map mk_entity (sort (remdups (List.map_filter label_pair labels)))"

definition build_event ::
  "EventSource \<Rightarrow> string \<Rightarrow> Severity \<Rightarrow> string \<Rightarrow> string \<Rightarrow> Entity list \<Rightarrow> py_datetime
     \<Rightarrow> py_datetime \<Rightarrow> json_obj \<Rightarrow> uuid \<Rightarrow> AgentEvent result" where
  "build_event src key severity title body entities occurred_at received_at raw uuid4 =
     contract_make AgentEvent_valid
       \<lparr>schema_version = 1, ev_id = uuid4, ev_source = src, ev_kind = ALERT, ev_key = key,
        ev_fingerprint = event_fingerprint (source_value src) key (map ent_pair entities),
        ev_severity = severity,
        ev_title = py_or title (source_value src @ '' alert '' @ key),
        ev_body = body, ev_entities = entities, ev_occurred_at = occurred_at,
        ev_received_at = received_at, ev_dedupe_count = 1, ev_raw = raw\<rparr>"

definition parse_iso :: "isoparse \<Rightarrow> string \<Rightarrow> py_datetime \<Rightarrow> py_datetime" where
  "parse_iso isoparse val fallback =
     (if val = [] then fallback
      else case isoparse (py_replace_char (CHR ''Z'') ''+00:00'' val) of
             None \<Rightarrow> fallback
           | Some (local, Some off) \<Rightarrow> \<lparr>dt_utc = local - off, dt_offset = off\<rparr>
           | Some (local, None) \<Rightarrow> utc local)"

definition not_an_object :: "'a result" where
  "not_an_object = Inl (UnparseablePayload ''body is not a JSON object'')"

section \<open>PagerDuty\<close>

definition pagerduty_data :: "json_obj \<Rightarrow> json_obj" where
  "pagerduty_data payload =
     (let data = src_obj (src_obj payload ''event'') ''data''
      in if data = [] then src_obj payload ''incident'' else data)"

definition pagerduty_key :: "json_obj \<Rightarrow> string" where
  "pagerduty_key data = py_or (src_text data ''dedup_key'') (src_text data ''incident_key'')"

definition pagerduty_entities :: "json_obj \<Rightarrow> Entity list" where
  "pagerduty_entities data =
     (let service_name = src_text (src_obj data ''service'') ''summary''
      in if service_name = [] then [] else [mk_entity (''service'', service_name)])"

definition pagerduty_event ::
  "isoparse \<Rightarrow> json_obj \<Rightarrow> py_datetime \<Rightarrow> uuid \<Rightarrow> AgentEvent result" where
  "pagerduty_event isoparse payload received_at uuid4 =
     (let data = pagerduty_data payload in
      if data = [] then Inl (UnparseablePayload ''event.data (or incident) is required'')
      else let key = pagerduty_key data in
      if key = []
        then Inl (UnparseablePayload (''dedup_key or incident_key is required: incident.id is ''
               @ ''reminted on re-trigger and cannot identify a recurring condition''))
      else build_event PAGERDUTY key (pagerduty_severity data)
             (py_or (src_text data ''title'') (src_text data ''summary''))
             (src_text (src_obj data ''body'') ''details'')
             (pagerduty_entities data)
             (parse_iso isoparse (src_text data ''created_at'') received_at)
             received_at payload uuid4)"

definition pagerduty_is_resolved :: "json_obj \<Rightarrow> bool" where
  "pagerduty_is_resolved payload \<longleftrightarrow>
     (let event_type = py_lower (src_text (src_obj payload ''event'') ''event_type'')
      in py_endswith event_type ''.resolved'' \<or> event_type = ''resolve'')"

fun normalize_pagerduty ::
  "isoparse \<Rightarrow> (nat \<Rightarrow> uuid) \<Rightarrow> json \<Rightarrow> py_datetime \<Rightarrow> AgentEvent list result" where
  "normalize_pagerduty isoparse uids (JObj payload) received_at =
     (if pagerduty_is_resolved payload then Inr []
      else res_bind (pagerduty_event isoparse payload received_at (uids 0)) (\<lambda>e. Inr [e]))"
| "normalize_pagerduty isoparse uids _ received_at = not_an_object"

fun resolved_pagerduty ::
  "isoparse \<Rightarrow> (nat \<Rightarrow> uuid) \<Rightarrow> json \<Rightarrow> py_datetime \<Rightarrow> AgentEvent list result" where
  "resolved_pagerduty isoparse uids (JObj payload) received_at =
     (if \<not> pagerduty_is_resolved payload then Inr []
      else res_bind (pagerduty_event isoparse payload received_at (uids 0)) (\<lambda>e. Inr [e]))"
| "resolved_pagerduty isoparse uids _ received_at = not_an_object"

section \<open>Grafana and Alertmanager\<close>

definition alert_is_resolved :: "json_obj \<Rightarrow> bool" where
  "alert_is_resolved alert \<longleftrightarrow> py_lower (src_text alert ''status'') = ''resolved''"

definition alert_key :: "json_obj \<Rightarrow> string" where
  "alert_key alert =
     py_or (src_text alert ''fingerprint'') (src_text (src_obj alert ''labels'') ''__alert_rule_uid__'')"

definition label_alert ::
  "isoparse \<Rightarrow> EventSource \<Rightarrow> py_datetime \<Rightarrow> uuid \<Rightarrow> json_obj \<Rightarrow> AgentEvent result" where
  "label_alert isoparse src received_at uuid4 alert =
     (let labels = src_obj alert ''labels''; annotations = src_obj alert ''annotations'';
          key = alert_key alert
      in if key = []
           then Inl (UnparseablePayload
             ''fingerprint (or __alert_rule_uid__) is required: it is the alert identity'')
         else build_event src key
                (dict_get LABEL_SEVERITY (py_lower (src_text labels ''severity'')) MEDIUM)
                (py_or (src_text labels ''alertname'') (src_text annotations ''summary''))
                (py_or (src_text annotations ''description'') (src_text annotations ''summary''))
                (entities_from_labels labels)
                (parse_iso isoparse (src_text alert ''startsAt'') received_at)
                received_at alert uuid4)"

text \<open>The alerts of a batch that are objects with the wanted status, with their positions.\<close>

fun selected_alerts :: "bool \<Rightarrow> (nat \<times> json) list \<Rightarrow> (nat \<times> json_obj) list" where
  "selected_alerts resolved [] = []"
| "selected_alerts resolved ((i, JObj a) # rest) =
     (if alert_is_resolved a \<noteq> resolved then selected_alerts resolved rest
      else (i, a) # selected_alerts resolved rest)"
| "selected_alerts resolved (_ # rest) = selected_alerts resolved rest"

definition label_batch ::
  "isoparse \<Rightarrow> (nat \<Rightarrow> uuid) \<Rightarrow> json_obj \<Rightarrow> EventSource \<Rightarrow> py_datetime \<Rightarrow> bool
     \<Rightarrow> AgentEvent list result" where
  "label_batch isoparse uids payload src received_at resolved =
     (case py_get payload ''alerts'' of
        JList alerts \<Rightarrow>
          if alerts = []
            then Inl (UnparseablePayload ''alerts[] is required and must be non-empty'')
          else res_mapM (\<lambda>(i, a). label_alert isoparse src received_at (uids i) a)
                 (selected_alerts resolved (enumerate 0 alerts))
      | _ \<Rightarrow> Inl (UnparseablePayload ''alerts[] is required and must be non-empty''))"

fun normalize_grafana ::
  "isoparse \<Rightarrow> (nat \<Rightarrow> uuid) \<Rightarrow> json \<Rightarrow> py_datetime \<Rightarrow> AgentEvent list result" where
  "normalize_grafana isoparse uids (JObj payload) received_at =
     label_batch isoparse uids payload GRAFANA received_at False"
| "normalize_grafana isoparse uids _ received_at = not_an_object"

fun resolved_grafana ::
  "isoparse \<Rightarrow> (nat \<Rightarrow> uuid) \<Rightarrow> json \<Rightarrow> py_datetime \<Rightarrow> AgentEvent list result" where
  "resolved_grafana isoparse uids (JObj payload) received_at =
     label_batch isoparse uids payload GRAFANA received_at True"
| "resolved_grafana isoparse uids _ received_at = not_an_object"

fun normalize_alertmanager ::
  "isoparse \<Rightarrow> (nat \<Rightarrow> uuid) \<Rightarrow> json \<Rightarrow> py_datetime \<Rightarrow> AgentEvent list result" where
  "normalize_alertmanager isoparse uids (JObj payload) received_at =
     label_batch isoparse uids payload ALERTMANAGER received_at False"
| "normalize_alertmanager isoparse uids _ received_at = not_an_object"

fun resolved_alertmanager ::
  "isoparse \<Rightarrow> (nat \<Rightarrow> uuid) \<Rightarrow> json \<Rightarrow> py_datetime \<Rightarrow> AgentEvent list result" where
  "resolved_alertmanager isoparse uids (JObj payload) received_at =
     label_batch isoparse uids payload ALERTMANAGER received_at True"
| "resolved_alertmanager isoparse uids _ received_at = not_an_object"

section \<open>Generic\<close>

text \<open>The pair an item of \<^verbatim>\<open>entities\<close> adds to \<^verbatim>\<open>seen\<close>, if any.\<close>

fun generic_pair :: "json \<Rightarrow> (string \<times> string) option" where
  "generic_pair (JObj item) =
     (if py_truthy (py_get item ''type'') \<and> py_truthy (py_get item ''id'')
      then Some (py_strip (py_str (py_get item ''type'')), py_strip (py_str (py_get item ''id'')))
      else None)"
| "generic_pair _ = None"

definition generic_entities :: "json \<Rightarrow> Entity list result" where
  "generic_entities raw =
     (case raw of
        JList items \<Rightarrow>
          res_mapM (\<lambda>p. contract_make Entity_valid (mk_entity p))
            (sort (remdups (List.map_filter generic_pair items)))
      | _ \<Rightarrow> Inr [])"

definition severity_names :: "(string \<times> Severity) list" where
  "severity_names = map (\<lambda>s. (severity_value s, s)) [CRITICAL, HIGH, MEDIUM, LOW, INFO]"

definition generic_severity :: "string \<Rightarrow> Severity" where
  "generic_severity txt =
     (case map_of severity_names txt of
        Some s \<Rightarrow> s
      | None \<Rightarrow> dict_get LABEL_SEVERITY txt MEDIUM)"

fun normalize_generic ::
  "isoparse \<Rightarrow> (nat \<Rightarrow> uuid) \<Rightarrow> json \<Rightarrow> py_datetime \<Rightarrow> AgentEvent list result" where
  "normalize_generic isoparse uids (JObj payload) received_at =
     (let key = src_text payload ''event_id'' in
      if key = []
        then Inl (UnparseablePayload ''event_id is required and must be stable per incident'')
      else res_bind (generic_entities (py_get payload ''entities'')) (\<lambda>entities.
             res_bind (build_event GENERIC key
               (generic_severity (py_lower (src_text payload ''severity'')))
               (src_text payload ''title'') (src_text payload ''body'') entities
               (parse_iso isoparse (src_text payload ''occurred_at'') received_at)
               received_at payload (uids 0)) (\<lambda>e. Inr [e])))"
| "normalize_generic isoparse uids _ received_at = not_an_object"

section \<open>What the normalizers return\<close>

lemma build_event_ok:
  assumes "key \<noteq> []" and "list_all Entity_valid ents"
  shows "\<exists>e. build_event src key sv t b ents oc rc raw uid = Inr e \<and> AgentEvent_valid e
           \<and> ev_source e = src \<and> ev_key e = key \<and> ev_entities e = ents \<and> ev_id e = uid
           \<and> ev_received_at e = rc \<and> ev_severity e = sv"
  using assms by (simp add: build_event_def contract_make_def AgentEvent_valid_def contract_ok_def)

lemma build_event_Inr:
  assumes "build_event src key sv t b ents oc rc raw uid = Inr e"
  shows "AgentEvent_valid e \<and> ev_source e = src \<and> ev_key e = key \<and> ev_entities e = ents
           \<and> ev_id e = uid \<and> ev_received_at e = rc \<and> ev_severity e = sv \<and> ev_dedupe_count e = 1"
  using assms by (auto simp: build_event_def)

lemma label_pair_Some:
  "label_pair kv = Some p \<Longrightarrow> fst p \<in> set IDENTITY_TAG_KEYS \<and> snd p \<noteq> []"
  by (auto simp: label_pair_def Let_def split: if_splits)

lemma entities_from_labels_valid: "list_all Entity_valid (entities_from_labels labels)"
  by (auto simp: entities_from_labels_def list_all_iff set_map_filter
      dest!: label_pair_Some identity_key_not_Nil intro!: Entity_valid_mk)

lemma pagerduty_entities_valid: "list_all Entity_valid (pagerduty_entities data)"
  by (simp add: pagerduty_entities_def Let_def Entity_valid_mk)

lemma generic_entities_valid:
  "generic_entities raw = Inr es \<Longrightarrow> list_all Entity_valid es"
  by (auto simp: generic_entities_def list_all_iff split: json.splits dest: res_mapM_set)

lemma pagerduty_event_Inr:
  assumes "pagerduty_event isoparse payload rc uid = Inr e"
  shows "AgentEvent_valid e \<and> ev_source e = PAGERDUTY \<and> ev_key e = pagerduty_key (pagerduty_data payload)
           \<and> ev_entities e = pagerduty_entities (pagerduty_data payload) \<and> ev_id e = uid
           \<and> ev_received_at e = rc"
  using assms by (auto simp: pagerduty_event_def Let_def split: if_splits dest: build_event_Inr)

lemma label_alert_Inr:
  assumes "label_alert isoparse src rc uid alert = Inr e"
  shows "AgentEvent_valid e \<and> ev_source e = src \<and> ev_key e = alert_key alert
           \<and> ev_entities e = entities_from_labels (src_obj alert ''labels'') \<and> ev_id e = uid
           \<and> ev_received_at e = rc"
  using assms by (auto simp: label_alert_def Let_def split: if_splits dest: build_event_Inr)

lemma label_alert_total:
  "alert_key alert \<noteq> [] \<Longrightarrow> \<exists>e. label_alert isoparse src rc uid alert = Inr e"
  using build_event_ok[OF _ entities_from_labels_valid]
  by (fastforce simp: label_alert_def Let_def)

lemma label_batch_events:
  assumes "label_batch isoparse uids payload src rc resolved = Inr es" and "e \<in> set es"
  shows "AgentEvent_valid e \<and> ev_source e = src \<and> ev_received_at e = rc"
  using assms by (auto simp: label_batch_def split: json.splits if_splits
      dest!: res_mapM_set label_alert_Inr)

text \<open>Every dict alert of a batch is either firing or resolved, never both.\<close>

fun is_obj :: "json \<Rightarrow> bool" where
  "is_obj (JObj _) = True"
| "is_obj _ = False"

lemma selected_alerts_partition:
  "length (selected_alerts False xs) + length (selected_alerts True xs)
     = length (filter (\<lambda>x. is_obj (snd x)) xs)"
proof (induction xs)
  case (Cons x xs)
  obtain i j where x: "x = (i, j)" by (cases x)
  show ?case using Cons.IH by (cases j) (auto simp: x)
qed simp

lemma selected_alerts_mem:
  "(i, a) \<in> set (selected_alerts resolved xs)
     \<longleftrightarrow> (i, JObj a) \<in> set xs \<and> alert_is_resolved a = resolved"
proof (induction xs)
  case (Cons x xs)
  obtain k j where x: "x = (k, j)" by (cases x)
  show ?case using Cons.IH by (cases j) (auto simp: x)
qed simp

section \<open>Exceptions and identifiers\<close>

text \<open>A decoded payload only ever makes the normalizers raise \<open>ValueError\<close>s.\<close>

lemma res_mapM_Inl: "res_mapM f xs = Inl e \<Longrightarrow> \<exists>x \<in> set xs. f x = Inl e"
  by (induction xs) (auto simp: res_bind_eq_Inl)

lemma build_event_raises: "build_event src key sv t b ents oc rc raw uid = Inl e \<Longrightarrow> is_value_error e"
  by (auto simp: build_event_def contract_make_Inl)

lemma label_batch_raises:
  assumes "label_batch isoparse uids payload src rc resolved = Inl e"
  shows "is_value_error e"
  using assms
  by (auto simp: label_batch_def label_alert_def Let_def build_event_raises
      split: json.splits if_splits dest!: res_mapM_Inl)

lemma pagerduty_event_raises:
  "pagerduty_event isoparse payload rc uid = Inl e \<Longrightarrow> is_value_error e"
  by (auto simp: pagerduty_event_def Let_def build_event_raises split: if_splits)

lemma generic_entities_raises: "generic_entities raw = Inl e \<Longrightarrow> is_value_error e"
  by (auto simp: generic_entities_def contract_make_Inl split: json.splits dest!: res_mapM_Inl)

lemma not_an_object_raises: "not_an_object = Inl e \<Longrightarrow> is_value_error e"
  by (auto simp: not_an_object_def)

lemmas source_raises =
  label_batch_raises pagerduty_event_raises generic_entities_raises build_event_raises
  not_an_object_raises

lemma normalize_pagerduty_raises:
  "normalize_pagerduty isoparse uids p rc = Inl e \<Longrightarrow> is_value_error e"
  "resolved_pagerduty isoparse uids p rc = Inl e \<Longrightarrow> is_value_error e"
  by (cases p; auto simp: res_bind_eq_Inl split: if_splits dest: source_raises)+

lemma normalize_labels_raises:
  "normalize_grafana isoparse uids p rc = Inl e \<Longrightarrow> is_value_error e"
  "resolved_grafana isoparse uids p rc = Inl e \<Longrightarrow> is_value_error e"
  "normalize_alertmanager isoparse uids p rc = Inl e \<Longrightarrow> is_value_error e"
  "resolved_alertmanager isoparse uids p rc = Inl e \<Longrightarrow> is_value_error e"
  by (cases p; auto dest: source_raises)+

lemma normalize_generic_raises:
  "normalize_generic isoparse uids p rc = Inl e \<Longrightarrow> is_value_error e"
  by (cases p) (auto simp: Let_def res_bind_eq_Inl split: if_splits dest: source_raises)

text \<open>Every event carries its own \<open>uuid4\<close>.\<close>

lemma res_mapM_map:
  assumes "res_mapM f xs = Inr ys" and "\<And>x y. f x = Inr y \<Longrightarrow> g y = h x"
  shows "map g ys = map h xs"
  using assms by (induction xs arbitrary: ys) auto

lemma selected_alerts_distinct:
  assumes "distinct (map fst xs)"
  shows "distinct (map fst (selected_alerts resolved xs))"
  using assms
proof (induction xs)
  case (Cons x xs)
  obtain i j where x: "x = (i, j)" by (cases x)
  have "i \<notin> fst ` set (selected_alerts resolved xs)"
    using Cons.prems by (force simp: x selected_alerts_mem)
  then show ?case using Cons by (cases j) (auto simp: x)
qed simp

lemma label_batch_ids:
  assumes "label_batch isoparse uids payload src rc resolved = Inr es" and "inj uids"
  shows "distinct (map ev_id es) \<and> ev_id ` set es \<subseteq> range uids"
proof -
  obtain alerts where es: "res_mapM (\<lambda>(i, a). label_alert isoparse src rc (uids i) a)
      (selected_alerts resolved (enumerate 0 alerts)) = Inr es"
    using assms(1) by (auto simp: label_batch_def split: json.splits if_splits)
  have ids: "map ev_id es = map uids (map fst (selected_alerts resolved (enumerate 0 alerts)))"
    unfolding map_map by (rule res_mapM_map[OF es]) (auto dest: label_alert_Inr split: prod.splits)
  have "distinct (map fst (selected_alerts resolved (enumerate 0 alerts)))"
    by (rule selected_alerts_distinct) (simp add: map_fst_enumerate)
  then have "distinct (map ev_id es)"
    unfolding ids using assms(2) by (subst distinct_map) (auto intro: inj_on_subset)
  moreover have "ev_id ` set es \<subseteq> range uids"
    using ids by (metis image_mono image_set subset_UNIV)
  ultimately show ?thesis by blast
qed

end
