(* ===== verification/IpAddress.thy ===== *)
theory IpAddress
  imports PyText "HOL-Library.Word"
begin

text \<open>
  The part of the standard library's \<^verbatim>\<open>ipaddress\<close> module that source verification
  uses: \<^verbatim>\<open>ip_address(text)\<close> (IPv4 dotted quad, else IPv6 with \<open>::\<close>, an embedded
  IPv4 tail and a scope id) and \<^verbatim>\<open>address in network\<close>. A network is its address
  and its prefix length, as configuration supplies it.
\<close>

unbundle bit_operations_syntax

datatype ip = IPv4 "32 word" | IPv6 "128 word"

datatype ip_network = IPv4Network "32 word" nat | IPv6Network "128 word" nat

section \<open>Parsing\<close>

definition parse_octet :: "string \<Rightarrow> nat option" where
  "parse_octet s =
     (if s = [] \<or> \<not> list_all is_digit s \<or> 3 < length s \<or> (s \<noteq> ''0'' \<and> hd s = CHR ''0'') then None
      else let n = digits_val (map digit_val s) in if 255 < n then None else Some n)"

fun opt_list :: "'a option list \<Rightarrow> 'a list option" where
  "opt_list [] = Some []"
| "opt_list (None # _) = None"
| "opt_list (Some x # xs) = map_option (\<lambda>ys. x # ys) (opt_list xs)"

definition ipv4_int :: "string \<Rightarrow> nat option" where
  "ipv4_int s =
     (let octets = py_split (CHR ''.'') s
      in if CHR ''/'' \<in> set s \<or> length octets \<noteq> 4 then None
         else map_option (foldl (\<lambda>acc o'. 256 * acc + o') 0) (opt_list (map parse_octet octets)))"

definition is_hex :: "char \<Rightarrow> bool" where
  "is_hex c \<longleftrightarrow> is_digit c \<or> (97 \<le> cp c \<and> cp c \<le> 102) \<or> (65 \<le> cp c \<and> cp c \<le> 70)"

definition hex_val :: "char \<Rightarrow> nat" where
  "hex_val c = (if is_digit c then cp c - 48 else if 97 \<le> cp c then cp c - 87 else cp c - 55)"

definition parse_hextet :: "string \<Rightarrow> nat option" where
  "parse_hextet s =
     (if s = [] \<or> \<not> list_all is_hex s \<or> 4 < length s then None
      else Some (foldl (\<lambda>acc c. 16 * acc + hex_val c) 0 s))"

text \<open>The two hextets an IPv4 tail stands for, as \<^verbatim>\<open>%x\<close> prints them.\<close>

fun show_hex :: "nat \<Rightarrow> string" where
  "show_hex n = (if n < 16 then [hex_digit n] else show_hex (n div 16) @ [hex_digit (n mod 16)])"

declare show_hex.simps [simp del]

definition ipv4_tail :: "string list \<Rightarrow> string list option" where
  "ipv4_tail parts =
     (if CHR ''.'' \<in> set (last parts)
      then map_option (\<lambda>n. butlast parts @ [show_hex (n div 65536), show_hex (n mod 65536)])
             (ipv4_int (last parts))
      else Some parts)"

definition empty_inner :: "string list \<Rightarrow> nat list" where
  "empty_inner parts = filter (\<lambda>i. parts ! i = []) [1..<length parts - 1]"

text \<open>The hextets above and below \<open>::\<close> and how many zeros it stands for.\<close>

definition split_hextets :: "string list \<Rightarrow> (string list \<times> nat \<times> string list) option" where
  "split_hextets parts =
     (case empty_inner parts of
        [] \<Rightarrow>
          if length parts \<noteq> 8 \<or> hd parts = [] \<or> last parts = [] then None
          else Some (parts, 0, [])
      | [k] \<Rightarrow>
          let hi = (if hd parts = [] then k - 1 else k);
              lo = (if last parts = [] then length parts - k - 2 else length parts - k - 1)
          in if (hd parts = [] \<and> hi \<noteq> 0) \<or> (last parts = [] \<and> lo \<noteq> 0) \<or> 8 \<le> hi + lo then None
             else Some (take hi parts, 8 - (hi + lo), drop (length parts - lo) parts)
      | _ \<Rightarrow> None)"

definition ipv6_int :: "string \<Rightarrow> nat option" where
  "ipv6_int s =
     (let (addr, sep, scope_id) = py_partition (CHR ''%'') s in
      if CHR ''/'' \<in> set s \<or> (sep \<and> (scope_id = [] \<or> CHR ''%'' \<in> set scope_id)) \<or> addr = [] then None
      else let parts0 = py_split (CHR '':'') addr in
      if length parts0 < 3 then None
      else Option.bind (ipv4_tail parts0) (\<lambda>parts.
        if 9 < length parts then None
        else Option.bind (split_hextets parts) (\<lambda>(hi, skipped, lo).
          Option.bind (opt_list (map parse_hextet hi)) (\<lambda>his.
            map_option (\<lambda>los. foldl (\<lambda>acc h. 65536 * acc + h) 0 (his @ replicate skipped 0 @ los))
              (opt_list (map parse_hextet lo))))))"

definition ip_address :: "string \<Rightarrow> ip option" where
  "ip_address s =
     (case ipv4_int s of
        Some n \<Rightarrow> Some (IPv4 (word_of_nat n))
      | None \<Rightarrow> map_option (\<lambda>n. IPv6 (word_of_nat n)) (ipv6_int s))"

section \<open>Membership\<close>

definition net_mask :: "nat \<Rightarrow> nat \<Rightarrow> 'a::len word" where
  "net_mask width p = push_bit (width - p) (-1)"

fun in_network :: "ip \<Rightarrow> ip_network \<Rightarrow> bool" where
  "in_network (IPv4 a) (IPv4Network n p) = ((a AND net_mask 32 p) = n)"
| "in_network (IPv6 a) (IPv6Network n p) = ((a AND net_mask 128 p) = n)"
| "in_network _ _ = False"

lemma and_mask_eq_iff:
  fixes a n :: "'a::len word"
  assumes "(n AND push_bit k (-1)) = n"
  shows "(a AND push_bit k (-1)) = n \<longleftrightarrow> (\<forall>i. k \<le> i \<and> i < LENGTH('a) \<longrightarrow> bit a i = bit n i)"
proof
  assume "(a AND push_bit k (-1)) = n"
  then show "\<forall>i. k \<le> i \<and> i < LENGTH('a) \<longrightarrow> bit a i = bit n i"
    by (auto simp: bit_simps)
next
  assume h: "\<forall>i. k \<le> i \<and> i < LENGTH('a) \<longrightarrow> bit a i = bit n i"
  show "(a AND push_bit k (-1)) = n"
  proof (rule bit_word_eqI)
    fix i assume i: "i < LENGTH('a)"
    have "bit n i = bit (n AND push_bit k (-1)) i" using assms by simp
    then show "bit (a AND push_bit k (-1)) i = bit n i"
      using h i by (auto simp: bit_simps)
  qed
qed

text \<open>Membership compares the leading bits of the prefix, and only within one family.\<close>

lemma in_network_v4:
  assumes "(n AND net_mask 32 p) = n"
  shows "in_network (IPv4 a) (IPv4Network n p)
           \<longleftrightarrow> (\<forall>i. 32 - p \<le> i \<and> i < 32 \<longrightarrow> bit a i = bit n i)"
  using and_mask_eq_iff[of n "32 - p" a] assms by (simp add: net_mask_def)

lemma in_network_v6:
  assumes "(n AND net_mask 128 p) = n"
  shows "in_network (IPv6 a) (IPv6Network n p)
           \<longleftrightarrow> (\<forall>i. 128 - p \<le> i \<and> i < 128 \<longrightarrow> bit a i = bit n i)"
  using and_mask_eq_iff[of n "128 - p" a] assms by (simp add: net_mask_def)

end
