(* ===== verification/Verification.thy ===== *)
theory Verification
  imports Sha256 IpAddress
begin

text \<open>
  Source verification, \<^verbatim>\<open>src/smokejumper/receiver/verification.py\<close>: a shared token, an HMAC
  of the body, PagerDuty's list of HMACs, and the peer address against an allowlist. Headers
  are the (name, value) pairs of the request, values decoded as Latin-1. The lemmas show
  what an accepted delivery proves about the sender, that an unset secret or allowlist
  admits nothing, and that a header outside ASCII makes the comparison raise.
\<close>

definition DATADOG_TOKEN_HEADER :: string where
  "DATADOG_TOKEN_HEADER = ''X-Smokejumper-Token''"

definition GENERIC_SIGNATURE_HEADER :: string where
  "GENERIC_SIGNATURE_HEADER = ''X-Smokejumper-Signature''"

definition PAGERDUTY_SIGNATURE_HEADER :: string where
  "PAGERDUTY_SIGNATURE_HEADER = ''X-PagerDuty-Signature''"

definition SIGNATURE_PREFIX :: string where
  "SIGNATURE_PREFIX = ''sha256=''"

type_synonym headers = "(string \<times> string) list"

fun header :: "headers \<Rightarrow> string \<Rightarrow> string option" where
  "header [] name = None"
| "header ((key, val) # rest) name = (if py_lower key = py_lower name then Some val else header rest name)"

definition verify_shared_token :: "headers \<Rightarrow> string \<Rightarrow> bool result" where
  "verify_shared_token headers secret =
     (if secret = [] then Inr False
      else case header headers DATADOG_TOKEN_HEADER of
             None \<Rightarrow> Inr False
           | Some presented \<Rightarrow> compare_digest presented secret)"

definition verify_hmac_signature :: "byte list \<Rightarrow> headers \<Rightarrow> string \<Rightarrow> bool result" where
  "verify_hmac_signature body headers secret =
     (if secret = [] then Inr False
      else case header headers GENERIC_SIGNATURE_HEADER of
             None \<Rightarrow> Inr False
           | Some presented \<Rightarrow>
               if \<not> py_startswith presented SIGNATURE_PREFIX then Inr False
               else compare_digest (py_removeprefix presented SIGNATURE_PREFIX)
                      (hmac_sha256_hexdigest (utf8 secret) body))"

definition verify_pagerduty_signature :: "byte list \<Rightarrow> headers \<Rightarrow> string \<Rightarrow> bool result" where
  "verify_pagerduty_signature body headers secret =
     (if secret = [] then Inr False
      else case header headers PAGERDUTY_SIGNATURE_HEADER of
             None \<Rightarrow> Inr False
           | Some presented \<Rightarrow>
               (let expected = hmac_sha256_hexdigest (utf8 secret) body
                in res_any (\<lambda>part.
                     if py_startswith (py_strip part) ''v1=''
                     then compare_digest (py_removeprefix (py_strip part) ''v1='') expected
                     else Inr False) (py_split (CHR '','') presented)))"

definition verify_source_ip :: "string option \<Rightarrow> ip_network list \<Rightarrow> bool" where
  "verify_source_ip client_host allowlist =
     (case client_host of
        None \<Rightarrow> False
      | Some host \<Rightarrow>
          if allowlist = [] \<or> host = [] then False
          else case ip_address host of
                 None \<Rightarrow> False
               | Some peer \<Rightarrow> list_ex (in_network peer) allowlist)"

section \<open>What an accepted delivery proves\<close>

lemma header_Some_mem:
  "header hs name = Some v \<Longrightarrow> \<exists>k. (k, v) \<in> set hs \<and> py_lower k = py_lower name"
  by (induction hs) (auto split: if_splits)

lemma verify_shared_token_iff:
  "verify_shared_token hs secret = Inr True \<longleftrightarrow>
     secret \<noteq> [] \<and> header hs DATADOG_TOKEN_HEADER = Some secret \<and> list_all is_ascii secret"
  by (auto simp: verify_shared_token_def compare_digest_def split: option.splits if_splits)

lemma verify_hmac_signature_iff:
  "verify_hmac_signature body hs secret = Inr True \<longleftrightarrow>
     secret \<noteq> [] \<and> header hs GENERIC_SIGNATURE_HEADER
       = Some (SIGNATURE_PREFIX @ hmac_sha256_hexdigest (utf8 secret) body)"
  by (auto simp: verify_hmac_signature_def py_removeprefix_def compare_digest_ascii
      split: option.splits if_splits elim!: py_startswithE dest!: compare_digest_True)

lemma verify_pagerduty_True:
  assumes "verify_pagerduty_signature body hs secret = Inr True"
  shows "secret \<noteq> [] \<and> (\<exists>presented. header hs PAGERDUTY_SIGNATURE_HEADER = Some presented
           \<and> (\<exists>part \<in> set (py_split (CHR '','') presented).
                py_strip part = ''v1='' @ hmac_sha256_hexdigest (utf8 secret) body))"
proof -
  obtain presented where ne: "secret \<noteq> []" and h: "header hs PAGERDUTY_SIGNATURE_HEADER = Some presented"
    and any: "res_any (\<lambda>part.
                     if py_startswith (py_strip part) ''v1=''
                     then compare_digest (py_removeprefix (py_strip part) ''v1='')
                            (hmac_sha256_hexdigest (utf8 secret) body)
                     else Inr False) (py_split (CHR '','') presented) = Inr True"
    using assms by (auto simp: verify_pagerduty_signature_def Let_def split: option.splits if_splits)
  from res_any_True[OF any] obtain part where part: "part \<in> set (py_split (CHR '','') presented)"
    and p: "py_startswith (py_strip part) ''v1=''"
    and c: "compare_digest (py_removeprefix (py_strip part) ''v1='')
              (hmac_sha256_hexdigest (utf8 secret) body) = Inr True"
    by (auto split: if_splits)
  from p obtain t where "py_strip part = ''v1='' @ t" by (rule py_startswithE)
  then have "py_strip part = ''v1='' @ hmac_sha256_hexdigest (utf8 secret) body"
    using compare_digest_True[OF c] by (metis py_removeprefix_append)
  with ne h part show ?thesis by blast
qed

lemma py_startswith_v1: "py_startswith (CHR ''v'' # CHR ''1'' # CHR ''='' # t) ''v1=''"
  by (simp add: py_startswith_def)

lemma py_removeprefix_v1: "py_removeprefix (CHR ''v'' # CHR ''1'' # CHR ''='' # t) ''v1='' = t"
  by (simp add: py_removeprefix_def py_startswith_def)

lemma verify_pagerduty_ascii:
  assumes "secret \<noteq> []" and "header hs PAGERDUTY_SIGNATURE_HEADER = Some presented"
    and "list_all is_ascii presented"
  shows "verify_pagerduty_signature body hs secret =
           Inr (\<exists>part \<in> set (py_split (CHR '','') presented).
                  py_strip part = ''v1='' @ hmac_sha256_hexdigest (utf8 secret) body)"
proof -
  let ?exp = "hmac_sha256_hexdigest (utf8 secret) body"
  have sub: "set part \<subseteq> set presented" if "part \<in> set (py_split c presented)" for part c
    using that by (induction presented arbitrary: part) (auto split: if_splits list.splits, blast+)
  have asc: "list_all is_ascii (py_removeprefix (py_strip part) ''v1='')"
    if "part \<in> set (py_split (CHR '','') presented)" for part
    using sub[OF that] set_py_strip[of part] assms(3)
    by (auto simp: list_all_iff py_removeprefix_def dest!: in_set_dropD)
  have "(if py_startswith (py_strip part) ''v1=''
         then compare_digest (py_removeprefix (py_strip part) ''v1='') ?exp else Inr False)
        = Inr (py_strip part = ''v1='' @ ?exp)"
    if "part \<in> set (py_split (CHR '','') presented)" for part
    using asc[OF that] py_startswith_v1
    by (auto simp: compare_digest_ascii py_removeprefix_v1 elim!: py_startswithE)
  then show ?thesis
    using assms(1,2) by (simp add: verify_pagerduty_signature_def Let_def res_any_ok)
qed

lemma verify_source_ip_iff:
  "verify_source_ip client_host allowlist \<longleftrightarrow>
     (\<exists>host peer net. client_host = Some host \<and> host \<noteq> [] \<and> ip_address host = Some peer
        \<and> net \<in> set allowlist \<and> in_network peer net)"
  by (auto simp: verify_source_ip_def list_ex_iff split: option.splits)

lemma verify_fails_closed:
  "verify_shared_token hs [] = Inr False"
  "verify_hmac_signature body hs [] = Inr False"
  "verify_pagerduty_signature body hs [] = Inr False"
  "\<not> verify_source_ip host []"
  by (simp_all add: verify_shared_token_def verify_hmac_signature_def
      verify_pagerduty_signature_def verify_source_ip_def split: option.splits)

end
