(* ===== verification/Database.thy ===== *)
theory Database
  imports Contracts
begin

text \<open>
  The Postgres schema at the Alembic head, \<^verbatim>\<open>migrations/versions/0001\<close> to
  \<^verbatim>\<open>0004\<close>: one record per table row with its check constraints, the primary and
  foreign keys, the partial unique index on open tickets, and the trigger that closes the
  open ticket when an event window closes. A table is the list of its rows in insertion
  order. Timestamps are instants in microseconds; \<open>Integer\<close> columns are 32 bits wide and
  an update that leaves that range raises. A statement that violates a constraint raises
  \<open>IntegrityError\<close> and its transaction changes nothing.
\<close>

definition pg_int_max :: int where
  "pg_int_max = 2147483647"

record event_row =
  er_id :: uuid
  er_source :: string
  er_fingerprint :: "string option"
  er_received_at :: int
  er_dedupe_count :: int
  er_quarantined :: bool
  er_quarantine_reason :: "string option"
  er_payload :: "string option"
  er_window_closed_at :: "int option"
  er_queued_at :: "int option"
  er_queue_message_id :: "string option"

definition events_source_known :: "event_row \<Rightarrow> bool" where
  "events_source_known r \<longleftrightarrow>
     er_source r \<in> set [''grafana'', ''alertmanager'', ''datadog'', ''pagerduty'', ''generic'',
                         ''slack'', ''scheduled'']"

definition events_quarantine_invariant :: "event_row \<Rightarrow> bool" where
  "events_quarantine_invariant r \<longleftrightarrow>
     er_quarantined r = (er_payload r = None)
     \<and> er_quarantined r = (er_fingerprint r = None)
     \<and> er_quarantined r = (er_quarantine_reason r \<noteq> None)"

definition events_queue_state_paired :: "event_row \<Rightarrow> bool" where
  "events_queue_state_paired r \<longleftrightarrow> (er_queued_at r = None) = (er_queue_message_id r = None)"

definition events_check :: "event_row \<Rightarrow> bool" where
  "events_check r \<longleftrightarrow>
     events_source_known r \<and> events_quarantine_invariant r \<and> events_queue_state_paired r"

record run_row =
  rr_run_id :: uuid
  rr_event_id :: "uuid option"
  rr_fingerprint :: string
  rr_status :: string
  rr_started_at :: int
  rr_audit_log_file :: string
  rr_audit_start_offset :: int
  rr_audit_end_offset :: "int option"
  rr_conclusion :: "Conclusion option"
  rr_finished_at :: "int option"

definition RUN_STATUSES :: "string list" where
  "RUN_STATUSES = [''running'', ''concluded'', ''needs_human'', ''failed'']"

definition runs_audit_offsets_ordered :: "run_row \<Rightarrow> bool" where
  "runs_audit_offsets_ordered r \<longleftrightarrow>
     (case rr_audit_end_offset r of None \<Rightarrow> True | Some e \<Rightarrow> rr_audit_start_offset r \<le> e)"

definition runs_check :: "run_row \<Rightarrow> bool" where
  "runs_check r \<longleftrightarrow>
     runs_audit_offsets_ordered r \<and> rr_status r \<in> set RUN_STATUSES
     \<and> (rr_status r \<noteq> ''concluded'' \<or> rr_conclusion r \<noteq> None)"

record ticket_row =
  tk_id :: uuid
  tk_fingerprint :: string
  tk_provider :: string
  tk_external_id :: string
  tk_url :: "string option"
  tk_created_at :: int
  tk_closed_at :: "int option"
  tk_update_count :: int

record action_row =
  ta_run_id :: uuid
  ta_fingerprint :: string
  ta_ticket_id :: uuid
  ta_external_id :: string
  ta_created :: bool
  ta_update_count :: int
  ta_applied_at :: int

record db =
  events :: "event_row list"
  runs :: "run_row list"
  tickets :: "ticket_row list"
  ticket_actions :: "action_row list"

definition empty_db :: db where
  "empty_db = \<lparr>events = [], runs = [], tickets = [], ticket_actions = []\<rparr>"

text \<open>The index \<^verbatim>\<open>uq_tickets_open_fingerprint\<close>: unique among rows with no close time.\<close>

definition open_ticket :: "string \<Rightarrow> ticket_row \<Rightarrow> bool" where
  "open_ticket fp t \<longleftrightarrow> tk_fingerprint t = fp \<and> tk_closed_at t = None"

section \<open>Statements\<close>

definition insert_event :: "event_row \<Rightarrow> db \<Rightarrow> db result" where
  "insert_event r s =
     (if er_id r \<in> er_id ` set (events s)
        then Inl (IntegrityError ''duplicate key value violates unique constraint events_pkey'')
      else if \<not> events_check r then Inl (IntegrityError ''violates check constraint on events'')
      else Inr (s\<lparr>events := events s @ [r]\<rparr>))"

text \<open>
  The trigger function \<^verbatim>\<open>smokejumper_close_ticket_on_window\<close>, run after each updated
  event row with the row before and after the update.
\<close>

definition close_ticket_on_window ::
  "event_row \<times> event_row \<Rightarrow> ticket_row list \<Rightarrow> ticket_row list" where
  "close_ticket_on_window row tks =
     (case row of (old, new) \<Rightarrow>
        if er_window_closed_at old = None \<and> er_window_closed_at new \<noteq> None
        then update_where
               (\<lambda>t. Some (tk_fingerprint t) = er_fingerprint new \<and> tk_closed_at t = None)
               (\<lambda>t. t\<lparr>tk_closed_at := er_window_closed_at new\<rparr>) tks
        else tks)"

text \<open>
  \<^verbatim>\<open>async with engine.begin()\<close>. An exception of the block or of the connection rolls the
  transaction back; a connection lost while the commit is in flight (\<open>TxUnknown\<close>) raises
  although the server may have committed, and the model takes the case that it did.
\<close>

datatype tx = TxOk | TxRolledBack py_error | TxUnknown py_error

definition transact :: "tx \<Rightarrow> (db \<Rightarrow> ('a \<times> db) result) \<Rightarrow> db \<Rightarrow> 'a result \<times> db" where
  "transact t f s =
     (case f s of
        Inl e \<Rightarrow> (Inl (case t of TxRolledBack e' \<Rightarrow> e' | _ \<Rightarrow> e), s)
      | Inr (x, s') \<Rightarrow>
          (case t of
             TxOk \<Rightarrow> (Inr x, s')
           | TxRolledBack e \<Rightarrow> (Inl e, s)
           | TxUnknown e \<Rightarrow> (Inl e, s')))"

section \<open>Integrity of the whole schema\<close>

definition events_ok :: "event_row list \<Rightarrow> bool" where
  "events_ok es \<longleftrightarrow> distinct (map er_id es) \<and> list_all events_check es"

definition runs_ok :: "run_row list \<Rightarrow> bool" where
  "runs_ok rs \<longleftrightarrow> distinct (map rr_run_id rs) \<and> list_all runs_check rs"

definition tickets_ok :: "ticket_row list \<Rightarrow> bool" where
  "tickets_ok ts \<longleftrightarrow> distinct (map tk_id ts) \<and> (\<forall>fp. at_most_one (open_ticket fp) ts)"

definition actions_ok :: "db \<Rightarrow> bool" where
  "actions_ok s \<longleftrightarrow>
     distinct (map ta_run_id (ticket_actions s))
     \<and> (\<forall>a \<in> set (ticket_actions s).
          ta_run_id a \<in> rr_run_id ` set (runs s) \<and> ta_ticket_id a \<in> tk_id ` set (tickets s))"

definition db_ok :: "db \<Rightarrow> bool" where
  "db_ok s \<longleftrightarrow> events_ok (events s) \<and> runs_ok (runs s) \<and> tickets_ok (tickets s) \<and> actions_ok s"

lemma db_ok_empty [simp]: "db_ok empty_db"
  by (simp add: db_ok_def events_ok_def runs_ok_def tickets_ok_def actions_ok_def empty_db_def)

lemma insert_event_Inr:
  "insert_event r s = Inr s' \<longleftrightarrow>
     er_id r \<notin> er_id ` set (events s) \<and> events_check r \<and> s' = s\<lparr>events := events s @ [r]\<rparr>"
  by (auto simp: insert_event_def)

text \<open>A statement that only rewrites rows, keeping ids and constraints, keeps the table.\<close>

lemma events_ok_update:
  assumes "events_ok es" and "\<And>r. p r \<Longrightarrow> er_id (f r) = er_id r"
    and "\<And>r. r \<in> set es \<Longrightarrow> p r \<Longrightarrow> events_check r \<Longrightarrow> events_check (f r)"
  shows "events_ok (update_where p f es)"
proof -
  have "map er_id (update_where p f es) = map er_id es"
    using assms(2) by (intro map_update_where)
  then show ?thesis
    using assms(1,3) by (auto simp: events_ok_def list_all_iff set_update_where)
qed

lemma events_ok_append:
  "events_ok es \<Longrightarrow> er_id r \<notin> er_id ` set es \<Longrightarrow> events_check r \<Longrightarrow> events_ok (es @ [r])"
  by (auto simp: events_ok_def)

text \<open>Closing tickets keeps their ids and can only make open tickets rarer.\<close>

lemma at_most_one_update_shrink:
  assumes "at_most_one q xs" and "\<And>x. q (f x) \<Longrightarrow> q x"
  shows "at_most_one q (map f xs)"
proof -
  have "length (filter q (map f xs)) \<le> length (filter q xs)"
    using assms(2) by (induction xs) (auto simp: le_Suc_eq)
  then show ?thesis using assms(1) by (simp add: at_most_one_def)
qed

lemma tickets_ok_close:
  assumes "tickets_ok ts"
  shows "tickets_ok (close_ticket_on_window row ts)"
proof -
  obtain old new where row: "row = (old, new)" by (cases row)
  let ?p = "\<lambda>t. Some (tk_fingerprint t) = er_fingerprint new \<and> tk_closed_at t = None"
  let ?f = "\<lambda>t. t\<lparr>tk_closed_at := er_window_closed_at new\<rparr>"
  have "tickets_ok (update_where ?p ?f ts)"
    if "er_window_closed_at new \<noteq> None"
  proof -
    have "map tk_id (update_where ?p ?f ts) = map tk_id ts"
      by (rule map_update_where) simp
    moreover have "at_most_one (open_ticket fp) (update_where ?p ?f ts)" for fp
      unfolding update_where_def
      by (rule at_most_one_update_shrink)
        (use assms that in \<open>auto simp: tickets_ok_def open_ticket_def split: if_splits\<close>)
    ultimately show ?thesis using assms by (simp add: tickets_ok_def)
  qed
  then show ?thesis using assms by (simp add: close_ticket_on_window_def row)
qed

lemma close_ticket_ids [simp]: "map tk_id (close_ticket_on_window row ts) = map tk_id ts"
  by (cases row) (auto simp: close_ticket_on_window_def intro!: map_update_where)

lemma fold_close_ticket_ids: "map tk_id (fold close_ticket_on_window rows ts) = map tk_id ts"
  by (induction rows arbitrary: ts) auto

lemma tickets_ok_fold_close: "tickets_ok ts \<Longrightarrow> tickets_ok (fold close_ticket_on_window rows ts)"
  by (induction rows arbitrary: ts) (auto intro: tickets_ok_close)

lemma actions_ok_tickets:
  "actions_ok s \<Longrightarrow> tk_id ` set ts = tk_id ` set (tickets s) \<Longrightarrow> actions_ok (s\<lparr>tickets := ts\<rparr>)"
  by (simp add: actions_ok_def)

text \<open>A transaction keeps what its block keeps; it answers only when it committed.\<close>

lemma transact_inv:
  assumes "P s" and "\<And>x s'. f s = Inr (x, s') \<Longrightarrow> P s'"
  shows "P (snd (transact t f s))"
  using assms by (auto simp: transact_def split: sum.splits tx.splits)

lemma transact_Inr:
  "transact t f s = (Inr x, s') \<longleftrightarrow> t = TxOk \<and> f s = Inr (x, s')"
  by (auto simp: transact_def split: sum.splits tx.splits)

lemma transact_ok [simp]:
  "transact TxOk f s = (case f s of Inl e \<Rightarrow> (Inl e, s) | Inr (x, s') \<Rightarrow> (Inr x, s'))"
  by (auto simp: transact_def split: sum.splits)

end
