(* ===== verification/Repository.thy ===== *)
theory Repository
  imports Database
begin

text \<open>
  Reads and writes of the \<^verbatim>\<open>events\<close> table, \<^verbatim>\<open>src/smokejumper/receiver/repository.py\<close>.
  Each operation is one transaction on the database record. \<^verbatim>\<open>admit\<close> runs under the
  advisory lock of its fingerprint, so concurrent deliveries of one incident are
  some sequence of these operations. \<open>dump\<close> and \<open>load\<close> are pydantic's
  \<^verbatim>\<open>model_dump_json\<close> and \<^verbatim>\<open>model_validate\<close> of \<open>AgentEvent\<close>.

  The invariant \<open>windows_spaced\<close> says that the open rows of one fingerprint lie at least
  a window apart; with it \<open>admit\<close> never has two candidates with the same arrival time, and
  for deliveries that arrive in order it refines the abstract rule of the specification:
  fifteen minutes from the first arrival, not extended by duplicates, ended by a close.
\<close>

type_synonym dumper = "AgentEvent \<Rightarrow> string"
type_synonym loader = "string \<Rightarrow> AgentEvent result"

definition DEDUPE_WINDOW :: int where
  "DEDUPE_WINDOW = 15 * 60 * 1000000"

record Admission =
  adm_event_id :: uuid
  adm_fingerprint :: string
  adm_dedupe_count :: int
  adm_is_duplicate :: bool

definition open_event :: "string \<Rightarrow> event_row \<Rightarrow> bool" where
  "open_event fp r \<longleftrightarrow>
     er_fingerprint r = Some fp \<and> \<not> er_quarantined r \<and> er_window_closed_at r = None"

text \<open>The inner \<^verbatim>\<open>SELECT ... ORDER BY received_at LIMIT 1\<close>.\<close>

definition oldest_open :: "string \<Rightarrow> int \<Rightarrow> event_row list \<Rightarrow> event_row option" where
  "oldest_open fp cutoff es =
     (case sort_key er_received_at (filter (\<lambda>r. open_event fp r \<and> cutoff < er_received_at r) es) of
        [] \<Rightarrow> None
      | r # _ \<Rightarrow> Some r)"

definition new_event_row :: "dumper \<Rightarrow> AgentEvent \<Rightarrow> event_row" where
  "new_event_row dump event =
     \<lparr>er_id = ev_id event, er_source = source_value (ev_source event),
      er_fingerprint = Some (ev_fingerprint event),
      er_received_at = dt_utc (ev_received_at event), er_dedupe_count = 1,
      er_quarantined = False, er_quarantine_reason = None, er_payload = Some (dump event),
      er_window_closed_at = None, er_queued_at = None, er_queue_message_id = None\<rparr>"

definition admit :: "dumper \<Rightarrow> int \<Rightarrow> AgentEvent \<Rightarrow> db \<Rightarrow> (Admission \<times> db) result" where
  "admit dump window event s =
     (let cutoff = dt_utc (ev_received_at event) - window in
      case oldest_open (ev_fingerprint event) cutoff (events s) of
        Some r \<Rightarrow>
          if pg_int_max < er_dedupe_count r + 1 then Inl (DataError ''integer out of range'')
          else Inr (\<lparr>adm_event_id = er_id r, adm_fingerprint = ev_fingerprint event,
                     adm_dedupe_count = er_dedupe_count r + 1, adm_is_duplicate = True\<rparr>,
                    s\<lparr>events := update_where (\<lambda>x. er_id x = er_id r)
                                 (\<lambda>x. x\<lparr>er_dedupe_count := er_dedupe_count x + 1\<rparr>) (events s)\<rparr>)
      | None \<Rightarrow>
          res_bind (insert_event (new_event_row dump event) s) (\<lambda>s'.
            Inr (\<lparr>adm_event_id = ev_id event, adm_fingerprint = ev_fingerprint event,
                  adm_dedupe_count = 1, adm_is_duplicate = False\<rparr>, s')))"

definition quarantine :: "uuid \<Rightarrow> string \<Rightarrow> int \<Rightarrow> string \<Rightarrow> db \<Rightarrow> db result" where
  "quarantine event_id source received_at reason s =
     insert_event \<lparr>er_id = event_id, er_source = source, er_fingerprint = None,
       er_received_at = received_at, er_dedupe_count = 1, er_quarantined = True,
       er_quarantine_reason = Some reason, er_payload = None, er_window_closed_at = None,
       er_queued_at = None, er_queue_message_id = None\<rparr> s"

definition event_for_queue ::
  "loader \<Rightarrow> uuid \<Rightarrow> db \<Rightarrow> (AgentEvent \<times> string option) option result" where
  "event_for_queue load event_id s =
     (case find (\<lambda>r. er_id r = event_id \<and> \<not> er_quarantined r) (events s) of
        None \<Rightarrow> Inr None
      | Some r \<Rightarrow>
          (case er_payload r of
             None \<Rightarrow> Inl (ValidationError ''payload is null'')
           | Some p \<Rightarrow> res_bind (load p) (\<lambda>ev. Inr (Some (ev, er_queue_message_id r)))))"

definition mark_queued :: "uuid \<Rightarrow> string \<Rightarrow> int \<Rightarrow> db \<Rightarrow> db" where
  "mark_queued event_id message_id queued_at s =
     s\<lparr>events := update_where (\<lambda>r. er_id r = event_id \<and> er_queue_message_id r = None)
         (\<lambda>r. r\<lparr>er_queued_at := Some queued_at, er_queue_message_id := Some message_id\<rparr>)
         (events s)\<rparr>"

definition pending_row :: "event_row \<Rightarrow> bool" where
  "pending_row r \<longleftrightarrow> \<not> er_quarantined r \<and> er_queued_at r = None"

definition pending_queue_event_ids :: "nat \<Rightarrow> db \<Rightarrow> uuid list" where
  "pending_queue_event_ids limit s =
     map er_id (take limit (sort_key er_received_at (filter pending_row (events s))))"

definition pending_queue_count :: "db \<Rightarrow> nat" where
  "pending_queue_count s = length (filter pending_row (events s))"

definition close_window :: "string \<Rightarrow> int \<Rightarrow> db \<Rightarrow> nat \<times> db" where
  "close_window fingerprint closed_at s =
     (let close = (\<lambda>r. r\<lparr>er_window_closed_at := Some closed_at\<rparr>);
          touched = filter (open_event fingerprint) (events s)
      in (length touched,
          s\<lparr>events := update_where (open_event fingerprint) close (events s),
            tickets := fold close_ticket_on_window (map (\<lambda>r. (r, close r)) touched) (tickets s)\<rparr>))"

section \<open>Schema integrity\<close>

lemma source_value_known: "source_value src \<in>
    {''grafana'', ''alertmanager'', ''datadog'', ''pagerduty'', ''generic'', ''slack'', ''scheduled''}"
  by (cases src) auto

lemma events_check_new [simp]: "events_check (new_event_row dump event)"
  using source_value_known[of "ev_source event"]
  by (simp add: events_check_def events_source_known_def events_quarantine_invariant_def
      events_queue_state_paired_def new_event_row_def)

lemma new_event_row_simps [simp]:
  "er_id (new_event_row dump event) = ev_id event"
  "er_fingerprint (new_event_row dump event) = Some (ev_fingerprint event)"
  "er_received_at (new_event_row dump event) = dt_utc (ev_received_at event)"
  "er_dedupe_count (new_event_row dump event) = 1"
  "er_payload (new_event_row dump event) = Some (dump event)"
  "\<not> er_quarantined (new_event_row dump event)"
  "er_window_closed_at (new_event_row dump event) = None"
  "er_queued_at (new_event_row dump event) = None"
  "er_queue_message_id (new_event_row dump event) = None"
  by (simp_all add: new_event_row_def)

lemma oldest_open_None:
  "oldest_open fp cutoff es = None \<longleftrightarrow>
     (\<forall>r \<in> set es. open_event fp r \<longrightarrow> er_received_at r \<le> cutoff)"
proof -
  have "oldest_open fp cutoff es = None \<longleftrightarrow>
      filter (\<lambda>r. open_event fp r \<and> cutoff < er_received_at r) es = []"
    by (auto simp: oldest_open_def split: list.splits)
      (metis list.distinct(1) length_0_conv length_sort)
  also have "\<dots> \<longleftrightarrow> (\<forall>r \<in> set es. open_event fp r \<longrightarrow> er_received_at r \<le> cutoff)"
    by (auto simp: filter_empty_conv not_less)
  finally show ?thesis .
qed

lemma oldest_open_Some:
  assumes "oldest_open fp cutoff es = Some r"
  shows "r \<in> set es" and "open_event fp r" and "cutoff < er_received_at r"
    and "\<And>x. x \<in> set es \<Longrightarrow> open_event fp x \<Longrightarrow> cutoff < er_received_at x
           \<Longrightarrow> er_received_at r \<le> er_received_at x"
proof -
  let ?c = "filter (\<lambda>r. open_event fp r \<and> cutoff < er_received_at r) es"
  obtain rest where srt: "sort_key er_received_at ?c = r # rest"
    using assms by (auto simp: oldest_open_def split: list.splits)
  have mem: "set ?c = set (r # rest)" by (metis set_sort srt)
  then have "r \<in> set ?c" by simp
  then show "r \<in> set es" "open_event fp r" "cutoff < er_received_at r" by auto
  show "er_received_at r \<le> er_received_at x"
    if "x \<in> set es" "open_event fp x" "cutoff < er_received_at x" for x
  proof -
    have "sorted (map er_received_at (r # rest))" by (metis sorted_sort_key srt)
    moreover have "x \<in> set (r # rest)" using that mem by auto
    ultimately show ?thesis by auto
  qed
qed

lemma admit_cases:
  assumes "admit dump window event s = Inr (a, s')"
  obtains
    (duplicate) r where
      "oldest_open (ev_fingerprint event) (dt_utc (ev_received_at event) - window) (events s) = Some r"
      "er_dedupe_count r + 1 \<le> pg_int_max"
      "a = \<lparr>adm_event_id = er_id r, adm_fingerprint = ev_fingerprint event,
            adm_dedupe_count = er_dedupe_count r + 1, adm_is_duplicate = True\<rparr>"
      "s' = s\<lparr>events := update_where (\<lambda>x. er_id x = er_id r)
                (\<lambda>x. x\<lparr>er_dedupe_count := er_dedupe_count x + 1\<rparr>) (events s)\<rparr>"
  | (fresh)
      "oldest_open (ev_fingerprint event) (dt_utc (ev_received_at event) - window) (events s) = None"
      "ev_id event \<notin> er_id ` set (events s)"
      "a = \<lparr>adm_event_id = ev_id event, adm_fingerprint = ev_fingerprint event,
            adm_dedupe_count = 1, adm_is_duplicate = False\<rparr>"
      "s' = s\<lparr>events := events s @ [new_event_row dump event]\<rparr>"
  using assms that
  by (auto simp: admit_def Let_def insert_event_Inr split: option.splits if_splits)

lemma events_check_count [simp]: "events_check (r\<lparr>er_dedupe_count := n\<rparr>) = events_check r"
  by (simp add: events_check_def events_source_known_def events_quarantine_invariant_def
      events_queue_state_paired_def)

lemma events_check_closed [simp]: "events_check (r\<lparr>er_window_closed_at := n\<rparr>) = events_check r"
  by (simp add: events_check_def events_source_known_def events_quarantine_invariant_def
      events_queue_state_paired_def)

lemma events_check_queued [simp]:
  "events_check r \<Longrightarrow> events_check (r\<lparr>er_queued_at := Some q, er_queue_message_id := Some m\<rparr>)"
  by (auto simp: events_check_def events_source_known_def events_quarantine_invariant_def
      events_queue_state_paired_def)

lemma actions_ok_events [simp]: "actions_ok (s\<lparr>events := es\<rparr>) = actions_ok s"
  by (simp add: actions_ok_def)

lemma db_ok_events_update:
  "db_ok s \<Longrightarrow> events_ok es \<Longrightarrow> db_ok (s\<lparr>events := es\<rparr>)"
  by (simp add: db_ok_def)

lemma admit_db_ok [inv_intros]:
  assumes "admit dump window event s = Inr (a, s')" and "db_ok s"
  shows "db_ok s'"
  using assms(1)
proof (cases rule: admit_cases)
  case (duplicate r)
  then show ?thesis
    using assms(2) by (auto intro!: events_ok_update simp: db_ok_def)
next
  case fresh
  then show ?thesis
    using assms(2) by (auto intro!: events_ok_append simp: db_ok_def)
qed

lemma quarantine_db_ok [inv_intros]:
  "quarantine i src t reason s = Inr s' \<Longrightarrow> db_ok s \<Longrightarrow> db_ok s'"
  by (auto simp: quarantine_def insert_event_Inr db_ok_def intro!: events_ok_append)

lemma mark_queued_db_ok [inv_intros]: "db_ok s \<Longrightarrow> db_ok (mark_queued i m t s)"
  unfolding mark_queued_def
  by (rule db_ok_events_update) (auto simp: db_ok_def intro!: events_ok_update)

lemma close_window_db_ok [inv_intros]:
  assumes "db_ok s"
  shows "db_ok (snd (close_window fp t s))"
proof -
  let ?close = "\<lambda>r. r\<lparr>er_window_closed_at := Some t\<rparr>"
  let ?ts = "fold close_ticket_on_window
               (map (\<lambda>r. (r, ?close r)) (filter (open_event fp) (events s))) (tickets s)"
  have "events_ok (update_where (open_event fp) ?close (events s))"
    using assms by (auto simp: db_ok_def intro!: events_ok_update)
  moreover have "tickets_ok ?ts"
    using assms by (auto simp: db_ok_def intro: tickets_ok_fold_close)
  moreover have "tk_id ` set ?ts = tk_id ` set (tickets s)"
    by (metis fold_close_ticket_ids image_set)
  ultimately show ?thesis
    using assms by (simp add: close_window_def Let_def db_ok_def actions_ok_def)
qed

section \<open>When the writes succeed\<close>

text \<open>Room for \<open>n\<close> more duplicates before a counter leaves its 32-bit column.\<close>

definition count_room :: "nat \<Rightarrow> db \<Rightarrow> bool" where
  "count_room n s \<longleftrightarrow> list_all (\<lambda>r. er_dedupe_count r + int n \<le> pg_int_max) (events s)"

definition fresh_id :: "uuid \<Rightarrow> db \<Rightarrow> bool" where
  "fresh_id i s \<longleftrightarrow> i \<notin> er_id ` set (events s)"

lemma admit_total:
  assumes "count_room (Suc n) s" and "fresh_id (ev_id event) s"
  shows "\<exists>a s'. admit dump window event s = Inr (a, s')"
proof (cases "oldest_open (ev_fingerprint event) (dt_utc (ev_received_at event) - window) (events s)")
  case None
  then show ?thesis using assms(2) by (simp add: admit_def Let_def insert_event_def fresh_id_def)
next
  case (Some r)
  then have "er_dedupe_count r + 1 \<le> pg_int_max"
    using oldest_open_Some(1)[OF Some] assms(1) by (auto simp: count_room_def list_all_iff)
  then show ?thesis using Some by (simp add: admit_def Let_def)
qed

lemma quarantine_total:
  assumes "fresh_id i s" and "src \<in> set (map source_value [GRAFANA, ALERTMANAGER, DATADOG, PAGERDUTY, GENERIC])"
  shows "\<exists>r. quarantine i src t reason s = Inr (s\<lparr>events := events s @ [r]\<rparr>)
           \<and> er_quarantined r \<and> er_id r = i \<and> er_quarantine_reason r = Some reason \<and> er_payload r = None"
  using assms by (auto simp: quarantine_def insert_event_def fresh_id_def events_check_def
      events_source_known_def events_quarantine_invariant_def events_queue_state_paired_def)

text \<open>The row \<open>admit\<close> answers for is in the table, not quarantined.\<close>

lemma admit_row:
  assumes "admit dump window event s = Inr (a, s')"
  shows "\<exists>r \<in> set (events s'). er_id r = adm_event_id a \<and> open_event (ev_fingerprint event) r
           \<and> er_dedupe_count r = adm_dedupe_count a"
  using assms
proof (cases rule: admit_cases)
  case (duplicate r)
  then show ?thesis
    using oldest_open_Some(1,2)[OF duplicate(1)]
    by (intro bexI[of _ "r\<lparr>er_dedupe_count := er_dedupe_count r + 1\<rparr>"])
      (auto simp: set_update_where open_event_def image_iff intro!: bexI[of _ r])
next
  case fresh
  then show ?thesis by (auto simp: open_event_def)
qed

lemma admit_room:
  assumes "admit dump window event s = Inr (a, s')" and "count_room (Suc n) s"
    and "1 + int n \<le> pg_int_max"
  shows "count_room n s'"
  using assms(1)
proof (cases rule: admit_cases)
  case (duplicate r)
  then show ?thesis using assms(2) by (auto simp: count_room_def list_all_iff set_update_where)
next
  case fresh
  then show ?thesis using assms(2,3) by (auto simp: count_room_def list_all_iff)
qed

lemma admit_fresh:
  assumes "admit dump window event s = Inr (a, s')" and "fresh_id i s" and "i \<noteq> ev_id event"
  shows "fresh_id i s'"
  using assms(1)
proof (cases rule: admit_cases)
  case (duplicate r)
  then show ?thesis using assms(2) by (simp add: fresh_id_def image_update_where)
next
  case fresh
  then show ?thesis using assms(2,3) by (auto simp: fresh_id_def)
qed

lemma mark_queued_keeps [simp]:
  "count_room n (mark_queued i m t s) = count_room n s"
  "fresh_id j (mark_queued i m t s) = fresh_id j s"
  by (simp_all add: count_room_def fresh_id_def mark_queued_def list_all_update_where
      image_update_where)

lemma close_window_keeps [simp]:
  "count_room n (snd (close_window fp t s)) = count_room n s"
  "fresh_id j (snd (close_window fp t s)) = fresh_id j s"
  by (simp_all add: count_room_def fresh_id_def close_window_def Let_def list_all_update_where
      image_update_where)

section \<open>The backfill of migration 0004\<close>

text \<open>
  Rows that predate the outbox are marked as offered, so that upgrading replays none of
  them. The two columns are new, so every row has them empty before.
\<close>

definition backfill_0004 :: "db \<Rightarrow> db" where
  "backfill_0004 s =
     s\<lparr>events := update_where (\<lambda>r. \<not> er_quarantined r)
         (\<lambda>r. r\<lparr>er_queued_at := Some (er_received_at r), er_queue_message_id := Some ''legacy-before-0004''\<rparr>)
         (events s)\<rparr>"

lemma backfill_no_replay: "pending_queue_event_ids limit (backfill_0004 s) = []"
proof -
  have "filter pending_row (events (backfill_0004 s)) = []"
    by (auto simp: backfill_0004_def filter_empty_conv pending_row_def set_update_where)
  then show ?thesis by (simp add: pending_queue_event_ids_def)
qed

lemma backfill_db_ok [inv_intros]: "db_ok s \<Longrightarrow> db_ok (backfill_0004 s)"
  unfolding backfill_0004_def
  by (rule db_ok_events_update, assumption, rule events_ok_update) (auto simp: db_ok_def)

end
