(* ===== verification/Dedupe.thy ===== *)
theory Dedupe
  imports Repository
begin

text \<open>
  The dedupe window of the Receiver. \<open>spec_admit\<close> and \<open>spec_close\<close> state the rule of
  the specification on a map from fingerprints to open windows: fifteen minutes from the
  first arrival, duplicates counted and not extending it, ended by a recovery. The locale
  \<open>dedupe_window\<close> is what a store must promise to implement that rule; inside it a whole
  sequence of deliveries and recoveries is shown to follow the specification. The
  interpretation \<open>pg\<close> discharges the promise for \<^verbatim>\<open>repository.admit\<close> and
  \<^verbatim>\<open>repository.close_window\<close> on the Postgres model.
\<close>

section \<open>The abstract rule\<close>

record incident_window =
  win_event :: uuid
  win_opened :: int
  win_count :: int

type_synonym windows = "string \<Rightarrow> incident_window option"

definition fresh_admission :: "AgentEvent \<Rightarrow> Admission" where
  "fresh_admission e = \<lparr>adm_event_id = ev_id e, adm_fingerprint = ev_fingerprint e,
     adm_dedupe_count = 1, adm_is_duplicate = False\<rparr>"

definition joined_admission :: "AgentEvent \<Rightarrow> incident_window \<Rightarrow> Admission" where
  "joined_admission e w = \<lparr>adm_event_id = win_event w, adm_fingerprint = ev_fingerprint e,
     adm_dedupe_count = win_count w + 1, adm_is_duplicate = True\<rparr>"

definition arrival :: "AgentEvent \<Rightarrow> int" where
  "arrival e = dt_utc (ev_received_at e)"

definition spec_admit :: "int \<Rightarrow> AgentEvent \<Rightarrow> windows \<Rightarrow> Admission \<times> windows" where
  "spec_admit W e m =
     (case m (ev_fingerprint e) of
        Some w \<Rightarrow>
          if arrival e < win_opened w + W
          then (joined_admission e w, m(ev_fingerprint e \<mapsto> w\<lparr>win_count := win_count w + 1\<rparr>))
          else (fresh_admission e,
                m(ev_fingerprint e \<mapsto> \<lparr>win_event = ev_id e, win_opened = arrival e, win_count = 1\<rparr>))
      | None \<Rightarrow>
          (fresh_admission e,
           m(ev_fingerprint e \<mapsto> \<lparr>win_event = ev_id e, win_opened = arrival e, win_count = 1\<rparr>)))"

definition spec_close :: "string \<Rightarrow> windows \<Rightarrow> windows" where
  "spec_close fp m = m(fp := None)"

definition in_order :: "AgentEvent \<Rightarrow> windows \<Rightarrow> bool" where
  "in_order e m \<longleftrightarrow> (case m (ev_fingerprint e) of None \<Rightarrow> True | Some w \<Rightarrow> win_opened w \<le> arrival e)"

text \<open>What the Receiver does to the windows: it delivers events and closes incidents.\<close>

datatype window_op = Deliver AgentEvent | Recover string int

fun spec_run :: "int \<Rightarrow> window_op list \<Rightarrow> windows \<Rightarrow> Admission list \<times> windows" where
  "spec_run W [] m = ([], m)"
| "spec_run W (Deliver e # ops) m =
     (let (a, m1) = spec_admit W e m; (as, m2) = spec_run W ops m1 in (a # as, m2))"
| "spec_run W (Recover fp t # ops) m = spec_run W ops (spec_close fp m)"

fun ops_in_order :: "int \<Rightarrow> window_op list \<Rightarrow> windows \<Rightarrow> bool" where
  "ops_in_order W [] m = True"
| "ops_in_order W (Deliver e # ops) m =
     (in_order e m \<and> ops_in_order W ops (snd (spec_admit W e m)))"
| "ops_in_order W (Recover fp t # ops) m = ops_in_order W ops (spec_close fp m)"

fun store_run ::
  "(AgentEvent \<Rightarrow> 's \<Rightarrow> (Admission \<times> 's) result) \<Rightarrow> (string \<Rightarrow> int \<Rightarrow> 's \<Rightarrow> 's)
     \<Rightarrow> window_op list \<Rightarrow> 's \<Rightarrow> (Admission list \<times> 's) result" where
  "store_run dlv cls [] s = Inr ([], s)"
| "store_run dlv cls (Deliver e # ops) s =
     res_bind (dlv e s) (\<lambda>(a, s1).
       res_bind (store_run dlv cls ops s1) (\<lambda>(as, s2). Inr (a # as, s2)))"
| "store_run dlv cls (Recover fp t # ops) s = store_run dlv cls ops (cls fp t s)"

locale dedupe_window =
  fixes W :: int
    and deliver :: "AgentEvent \<Rightarrow> 's \<Rightarrow> (Admission \<times> 's) result"
    and recover :: "string \<Rightarrow> int \<Rightarrow> 's \<Rightarrow> 's"
    and view :: "'s \<Rightarrow> windows"
    and invar :: "'s \<Rightarrow> bool"
  assumes deliver_refines:
      "invar s \<Longrightarrow> in_order e (view s) \<Longrightarrow> deliver e s = Inr (a, s')
         \<Longrightarrow> (a, view s') = spec_admit W e (view s)"
    and deliver_invar: "invar s \<Longrightarrow> deliver e s = Inr (a, s') \<Longrightarrow> invar s'"
    and recover_refines: "invar s \<Longrightarrow> view (recover fp t s) = spec_close fp (view s)"
    and recover_invar: "invar s \<Longrightarrow> invar (recover fp t s)"
begin

lemma run_refines:
  assumes "invar s" and "ops_in_order W ops (view s)"
    and "store_run deliver recover ops s = Inr (as, s')"
  shows "(as, view s') = spec_run W ops (view s) \<and> invar s'"
  using assms
proof (induction ops arbitrary: s as)
  case Nil
  then show ?case by simp
next
  case (Cons op ops)
  show ?case
  proof (cases op)
    case (Deliver e)
    from Cons.prems(3) obtain a s1 as' where
        d: "deliver e s = Inr (a, s1)" and r: "store_run deliver recover ops s1 = Inr (as', s')"
        and as: "as = a # as'"
      by (auto simp: Deliver)
    have sp: "spec_admit W e (view s) = (a, view s1)"
      using deliver_refines[OF Cons.prems(1) _ d] Cons.prems(2) by (simp add: Deliver)
    have "(as', view s') = spec_run W ops (view s1) \<and> invar s'"
      using Cons.IH[OF deliver_invar[OF Cons.prems(1) d] _ r] Cons.prems(2) sp by (simp add: Deliver)
    then show ?thesis by (auto simp: Deliver as sp Let_def split: prod.splits)
  next
    case (Recover fp t)
    then show ?thesis
      using Cons.IH[OF recover_invar[OF Cons.prems(1)]] Cons.prems recover_refines by simp
  qed
qed

end

section \<open>The invariant of the events table\<close>

definition windows_spaced :: "int \<Rightarrow> event_row list \<Rightarrow> bool" where
  "windows_spaced W es \<longleftrightarrow>
     (\<forall>fp. sorted_wrt (\<lambda>a b. er_received_at a + W \<le> er_received_at b) (filter (open_event fp) es))"

definition row_window :: "event_row \<Rightarrow> incident_window" where
  "row_window r = \<lparr>win_event = er_id r, win_opened = er_received_at r, win_count = er_dedupe_count r\<rparr>"

text \<open>The window of a fingerprint is its newest open row.\<close>

definition table_windows :: "event_row list \<Rightarrow> windows" where
  "table_windows es fp =
     (let rs = filter (open_event fp) es in if rs = [] then None else Some (row_window (last rs)))"

lemma open_event_count [simp]: "open_event fp (r\<lparr>er_dedupe_count := n\<rparr>) = open_event fp r"
  by (simp add: open_event_def)

lemma open_event_queued [simp]:
  "open_event fp (r\<lparr>er_queued_at := q, er_queue_message_id := m\<rparr>) = open_event fp r"
  by (simp add: open_event_def)

lemma open_event_closed [simp]: "\<not> open_event fp (r\<lparr>er_window_closed_at := Some t\<rparr>)"
  by (simp add: open_event_def)

lemma open_event_new [simp]:
  "open_event fp (new_event_row dump e) \<longleftrightarrow> fp = ev_fingerprint e"
  by (auto simp: open_event_def)

lemma open_event_unique_fp: "open_event fp r \<Longrightarrow> open_event fp' r \<longleftrightarrow> fp' = fp"
  by (auto simp: open_event_def)

lemma windows_spaced_update:
  assumes "windows_spaced W es"
    and "\<And>r fp. p r \<Longrightarrow> open_event fp (f r) = open_event fp r"
    and "\<And>r. p r \<Longrightarrow> er_received_at (f r) = er_received_at r"
  shows "windows_spaced W (update_where p f es)"
proof -
  have "sorted_wrt (\<lambda>a b. er_received_at a + W \<le> er_received_at b) (update_where p f xs)
      = sorted_wrt (\<lambda>a b. er_received_at a + W \<le> er_received_at b) xs" for xs
  proof -
    have "er_received_at (if p r then f r else r) = er_received_at r" for r
      using assms(3) by simp
    then show ?thesis by (simp add: update_where_def sorted_wrt_map)
  qed
  moreover have "filter (open_event fp) (update_where p f es) = update_where p f (filter (open_event fp) es)"
    for fp
    by (rule filter_update_where_same) (use assms(2) in auto)
  ultimately show ?thesis using assms(1) by (simp add: windows_spaced_def)
qed

lemma filter_open_close:
  "filter (open_event fp') (update_where (open_event fp) (\<lambda>r. r\<lparr>er_window_closed_at := Some t\<rparr>) es)
     = (if fp' = fp then [] else filter (open_event fp') es)"
  by (induction es) (auto simp: open_event_unique_fp)

lemma admit_spaced [inv_intros]:
  assumes "admit dump W e s = Inr (a, s')" and "windows_spaced W (events s)"
  shows "windows_spaced W (events s')"
  using assms(1)
proof (cases rule: admit_cases)
  case (duplicate r)
  then show ?thesis using assms(2) by (auto intro!: windows_spaced_update)
next
  case fresh
  have "\<forall>r \<in> set (events s). open_event (ev_fingerprint e) r \<longrightarrow> er_received_at r + W \<le> arrival e"
    using fresh(1) by (auto simp: oldest_open_None arrival_def)
  then show ?thesis
    using fresh(4) assms(2) by (auto simp: windows_spaced_def sorted_wrt_append arrival_def)
qed

lemma quarantine_open [simp]:
  "quarantine i src t reason s = Inr s' \<Longrightarrow>
     filter (open_event fp) (events s') = filter (open_event fp) (events s)"
  by (auto simp: quarantine_def insert_event_Inr open_event_def)

lemma quarantine_spaced [inv_intros]:
  "quarantine i src t reason s = Inr s' \<Longrightarrow> windows_spaced W (events s) \<Longrightarrow> windows_spaced W (events s')"
  by (simp add: windows_spaced_def)

lemma mark_queued_spaced [inv_intros]:
  "windows_spaced W (events s) \<Longrightarrow> windows_spaced W (events (mark_queued i m t s))"
  unfolding mark_queued_def by (simp add: windows_spaced_update)

lemma close_window_events:
  "events (snd (close_window fp t s))
     = update_where (open_event fp) (\<lambda>r. r\<lparr>er_window_closed_at := Some t\<rparr>) (events s)"
  by (simp add: close_window_def Let_def)

lemma close_window_spaced [inv_intros]:
  "windows_spaced W (events s) \<Longrightarrow> windows_spaced W (events (snd (close_window fp t s)))"
  by (simp add: windows_spaced_def close_window_events filter_open_close)

section \<open>Refinement\<close>

text \<open>With in-order arrival the row \<open>admit\<close> picks is the newest open one.\<close>

lemma oldest_open_is_last:
  assumes "windows_spaced W es" and rs: "filter (open_event fp) es = rs @ [l]"
    and "er_received_at l \<le> t"
  shows "oldest_open fp (t - W) es = (if t < er_received_at l + W then Some l else None)"
proof -
  have old: "er_received_at r + W \<le> er_received_at l" if "r \<in> set rs" for r
    using assms(1) rs that unfolding windows_spaced_def by (metis list.set_intros(1) sorted_wrt_append)
  have "filter (\<lambda>r. open_event fp r \<and> t - W < er_received_at r) es
      = filter (\<lambda>r. t - W < er_received_at r) (filter (open_event fp) es)"
    by (simp add: conj_commute)
  also have "\<dots> = (if t < er_received_at l + W then [l] else [])"
    using old assms(3) by (fastforce simp: rs filter_empty_conv)
  finally show ?thesis by (simp add: oldest_open_def)
qed

lemma table_windows_Some:
  assumes "filter (open_event fp) es = rs @ [l]"
  shows "table_windows es fp = Some (row_window l)"
proof -
  have "filter (open_event fp) es \<noteq> []" and "last (filter (open_event fp) es) = l"
    using assms by auto
  then show ?thesis by (simp add: table_windows_def)
qed

lemma table_windows_None:
  "filter (open_event fp) es = [] \<Longrightarrow> table_windows es fp = None"
  by (simp add: table_windows_def)

text \<open>Counting a row that is the newest of its fingerprint counts its window, no other.\<close>

lemma last_update_where: "xs \<noteq> [] \<Longrightarrow> last (update_where p f xs) = (if p (last xs) then f (last xs) else last xs)"
  by (cases xs rule: rev_cases) auto

lemma table_windows_count:
  assumes "distinct (map er_id es)" and rs: "filter (open_event fp) es = rs @ [l]"
  shows "table_windows (update_where (\<lambda>x. er_id x = er_id l)
           (\<lambda>x. x\<lparr>er_dedupe_count := er_dedupe_count x + 1\<rparr>) es)
         = (table_windows es)(fp \<mapsto> (row_window l)\<lparr>win_count := win_count (row_window l) + 1\<rparr>)"
    (is "table_windows ?es' = _")
proof
  fix fp'
  let ?upd = "update_where (\<lambda>x. er_id x = er_id l) (\<lambda>x. x\<lparr>er_dedupe_count := er_dedupe_count x + 1\<rparr>)"
  have flt: "filter (open_event g) ?es' = ?upd (filter (open_event g) es)" for g
    by (rule filter_update_where_same) simp
  have l: "l \<in> set es" "open_event fp l"
    using rs by (metis in_set_conv_decomp mem_Collect_eq set_filter)+
  have other: "er_id x \<noteq> er_id l" if "x \<in> set es" "open_event g x" "g \<noteq> fp" for x g
    using that l assms(1) by (metis distinct_map inj_onD open_event_unique_fp)
  show "table_windows ?es' fp' = ((table_windows es)(fp \<mapsto> (row_window l)\<lparr>win_count := win_count (row_window l) + 1\<rparr>)) fp'"
  proof (cases "fp' = fp")
    case True
    then show ?thesis
      using flt[of fp] rs by (simp add: table_windows_def row_window_def)
  next
    case False
    have "?upd (filter (open_event fp') es) = filter (open_event fp') es"
      by (rule update_where_none) (use other False in auto)
    with False flt[of fp'] show ?thesis by (simp add: table_windows_def)
  qed
qed

lemma table_windows_new:
  "table_windows (es @ [new_event_row dump e])
     = (table_windows es)(ev_fingerprint e \<mapsto> \<lparr>win_event = ev_id e, win_opened = arrival e, win_count = 1\<rparr>)"
  by (rule ext) (auto simp: table_windows_def row_window_def arrival_def Let_def)

lemma admit_refines:
  assumes ok: "db_ok s" and spaced: "windows_spaced W (events s)"
    and ord: "in_order e (table_windows (events s))"
    and adm: "admit dump W e s = Inr (a, s')"
  shows "(a, table_windows (events s')) = spec_admit W e (table_windows (events s))"
proof (cases "filter (open_event (ev_fingerprint e)) (events s)" rule: rev_cases)
  case Nil
  then have "oldest_open (ev_fingerprint e) (arrival e - W) (events s) = None"
    by (auto simp: oldest_open_None filter_empty_conv)
  then have "a = fresh_admission e" and "events s' = events s @ [new_event_row dump e]"
    using adm by (auto simp: admit_def Let_def insert_event_Inr arrival_def fresh_admission_def)
  then show ?thesis
    using Nil by (simp add: spec_admit_def table_windows_None table_windows_new)
next
  case (snoc rs l)
  have m: "table_windows (events s) (ev_fingerprint e) = Some (row_window l)"
    by (rule table_windows_Some[OF snoc])
  have "er_received_at l \<le> arrival e"
    using ord m by (simp add: in_order_def row_window_def)
  then have old: "oldest_open (ev_fingerprint e) (arrival e - W) (events s)
      = (if arrival e < er_received_at l + W then Some l else None)"
    by (rule oldest_open_is_last[OF spaced snoc])
  show ?thesis
  proof (cases "arrival e < er_received_at l + W")
    case True
    then have "a = joined_admission e (row_window l)"
      and ev: "events s' = update_where (\<lambda>x. er_id x = er_id l)
                (\<lambda>x. x\<lparr>er_dedupe_count := er_dedupe_count x + 1\<rparr>) (events s)"
      using adm old by (auto simp: admit_def Let_def arrival_def joined_admission_def row_window_def
          split: if_splits)
    moreover have "distinct (map er_id (events s))" using ok by (simp add: db_ok_def events_ok_def)
    ultimately show ?thesis
      using True m by (simp add: spec_admit_def ev table_windows_count[OF _ snoc])
        (simp add: row_window_def)
  next
    case False
    then have "a = fresh_admission e" and "events s' = events s @ [new_event_row dump e]"
      using adm old by (auto simp: admit_def Let_def insert_event_Inr arrival_def fresh_admission_def)
    then show ?thesis
      using False m by (simp add: spec_admit_def table_windows_new) (simp add: row_window_def)
  qed
qed

lemma close_window_refines:
  "table_windows (events (snd (close_window fp t s))) = spec_close fp (table_windows (events s))"
  by (rule ext) (simp add: table_windows_def close_window_events filter_open_close spec_close_def)

interpretation pg: dedupe_window DEDUPE_WINDOW "admit dump DEDUPE_WINDOW"
  "\<lambda>fp t s. snd (close_window fp t s)" "\<lambda>s. table_windows (events s)"
  "\<lambda>s. db_ok s \<and> windows_spaced DEDUPE_WINDOW (events s)"
  for dump
  by unfold_locales
    (auto intro: admit_refines close_window_refines inv_intros dest: admit_db_ok admit_spaced)

section \<open>Storms\<close>

text \<open>One open row of a fingerprint absorbs every delivery that arrives before its window ends.\<close>

lemma admit_joins:
  assumes ok: "db_ok s" and r: "filter (open_event (ev_fingerprint e)) (events s) = [r]"
    and t: "arrival e < er_received_at r + W" and room: "er_dedupe_count r < pg_int_max"
  shows "\<exists>s'. admit dump W e s = Inr (joined_admission e (row_window r), s')
           \<and> db_ok s' \<and> length (events s') = length (events s)
           \<and> filter (open_event (ev_fingerprint e)) (events s')
               = [r\<lparr>er_dedupe_count := er_dedupe_count r + 1\<rparr>]"
proof -
  let ?f = "\<lambda>x. x\<lparr>er_dedupe_count := er_dedupe_count x + 1\<rparr>"
  let ?s' = "s\<lparr>events := update_where (\<lambda>x. er_id x = er_id r) ?f (events s)\<rparr>"
  have "filter (\<lambda>x. open_event (ev_fingerprint e) x \<and> arrival e - W < er_received_at x) (events s)
      = filter (\<lambda>x. arrival e - W < er_received_at x) (filter (open_event (ev_fingerprint e)) (events s))"
    by (simp add: conj_commute)
  then have "oldest_open (ev_fingerprint e) (arrival e - W) (events s) = Some r"
    using t by (simp add: oldest_open_def r)
  then have adm: "admit dump W e s = Inr (joined_admission e (row_window r), ?s')"
    using room by (simp add: admit_def Let_def arrival_def joined_admission_def row_window_def)
  have "filter (open_event (ev_fingerprint e)) (events ?s')
      = update_where (\<lambda>x. er_id x = er_id r) ?f (filter (open_event (ev_fingerprint e)) (events s))"
    by (simp add: filter_update_where_same)
  then have flt: "filter (open_event (ev_fingerprint e)) (events ?s') = [?f r]" by (simp add: r)
  show ?thesis
    using adm flt admit_db_ok[OF adm ok] by (intro exI[of _ ?s']) simp
qed

abbreviation pg_run where
  "pg_run dump \<equiv> store_run (admit dump DEDUPE_WINDOW) (\<lambda>fp t s. snd (close_window fp t s))"

lemma storm_joins:
  assumes "db_ok s" and "filter (open_event fp) (events s) = [r]"
    and "\<forall>e \<in> set es. ev_fingerprint e = fp \<and> arrival e < er_received_at r + DEDUPE_WINDOW"
    and "er_dedupe_count r + int (length es) \<le> pg_int_max"
  shows "\<exists>as s'. pg_run dump (map Deliver es) s = Inr (as, s')
           \<and> map adm_event_id as = replicate (length es) (er_id r)
           \<and> list_all adm_is_duplicate as
           \<and> length (events s') = length (events s)
           \<and> filter (open_event fp) (events s')
               = [r\<lparr>er_dedupe_count := er_dedupe_count r + int (length es)\<rparr>]"
  using assms
proof (induction es arbitrary: s r)
  case Nil
  then show ?case by simp
next
  case (Cons e es)
  from Cons.prems have fp: "ev_fingerprint e = fp" by simp
  have "\<exists>s1. admit dump DEDUPE_WINDOW e s = Inr (joined_admission e (row_window r), s1)
           \<and> db_ok s1 \<and> length (events s1) = length (events s)
           \<and> filter (open_event fp) (events s1) = [r\<lparr>er_dedupe_count := er_dedupe_count r + 1\<rparr>]"
    using admit_joins[of s e r DEDUPE_WINDOW dump] Cons.prems fp by simp
  then obtain s1 where adm: "admit dump DEDUPE_WINDOW e s = Inr (joined_admission e (row_window r), s1)"
    and ok: "db_ok s1" and len: "length (events s1) = length (events s)"
    and r1: "filter (open_event fp) (events s1) = [r\<lparr>er_dedupe_count := er_dedupe_count r + 1\<rparr>]"
    by blast
  from Cons.IH[OF ok r1] Cons.prems(3,4) obtain as s' where
      "pg_run dump (map Deliver es) s1 = Inr (as, s')"
      "map adm_event_id as = replicate (length es) (er_id r)" "list_all adm_is_duplicate as"
      "length (events s') = length (events s1)"
      "filter (open_event fp) (events s') = [r\<lparr>er_dedupe_count := er_dedupe_count r + 1 + int (length es)\<rparr>]"
    by auto
  with adm len show ?case
    by (simp add: joined_admission_def row_window_def algebra_simps)
qed

lemma admit_first:
  assumes "db_ok s" and "filter (open_event (ev_fingerprint e)) (events s) = []"
    and "ev_id e \<notin> er_id ` set (events s)"
  shows "admit dump W e s
           = Inr (fresh_admission e, s\<lparr>events := events s @ [new_event_row dump e]\<rparr>)"
proof -
  have "oldest_open (ev_fingerprint e) (arrival e - W) (events s) = None"
    using assms(2) by (auto simp: oldest_open_None filter_empty_conv)
  then show ?thesis
    using assms(3) by (simp add: admit_def Let_def arrival_def insert_event_def fresh_admission_def)
qed

text \<open>Closing twice closes nothing the second time.\<close>

lemma close_window_count: "fst (close_window fp t s) = length (filter (open_event fp) (events s))"
  by (simp add: close_window_def Let_def)

lemma close_window_again: "fst (close_window fp t' (snd (close_window fp t s))) = 0"
  by (simp add: close_window_count close_window_events filter_open_close)

text \<open>The trigger: once a window of \<open>fp\<close> closes, no ticket of \<open>fp\<close> is open.\<close>

lemma close_ticket_closes:
  assumes "open_event fp r"
  shows "filter (open_ticket fp)
           (close_ticket_on_window (r, r\<lparr>er_window_closed_at := Some t\<rparr>) ts) = []"
  using assms unfolding close_ticket_on_window_def
  by (simp add: open_event_def) (rule filter_update_where_gone; simp add: open_ticket_def)

lemma close_ticket_keeps_closed:
  assumes "filter (open_ticket fp) ts = []"
  shows "filter (open_ticket fp) (close_ticket_on_window row ts) = []"
proof (cases "er_window_closed_at (fst row) = None \<and> er_window_closed_at (snd row) \<noteq> None")
  case True
  then show ?thesis
    using assms unfolding close_ticket_on_window_def
    by (simp add: case_prod_beta) (rule filter_update_where_shrink; simp add: open_ticket_def)
next
  case False
  then show ?thesis using assms by (auto simp: close_ticket_on_window_def case_prod_beta)
qed

lemma fold_close_keeps_closed:
  "filter (open_ticket fp) ts = [] \<Longrightarrow> filter (open_ticket fp) (fold close_ticket_on_window rows ts) = []"
  by (induction rows arbitrary: ts) (auto simp: close_ticket_keeps_closed)

lemma close_window_closes_ticket:
  assumes "0 < fst (close_window fp t s)"
  shows "filter (open_ticket fp) (tickets (snd (close_window fp t s))) = []"
proof -
  obtain r rs where "filter (open_event fp) (events s) = r # rs"
    using assms by (auto simp: close_window_count neq_Nil_conv)
  moreover from this have "open_event fp r"
    by (metis filter_eq_ConsD)
  ultimately show ?thesis
    by (simp add: close_window_def Let_def close_ticket_closes fold_close_keeps_closed)
qed

lemma close_ticket_other:
  assumes "er_fingerprint (snd row) = Some fp" and "fp' \<noteq> fp"
  shows "filter (open_ticket fp') (close_ticket_on_window row ts) = filter (open_ticket fp') ts"
  using assms unfolding close_ticket_on_window_def
  by (simp add: case_prod_beta) (auto intro!: filter_update_where_disjoint simp: open_ticket_def)

lemma fold_close_other:
  assumes "\<And>row. row \<in> set rows \<Longrightarrow> er_fingerprint (snd row) = Some fp" and "fp' \<noteq> fp"
  shows "filter (open_ticket fp') (fold close_ticket_on_window rows ts) = filter (open_ticket fp') ts"
  using assms(1)
proof (induction rows arbitrary: ts)
  case (Cons row rows)
  then show ?case using close_ticket_other[OF _ assms(2), of row ts] by simp
qed simp

lemma close_window_other_tickets:
  assumes "fp' \<noteq> fp"
  shows "filter (open_ticket fp') (tickets (snd (close_window fp t s)))
           = filter (open_ticket fp') (tickets s)"
proof -
  have "filter (open_ticket fp') (fold close_ticket_on_window
          (map (\<lambda>r. (r, r\<lparr>er_window_closed_at := Some t\<rparr>)) (filter (open_event fp) (events s)))
          (tickets s)) = filter (open_ticket fp') (tickets s)"
    by (rule fold_close_other[OF _ assms]) (auto simp: open_event_def)
  then show ?thesis by (simp add: close_window_def Let_def)
qed

end
