(* ===== verification/Delivery.thy ===== *)
theory Delivery
  imports Repository "HOL-Library.Multiset"
begin

text \<open>
  The durable outbox, \<^verbatim>\<open>queue/producer.py\<close> and \<^verbatim>\<open>receiver/delivery.py\<close>.

  Redis is outside the program: what the model keeps of it is the log of the \<^verbatim>\<open>XADD\<close>
  calls it acknowledged (\<open>xadd_call\<close>) and, for every dispatch, what the two services
  answered (\<open>dispatch_io\<close>): the database is unreachable, Redis refuses, Redis
  acknowledges but the transaction that stores the receipt fails (or the reply of
  \<^verbatim>\<open>XADD\<close> is lost), the commit of the receipt succeeds but the connection is lost
  before it is confirmed, or both succeed.
\<close>

record codec =
  cd_dump :: dumper
  cd_load :: loader

record xadd_call =
  xa_id :: string
  xa_stream :: string
  xa_fields :: "(string \<times> string) list"
  xa_maxlen :: nat
  xa_approximate :: bool

record world =
  w_db :: db
  w_xadds :: "xadd_call list"

datatype dispatch_io =
    DbDown py_error
  | RedisDown py_error
  | ReceiptLost string py_error
  | ReceiptUnknown string int py_error
  | Acked string int

definition STREAM :: string where
  "STREAM = ''agentevents''"

definition MAX_STREAM_LENGTH :: nat where
  "MAX_STREAM_LENGTH = 100000"

text \<open>\<open>publish\<close> with the reply of Redis: the call it made when Redis acknowledged it.\<close>

definition publish :: "dumper \<Rightarrow> string result \<Rightarrow> AgentEvent \<Rightarrow> (string \<times> xadd_call) result" where
  "publish dump reply event =
     res_bind reply (\<lambda>message_id.
       Inr (message_id,
         \<lparr>xa_id = message_id, xa_stream = STREAM, xa_fields = [(''event'', dump event)],
          xa_maxlen = MAX_STREAM_LENGTH, xa_approximate = True\<rparr>))"

fun xadd_reply :: "dispatch_io \<Rightarrow> string result" where
  "xadd_reply (DbDown e) = Inl e"
| "xadd_reply (RedisDown e) = Inl e"
| "xadd_reply (ReceiptLost m e) = Inr m"
| "xadd_reply (ReceiptUnknown m t e) = Inr m"
| "xadd_reply (Acked m t) = Inr m"

text \<open>
  One transaction. An exception rolls back the receipt, never the \<^verbatim>\<open>XADD\<close>: a
  \<open>ReceiptLost\<close> dispatch leaves the row pending and the message in the stream, a
  \<open>ReceiptUnknown\<close> one raises although the receipt is stored.
\<close>

definition dispatch_event ::
  "codec \<Rightarrow> dispatch_io \<Rightarrow> uuid \<Rightarrow> world \<Rightarrow> string option result \<times> world" where
  "dispatch_event cd io event_id w =
     (case io of DbDown e \<Rightarrow> (Inl e, w) | _ \<Rightarrow>
       (case event_for_queue (cd_load cd) event_id (w_db w) of
          Inl e \<Rightarrow> (Inl e, w)
        | Inr None \<Rightarrow> (Inr None, w)
        | Inr (Some (event, Some existing)) \<Rightarrow> (Inr (Some existing), w)
        | Inr (Some (event, None)) \<Rightarrow>
            (case publish (cd_dump cd) (xadd_reply io) event of
               Inl e \<Rightarrow> (Inl e, w)
             | Inr (message_id, call) \<Rightarrow>
                 (let w' = w\<lparr>w_xadds := w_xadds w @ [call]\<rparr> in
                  case io of
                    Acked _ now \<Rightarrow>
                      (Inr (Some message_id),
                       w'\<lparr>w_db := mark_queued event_id message_id now (w_db w)\<rparr>)
                  | ReceiptLost _ e \<Rightarrow> (Inl e, w')
                  | ReceiptUnknown _ now e \<Rightarrow>
                      (Inl e, w'\<lparr>w_db := mark_queued event_id message_id now (w_db w)\<rparr>)
                  | _ \<Rightarrow> (Inr None, w')))))"

text \<open>The loop of \<open>dispatch_pending\<close>: \<open>io k\<close> is what the \<open>k\<close>-th dispatch meets.\<close>

fun dispatch_all ::
  "codec \<Rightarrow> (nat \<Rightarrow> dispatch_io) \<Rightarrow> uuid list \<Rightarrow> world \<Rightarrow> unit result \<times> world" where
  "dispatch_all cd io [] w = (Inr (), w)"
| "dispatch_all cd io (i # is) w =
     (case dispatch_event cd (io 0) i w of
        (Inl e, w') \<Rightarrow> (Inl e, w')
      | (Inr _, w') \<Rightarrow> dispatch_all cd (\<lambda>k. io (Suc k)) is w')"

definition dispatch_pending ::
  "codec \<Rightarrow> (nat \<Rightarrow> dispatch_io) \<Rightarrow> nat \<Rightarrow> world \<Rightarrow> nat result \<times> world" where
  "dispatch_pending cd io limit w =
     (let event_ids = pending_queue_event_ids limit (w_db w) in
      case dispatch_all cd io event_ids w of
        (Inl e, w') \<Rightarrow> (Inl e, w')
      | (Inr _, w') \<Rightarrow> (Inr (length event_ids), w'))"

definition pending_count :: "world \<Rightarrow> nat" where
  "pending_count w = pending_queue_count (w_db w)"

definition IDLE_MICROS :: nat where "IDLE_MICROS = 250000"
definition RETRY_MICROS :: nat where "RETRY_MICROS = 1000000"

text \<open>
  One turn of the background loop: how long it sleeps, and the world it leaves. An
  exception never ends the loop.
\<close>

definition outbox_turn :: "codec \<Rightarrow> (nat \<Rightarrow> dispatch_io) \<Rightarrow> world \<Rightarrow> nat \<times> world" where
  "outbox_turn cd io w =
     (case dispatch_pending cd io 100 w of
        (Inl e, w') \<Rightarrow> (RETRY_MICROS, w')
      | (Inr visited, w') \<Rightarrow> (if visited = 0 then IDLE_MICROS else 0, w'))"

fun outbox_turns :: "codec \<Rightarrow> (nat \<Rightarrow> nat \<Rightarrow> dispatch_io) \<Rightarrow> nat \<Rightarrow> world \<Rightarrow> world" where
  "outbox_turns cd io 0 w = w"
| "outbox_turns cd io (Suc n) w = outbox_turns cd (\<lambda>k. io (Suc k)) n (snd (outbox_turn cd (io 0) w))"

text \<open>An \<open>asyncio.Task\<close> as the health surfaces see it.\<close>

datatype task_state = TaskRunning | TaskCancelled | TaskExited | TaskFailed py_error

fun outbox_status :: "task_state \<Rightarrow> string" where
  "outbox_status TaskRunning = ''ok''"
| "outbox_status TaskCancelled = ''dead: cancelled''"
| "outbox_status TaskExited = ''dead: exited''"
| "outbox_status (TaskFailed e) = ''dead: '' @ err_class e"

section \<open>One dispatch\<close>

lemma event_for_queue_row:
  assumes "event_for_queue ld i s = Inr (Some (ev, m))"
  obtains r p where "r \<in> set (events s)" and "er_id r = i" and "\<not> er_quarantined r"
    and "er_payload r = Some p" and "ld p = Inr ev" and "er_queue_message_id r = m"
  using assms unfolding event_for_queue_def
  by (auto split: option.splits dest!: find_Some_iff_hd)

lemma event_for_queue_of_row:
  assumes "distinct (map er_id (events s))" and "r \<in> set (events s)" and "\<not> er_quarantined r"
    and "er_payload r = Some p"
  shows "event_for_queue ld (er_id r) s = res_bind (ld p) (\<lambda>ev. Inr (Some (ev, er_queue_message_id r)))"
proof -
  have "find (\<lambda>x. er_id x = er_id r \<and> \<not> er_quarantined x) (events s) = Some r"
    using assms(1-3) by (rule find_distinct_key_and)
  then show ?thesis using assms(4) by (simp add: event_for_queue_def)
qed

text \<open>A row with a receipt is never published again.\<close>

lemma dispatch_receipted:
  assumes "event_for_queue (cd_load cd) i (w_db w) = Inr (Some (ev, Some m))"
  shows "snd (dispatch_event cd io i w) = w"
  using assms by (cases io) (simp_all add: dispatch_event_def)

lemma dispatch_acked:
  assumes "event_for_queue (cd_load cd) i (w_db w) = Inr (Some (ev, None))"
  shows "dispatch_event cd (Acked m t) i w =
           (Inr (Some m),
            \<lparr>w_db = mark_queued i m t (w_db w),
             w_xadds = w_xadds w @ [snd (projr (publish (cd_dump cd) (Inr m) ev))]\<rparr>)"
  using assms by (simp add: dispatch_event_def publish_def Let_def)

lemma dispatch_event_cases:
  obtains
    (same) "snd (dispatch_event cd io i w) = w"
  | (lost) m e ev where "io = ReceiptLost m e"
      "event_for_queue (cd_load cd) i (w_db w) = Inr (Some (ev, None))"
      "dispatch_event cd io i w = (Inl e,
         w\<lparr>w_xadds := w_xadds w @ [snd (projr (publish (cd_dump cd) (Inr m) ev))]\<rparr>)"
  | (acked) m t ev where "event_for_queue (cd_load cd) i (w_db w) = Inr (Some (ev, None))"
      "snd (dispatch_event cd io i w) =
         \<lparr>w_db = mark_queued i m t (w_db w),
          w_xadds = w_xadds w @ [snd (projr (publish (cd_dump cd) (Inr m) ev))]\<rparr>"
proof -
  consider (none) "event_for_queue (cd_load cd) i (w_db w) = Inr None"
    | (err) e where "event_for_queue (cd_load cd) i (w_db w) = Inl e"
    | (receipt) ev m where "event_for_queue (cd_load cd) i (w_db w) = Inr (Some (ev, Some m))"
    | (pending) ev where "event_for_queue (cd_load cd) i (w_db w) = Inr (Some (ev, None))"
    by (metis not_None_eq obj_sumE surj_pair)
  then show thesis
  proof cases
    case none
    then show ?thesis by (intro same) (cases io; simp add: dispatch_event_def)
  next
    case err
    then show ?thesis by (intro same) (cases io; simp add: dispatch_event_def)
  next
    case receipt
    then show ?thesis by (intro same dispatch_receipted)
  next
    case pending
    note defs = dispatch_event_def publish_def Let_def
    show ?thesis
    proof (cases io)
      case (ReceiptLost m e)
      then show ?thesis using pending by (intro lost) (simp_all add: defs)
    next
      case (ReceiptUnknown m t e)
      then show ?thesis using pending by (intro acked[of ev m t]) (simp_all add: defs)
    next
      case (Acked m t)
      then show ?thesis using pending by (intro acked[of ev m t]) (simp_all add: defs)
    qed (use pending in \<open>auto intro: same simp: defs\<close>)
  qed
qed

lemma publish_ok [simp]:
  "projr (publish dump (Inr m) ev) =
     (m, \<lparr>xa_id = m, xa_stream = STREAM, xa_fields = [(''event'', dump ev)],
          xa_maxlen = MAX_STREAM_LENGTH, xa_approximate = True\<rparr>)"
  by (simp add: publish_def)

lemma dispatch_db_ok [inv_intros]:
  "db_ok (w_db w) \<Longrightarrow> db_ok (w_db (snd (dispatch_event cd io i w)))"
  by (cases cd io i w rule: dispatch_event_cases) (simp_all add: mark_queued_db_ok)

text \<open>A dispatch appends at most one call to the stream.\<close>

lemma dispatch_appends:
  "\<exists>cs. w_xadds (snd (dispatch_event cd io i w)) = w_xadds w @ cs \<and> length cs \<le> 1"
  by (cases cd io i w rule: dispatch_event_cases) auto

section \<open>Receipts are backed by the stream\<close>

definition call_for :: "codec \<Rightarrow> event_row \<Rightarrow> string \<Rightarrow> xadd_call \<Rightarrow> bool" where
  "call_for cd r m c \<longleftrightarrow>
     xa_id c = m \<and> xa_stream c = STREAM
     \<and> (case er_payload r of None \<Rightarrow> False
        | Some p \<Rightarrow> (case cd_load cd p of Inl _ \<Rightarrow> False
                    | Inr ev \<Rightarrow> xa_fields c = [(''event'', cd_dump cd ev)]))"

definition receipts_backed :: "codec \<Rightarrow> world \<Rightarrow> bool" where
  "receipts_backed cd w \<longleftrightarrow>
     list_all (\<lambda>r. case er_queue_message_id r of None \<Rightarrow> True
                   | Some m \<Rightarrow> list_ex (call_for cd r m) (w_xadds w)) (events (w_db w))"

lemma receipts_backed_call:
  "receipts_backed cd w \<Longrightarrow> receipts_backed cd (w\<lparr>w_xadds := w_xadds w @ cs\<rparr>)"
  by (auto simp: receipts_backed_def list_all_iff split: option.splits)

lemma call_for_update [simp]:
  "call_for cd (r\<lparr>er_queued_at := q, er_queue_message_id := m'\<rparr>) = call_for cd r"
  "call_for cd (r\<lparr>er_dedupe_count := n\<rparr>) = call_for cd r"
  "call_for cd (r\<lparr>er_window_closed_at := t\<rparr>) = call_for cd r"
  by (simp_all add: fun_eq_iff call_for_def)

lemma dispatch_receipts_backed [inv_intros]:
  assumes "receipts_backed cd w" and "db_ok (w_db w)"
  shows "receipts_backed cd (snd (dispatch_event cd io i w))"
proof (cases cd io i w rule: dispatch_event_cases)
  case same
  then show ?thesis using assms by simp
next
  case lost
  then show ?thesis using assms(1) by (simp add: receipts_backed_call)
next
  case (acked m t ev)
  from acked(1) obtain r p where r: "r \<in> set (events (w_db w))" "er_id r = i"
    "er_payload r = Some p" "cd_load cd p = Inr ev"
    by (rule event_for_queue_row)
  have same_row: "x = r" if "x \<in> set (events (w_db w))" "er_id x = i" for x
    using that r(1,2) assms(2) by (metis db_ok_def distinct_map events_ok_def inj_onD)
  show ?thesis
    using assms(1) r(3,4) same_row unfolding acked(2)
    by (auto simp: receipts_backed_def list_all_iff mark_queued_def set_update_where call_for_def
        split: option.splits)
qed

section \<open>The outbox drains\<close>

text \<open>
  What a dispatch needs of the outside to succeed: every stored payload still validates,
  and both services answer.
\<close>

definition payloads_load :: "codec \<Rightarrow> db \<Rightarrow> bool" where
  "payloads_load cd s \<longleftrightarrow>
     list_all (\<lambda>r. case er_payload r of None \<Rightarrow> True | Some p \<Rightarrow> \<not> isl (cd_load cd p)) (events s)"

fun acked :: "dispatch_io \<Rightarrow> bool" where
  "acked (Acked _ _) = True"
| "acked _ = False"

lemma mark_queued_payloads [simp]: "payloads_load cd (mark_queued i m t s) = payloads_load cd s"
proof -
  have "map er_payload (events (mark_queued i m t s)) = map er_payload (events s)"
    by (auto simp: mark_queued_def intro!: map_update_where)
  then have "list_all P (map er_payload (events (mark_queued i m t s)))
      = list_all P (map er_payload (events s))" for P by simp
  then show ?thesis by (simp add: payloads_load_def list.pred_map comp_def)
qed

lemma pending_row_ready:
  assumes "db_ok s" and "payloads_load cd s" and "r \<in> set (events s)" and "pending_row r"
  obtains ev where "event_for_queue (cd_load cd) (er_id r) s = Inr (Some (ev, None))"
proof -
  have chk: "events_check r" and ids: "distinct (map er_id (events s))"
    using assms(1,3) by (auto simp: db_ok_def events_ok_def list_all_iff)
  then obtain p where p: "er_payload r = Some p" and unq: "er_queue_message_id r = None"
    using assms(4) by (auto simp: events_check_def events_quarantine_invariant_def
        events_queue_state_paired_def pending_row_def)
  have "\<not> isl (cd_load cd p)"
    using assms(2,3) p by (auto simp: payloads_load_def list_all_iff dest!: bspec)
  then obtain ev where "cd_load cd p = Inr ev" by (cases "cd_load cd p") auto
  then show ?thesis
    using that event_for_queue_of_row[OF ids assms(3) _ p, of "cd_load cd"] assms(4) unq
    by (simp add: pending_row_def)
qed

lemma mark_queued_pending:
  assumes "db_ok s"
  shows "filter pending_row (events (mark_queued i m t s))
           = filter (\<lambda>r. er_id r \<noteq> i) (filter pending_row (events s))"
proof -
  have upd: "events (mark_queued i m t s)
      = update_where (\<lambda>r. er_id r = i \<and> er_queue_message_id r = None)
          (\<lambda>r. r\<lparr>er_queued_at := Some t, er_queue_message_id := Some m\<rparr>) (events s)"
    by (simp add: mark_queued_def)
  have "filter pending_row (events (mark_queued i m t s))
      = filter (\<lambda>r. \<not> (er_id r = i \<and> er_queue_message_id r = None)) (filter pending_row (events s))"
    unfolding upd by (rule update_where_filter_gone) (simp add: pending_row_def)
  also have "\<dots> = filter (\<lambda>r. er_id r \<noteq> i) (filter pending_row (events s))"
    using assms
    by (intro filter_cong refl)
      (auto simp: db_ok_def events_ok_def list_all_iff events_check_def events_queue_state_paired_def
        pending_row_def)
  finally show ?thesis .
qed

lemma dispatch_all_drains:
  assumes "db_ok (w_db w)" and "payloads_load cd (w_db w)" and "\<forall>k. acked (io k)"
    and "distinct ids" and "set ids \<subseteq> er_id ` set (filter pending_row (events (w_db w)))"
  shows "\<exists>w'. dispatch_all cd io ids w = (Inr (), w') \<and> db_ok (w_db w') \<and> payloads_load cd (w_db w')
           \<and> length (w_xadds w') = length (w_xadds w) + length ids
           \<and> filter pending_row (events (w_db w'))
               = filter (\<lambda>r. er_id r \<notin> set ids) (filter pending_row (events (w_db w)))"
  using assms
proof (induction ids arbitrary: w io)
  case Nil
  then show ?case by simp
next
  case (Cons i ids)
  obtain r where r: "r \<in> set (events (w_db w))" "pending_row r" "er_id r = i"
    using Cons.prems(5) by auto
  obtain ev where ev: "event_for_queue (cd_load cd) i (w_db w) = Inr (Some (ev, None))"
    using pending_row_ready[OF Cons.prems(1,2) r(1,2)] r(3) by blast
  obtain m t where io: "io 0 = Acked m t"
    using Cons.prems(3)[rule_format, of 0] by (cases "io 0") auto
  obtain w1 where step: "dispatch_event cd (io 0) i w = (Inr (Some m), w1)"
    and db1: "w_db w1 = mark_queued i m t (w_db w)"
    and len: "length (w_xadds w1) = Suc (length (w_xadds w))"
    using dispatch_acked[OF ev, of m t] io by simp
  have pend: "filter pending_row (events (w_db w1))
      = filter (\<lambda>r. er_id r \<noteq> i) (filter pending_row (events (w_db w)))"
    using mark_queued_pending[OF Cons.prems(1)] db1 by simp
  have sub: "set ids \<subseteq> er_id ` set (filter pending_row (events (w_db w1)))"
  proof
    fix x assume x: "x \<in> set ids"
    then have "x \<noteq> i" "x \<in> er_id ` set (filter pending_row (events (w_db w)))"
      using Cons.prems(4) subsetD[OF Cons.prems(5), of x] by auto
    then show "x \<in> er_id ` set (filter pending_row (events (w_db w1)))"
      unfolding pend by force
  qed
  have "\<exists>w'. dispatch_all cd (\<lambda>k. io (Suc k)) ids w1 = (Inr (), w') \<and> db_ok (w_db w')
          \<and> payloads_load cd (w_db w') \<and> length (w_xadds w') = length (w_xadds w1) + length ids
          \<and> filter pending_row (events (w_db w'))
              = filter (\<lambda>r. er_id r \<notin> set ids) (filter pending_row (events (w_db w1)))"
    using Cons.IH[of w1 "\<lambda>k. io (Suc k)"] Cons.prems sub db1 by (auto simp: mark_queued_db_ok)
  then show ?case
    unfolding pend using step len by (auto simp: conj_commute intro!: filter_cong)
qed

lemma filter_not_taken:
  assumes "distinct (map f xs)"
  shows "length (filter (\<lambda>x. f x \<notin> f ` set (take n (sort_key g xs))) xs) = length xs - n"
proof -
  let ?s = "sort_key g xs"
  let ?q = "\<lambda>x. f x \<notin> f ` set (take n ?s)"
  have d: "distinct (map f ?s)"
    using assms by (metis distinct_map distinct_sort set_sort)
  have split: "filter ?q ?s = filter ?q (take n ?s) @ filter ?q (drop n ?s)"
    by (metis append_take_drop_id filter_append)
  have "f y \<noteq> f x" if "x \<in> set (take n ?s)" "y \<in> set (drop n ?s)" for x y
    using d that by (metis append_take_drop_id disjoint_iff distinct_append imageI list.set_map map_append)
  then have "filter ?q (drop n ?s) = drop n ?s"
    by (intro filter_True) auto
  moreover have "filter ?q (take n ?s) = []"
    by (auto simp: filter_empty_conv)
  ultimately have "length (filter ?q ?s) = length xs - n"
    by (simp add: split)
  moreover have "length (filter ?q xs) = length (filter ?q ?s)"
    by (metis mset_filter mset_sort size_mset)
  ultimately show ?thesis by simp
qed

lemma dispatch_pending_drains:
  assumes "db_ok (w_db w)" and "payloads_load cd (w_db w)" and "\<forall>k. acked (io k)"
  shows "\<exists>w'. dispatch_pending cd io limit w = (Inr (min limit (pending_count w)), w')
           \<and> db_ok (w_db w') \<and> payloads_load cd (w_db w')
           \<and> length (w_xadds w') = length (w_xadds w) + min limit (pending_count w)
           \<and> pending_count w' = pending_count w - limit"
proof -
  let ?p = "filter pending_row (events (w_db w))"
  let ?t = "take limit (sort_key er_received_at ?p)"
  have ids: "distinct (map er_id ?p)"
    using assms(1) by (simp add: db_ok_def events_ok_def distinct_map_filter)
  have "distinct (map er_id (sort_key er_received_at ?p))"
    using ids by (metis distinct_map distinct_sort set_sort)
  then have dt: "distinct (map er_id ?t)"
    by (metis distinct_take take_map)
  have "set ?t \<subseteq> set ?p" by (metis set_sort set_take_subset)
  then have sub: "set (map er_id ?t) \<subseteq> er_id ` set ?p" by auto
  have len: "length ?t = min limit (pending_count w)"
    by (simp add: pending_count_def pending_queue_count_def)
  from dispatch_all_drains[OF assms dt sub] obtain w' where
      w': "dispatch_all cd io (map er_id ?t) w = (Inr (), w')" "db_ok (w_db w')"
        "payloads_load cd (w_db w')" "length (w_xadds w') = length (w_xadds w) + length ?t"
        "filter pending_row (events (w_db w')) = filter (\<lambda>r. er_id r \<notin> set (map er_id ?t)) ?p"
    by auto
  have "pending_count w' = pending_count w - limit"
    using filter_not_taken[OF ids, of limit er_received_at] w'(5)
    by (simp add: pending_count_def pending_queue_count_def)
  with w' len show ?thesis
    by (simp add: dispatch_pending_def pending_queue_event_ids_def Let_def)
qed

lemma outbox_turns_drain:
  assumes "db_ok (w_db w)" and "payloads_load cd (w_db w)" and "\<forall>j k. acked (io j k)"
  shows "pending_count (outbox_turns cd io n w) = pending_count w - 100 * n"
  using assms
proof (induction n arbitrary: w io)
  case (Suc n)
  from dispatch_pending_drains[OF Suc.prems(1,2), of "io 0" 100] Suc.prems(3)
  obtain w' where "snd (outbox_turn cd (io 0) w) = w'" "db_ok (w_db w')"
      "payloads_load cd (w_db w')" "pending_count w' = pending_count w - 100"
    by (auto simp: outbox_turn_def)
  then show ?case using Suc.IH[of w' "\<lambda>k. io (Suc k)"] Suc.prems(3) by simp
qed simp

text \<open>
  A row that holds a receipt is never published again, whatever the services answer.
\<close>

lemma receipt_final:
  assumes "db_ok (w_db w)" and "r \<in> set (events (w_db w))" and "er_queue_message_id r = Some m"
    and "\<not> er_quarantined r"
  shows "snd (dispatch_event cd io (er_id r) w) = w"
proof -
  obtain p where p: "er_payload r = Some p"
    using assms by (auto simp: db_ok_def events_ok_def events_check_def events_quarantine_invariant_def
        list_all_iff)
  have "distinct (map er_id (events (w_db w)))" using assms(1) by (simp add: db_ok_def events_ok_def)
  then have "event_for_queue (cd_load cd) (er_id r) (w_db w)
      = res_bind (cd_load cd p) (\<lambda>ev. Inr (Some (ev, Some m)))"
    using event_for_queue_of_row[OF _ assms(2,4) p] assms(3) by simp
  then show ?thesis
    by (cases "cd_load cd p"; cases io) (simp_all add: dispatch_event_def)
qed

end
