(* ===== verification/Routes.thy ===== *)
theory Routes
  imports Datadog Sources Verification Dedupe Delivery
begin

text \<open>
  The webhook routes, \<^verbatim>\<open>src/smokejumper/receiver/routes.py\<close>: verify, normalize,
  quarantine or close windows or admit, then dispatch.

  A handler returns the HTTP status with the JSON body, or the exception it lets through
  (FastAPI answers 500), with the world it leaves. What it takes from the outside is in
  \<open>route_env\<close>: the clock, the \<open>uuid4\<close> values, the JSON decoder of
  \<^verbatim>\<open>Request.json\<close>, \<open>datetime.fromisoformat\<close>, and for every
  transaction and every dispatch whether the services answered.
\<close>

record request =
  rq_headers :: headers
  rq_body :: "byte list"
  rq_client :: "string option"

record route_env =
  en_received_at :: py_datetime
  en_json :: "byte list \<Rightarrow> json result"
  en_isoparse :: isoparse
  en_codec :: codec
  en_uuid :: "nat \<Rightarrow> uuid"
  en_uuid_resolved :: "nat \<Rightarrow> uuid"
  en_quarantine_id :: uuid
  en_quarantine_tx :: tx
  en_close_tx :: "nat \<Rightarrow> tx"
  en_admit_tx :: "nat \<Rightarrow> tx"
  en_dispatch :: "nat \<Rightarrow> dispatch_io"

type_synonym 'a handler_result = "'a result \<times> world"

definition world_tx :: "tx \<Rightarrow> (db \<Rightarrow> ('a \<times> db) result) \<Rightarrow> world \<Rightarrow> 'a handler_result" where
  "world_tx t f w = (case transact t f (w_db w) of (r, s) \<Rightarrow> (r, w\<lparr>w_db := s\<rparr>))"

section \<open>Admission\<close>

definition json_opt :: "string option \<Rightarrow> json" where
  "json_opt m = (case m of None \<Rightarrow> JNull | Some s \<Rightarrow> JStr s)"

definition queue_status :: "string option \<Rightarrow> string" where
  "queue_status m = (if m = None \<or> m = Some [] then ''pending'' else ''published'')"

definition admission_result :: "AgentEvent \<Rightarrow> Admission \<Rightarrow> string option \<Rightarrow> json_obj" where
  "admission_result event a message_id =
     (if adm_is_duplicate a
      then [(''status'', JStr ''duplicate''), (''event_id'', JStr (adm_event_id a)),
            (''fingerprint'', JStr (adm_fingerprint a)),
            (''dedupe_count'', JInt (adm_dedupe_count a)),
            (''queue_message_id'', json_opt message_id),
            (''queue_status'', JStr (queue_status message_id))]
      else [(''status'', JStr ''accepted''), (''event_id'', JStr (adm_event_id a)),
            (''fingerprint'', JStr (adm_fingerprint a)),
            (''severity'', JStr (severity_value (ev_severity event))),
            (''queue_message_id'', json_opt message_id),
            (''queue_status'', JStr (queue_status message_id))])"

definition admit_and_publish_one ::
  "codec \<Rightarrow> tx \<Rightarrow> dispatch_io \<Rightarrow> AgentEvent \<Rightarrow> world \<Rightarrow> json_obj handler_result" where
  "admit_and_publish_one cd tx io event w =
     st_bind (world_tx tx (admit (cd_dump cd) DEDUPE_WINDOW event) w) (\<lambda>admission w'.
       (case dispatch_event cd io (adm_event_id admission) w' of
          (Inl e, w'') \<Rightarrow> (Inr (admission_result event admission None), w'')
        | (Inr message_id, w'') \<Rightarrow> (Inr (admission_result event admission message_id), w'')))"

fun admit_and_enqueue ::
  "codec \<Rightarrow> (nat \<Rightarrow> tx) \<Rightarrow> (nat \<Rightarrow> dispatch_io) \<Rightarrow> AgentEvent list \<Rightarrow> world
     \<Rightarrow> json_obj list handler_result" where
  "admit_and_enqueue cd tx io [] w = (Inr [], w)"
| "admit_and_enqueue cd tx io (event # es) w =
     st_bind (admit_and_publish_one cd (tx 0) (io 0) event w) (\<lambda>r w'.
       st_bind (admit_and_enqueue cd (\<lambda>k. tx (Suc k)) (\<lambda>k. io (Suc k)) es w') (\<lambda>rs w''.
         (Inr (r # rs), w'')))"

section \<open>Handlers\<close>

definition unverified :: "(nat \<times> json_obj) result" where
  "unverified = Inr (401, [(''status'', JStr ''unverified'')])"

text \<open>
  The \<^verbatim>\<open>except (ValueError, TypeError)\<close> clause of the handlers: other exceptions leave.
\<close>

definition quarantine_delivery ::
  "route_env \<Rightarrow> string \<Rightarrow> py_error \<Rightarrow> world \<Rightarrow> (nat \<times> json_obj) handler_result" where
  "quarantine_delivery env source err w =
     (if is_value_error err \<or> is_type_error err then
        let reason = take 500 (err_text err) in
        st_bind (world_tx (en_quarantine_tx env)
                   (\<lambda>s. res_bind (quarantine (en_quarantine_id env) source
                            (dt_utc (en_received_at env)) reason s) (\<lambda>s'. Inr ((), s'))) w)
          (\<lambda>_ w'. (Inr (202, [(''status'', JStr ''quarantined''), (''reason'', JStr reason)]), w'))
      else (Inl err, w))"

text \<open>The payload is a JSON object whenever the recovery test is reached.\<close>

fun payload_obj :: "json \<Rightarrow> json_obj" where
  "payload_obj (JObj p) = p"
| "payload_obj _ = []"

definition close_tx ::
  "tx \<Rightarrow> string \<Rightarrow> int \<Rightarrow> world \<Rightarrow> nat handler_result" where
  "close_tx tx fp t = world_tx tx (\<lambda>s. Inr (close_window fp t s))"

definition entity_text :: "Entity \<Rightarrow> json" where
  "entity_text e = JStr (ent_type e @ '':'' @ ent_id e)"

definition result_status :: "json_obj \<Rightarrow> json" where
  "result_status r = py_get r ''status''"

definition datadog_event :: "route_env \<Rightarrow> request \<Rightarrow> (json \<times> AgentEvent) result" where
  "datadog_event env request =
     res_bind (en_json env (rq_body request)) (\<lambda>payload.
       res_bind (normalize payload (en_received_at env) (en_uuid env 0)) (\<lambda>event.
         Inr (payload, event)))"

definition datadog_webhook ::
  "route_env \<Rightarrow> string \<Rightarrow> request \<Rightarrow> world \<Rightarrow> (nat \<times> json_obj) handler_result" where
  "datadog_webhook env datadog_secret request w =
     (case verify_shared_token (rq_headers request) datadog_secret of
        Inl e \<Rightarrow> (Inl e, w)
      | Inr False \<Rightarrow> (unverified, w)
      | Inr True \<Rightarrow>
          (case datadog_event env request of
             Inl e \<Rightarrow> quarantine_delivery env ''datadog'' e w
           | Inr (payload, event) \<Rightarrow>
               if is_recovery (payload_obj payload) then
                 st_bind (close_tx (en_close_tx env 0) (ev_fingerprint event)
                            (dt_utc (en_received_at env)) w) (\<lambda>n_closed w'.
                   (Inr (202, [(''status'', JStr ''recovered''),
                               (''fingerprint'', JStr (ev_fingerprint event)),
                               (''windows_closed'', JInt (int n_closed))]), w'))
               else
                 st_bind (admit_and_publish_one (en_codec env) (en_admit_tx env 0)
                            (en_dispatch env 0) event w) (\<lambda>result w'.
                   if result_status result = JStr ''duplicate'' then (Inr (202, result), w')
                   else (Inr (202, result @ [(''entities'',
                           JList (map entity_text (ev_entities event)))]), w'))))"

datatype hook = Pagerduty | Grafana | Alertmanager | Generic

fun hook_name :: "hook \<Rightarrow> string" where
  "hook_name Pagerduty = ''pagerduty''"
| "hook_name Grafana = ''grafana''"
| "hook_name Alertmanager = ''alertmanager''"
| "hook_name Generic = ''generic''"

fun hook_normalize :: "hook \<Rightarrow> isoparse \<Rightarrow> (nat \<Rightarrow> uuid) \<Rightarrow> json \<Rightarrow> py_datetime \<Rightarrow> AgentEvent list result"
  where
  "hook_normalize Pagerduty = normalize_pagerduty"
| "hook_normalize Grafana = normalize_grafana"
| "hook_normalize Alertmanager = normalize_alertmanager"
| "hook_normalize Generic = normalize_generic"

fun hook_resolved :: "hook \<Rightarrow> isoparse \<Rightarrow> (nat \<Rightarrow> uuid) \<Rightarrow> json \<Rightarrow> py_datetime \<Rightarrow> AgentEvent list result"
  where
  "hook_resolved Pagerduty = resolved_pagerduty"
| "hook_resolved Grafana = resolved_grafana"
| "hook_resolved Alertmanager = resolved_alertmanager"
| "hook_resolved Generic = (\<lambda>_ _ _ _. Inr [])"

definition hook_verify ::
  "hook \<Rightarrow> (string \<times> string) list \<Rightarrow> ip_network list \<Rightarrow> request \<Rightarrow> bool result" where
  "hook_verify h secrets alertmanager_allowlist request =
     (let secret = dict_get secrets (hook_name h) [] in
      case h of
        Alertmanager \<Rightarrow> Inr (verify_source_ip (rq_client request) alertmanager_allowlist)
      | Pagerduty \<Rightarrow> verify_pagerduty_signature (rq_body request) (rq_headers request) secret
      | Generic \<Rightarrow> verify_hmac_signature (rq_body request) (rq_headers request) secret
      | Grafana \<Rightarrow> verify_shared_token (rq_headers request) secret)"

fun close_windows ::
  "(nat \<Rightarrow> tx) \<Rightarrow> int \<Rightarrow> AgentEvent list \<Rightarrow> nat \<Rightarrow> world \<Rightarrow> nat handler_result" where
  "close_windows tx t [] n_closed w = (Inr n_closed, w)"
| "close_windows tx t (event # es) n_closed w =
     st_bind (close_tx (tx 0) (ev_fingerprint event) t w) (\<lambda>n w'.
       close_windows (\<lambda>k. tx (Suc k)) t es (n_closed + n) w')"

definition hook_events ::
  "route_env \<Rightarrow> hook \<Rightarrow> request \<Rightarrow> (AgentEvent list \<times> AgentEvent list) result" where
  "hook_events env h request =
     res_bind (en_json env (rq_body request)) (\<lambda>payload.
       res_bind (hook_normalize h (en_isoparse env) (en_uuid env) payload (en_received_at env))
         (\<lambda>fired.
            res_bind (hook_resolved h (en_isoparse env) (en_uuid_resolved env) payload
                        (en_received_at env)) (\<lambda>resolved.
              Inr (fired, resolved))))"

definition handler ::
  "route_env \<Rightarrow> (string \<times> string) list \<Rightarrow> ip_network list \<Rightarrow> hook \<Rightarrow> request \<Rightarrow> world
     \<Rightarrow> (nat \<times> json_obj) handler_result" where
  "handler env secrets alertmanager_allowlist h request w =
     (case hook_verify h secrets alertmanager_allowlist request of
        Inl e \<Rightarrow> (Inl e, w)
      | Inr False \<Rightarrow> (unverified, w)
      | Inr True \<Rightarrow>
          (case hook_events env h request of
             Inl e \<Rightarrow> quarantine_delivery env (hook_name h) e w
           | Inr (fired, resolved) \<Rightarrow>
               st_bind (close_windows (en_close_tx env) (dt_utc (en_received_at env)) resolved 0 w)
                 (\<lambda>windows_closed w'.
                    if fired = [] then
                      (Inr (202, [(''status'', JStr ''ignored''),
                                  (''reason'', JStr ''no firing alerts in payload''),
                                  (''windows_closed'', JInt (int windows_closed))]), w')
                    else
                      st_bind (admit_and_enqueue (en_codec env) (en_admit_tx env)
                                 (en_dispatch env) fired w') (\<lambda>results w''.
                        (Inr (202, [(''status'', JStr ''processed''),
                                    (''count'', JInt (int (length results))),
                                    (''windows_closed'', JInt (int windows_closed)),
                                    (''results'', JList (map JObj results))]), w'')))))"

text \<open>The status code the sender sees: an exception that leaves the handler is a 500.\<close>

definition http_status :: "(nat \<times> json_obj) handler_result \<Rightarrow> nat" where
  "http_status r = (case fst r of Inl _ \<Rightarrow> 500 | Inr (code, _) \<Rightarrow> code)"

section \<open>The invariant of the Receiver's world\<close>

definition world_ok :: "codec \<Rightarrow> world \<Rightarrow> bool" where
  "world_ok cd w \<longleftrightarrow>
     db_ok (w_db w) \<and> windows_spaced DEDUPE_WINDOW (events (w_db w)) \<and> receipts_backed cd w"

lemma receipts_backed_rows:
  assumes "receipts_backed cd w"
    and "\<And>r. r \<in> set (events s) \<Longrightarrow>
           er_queue_message_id r = None
           \<or> (\<exists>r' \<in> set (events (w_db w)). er_queue_message_id r = er_queue_message_id r'
                \<and> call_for cd r = call_for cd r')"
  shows "receipts_backed cd (w\<lparr>w_db := s\<rparr>)"
  using assms unfolding receipts_backed_def list_all_iff
  by (fastforce split: option.splits)

lemma admit_receipts_backed:
  assumes "admit dump W e (w_db w) = Inr (a, s')" and "receipts_backed cd w"
  shows "receipts_backed cd (w\<lparr>w_db := s'\<rparr>)"
  using assms(1)
proof (cases rule: admit_cases)
  case (duplicate r)
  show ?thesis
    by (rule receipts_backed_rows[OF assms(2)]) (force simp: duplicate(4) set_update_where)
next
  case fresh
  show ?thesis
    by (rule receipts_backed_rows[OF assms(2)]) (auto simp: fresh(4))
qed

lemma quarantine_receipts_backed:
  assumes "quarantine i src t reason (w_db w) = Inr s'" and "receipts_backed cd w"
  shows "receipts_backed cd (w\<lparr>w_db := s'\<rparr>)"
  by (rule receipts_backed_rows[OF assms(2)])
    (use assms(1) in \<open>auto simp: quarantine_def insert_event_Inr\<close>)

lemma close_window_receipts_backed:
  assumes "receipts_backed cd w"
  shows "receipts_backed cd (w\<lparr>w_db := snd (close_window fp t (w_db w))\<rparr>)"
  by (rule receipts_backed_rows[OF assms]) (force simp: close_window_events set_update_where)

lemmas world_ok_bind = st_bind_inv[where P = "world_ok cd" for cd]

text \<open>A transaction keeps the invariant when its block does.\<close>

lemma world_tx_world_ok:
  assumes "world_ok cd w"
    and "\<And>x s. f (w_db w) = Inr (x, s) \<Longrightarrow> world_ok cd (w\<lparr>w_db := s\<rparr>)"
  shows "world_ok cd (snd (world_tx tx f w))"
  using assms by (auto simp: world_tx_def transact_def split: sum.splits tx.splits)

lemma admit_world_ok [inv_intros]:
  "world_ok cd w \<Longrightarrow> world_ok cd (snd (world_tx tx (admit dump DEDUPE_WINDOW e) w))"
  by (rule world_tx_world_ok)
    (auto simp: world_ok_def intro: admit_receipts_backed admit_db_ok admit_spaced)

lemma dispatch_spaced:
  "windows_spaced W (events (w_db w)) \<Longrightarrow>
     windows_spaced W (events (w_db (snd (dispatch_event cd io i w))))"
  by (cases cd io i w rule: dispatch_event_cases) (auto intro: mark_queued_spaced)

lemma dispatch_world_ok [inv_intros]:
  "world_ok cd w \<Longrightarrow> world_ok cd (snd (dispatch_event cd io i w))"
  by (auto simp: world_ok_def intro: dispatch_receipts_backed dispatch_db_ok dispatch_spaced)

lemma quarantine_world_ok [inv_intros]:
  assumes "world_ok cd w"
  shows "world_ok cd (snd (quarantine_delivery env src err w))"
proof -
  let ?f = "\<lambda>s. res_bind (quarantine (en_quarantine_id env) src (dt_utc (en_received_at env))
                      (take 500 (err_text err)) s) (\<lambda>s'. Inr ((), s'))"
  have "world_ok cd (snd (world_tx (en_quarantine_tx env) ?f w))"
    by (rule world_tx_world_ok[OF assms])
      (use assms in \<open>auto simp: world_ok_def intro: quarantine_receipts_backed quarantine_db_ok quarantine_spaced\<close>)
  then show ?thesis
    using assms unfolding quarantine_delivery_def Let_def by (auto intro!: world_ok_bind)
qed

lemma close_tx_world_ok [inv_intros]:
  assumes "world_ok cd w"
  shows "world_ok cd (snd (close_tx tx fp t w))"
  unfolding close_tx_def
proof (rule world_tx_world_ok[OF assms])
  fix x s assume "(Inr (close_window fp t (w_db w)) :: (nat \<times> db) result) = Inr (x, s)"
  then have "s = snd (close_window fp t (w_db w))" by simp
  then show "world_ok cd (w\<lparr>w_db := s\<rparr>)"
    using assms close_window_receipts_backed[of cd w fp t]
    by (simp add: world_ok_def close_window_db_ok close_window_spaced)
qed

lemma admit_and_publish_one_world_ok [inv_intros]:
  assumes "world_ok cd w"
  shows "world_ok cd (snd (admit_and_publish_one cd tx io event w))"
  unfolding admit_and_publish_one_def
proof (rule world_ok_bind)
  show ok: "world_ok cd (snd (world_tx tx (admit (cd_dump cd) DEDUPE_WINDOW event) w))"
    by (rule admit_world_ok[OF assms])
  fix a :: Admission
  let ?d = "dispatch_event cd io (adm_event_id a)
              (snd (world_tx tx (admit (cd_dump cd) DEDUPE_WINDOW event) w))"
  have "world_ok cd (snd ?d)" by (rule dispatch_world_ok[OF ok])
  then show "world_ok cd (snd (case ?d of
      (Inl e, w'') \<Rightarrow> (Inr (admission_result event a None), w'')
    | (Inr message_id, w'') \<Rightarrow> (Inr (admission_result event a message_id), w'')))"
    by (cases ?d; cases "fst ?d") auto
qed

lemma admit_and_enqueue_world_ok [inv_intros]:
  "world_ok cd w \<Longrightarrow> world_ok cd (snd (admit_and_enqueue cd tx io es w))"
  by (induction es arbitrary: tx io w)
    (auto intro!: world_ok_bind simp: admit_and_publish_one_world_ok)

lemma close_windows_world_ok [inv_intros]:
  "world_ok cd w \<Longrightarrow> world_ok cd (snd (close_windows tx t es n w))"
  by (induction es arbitrary: tx n w) (auto intro!: world_ok_bind simp: close_tx_world_ok)

lemma datadog_webhook_world_ok [inv_intros]:
  assumes "world_ok (en_codec env) w"
  shows "world_ok (en_codec env) (snd (datadog_webhook env secret rq w))"
  unfolding datadog_webhook_def
  using assms
  by (auto intro!: world_ok_bind inv_intros split: sum.splits bool.splits)

lemma handler_world_ok [inv_intros]:
  assumes "world_ok (en_codec env) w"
  shows "world_ok (en_codec env) (snd (handler env secrets allow h rq w))"
  unfolding handler_def
  using assms
  by (auto intro!: world_ok_bind inv_intros split: sum.splits bool.splits)

section \<open>What the handlers answer and what they change\<close>

lemma world_tx_up [simp]:
  "world_tx TxOk f w = (case f (w_db w) of Inl e \<Rightarrow> (Inl e, w) | Inr (x, s) \<Rightarrow> (Inr x, w\<lparr>w_db := s\<rparr>))"
  by (simp add: world_tx_def split: sum.splits)

text \<open>Only a verified delivery changes anything.\<close>

lemma datadog_changes:
  assumes "snd (datadog_webhook env secret rq w) \<noteq> w"
  shows "verify_shared_token (rq_headers rq) secret = Inr True"
  using assms by (auto simp: datadog_webhook_def split: sum.splits bool.splits)

lemma handler_changes:
  assumes "snd (handler env secrets allow h rq w) \<noteq> w"
  shows "hook_verify h secrets allow rq = Inr True"
  using assms by (auto simp: handler_def split: sum.splits bool.splits)

text \<open>An admitted event is answered with a body, whatever Redis does.\<close>

lemma admit_and_publish_one_ok:
  assumes "admit (cd_dump cd) DEDUPE_WINDOW event (w_db w) = Inr (a, s)"
  shows "\<exists>m. admit_and_publish_one cd TxOk io event w
           = (Inr (admission_result event a m),
              snd (dispatch_event cd io (adm_event_id a) (w\<lparr>w_db := s\<rparr>)))
           \<and> (case fst (dispatch_event cd io (adm_event_id a) (w\<lparr>w_db := s\<rparr>)) of
                Inl _ \<Rightarrow> m = None | Inr m' \<Rightarrow> m = m')"
  using assms
  by (cases "dispatch_event cd io (adm_event_id a) (w\<lparr>w_db := s\<rparr>)";
      cases "fst (dispatch_event cd io (adm_event_id a) (w\<lparr>w_db := s\<rparr>))")
    (simp_all add: admit_and_publish_one_def)

text \<open>With Redis refusing, the admitted row stays in the table with no receipt added.\<close>

lemma dispatch_redis_down:
  "snd (dispatch_event cd (RedisDown e) i w) = w"
  by (auto simp: dispatch_event_def publish_def split: sum.splits option.splits)

lemma quarantine_delivery_ok:
  assumes "is_value_error err \<or> is_type_error err" and "en_quarantine_tx env = TxOk"
    and "fresh_id (en_quarantine_id env) (w_db w)"
    and "src \<in> set (map source_value [GRAFANA, ALERTMANAGER, DATADOG, PAGERDUTY, GENERIC])"
  shows "\<exists>r. quarantine_delivery env src err w =
           (Inr (202, [(''status'', JStr ''quarantined''), (''reason'', JStr (take 500 (err_text err)))]),
            w\<lparr>w_db := (w_db w)\<lparr>events := events (w_db w) @ [r]\<rparr>\<rparr>)
          \<and> er_quarantined r \<and> er_quarantine_reason r = Some (take 500 (err_text err))"
proof -
  obtain r where "quarantine (en_quarantine_id env) src (dt_utc (en_received_at env))
      (take 500 (err_text err)) (w_db w) = Inr ((w_db w)\<lparr>events := events (w_db w) @ [r]\<rparr>)"
    "er_quarantined r" "er_quarantine_reason r = Some (take 500 (err_text err))"
    using quarantine_total[OF assms(3,4)] by blast
  then show ?thesis using assms(1,2) by (auto simp: quarantine_delivery_def Let_def)
qed

lemma close_tx_up [simp]:
  "close_tx TxOk fp t w =
     (Inr (fst (close_window fp t (w_db w))), w\<lparr>w_db := snd (close_window fp t (w_db w))\<rparr>)"
  by (cases "close_window fp t (w_db w)") (simp add: close_tx_def)

text \<open>
  The services answer, the identifiers are new and the counters have room for \<open>n\<close>
  duplicates: what a handler needs to answer 202.
\<close>

definition env_up :: "nat \<Rightarrow> route_env \<Rightarrow> db \<Rightarrow> bool" where
  "env_up n env s \<longleftrightarrow>
     en_quarantine_tx env = TxOk \<and> (\<forall>k. en_close_tx env k = TxOk) \<and> (\<forall>k. en_admit_tx env k = TxOk)
     \<and> fresh_id (en_quarantine_id env) s \<and> (\<forall>k. fresh_id (en_uuid env k) s)
     \<and> inj (en_uuid env) \<and> count_room n s \<and> int n \<le> pg_int_max"

definition quarantinable :: "'a result \<Rightarrow> bool" where
  "quarantinable r \<longleftrightarrow> (case r of Inl e \<Rightarrow> is_value_error e \<or> is_type_error e | Inr _ \<Rightarrow> True)"

lemma datadog_202:
  assumes v: "verify_shared_token (rq_headers rq) secret = Inr True"
    and up: "env_up 1 env (w_db w)"
    and q: "quarantinable (datadog_event env rq)"
  shows "http_status (datadog_webhook env secret rq w) = 202"
proof (cases "datadog_event env rq")
  case (Inl err)
  then have "is_value_error err \<or> is_type_error err"
    using q by (auto simp: quarantinable_def)
  with up Inl v quarantine_delivery_ok[of err env w "''datadog''"] show ?thesis
    by (auto simp: datadog_webhook_def env_up_def http_status_def)
next
  case (Inr pe)
  obtain payload event where pe: "pe = (payload, event)" by (cases pe)
  then have "ev_id event = en_uuid env 0" using Inr by (auto simp: datadog_event_def dest: normalize_valid)
  then obtain a s where "admit (cd_dump (en_codec env)) DEDUPE_WINDOW event (w_db w) = Inr (a, s)"
    using admit_total[of 0 "w_db w" event "cd_dump (en_codec env)" DEDUPE_WINDOW] up
    by (auto simp: env_up_def)
  from admit_and_publish_one_ok[OF this, of "en_dispatch env 0"] obtain b w'
    where "admit_and_publish_one (en_codec env) TxOk (en_dispatch env 0) event w = (Inr b, w')" by blast
  with up Inr v pe show ?thesis
    by (simp add: datadog_webhook_def env_up_def http_status_def)
qed

lemma hook_raises:
  "hook_normalize h isoparse uids p rc = Inl e \<Longrightarrow> is_value_error e"
  "hook_resolved h isoparse uids p rc = Inl e \<Longrightarrow> is_value_error e"
  by (cases h; auto dest: normalize_pagerduty_raises normalize_labels_raises normalize_generic_raises)+

lemma hook_ids:
  assumes "hook_normalize h isoparse uids p rc = Inr es" and "inj uids"
  shows "distinct (map ev_id es) \<and> ev_id ` set es \<subseteq> range uids"
  using assms
  by (cases h; cases p)
    (auto simp: not_an_object_def Let_def split: if_splits
      dest!: label_batch_ids pagerduty_event_Inr build_event_Inr)

lemma dispatch_keeps [simp]:
  "count_room n (w_db (snd (dispatch_event cd io i w))) = count_room n (w_db w)"
  "fresh_id j (w_db (snd (dispatch_event cd io i w))) = fresh_id j (w_db w)"
  by (cases cd io i w rule: dispatch_event_cases; simp)+

lemma close_windows_up:
  assumes "\<forall>k. tx k = TxOk"
  shows "\<exists>m w'. close_windows tx t es n w = (Inr m, w') \<and> w_xadds w' = w_xadds w
           \<and> (\<forall>k. count_room k (w_db w') = count_room k (w_db w))
           \<and> (\<forall>i. fresh_id i (w_db w') = fresh_id i (w_db w))"
  using assms
proof (induction es arbitrary: tx n w)
  case (Cons e es)
  from Cons.IH[of "\<lambda>k. tx (Suc k)" "n + fst (close_window (ev_fingerprint e) t (w_db w))"
      "w\<lparr>w_db := snd (close_window (ev_fingerprint e) t (w_db w))\<rparr>"] Cons.prems
  show ?case by simp
qed simp

lemma admit_and_enqueue_up:
  assumes "\<forall>k. tx k = TxOk" and "count_room (length es) (w_db w)" and "int (length es) \<le> pg_int_max"
    and "distinct (map ev_id es)" and "\<forall>e \<in> set es. fresh_id (ev_id e) (w_db w)"
  shows "\<exists>rs w'. admit_and_enqueue cd tx io es w = (Inr rs, w') \<and> length rs = length es"
  using assms
proof (induction es arbitrary: tx io w)
  case (Cons e es)
  obtain a s where adm: "admit (cd_dump cd) DEDUPE_WINDOW e (w_db w) = Inr (a, s)"
    using admit_total[of "length es" "w_db w" e "cd_dump cd" DEDUPE_WINDOW] Cons.prems by auto
  obtain b where one: "admit_and_publish_one cd TxOk (io 0) e w =
      (Inr b, snd (dispatch_event cd (io 0) (adm_event_id a) (w\<lparr>w_db := s\<rparr>)))"
    using admit_and_publish_one_ok[OF adm, of "io 0"] by blast
  let ?w = "snd (dispatch_event cd (io 0) (adm_event_id a) (w\<lparr>w_db := s\<rparr>))"
  have "count_room (length es) (w_db ?w)"
    using admit_room[OF adm, of "length es"] Cons.prems by simp
  moreover have "\<forall>x \<in> set es. fresh_id (ev_id x) (w_db ?w)"
    using admit_fresh[OF adm] Cons.prems(4,5) by (auto simp: image_iff)
  ultimately have "\<exists>rs w'. admit_and_enqueue cd (\<lambda>k. tx (Suc k)) (\<lambda>k. io (Suc k)) es ?w = (Inr rs, w')
      \<and> length rs = length es"
    using Cons.IH[of "\<lambda>k. tx (Suc k)" ?w] Cons.prems by simp
  then show ?case using one Cons.prems(1) by auto
qed simp

lemma hook_name_source:
  "hook_name h \<in> set (map source_value [GRAFANA, ALERTMANAGER, DATADOG, PAGERDUTY, GENERIC])"
  by (cases h) simp_all

lemma handler_202:
  assumes v: "hook_verify h secrets allow rq = Inr True"
    and up: "env_up n env (w_db w)" and q: "quarantinable (en_json env (rq_body rq))"
    and n: "\<And>fired resolved. hook_events env h rq = Inr (fired, resolved) \<Longrightarrow> length fired \<le> n"
  shows "http_status (handler env secrets allow h rq w) = 202"
proof (cases "hook_events env h rq")
  case (Inl err)
  then have "is_value_error err \<or> is_type_error err"
    using q by (auto simp: quarantinable_def hook_events_def res_bind_eq_Inl dest: hook_raises)
  with up Inl v quarantine_delivery_ok[of err env w "hook_name h"] hook_name_source[of h]
  show ?thesis by (auto simp: handler_def env_up_def http_status_def)
next
  case (Inr fr)
  obtain fired resolved p where fr: "fr = (fired, resolved)" and p: "en_json env (rq_body rq) = Inr p"
    and f: "hook_normalize h (en_isoparse env) (en_uuid env) p (en_received_at env) = Inr fired"
    using Inr by (cases fr) (auto simp: hook_events_def)
  obtain m w1 where cl: "close_windows (en_close_tx env) (dt_utc (en_received_at env)) resolved 0 w = (Inr m, w1)"
    and room: "\<And>k. count_room k (w_db w1) = count_room k (w_db w)"
    and fresh: "\<And>i. fresh_id i (w_db w1) = fresh_id i (w_db w)"
    using close_windows_up[of "en_close_tx env" "dt_utc (en_received_at env)" resolved 0 w] up
    by (auto simp: env_up_def)
  have ids: "distinct (map ev_id fired)" "ev_id ` set fired \<subseteq> range (en_uuid env)"
    using hook_ids[OF f] up by (auto simp: env_up_def)
  have len: "length fired \<le> n" using n Inr fr by blast
  have "count_room (length fired) (w_db w1)"
    using up len room[of n] by (force simp: room env_up_def count_room_def list_all_iff)
  moreover have "\<forall>e \<in> set fired. fresh_id (ev_id e) (w_db w1)"
    using ids(2) up by (auto simp: fresh env_up_def)
  moreover have "int (length fired) \<le> pg_int_max" using len up by (simp add: env_up_def)
  ultimately obtain rs w2 where "admit_and_enqueue (en_codec env) (en_admit_tx env) (en_dispatch env) fired w1 = (Inr rs, w2)"
    using admit_and_enqueue_up[of "en_admit_tx env" fired w1 "en_codec env" "en_dispatch env"] ids(1) up
    by (auto simp: env_up_def)
  with cl Inr fr v show ?thesis by (simp add: handler_def http_status_def)
qed

section \<open>What the normalizers hand on, and what a resolution closes\<close>

lemma normalize_pagerduty_Inr:
  assumes "normalize_pagerduty isoparse uids p rc = Inr es \<or> resolved_pagerduty isoparse uids p rc = Inr es"
    and "e \<in> set es"
  shows "AgentEvent_valid e \<and> ev_source e = PAGERDUTY \<and> ev_received_at e = rc"
  using assms pagerduty_event_Inr by (cases p) (auto simp: not_an_object_def split: if_splits)

lemma normalize_labels_Inr:
  assumes "normalize_grafana isoparse uids p rc = Inr es \<or> resolved_grafana isoparse uids p rc = Inr es"
    and "e \<in> set es"
  shows "AgentEvent_valid e \<and> ev_source e = GRAFANA \<and> ev_received_at e = rc"
  using assms label_batch_events by (cases p) (auto simp: not_an_object_def)

lemma normalize_alertmanager_Inr:
  assumes "normalize_alertmanager isoparse uids p rc = Inr es \<or> resolved_alertmanager isoparse uids p rc = Inr es"
    and "e \<in> set es"
  shows "AgentEvent_valid e \<and> ev_source e = ALERTMANAGER \<and> ev_received_at e = rc"
  using assms label_batch_events by (cases p) (auto simp: not_an_object_def)

lemma normalize_generic_Inr:
  assumes "normalize_generic isoparse uids p rc = Inr es" and "e \<in> set es"
  shows "AgentEvent_valid e \<and> ev_source e = GENERIC \<and> ev_received_at e = rc"
proof (cases p)
  case (JObj payload)
  then obtain ents e' where "build_event GENERIC (src_text payload ''event_id'')
       (generic_severity (py_lower (src_text payload ''severity''))) (src_text payload ''title'')
       (src_text payload ''body'') ents (parse_iso isoparse (src_text payload ''occurred_at'') rc) rc payload
       (uids 0) = Inr e'" "es = [e']"
    using assms(1) by (auto simp: Let_def split: if_splits)
  then show ?thesis using build_event_Inr assms(2) by auto
qed (use assms in \<open>auto simp: not_an_object_def\<close>)

lemma hook_events_valid:
  assumes "hook_normalize h isoparse uids p rc = Inr es \<or> hook_resolved h isoparse uids p rc = Inr es"
    and "e \<in> set es"
  shows "AgentEvent_valid e \<and> source_value (ev_source e) = hook_name h \<and> ev_received_at e = rc"
  using assms normalize_pagerduty_Inr[of isoparse uids p rc es e] normalize_labels_Inr[of isoparse uids p rc es e]
    normalize_alertmanager_Inr[of isoparse uids p rc es e] normalize_generic_Inr[of isoparse uids p rc es e]
  by (cases h) auto

lemma close_windows_stay_closed:
  assumes "\<forall>k. tx k = TxOk" and "filter (open_event fp) (events (w_db w)) = []"
  shows "filter (open_event fp) (events (w_db (snd (close_windows tx t es n w)))) = []"
  using assms
  by (induction es arbitrary: tx n w) (simp_all add: close_window_events filter_open_close)

lemma close_windows_closed:
  assumes "\<forall>k. tx k = TxOk" and "e \<in> set es"
  shows "filter (open_event (ev_fingerprint e)) (events (w_db (snd (close_windows tx t es n w)))) = []"
  using assms
proof (induction es arbitrary: tx n w)
  case (Cons e' es)
  then show ?case
    using close_windows_stay_closed[of "\<lambda>k. tx (Suc k)" "ev_fingerprint e"]
    by (auto simp: close_window_events filter_open_close)
qed simp

text \<open>
  A token header with a character outside ASCII does not fail verification: the comparison
  of the two strings raises before the handler's \<^verbatim>\<open>try\<close>, so the sender gets 500.
\<close>

lemma non_ascii_token_500:
  assumes "header (rq_headers rq) DATADOG_TOKEN_HEADER = Some presented"
    and "\<not> list_all is_ascii presented" and "secret \<noteq> []"
  shows "http_status (datadog_webhook env secret rq w) = 500
         \<and> snd (datadog_webhook env secret rq w) = w"
proof -
  have "verify_shared_token (rq_headers rq) secret
      = Inl (TypeError ''comparing strings with non-ASCII characters is not supported'')"
    using assms by (simp add: verify_shared_token_def compare_digest_Inl)
  then show ?thesis by (simp add: datadog_webhook_def http_status_def)
qed

end
