(* ===== verification/Utf8.thy ===== *)
theory Utf8
  imports Sha256
begin

text \<open>
  \<^verbatim>\<open>bytes.decode\<close> as CPython has it for the text the program reads: a webhook body, a
  queue message, the audit file. \<open>utf8_decode False\<close> is strict UTF-8, \<open>utf8_decode True\<close>
  the \<^verbatim>\<open>surrogatepass\<close> handler of \<^verbatim>\<open>json.loads\<close>; a refusal is the
  \<open>UnicodeDecodeError\<close>, a \<open>ValueError\<close>, with its message. \<open>utf8_decode_exact\<close> shows
  that strict decoding accepts exactly the encodings of scalar values, each to its own text.
  \<open>detect_encoding\<close> is the guess \<^verbatim>\<open>json.loads\<close> makes from the first four bytes.
\<close>

section \<open>Decoding\<close>

definition is_cont :: "nat \<Rightarrow> bool" where
  "is_cont c \<longleftrightarrow> 0x80 \<le> c \<and> c \<le> 0xBF"

text \<open>The second byte rules out overlong forms, surrogates and values beyond U+10FFFF.\<close>

definition second_ok :: "nat \<Rightarrow> nat \<Rightarrow> bool" where
  "second_ok b c \<longleftrightarrow>
     (if b = 0xE0 then 0xA0 \<le> c \<and> c \<le> 0xBF
      else if b = 0xED then 0x80 \<le> c \<and> c \<le> 0x9F
      else if b = 0xF0 then 0x90 \<le> c \<and> c \<le> 0xBF
      else if b = 0xF4 then 0x80 \<le> c \<and> c \<le> 0x8F
      else is_cont c)"

definition utf8_len :: "nat \<Rightarrow> nat" where
  "utf8_len b = (if b < 0xE0 then 2 else if b < 0xF0 then 3 else 4)"

definition lead_bits :: "nat \<Rightarrow> nat" where
  "lead_bits b = (if b < 0xE0 then b - 0xC0 else if b < 0xF0 then b - 0xE0 else b - 0xF0)"

definition cont_value :: "nat \<Rightarrow> nat list \<Rightarrow> nat" where
  "cont_value v cs = foldl (\<lambda>v c. v * 64 + (c - 0x80)) v cs"

text \<open>How many continuation bytes a lead byte is followed by, of those it calls for.\<close>

definition conts :: "nat \<Rightarrow> nat list \<Rightarrow> nat" where
  "conts b cs =
     (case cs of
        [] \<Rightarrow> 0
      | c # r \<Rightarrow> if second_ok b c then Suc (length (takeWhile is_cont (take (utf8_len b - 2) r))) else 0)"

datatype utf8_step = Decoded nat nat | Malformed nat string

definition utf8_one :: "nat \<Rightarrow> nat list \<Rightarrow> utf8_step" where
  "utf8_one b cs =
     (if b < 0x80 then Decoded b 0
      else if b < 0xC2 \<or> 0xF4 < b then Malformed 1 ''invalid start byte''
      else if Suc (conts b cs) = utf8_len b then
        Decoded (cont_value (lead_bits b) (take (conts b cs) cs)) (conts b cs)
      else Malformed (Suc (conts b cs))
        (if length cs \<le> conts b cs then ''unexpected end of data'' else ''invalid continuation byte''))"

text \<open>\<^verbatim>\<open>surrogatepass\<close>: three bytes that spell a surrogate stand for it.\<close>

definition surrogate_bytes :: "nat \<Rightarrow> nat list \<Rightarrow> nat option" where
  "surrogate_bytes b cs =
     (case cs of
        c # d # _ \<Rightarrow>
          (let v = cont_value (b - 0xE0) [c, d] in
           if 0xE0 \<le> b \<and> b \<le> 0xEF \<and> is_cont c \<and> is_cont d \<and> 0xD800 \<le> v \<and> v \<le> 0xDFFF then Some v else None)
      | _ \<Rightarrow> None)"

definition decode_failure :: "nat \<Rightarrow> nat \<Rightarrow> nat \<Rightarrow> string \<Rightarrow> py_error" where
  "decode_failure pos n b reason =
     ValueError (squote # ''utf-8'' @ squote # '' codec can'' @ squote # ''t decode ''
       @ (if n = 1 then ''byte 0x'' @ hex_byte b @ '' in position '' @ show_nat pos
          else ''bytes in position '' @ show_nat pos @ ''-'' @ show_nat (pos + n - 1))
       @ '': '' @ reason)"

fun utf8_text :: "bool \<Rightarrow> nat \<Rightarrow> nat list \<Rightarrow> utext result" where
  "utf8_text pass pos [] = Inr []"
| "utf8_text pass pos (b # cs) =
     (case utf8_one b cs of
        Decoded v n \<Rightarrow> res_bind (utf8_text pass (pos + Suc n) (drop n cs)) (\<lambda>t. Inr (v # t))
      | Malformed n reason \<Rightarrow>
          (case (if pass then surrogate_bytes b cs else None) of
             Some v \<Rightarrow> res_bind (utf8_text pass (pos + 3) (drop 2 cs)) (\<lambda>t. Inr (v # t))
           | None \<Rightarrow> Inl (decode_failure pos n b reason)))"

definition utf8_decode :: "bool \<Rightarrow> byte list \<Rightarrow> utext result" where
  "utf8_decode pass bs = utf8_text pass 0 (map unat bs)"

section \<open>Encoding\<close>

definition scalar :: "nat \<Rightarrow> bool" where
  "scalar v \<longleftrightarrow> v < 0x110000 \<and> \<not> (0xD800 \<le> v \<and> v \<le> 0xDFFF)"

definition encode_one :: "nat \<Rightarrow> nat list" where
  "encode_one v =
     (if v < 0x80 then [v]
      else if v < 0x800 then [0xC0 + v div 64, 0x80 + v mod 64]
      else if v < 0x10000 then [0xE0 + v div 4096, 0x80 + v div 64 mod 64, 0x80 + v mod 64]
      else [0xF0 + v div 262144, 0x80 + v div 4096 mod 64, 0x80 + v div 64 mod 64, 0x80 + v mod 64])"

definition uencode :: "utext \<Rightarrow> byte list" where
  "uencode t = map word_of_nat (concat (map encode_one t))"

section \<open>Decoding is the inverse of encoding\<close>

lemma encode_one_byte: "v < 0x110000 \<Longrightarrow> b \<in> set (encode_one v) \<Longrightarrow> b < 256"
  by (auto simp: encode_one_def split: if_splits)

lemma mod_parts:
  fixes v :: nat
  shows "v div 64 * 64 + v mod 64 = v" "v div 4096 * 64 + v div 64 mod 64 = v div 64"
    "v div 262144 * 64 + v div 4096 mod 64 = v div 4096"
proof -
  have "v div 64 div 64 = v div 4096" "v div 4096 div 64 = v div 262144" by (simp_all add: div_mult2_eq[symmetric])
  then show "v div 64 * 64 + v mod 64 = v" "v div 4096 * 64 + v div 64 mod 64 = v div 64"
    "v div 262144 * 64 + v div 4096 mod 64 = v div 4096"
    by (metis div_mult_mod_eq)+
qed

lemma utf8_one_encode:
  assumes "scalar v"
  shows "\<exists>b cs. encode_one v = b # cs \<and> utf8_one b (cs @ r) = Decoded v (length cs)"
proof -
  consider (1) "v < 0x80" | (2) "0x80 \<le> v" "v < 0x800" | (3) "0x800 \<le> v" "v < 0x10000"
    | (4) "0x10000 \<le> v" "v < 0x110000"
    using assms unfolding scalar_def by linarith
  then show ?thesis
  proof cases
    case 1
    then show ?thesis by (simp add: encode_one_def utf8_one_def)
  next
    case 2
    then have "v div 64 \<ge> 2" "v div 64 < 32" by auto
    then show ?thesis
      using 2 by (simp add: encode_one_def utf8_one_def conts_def second_ok_def is_cont_def utf8_len_def
          lead_bits_def cont_value_def less_Suc_eq_le[symmetric] mod_parts)
  next
    case 3
    have "v div 4096 < 16" "v div 4096 = 0 \<Longrightarrow> v div 64 < 64" using 3 by auto
    moreover have "v div 4096 = 0 \<Longrightarrow> 32 \<le> v div 64 mod 64" using 3(1) by simp
    moreover have "v div 4096 = 13 \<Longrightarrow> v div 64 mod 64 < 32"
      using assms mod_parts(1,2)[of v] mod_less_divisor[of 64 v] mod_less_divisor[of 64 "v div 64"]
      unfolding scalar_def by linarith
    ultimately show ?thesis
      using 3 by (simp add: encode_one_def utf8_one_def conts_def second_ok_def is_cont_def utf8_len_def
          lead_bits_def cont_value_def less_Suc_eq_le[symmetric] mod_parts)
  next
    case 4
    have "v div 262144 < 5" "v div 262144 = 0 \<Longrightarrow> v div 4096 < 64" using 4 by auto
    moreover have "v div 262144 = 0 \<Longrightarrow> 16 \<le> v div 4096 mod 64" using 4(1) by simp
    moreover have "v div 262144 = 4 \<Longrightarrow> v div 4096 mod 64 < 16"
      using 4(2) mod_parts(1-3)[of v] by linarith
    ultimately show ?thesis
      using 4 by (simp add: encode_one_def utf8_one_def conts_def second_ok_def is_cont_def utf8_len_def
          lead_bits_def cont_value_def less_Suc_eq_le[symmetric] mod_parts)
  qed
qed

lemma utf8_text_encode:
  assumes "list_all scalar t"
  shows "utf8_text pass pos (concat (map encode_one t)) = Inr t"
  using assms
proof (induction t arbitrary: pos)
  case (Cons v t)
  then obtain b cs where "encode_one v = b # cs"
      "utf8_one b (cs @ concat (map encode_one t)) = Decoded v (length cs)"
    using utf8_one_encode by fastforce
  then show ?case using Cons by simp
qed simp

lemma encode_bytes: "list_all scalar t \<Longrightarrow> list_all (\<lambda>b. b < 256) (concat (map encode_one t))"
  using encode_one_byte by (induction t) (auto simp: scalar_def list_all_iff)

theorem utf8_decode_uencode: "list_all scalar t \<Longrightarrow> utf8_decode pass (uencode t) = Inr t"
proof -
  assume t: "list_all scalar t"
  have "map (unat \<circ> (word_of_nat :: nat \<Rightarrow> byte)) bs = bs" if "list_all (\<lambda>b. b < 256) bs" for bs
    using that by (induction bs) (simp_all add: unat_of_nat take_bit_eq_mod)
  from this[OF encode_bytes[OF t]] utf8_text_encode[OF t]
  show ?thesis by (simp add: utf8_decode_def uencode_def)
qed

lemma encode_values:
  assumes "c < 64" "d < 64" "e < 64"
  shows "b < 32 \<Longrightarrow> 2 \<le> b \<Longrightarrow> encode_one (b * 64 + c) = [0xC0 + b, 0x80 + c]"
    "b < 16 \<Longrightarrow> (b = 0 \<Longrightarrow> 32 \<le> c) \<Longrightarrow> encode_one ((b * 64 + c) * 64 + d) = [0xE0 + b, 0x80 + c, 0x80 + d]"
    "b < 5 \<Longrightarrow> (b = 0 \<Longrightarrow> 16 \<le> c) \<Longrightarrow> (b = 4 \<Longrightarrow> c < 16)
       \<Longrightarrow> encode_one (((b * 64 + c) * 64 + d) * 64 + e) = [0xF0 + b, 0x80 + c, 0x80 + d, 0x80 + e]"
proof -
  have q: "(x * 64 + y) div 64 = x" "(x * 64 + y) mod 64 = y" if "y < 64" for x y :: nat using that by simp_all
  have q2: "z div 4096 = z div 64 div 64" "z div 262144 = z div 64 div 64 div 64" for z :: nat
    by (simp_all add: div_mult2_eq[symmetric])
  show "b < 32 \<Longrightarrow> 2 \<le> b \<Longrightarrow> encode_one (b * 64 + c) = [0xC0 + b, 0x80 + c]"
    using assms q[of c b] by (simp add: encode_one_def)
  show "b < 16 \<Longrightarrow> (b = 0 \<Longrightarrow> 32 \<le> c) \<Longrightarrow> encode_one ((b * 64 + c) * 64 + d) = [0xE0 + b, 0x80 + c, 0x80 + d]"
  proof -
    assume b: "b < 16" "b = 0 \<Longrightarrow> 32 \<le> c"
    let ?z = "(b * 64 + c) * 64 + d"
    have "0x800 \<le> ?z" using assms b by (cases b) auto
    moreover have "?z < 0x10000" using assms b(1) by simp
    ultimately show ?thesis using q[OF assms(2), of "b * 64 + c"] q[OF assms(1), of b] by (simp add: encode_one_def q2)
  qed
  show "b < 5 \<Longrightarrow> (b = 0 \<Longrightarrow> 16 \<le> c) \<Longrightarrow> (b = 4 \<Longrightarrow> c < 16)
       \<Longrightarrow> encode_one (((b * 64 + c) * 64 + d) * 64 + e) = [0xF0 + b, 0x80 + c, 0x80 + d, 0x80 + e]"
  proof -
    assume b: "b < 5" "b = 0 \<Longrightarrow> 16 \<le> c" "b = 4 \<Longrightarrow> c < 16"
    let ?z = "((b * 64 + c) * 64 + d) * 64 + e"
    have "0x10000 \<le> ?z" using assms b by (cases b) auto
    then show ?thesis
      using q[OF assms(3), of "(b * 64 + c) * 64 + d"] q[OF assms(2), of "b * 64 + c"] q[OF assms(1), of b]
      by (simp add: encode_one_def q2)
  qed
qed

text \<open>The bytes a decoded step has read are the only encoding of its value.\<close>

lemma conts_split:
  assumes "Suc (conts b cs) = utf8_len b"
  obtains c r where "cs = c # r" "second_ok b c" "list_all is_cont (take (utf8_len b - 2) r)"
    "utf8_len b - 2 \<le> length r"
proof -
  have n: "2 \<le> utf8_len b" by (simp add: utf8_len_def)
  then obtain c r where cs: "cs = c # r" "second_ok b c"
    using assms by (auto simp: conts_def split: list.splits if_splits)
  let ?t = "take (utf8_len b - 2) r"
  have l: "length (takeWhile is_cont ?t) = utf8_len b - 2" using assms cs n by (simp add: conts_def)
  moreover have "length ?t \<le> utf8_len b - 2" by simp
  ultimately have "length (takeWhile is_cont ?t) = length ?t"
    using length_takeWhile_le[of is_cont ?t] by linarith
  then have "takeWhile is_cont ?t = ?t" by (metis takeWhile_eq_take take_all_iff order_refl)
  then have "list_all is_cont ?t" by (simp add: takeWhile_eq_all_conv list_all_iff)
  moreover have "utf8_len b - 2 \<le> length r" using l \<open>takeWhile is_cont ?t = ?t\<close> by simp
  ultimately show ?thesis using that cs by blast
qed

lemma cont_offset: "is_cont c \<Longrightarrow> \<exists>x<64. c = 0x80 + x"
  by (intro exI[of _ "c - 0x80"]) (auto simp: is_cont_def)

lemma utf8_one_only:
  assumes "utf8_one b cs = Decoded v n"
  shows "scalar v \<and> encode_one v = b # take n cs \<and> n \<le> length cs"
proof (cases "b < 0x80")
  case True
  then show ?thesis using assms by (auto simp: utf8_one_def scalar_def encode_one_def)
next
  case False
  then have b: "0xC2 \<le> b" "b \<le> 0xF4" and k: "Suc (conts b cs) = utf8_len b"
    and v: "v = cont_value (lead_bits b) (take n cs)" and n: "n = utf8_len b - 1"
    using assms by (auto simp: utf8_one_def split: if_splits)
  obtain c r where cs: "cs = c # r" "second_ok b c" "list_all is_cont (take (utf8_len b - 2) r)"
      "utf8_len b - 2 \<le> length r" by (rule conts_split[OF k])
  have "is_cont c" using cs(2) by (auto simp: second_ok_def is_cont_def split: if_splits)
  then obtain x where x: "x < 64" "c = 0x80 + x" using cont_offset by blast
  consider (2) a where "b = 0xC0 + a" "2 \<le> a" "a < 32" | (3) a where "b = 0xE0 + a" "a < 16"
    | (4) a where "b = 0xF0 + a" "a < 5"
  proof -
    assume h2: "\<And>a. b = 0xC0 + a \<Longrightarrow> 2 \<le> a \<Longrightarrow> a < 32 \<Longrightarrow> thesis"
      and h3: "\<And>a. b = 0xE0 + a \<Longrightarrow> a < 16 \<Longrightarrow> thesis" and h4: "\<And>a. b = 0xF0 + a \<Longrightarrow> a < 5 \<Longrightarrow> thesis"
    show thesis using b h2[of "b - 0xC0"] h3[of "b - 0xE0"] h4[of "b - 0xF0"] by linarith
  qed
  then show ?thesis
  proof cases
    case 2
    then have "utf8_len b = 2" by (simp add: utf8_len_def)
    then have "v = a * 64 + x" "take n cs = [c]" "n \<le> length cs"
      using v n cs(1) 2 x by (simp_all add: cont_value_def lead_bits_def)
    moreover have "scalar (a * 64 + x)" using 2 x by (simp add: scalar_def)
    ultimately show ?thesis using encode_values(1)[OF x(1) x(1) x(1), of a] 2 x(2) by simp
  next
    case 3
    then have l: "utf8_len b = 3" by (simp add: utf8_len_def)
    then obtain d r' where r: "r = d # r'" "is_cont d" using cs(3,4) by (cases r) (auto simp: numeral_3_eq_3)
    then obtain y where y: "y < 64" "d = 0x80 + y" using cont_offset by blast
    have lo: "a = 0 \<Longrightarrow> 32 \<le> x" and su: "a = 13 \<Longrightarrow> x < 32" using cs(2) 3 x by (auto simp: second_ok_def)
    have "v = (a * 64 + x) * 64 + y" "take n cs = [c, d]" "n \<le> length cs"
      using v n l cs(1) 3 x y r by (simp_all add: cont_value_def lead_bits_def numeral_2_eq_2)
    moreover have "scalar ((a * 64 + x) * 64 + y)"
      unfolding scalar_def using 3 x y su by (cases "a = 13"; cases "a < 13") auto
    ultimately show ?thesis using encode_values(2)[OF x(1) y(1) y(1), of a] lo 3 x(2) y(2) by simp
  next
    case 4
    then have l: "utf8_len b = 4" by (simp add: utf8_len_def)
    then obtain d e r' where r: "r = d # e # r'" "is_cont d" "is_cont e"
      using cs(3,4) by (cases r; cases "tl r") (auto simp: numeral_2_eq_2)
    obtain y where y: "y < 64" "d = 0x80 + y" using r cont_offset by blast
    obtain z where z: "z < 64" "e = 0x80 + z" using r cont_offset by blast
    have lo: "a = 0 \<Longrightarrow> 16 \<le> x" and hi: "a = 4 \<Longrightarrow> x < 16" using cs(2) 4 x by (auto simp: second_ok_def)
    have "v = ((a * 64 + x) * 64 + y) * 64 + z" "take n cs = [c, d, e]" "n \<le> length cs"
      using v n l cs(1) 4 x y z r by (simp_all add: cont_value_def lead_bits_def numeral_3_eq_3)
    moreover have "scalar (((a * 64 + x) * 64 + y) * 64 + z)"
    proof -
      have "0x10000 \<le> ((a * 64 + x) * 64 + y) * 64 + z" using lo by (cases a) auto
      moreover have "((a * 64 + x) * 64 + y) * 64 + z < 0x110000" using 4 x y z hi by (cases "a = 4") auto
      ultimately show ?thesis by (simp add: scalar_def)
    qed
    ultimately show ?thesis using encode_values(3)[OF x(1) y(1) z(1), of a] lo hi 4 x(2) y(2) z(2) by simp
  qed
qed

lemma utf8_text_only:
  "utf8_text False pos bs = Inr t \<Longrightarrow> list_all scalar t \<and> bs = concat (map encode_one t)"
proof (induction "False" pos bs arbitrary: t rule: utf8_text.induct)
  case (2 pos b cs)
  then obtain v n t' where v: "utf8_one b cs = Decoded v n" "t = v # t'"
      "utf8_text False (pos + Suc n) (drop n cs) = Inr t'"
    by (auto simp: res_bind_def split: utf8_step.splits sum.splits)
  with "2.hyps"(1)[OF v(1,3)] utf8_one_only[OF v(1)] show ?case
    by (auto simp del: append_take_drop_id) (metis append_take_drop_id)
qed simp

theorem utf8_decode_exact:
  "utf8_decode False bs = Inr t \<longleftrightarrow> list_all scalar t \<and> bs = uencode t"
proof
  assume d: "utf8_decode False bs = Inr t"
  have "map (word_of_nat :: nat \<Rightarrow> byte) (map unat bs) = bs" by (induction bs) simp_all
  with utf8_text_only[OF d[unfolded utf8_decode_def]] show "list_all scalar t \<and> bs = uencode t"
    by (simp add: uencode_def)
qed (auto simp: utf8_decode_uencode)

lemma utf8_uencode: "utf8 s = uencode (uc s)"
proof -
  have one: "utf8_char c = map word_of_nat (encode_one (cp c))" for c
  proof -
    have "cp c < 0x800" using cp_lt[of c] by linarith
    then show ?thesis by (simp add: utf8_char_def encode_one_def Let_def)
  qed
  show ?thesis by (induction s) (simp_all add: utf8_def uencode_def uc_def one)
qed

lemma uc_scalar: "list_all scalar (uc s)"
proof -
  have "scalar (cp c)" for c using cp_lt[of c] unfolding scalar_def by linarith
  then show ?thesis by (simp add: uc_def list_all_iff)
qed

lemma utf8_decode_utf8 [simp]: "utf8_decode pass (utf8 s) = Inr (uc s)"
  by (simp add: utf8_uencode utf8_decode_uencode uc_scalar)

section \<open>The encoding of a JSON body\<close>

text \<open>\<^verbatim>\<open>json.detect_encoding\<close>\<close>

definition detect_encoding :: "byte list \<Rightarrow> string" where
  "detect_encoding b =
     (if take 4 b = [0, 0, 0xFE, 0xFF] \<or> take 4 b = [0xFF, 0xFE, 0, 0] then ''utf-32''
      else if take 2 b = [0xFE, 0xFF] \<or> take 2 b = [0xFF, 0xFE] then ''utf-16''
      else if take 3 b = [0xEF, 0xBB, 0xBF] then ''utf-8-sig''
      else if 4 \<le> length b \<and> b ! 0 = 0 then (if b ! 1 \<noteq> 0 then ''utf-16-be'' else ''utf-32-be'')
      else if 4 \<le> length b \<and> b ! 1 = 0 then
        (if b ! 2 \<noteq> 0 \<or> b ! 3 \<noteq> 0 then ''utf-16-le'' else ''utf-32-le'')
      else if length b = 2 \<and> b ! 0 = 0 then ''utf-16-be''
      else if length b = 2 \<and> b ! 1 = 0 then ''utf-16-le''
      else ''utf-8'')"

lemma detect_utf8:
  assumes "b \<notin> {0, 0xEF, 0xFE, 0xFF}" and "0 \<notin> set bs"
  shows "detect_encoding (b # bs) = ''utf-8''"
proof -
  have "4 \<le> length (b # bs) \<or> length (b # bs) = 2 \<Longrightarrow> (b # bs) ! 1 \<noteq> 0"
    using assms(2) by (cases bs) auto
  then show ?thesis using assms(1) unfolding detect_encoding_def by auto
qed

lemma encode_one_nonzero: "v \<noteq> 0 \<Longrightarrow> 0 \<notin> set (encode_one v)"
  by (auto simp: encode_one_def)

lemma uencode_nonzero:
  assumes "list_all scalar t" and "0 \<notin> set t"
  shows "0 \<notin> set (uencode t)"
proof
  assume "0 \<in> set (uencode t)"
  then obtain v b where v: "v \<in> set t" "b \<in> set (encode_one v)" "(word_of_nat b :: byte) = 0"
    by (auto simp: uencode_def)
  have "b < 256" using encode_one_byte[OF _ v(2)] v(1) assms(1) by (auto simp: list_all_iff scalar_def)
  then have "b = 0" using v(3) unat_of_nat[of b, where 'a = 8] by simp
  then show False using encode_one_nonzero[of v] v assms(2) by metis
qed

end
