(* ===== verification/JsonText.thy ===== *)
theory JsonText
  imports Json Utf8
begin

text \<open>
  \<^verbatim>\<open>json.loads\<close> as CPython 3.12 has it, with the messages and positions of its
  \<open>JSONDecodeError\<close>: what \<^verbatim>\<open>request.json()\<close> applies to a webhook body, the worker to a
  queue message and the recorder to a line. Text is a list of code points, so nothing is
  cut off at Latin-1; \<open>as_json\<close> gives the value the normalizers are modelled on when its
  texts are Latin-1. \<open>flt\<close> is \<^verbatim>\<open>repr(float(literal))\<close>.

  \<open>scan_dumps\<close> shows that what \<^verbatim>\<open>json.dumps\<close> prints is read back, whatever follows it,
  and \<open>loads_wf\<close> that a decoded value has distinct keys.
\<close>

datatype ujson =
    UNull
  | UBool bool
  | UInt int
  | UFloat utext
  | UStr utext
  | UList "ujson list"
  | UObj "(utext \<times> ujson) list"

text \<open>
  Where a scan stops: \<open>At msg n\<close> is an error with \<open>n\<close> code points left, \<open>Digits n\<close> the
  refusal of \<^verbatim>\<open>int()\<close> to read more than 4300 digits.
\<close>

datatype scan_error = At string nat | Digits nat

type_synonym 'a scan = "scan_error + 'a \<times> utext"

definition scan_map :: "('a \<Rightarrow> 'b) \<Rightarrow> 'a scan \<Rightarrow> 'b scan" where
  "scan_map f m = (case m of Inl e \<Rightarrow> Inl e | Inr (x, r) \<Rightarrow> Inr (f x, r))"

definition is_ws :: "nat \<Rightarrow> bool" where
  "is_ws c \<longleftrightarrow> c = 32 \<or> c = 9 \<or> c = 10 \<or> c = 13"

definition skip_ws :: "utext \<Rightarrow> utext" where
  "skip_ws = dropWhile is_ws"

section \<open>Strings\<close>

definition hex_val :: "nat \<Rightarrow> nat option" where
  "hex_val c =
     (if 48 \<le> c \<and> c \<le> 57 then Some (c - 48)
      else if 97 \<le> c \<and> c \<le> 102 then Some (c - 87)
      else if 65 \<le> c \<and> c \<le> 70 then Some (c - 55) else None)"

fun hex4 :: "utext \<Rightarrow> nat option" where
  "hex4 (a # b # c # d # r) =
     (case (hex_val a, hex_val b, hex_val c, hex_val d) of
        (Some w, Some x, Some y, Some z) \<Rightarrow> Some (((w * 16 + x) * 16 + y) * 16 + z)
      | _ \<Rightarrow> None)"
| "hex4 _ = None"

definition escape_val :: "nat \<Rightarrow> nat option" where
  "escape_val c = map_of [(34, 34), (92, 92), (47, 47), (98, 8), (102, 12), (110, 10), (114, 13), (116, 9)] c"

definition high_surrogate :: "nat \<Rightarrow> bool" where
  "high_surrogate c \<longleftrightarrow> 0xD800 \<le> c \<and> c \<le> 0xDBFF"

definition low_surrogate :: "nat \<Rightarrow> bool" where
  "low_surrogate c \<longleftrightarrow> 0xDC00 \<le> c \<and> c \<le> 0xDFFF"

definition join_surrogates :: "nat \<Rightarrow> nat \<Rightarrow> nat" where
  "join_surrogates h l = 0x10000 + (h - 0xD800) * 1024 + (l - 0xDC00)"

abbreviation unterminated :: "nat \<Rightarrow> scan_error" where
  "unterminated \<equiv> At ''Unterminated string starting at''"

abbreviation bad_u :: "nat \<Rightarrow> scan_error" where
  "bad_u \<equiv> At (CHR ''I'' # ''nvalid '' @ bslash # ''uXXXX escape'')"

text \<open>From behind the opening quote, which stood with \<open>b\<close> code points left.\<close>

fun scan_string :: "nat \<Rightarrow> utext \<Rightarrow> utext scan" where
  "scan_string b [] = Inl (unterminated b)"
| "scan_string b (c # cs) =
     (if c = 34 then Inr ([], cs)
      else if c = 92 then
        (case cs of
           [] \<Rightarrow> Inl (unterminated b)
         | e # es \<Rightarrow>
             if e = 117 then
               (if length es \<le> 4 then Inl (bad_u (length cs))
                else case hex4 es of
                  None \<Rightarrow> Inl (bad_u (length cs))
                | Some h \<Rightarrow>
                    if high_surrogate h \<and> 6 < length (drop 4 es) \<and> es ! 4 = 92 \<and> es ! 5 = 117 then
                      (case hex4 (drop 6 es) of
                         None \<Rightarrow> Inl (bad_u (length (drop 5 es)))
                       | Some l \<Rightarrow>
                           if low_surrogate l
                           then scan_map ((#) (join_surrogates h l)) (scan_string b (drop 10 es))
                           else scan_map ((#) h) (scan_string b (drop 4 es)))
                    else scan_map ((#) h) (scan_string b (drop 4 es)))
             else
               (case escape_val e of
                  None \<Rightarrow> Inl (At (CHR ''I'' # ''nvalid '' @ bslash # ''escape'') (Suc (length cs)))
                | Some x \<Rightarrow> scan_map ((#) x) (scan_string b es)))
      else if c \<le> 31 then Inl (At ''Invalid control character at'' (Suc (length cs)))
      else scan_map ((#) c) (scan_string b cs))"

section \<open>Numbers\<close>

definition is_dig :: "nat \<Rightarrow> bool" where
  "is_dig c \<longleftrightarrow> 48 \<le> c \<and> c \<le> 57"

definition int_part :: "utext \<Rightarrow> (utext \<times> utext) option" where
  "int_part cs =
     (case cs of
        [] \<Rightarrow> None
      | c # r \<Rightarrow>
          if c = 48 then Some ([c], r)
          else if is_dig c then Some (c # takeWhile is_dig r, dropWhile is_dig r) else None)"

definition frac_part :: "utext \<Rightarrow> utext \<times> utext" where
  "frac_part cs =
     (case cs of
        p # d # r \<Rightarrow> if p = 46 \<and> is_dig d then (p # d # takeWhile is_dig r, dropWhile is_dig r) else ([], cs)
      | _ \<Rightarrow> ([], cs))"

definition exp_sign :: "utext \<Rightarrow> utext \<times> utext" where
  "exp_sign cs = (case cs of [] \<Rightarrow> ([], []) | s # r \<Rightarrow> if s = 43 \<or> s = 45 then ([s], r) else ([], cs))"

definition exp_part :: "utext \<Rightarrow> utext \<times> utext" where
  "exp_part cs =
     (case cs of
        [] \<Rightarrow> ([], [])
      | e # r \<Rightarrow>
          if e = 101 \<or> e = 69 then
            (case exp_sign r of (s, r') \<Rightarrow>
               if takeWhile is_dig r' \<noteq> [] then (e # s @ takeWhile is_dig r', dropWhile is_dig r') else ([], cs))
          else ([], cs))"

definition num_sign :: "utext \<Rightarrow> utext \<times> utext" where
  "num_sign cs = (case cs of [] \<Rightarrow> ([], []) | c # r \<Rightarrow> if c = 45 then ([c], r) else ([], cs))"

text \<open>The longest number at the front: whether it is a float, its text, and the rest.\<close>

definition match_number :: "utext \<Rightarrow> (bool \<times> utext \<times> utext) option" where
  "match_number cs =
     (case num_sign cs of (sign, r0) \<Rightarrow>
      (case int_part r0 of
         None \<Rightarrow> None
       | Some (i, r1) \<Rightarrow>
           (case frac_part r1 of (f, r2) \<Rightarrow>
              (case exp_part r2 of (e, r3) \<Rightarrow> Some (f \<noteq> [] \<or> e \<noteq> [], sign @ i @ f @ e, r3)))))"

definition int_value :: "utext \<Rightarrow> int" where
  "int_value t =
     (case t of
        c # ds \<Rightarrow> if c = 45 then - int (digits_val (map (\<lambda>d. d - 48) ds))
                  else int (digits_val (map (\<lambda>d. d - 48) t))
      | [] \<Rightarrow> 0)"

definition scan_number :: "(utext \<Rightarrow> utext) \<Rightarrow> utext \<Rightarrow> ujson scan" where
  "scan_number flt cs =
     (case match_number cs of
        None \<Rightarrow> Inl (At ''Expecting value'' (length cs))
      | Some (is_float, t, r) \<Rightarrow>
          if is_float then Inr (UFloat (flt t), r)
          else if 4300 < length (filter is_dig t) then Inl (Digits (length (filter is_dig t)))
          else Inr (UInt (int_value t), r))"

section \<open>Values\<close>

definition literals :: "(utext \<times> ujson) list" where
  "literals =
     [(uc ''null'', UNull), (uc ''true'', UBool True), (uc ''false'', UBool False),
      (uc ''NaN'', UFloat (uc ''nan'')), (uc ''Infinity'', UFloat (uc ''inf'')),
      (uc ''-Infinity'', UFloat (uc ''-inf''))]"

definition scan_atom :: "(utext \<Rightarrow> utext) \<Rightarrow> utext \<Rightarrow> ujson scan" where
  "scan_atom flt cs =
     (case find (\<lambda>(t, _). take (length t) cs = t) literals of
        Some (t, v) \<Rightarrow> Inr (v, drop (length t) cs)
      | None \<Rightarrow> scan_number flt cs)"

abbreviation no_comma :: "utext \<Rightarrow> scan_error" where
  "no_comma r \<equiv> At (''Expecting '' @ squote # '','' @ squote # '' delimiter'') (length r)"

abbreviation no_colon :: "utext \<Rightarrow> scan_error" where
  "no_colon r \<equiv> At (''Expecting '' @ squote # '':'' @ squote # '' delimiter'') (length r)"

definition dict_of :: "(utext \<times> ujson) list \<Rightarrow> (utext \<times> ujson) list" where
  "dict_of kvs = foldl (\<lambda>d (k, v). dict_set k v d) [] kvs"

lemma scan_string_shorter: "scan_string b cs = Inr (s, r) \<Longrightarrow> length r < length cs"
proof (induction b cs arbitrary: s rule: scan_string.induct)
  case (2 b c cs)
  show ?case
    using 2 by (fastforce simp: scan_map_def Let_def split: if_splits list.splits option.splits sum.splits)
qed simp

lemma skip_ws_length [simp]: "length (skip_ws cs) \<le> length cs"
  by (simp add: skip_ws_def length_dropWhile_le)

lemma match_number_shorter: "match_number cs = Some (b, t, r) \<Longrightarrow> length r < length cs"
proof -
  have tail: "length (dropWhile P xs) \<le> length xs" for P and xs :: utext by (rule length_dropWhile_le)
  have 1: "length r1 < length r0" if "int_part r0 = Some (i, r1)" for r0 i r1
    using that by (auto simp: int_part_def le_imp_less_Suc[OF tail] split: list.splits if_splits)
  have 2: "length (snd (frac_part xs)) \<le> length xs" for xs
    by (auto simp: frac_part_def split: list.splits intro: le_SucI tail)
  have 3: "length (snd (exp_sign xs)) \<le> length xs" for xs
    by (auto simp: exp_sign_def split: list.splits)
  have 4: "length (snd (exp_part xs)) \<le> length xs" for xs
    using 3[of "tl xs"] tail[of is_dig "snd (exp_sign (tl xs))"]
    by (auto simp: exp_part_def split: list.splits prod.splits)
  assume m: "match_number cs = Some (b, t, r)"
  then obtain r0 i r1 where r: "int_part r0 = Some (i, r1)" "length r0 \<le> length cs"
      "r = snd (exp_part (snd (frac_part r1)))"
    by (auto simp: match_number_def num_sign_def split: list.splits if_splits option.splits prod.splits)
  show ?thesis using 1[OF r(1)] 2[of r1] 4[of "snd (frac_part r1)"] r(2,3) by simp
qed

lemma scan_atom_shorter: "scan_atom flt cs = Inr (v, r) \<Longrightarrow> length r < length cs"
proof -
  assume a: "scan_atom flt cs = Inr (v, r)"
  show ?thesis
  proof (cases "find (\<lambda>(t, _). take (length t) cs = t) literals")
    case None
    then show ?thesis
      using a match_number_shorter by (auto simp: scan_atom_def scan_number_def split: option.splits if_splits)
  next
    case (Some p)
    obtain t w where p: "p = (t, w)" by (cases p)
    have "(t, w) \<in> set literals" "take (length t) cs = t"
      using Some by (auto simp: find_Some_iff p in_set_conv_nth)
    moreover from this have "t \<noteq> []" by (auto simp: literals_def uc_def)
    moreover have "r = drop (length t) cs" using a Some by (simp add: scan_atom_def p)
    ultimately show ?thesis by (cases cs; cases t) auto
  qed
qed

text \<open>\<open>scan_array\<close> and \<open>scan_object\<close> start at an element.\<close>

function (sequential) scan_once :: "(utext \<Rightarrow> utext) \<Rightarrow> utext \<Rightarrow> ujson scan"
  and scan_array :: "(utext \<Rightarrow> utext) \<Rightarrow> utext \<Rightarrow> ujson list scan"
  and scan_object :: "(utext \<Rightarrow> utext) \<Rightarrow> utext \<Rightarrow> (utext \<times> ujson) list scan" where
  "scan_once flt [] = Inl (At ''Expecting value'' 0)"
| "scan_once flt (c # r) =
     (if c = 34 then scan_map UStr (scan_string (Suc (length r)) r)
      else if c = 123 then
        (if take 1 (skip_ws r) = [125] then Inr (UObj [], drop 1 (skip_ws r))
         else scan_map (UObj \<circ> dict_of) (scan_object flt (skip_ws r)))
      else if c = 91 then
        (if take 1 (skip_ws r) = [93] then Inr (UList [], drop 1 (skip_ws r))
         else scan_map UList (scan_array flt (skip_ws r)))
      else scan_atom flt (c # r))"
| "scan_array flt cs =
     (case scan_once flt cs of
        Inl e \<Rightarrow> Inl e
      | Inr (v, r) \<Rightarrow>
          (case skip_ws r of
             [] \<Rightarrow> Inl (no_comma [])
           | c # r' \<Rightarrow>
               if c = 93 then Inr ([v], r')
               else if c = 44 then scan_map ((#) v) (scan_array flt (skip_ws r'))
               else Inl (no_comma (c # r'))))"
| "scan_object flt [] = Inl (At ''Expecting property name enclosed in double quotes'' 0)"
| "scan_object flt (q # cs) =
     (if q \<noteq> 34 then Inl (At ''Expecting property name enclosed in double quotes'' (Suc (length cs)))
      else case scan_string (Suc (length cs)) cs of
        Inl e \<Rightarrow> Inl e
      | Inr (k, r1) \<Rightarrow>
          (case skip_ws r1 of
             [] \<Rightarrow> Inl (no_colon [])
           | d # r2 \<Rightarrow>
               if d \<noteq> 58 then Inl (no_colon (d # r2))
               else case scan_once flt (skip_ws r2) of
                 Inl e \<Rightarrow> Inl e
               | Inr (v, r3) \<Rightarrow>
                   (case skip_ws r3 of
                      [] \<Rightarrow> Inl (no_comma [])
                    | c # r4 \<Rightarrow>
                        if c = 125 then Inr ([(k, v)], r4)
                        else if c = 44 then scan_map ((#) (k, v)) (scan_object flt (skip_ws r4))
                        else Inl (no_comma (c # r4)))))"
  by pat_completeness auto

abbreviation scan_dom :: "(utext \<Rightarrow> utext) \<times> utext + (utext \<Rightarrow> utext) \<times> utext + (utext \<Rightarrow> utext) \<times> utext \<Rightarrow> bool" where
  "scan_dom \<equiv> scan_once_scan_array_scan_object_dom"

lemma skip_ws_Cons: "skip_ws r = c # r' \<Longrightarrow> length r' < length r"
  using skip_ws_length[of r] by simp

lemma scan_shorter_dom:
  "scan_dom (Inl (flt, cs)) \<Longrightarrow> scan_once flt cs = Inr (v, r) \<Longrightarrow> length r < length cs"
  "scan_dom (Inr (Inl (flt, cs))) \<Longrightarrow> scan_array flt cs = Inr (vs, r) \<Longrightarrow> length r < length cs"
  "scan_dom (Inr (Inr (flt, cs))) \<Longrightarrow> scan_object flt cs = Inr (kvs, r) \<Longrightarrow> length r < length cs"
proof (induction arbitrary: v r and vs r and kvs r rule: scan_once_scan_array_scan_object.pinduct)
  case (1 flt)
  then show ?case by (simp add: scan_once.psimps)
next
  case (2 flt c cs)
  have "length (drop 1 (skip_ws cs)) < Suc (length cs)"
    using le_imp_less_Suc[OF order_trans[OF diff_le_self skip_ws_length[of cs]]] by simp
  moreover have "length x < Suc (length cs)" if "length x < length (skip_ws cs)" for x :: utext
    using that skip_ws_length[of cs] by linarith
  ultimately show ?case
    using "2.prems" "2.IH" scan_string_shorter[of _ cs] scan_atom_shorter[of flt "c # cs"]
    by (auto simp: scan_once.psimps(2)[OF "2.hyps"] scan_map_def less_SucI split: if_splits sum.splits)
next
  case (3 flt cs)
  obtain v r1 where v: "scan_once flt cs = Inr (v, r1)"
    using "3.prems" by (auto simp: scan_array.psimps[OF "3.hyps"] split: sum.splits)
  have 1: "length r1 < length cs" using "3.IH"(1)[OF v] .
  obtain c r2 where c: "skip_ws r1 = c # r2"
    using "3.prems" by (auto simp: scan_array.psimps[OF "3.hyps"] v split: list.splits)
  have 2: "length r2 < length r1" by (rule skip_ws_Cons[OF c])
  show ?case
  proof (cases "c = 93")
    case True
    then show ?thesis using "3.prems" 1 2 by (simp add: scan_array.psimps[OF "3.hyps"] v c)
  next
    case False
    then obtain ws where w: "c = 44" "scan_array flt (skip_ws r2) = Inr (ws, r)"
      using "3.prems" by (auto simp: scan_array.psimps[OF "3.hyps"] v c scan_map_def split: if_splits sum.splits)
    have "length r < length (skip_ws r2)" using "3.IH"(2)[OF v refl c False w] .
    then show ?thesis using 1 2 skip_ws_length[of r2] by linarith
  qed
next
  case (4 flt)
  then show ?case by (simp add: scan_object.psimps)
next
  case (5 flt q cs)
  obtain k r1 where k: "q = 34" "scan_string (Suc (length cs)) cs = Inr (k, r1)"
    using "5.prems" by (auto simp: scan_object.psimps(2)[OF "5.hyps"] split: if_splits sum.splits)
  note ps = scan_object.psimps(2)[OF "5.hyps", unfolded k(1)]
  obtain d r2 where d: "skip_ws r1 = d # r2" "d = 58"
    using "5.prems"[unfolded k(1)] by (auto simp: ps k(2) split: list.splits if_splits)
  obtain v r3 where v: "scan_once flt (skip_ws r2) = Inr (v, r3)"
    using "5.prems"[unfolded k(1)] by (auto simp: ps k(2) d split: sum.splits)
  obtain c r4 where c: "skip_ws r3 = c # r4"
    using "5.prems"[unfolded k(1)] by (auto simp: ps k(2) d v split: list.splits)
  have "length r3 < length (skip_ws r2)"
    using "5.IH"(1)[OF _ k(2) refl d(1) _ v] k(1) d(2) by simp
  then have 1: "length r4 < length cs"
    using scan_string_shorter[OF k(2)] skip_ws_Cons[OF d(1)] skip_ws_Cons[OF c] skip_ws_length[of r2] by linarith
  show ?case
  proof (cases "c = 125")
    case True
    then show ?thesis using "5.prems"[unfolded k(1)] 1 by (simp add: ps k(2) d v c)
  next
    case False
    then obtain ws where w: "c = 44" "scan_object flt (skip_ws r4) = Inr (ws, r)"
      using "5.prems"[unfolded k(1)] by (auto simp: ps k(2) d v c scan_map_def split: if_splits sum.splits)
    have "length r < length (skip_ws r4)"
      using "5.IH"(2)[OF _ k(2) refl d(1) _ v refl c False w] k(1) d(2) by simp
    then show ?thesis using 1 skip_ws_length[of r4] by (simp del: skip_ws_length)
  qed
qed

lemma skip_ws_less [simp]: "length (skip_ws r) < Suc (length r)"
  by (simp add: less_Suc_eq_le)

termination scan_once
proof (relation "measure (\<lambda>x. case x of Inl (_, cs) \<Rightarrow> 2 * length cs
    | Inr (Inl (_, cs)) \<Rightarrow> 2 * length cs + 1 | Inr (Inr (_, cs)) \<Rightarrow> 2 * length cs + 1)", goal_cases)
  case (5 flt cs b v r c r')
  then have "length r < length cs" by (intro scan_shorter_dom(1)) auto
  then show ?case using skip_ws_Cons[OF 5(3)] skip_ws_length[of r'] by (simp del: skip_ws_length)
next
  case (6 flt q cs b k r1 d r2)
  then have "length r1 < length cs" by (intro scan_string_shorter) auto
  then show ?case using skip_ws_Cons[OF 6(4)] skip_ws_length[of r2] by (simp del: skip_ws_length)
next
  case (7 flt q cs b k r1 d r2 b' v r3 c r4)
  have "length r1 < length cs" using 7 by (intro scan_string_shorter) auto
  moreover have "length r3 < length (skip_ws r2)" using 7 by (intro scan_shorter_dom(1)) auto
  ultimately show ?case
    using skip_ws_Cons[OF 7(4)] skip_ws_Cons[OF 7(8)] skip_ws_length[of r2] skip_ws_length[of r4] by (simp del: skip_ws_length)
qed (simp_all add: less_Suc_eq_le)

section \<open>json.loads\<close>

text \<open>\<open>JSONDecodeError\<close>, a \<open>ValueError\<close>, with the line and column of the failure.\<close>

definition decode_error :: "utext \<Rightarrow> string \<Rightarrow> nat \<Rightarrow> py_error" where
  "decode_error doc msg n =
     (let pos = length doc - n; before = take pos doc in
      ValueError (msg @ '': line '' @ show_nat (length (filter (\<lambda>c. c = 10) before) + 1)
        @ '' column '' @ show_nat (length (takeWhile (\<lambda>c. c \<noteq> 10) (rev before)) + 1)
        @ '' (char '' @ show_nat pos @ '')''))"

fun scan_failure :: "utext \<Rightarrow> scan_error \<Rightarrow> py_error" where
  "scan_failure doc (At msg n) = decode_error doc msg n"
| "scan_failure doc (Digits n) =
     ValueError (''Exceeds the limit (4300 digits) for integer string conversion: value has ''
       @ show_nat n @ '' digits; use sys.set_int_max_str_digits() to increase the limit'')"

text \<open>\<^verbatim>\<open>JSONDecoder.decode\<close>\<close>

definition json_decode :: "(utext \<Rightarrow> utext) \<Rightarrow> utext \<Rightarrow> ujson result" where
  "json_decode flt doc =
     (case scan_once flt (skip_ws doc) of
        Inl e \<Rightarrow> Inl (scan_failure doc e)
      | Inr (v, r) \<Rightarrow>
          if skip_ws r = [] then Inr v
          else Inl (decode_error doc ''Extra data'' (length (skip_ws r))))"

text \<open>On a \<^verbatim>\<open>str\<close>, and on \<^verbatim>\<open>bytes\<close>; \<open>other\<close> decodes UTF-16 and UTF-32.\<close>

definition json_loads :: "(utext \<Rightarrow> utext) \<Rightarrow> utext \<Rightarrow> ujson result" where
  "json_loads flt doc =
     (if take 1 doc = [0xFEFF]
      then Inl (decode_error doc ''Unexpected UTF-8 BOM (decode using utf-8-sig)'' (length doc))
      else json_decode flt doc)"

definition json_loads_bytes ::
  "(string \<Rightarrow> byte list \<Rightarrow> utext result) \<Rightarrow> (utext \<Rightarrow> utext) \<Rightarrow> byte list \<Rightarrow> ujson result" where
  "json_loads_bytes other flt bs =
     res_bind
       (if detect_encoding bs = ''utf-8'' then utf8_decode True bs
        else if detect_encoding bs = ''utf-8-sig'' then utf8_decode True (drop 3 bs)
        else other (detect_encoding bs) bs)
       (json_decode flt)"

section \<open>json.dumps\<close>

text \<open>The compact form, \<^verbatim>\<open>separators=(",", ":"), ensure_ascii=False\<close>.\<close>

definition uescape :: "nat \<Rightarrow> utext" where
  "uescape c =
     (if c = 34 then [92, 34] else if c = 92 then [92, 92] else if c = 10 then [92, 110]
      else if c = 13 then [92, 114] else if c = 9 then [92, 116] else if c = 12 then [92, 102]
      else if c = 8 then [92, 98]
      else if c < 32 then [92, 117, 48, 48] @ uc (hex_byte c) else [c])"

definition uquote :: "utext \<Rightarrow> utext" where
  "uquote t = 34 # concat (map uescape t) @ [34]"

definition float_text :: "utext \<Rightarrow> utext" where
  "float_text r =
     (if r = uc ''nan'' then uc ''NaN'' else if r = uc ''inf'' then uc ''Infinity''
      else if r = uc ''-inf'' then uc ''-Infinity'' else r)"

fun udumps :: "ujson \<Rightarrow> utext"
  and udumps_list :: "ujson list \<Rightarrow> utext"
  and udumps_items :: "(utext \<times> ujson) list \<Rightarrow> utext" where
  "udumps UNull = uc ''null''"
| "udumps (UBool b) = (if b then uc ''true'' else uc ''false'')"
| "udumps (UInt i) = uc (show_int i)"
| "udumps (UFloat r) = float_text r"
| "udumps (UStr t) = uquote t"
| "udumps (UList xs) = 91 # udumps_list xs @ [93]"
| "udumps (UObj kvs) = 123 # udumps_items kvs @ [125]"
| "udumps_list [] = []"
| "udumps_list (x # xs) = udumps x @ (if xs = [] then [] else 44 # udumps_list xs)"
| "udumps_items [] = []"
| "udumps_items ((k, v) # kvs) = uquote k @ 58 # udumps v @ (if kvs = [] then [] else 44 # udumps_items kvs)"

text \<open>What \<^verbatim>\<open>json.loads\<close> returns: keys are distinct, numbers are what their text says.\<close>

definition float_ok :: "(utext \<Rightarrow> utext) \<Rightarrow> utext \<Rightarrow> bool" where
  "float_ok flt r \<longleftrightarrow>
     r \<in> {uc ''nan'', uc ''inf'', uc ''-inf''} \<or> match_number r = Some (True, r, []) \<and> flt r = r"

fun ujson_ok :: "(utext \<Rightarrow> utext) \<Rightarrow> ujson \<Rightarrow> bool" where
  "ujson_ok flt (UInt i) \<longleftrightarrow> length (show_nat (nat \<bar>i\<bar>)) \<le> 4300"
| "ujson_ok flt (UFloat r) \<longleftrightarrow> float_ok flt r"
| "ujson_ok flt (UList xs) \<longleftrightarrow> list_all (ujson_ok flt) xs"
| "ujson_ok flt (UObj kvs) \<longleftrightarrow> distinct (map fst kvs) \<and> list_all (\<lambda>kv. ujson_ok flt (snd kv)) kvs"
| "ujson_ok flt _ \<longleftrightarrow> True"

section \<open>Reading what was printed\<close>

lemma hex_val_digit: "n < 16 \<Longrightarrow> hex_val (cp (hex_digit n)) = Some n"
  by (auto simp: hex_val_def hex_digit_def cp_def)

lemma hex4_byte: "n < 256 \<Longrightarrow> hex4 (48 # 48 # uc (hex_byte n) @ r) = Some n"
  by (simp add: hex_byte_def uc_def hex_val_digit less_mult_imp_div_less) (simp add: hex_val_def)

lemma scan_uescape:
  "scan_string b (uescape c @ dquoted @ 34 # r) = scan_map ((#) c) (scan_string b (dquoted @ 34 # r))"
proof (cases "c < 32 \<and> c \<notin> {8, 9, 10, 12, 13}")
  case True
  then have u: "uescape c = [92, 117, 48, 48] @ uc (hex_byte c)" by (auto simp: uescape_def)
  have len: "length (uc (hex_byte c)) = 2" by (simp add: uc_def hex_byte_def)
  have h: "hex4 (48 # 48 # uc (hex_byte c) @ dquoted @ 34 # r) = Some c" using True by (intro hex4_byte) simp
  have d: "drop 4 (48 # 48 # uc (hex_byte c) @ dquoted @ 34 # r) = dquoted @ 34 # r"
    using len by simp
  have "\<not> high_surrogate c" using True by (simp add: high_surrogate_def)
  then show ?thesis using len unfolding u by (simp add: h d del: drop_Suc_Cons hex4.simps)
next
  case False
  then show ?thesis by (auto simp: uescape_def escape_val_def)
qed

lemma scan_uescapes: "scan_string b (concat (map uescape t) @ 34 # r) = Inr (t, r)"
proof (induction t)
  case (Cons c t)
  show ?case using scan_uescape[of b c "concat (map uescape t)" r] Cons by (simp add: scan_map_def)
qed simp

lemma scan_quoted: "scan_string b (tl (uquote t) @ r) = Inr (t, r)"
  using scan_uescapes[of b t r] by (simp add: uquote_def)

text \<open>What may follow a number without being read as part of it.\<close>

definition number_end :: "utext \<Rightarrow> bool" where
  "number_end r \<longleftrightarrow> (case r of [] \<Rightarrow> True | c # _ \<Rightarrow> \<not> is_dig c \<and> c \<notin> {43, 45, 46, 69, 101})"

lemma span_append:
  assumes "number_end r"
  shows "takeWhile is_dig (xs @ r) = takeWhile is_dig xs \<and> dropWhile is_dig (xs @ r) = dropWhile is_dig xs @ r"
proof (induction xs)
  case Nil
  then show ?case using assms by (auto simp: number_end_def split: list.splits)
qed auto

lemma int_part_append:
  "number_end r \<Longrightarrow> int_part xs = Some (i, r1) \<Longrightarrow> int_part (xs @ r) = Some (i, r1 @ r)"
  by (auto simp: int_part_def span_append split: list.splits if_splits)

lemma frac_part_append:
  assumes "number_end r"
  shows "frac_part (xs @ r) = (fst (frac_part xs), snd (frac_part xs) @ r)"
  using assms span_append[OF assms]
  by (auto simp: frac_part_def number_end_def split: list.splits)

lemma exp_sign_append:
  "number_end r \<Longrightarrow> exp_sign (xs @ r) = (fst (exp_sign xs), snd (exp_sign xs) @ r)"
  by (auto simp: exp_sign_def number_end_def split: list.splits)

lemma exp_part_append:
  assumes "number_end r"
  shows "exp_part (xs @ r) = (fst (exp_part xs), snd (exp_part xs) @ r)"
proof (cases xs)
  case Nil
  then show ?thesis using assms by (auto simp: exp_part_def number_end_def split: list.splits)
next
  case (Cons e ys)
  then show ?thesis
    using exp_sign_append[OF assms, of ys] span_append[OF assms, of "snd (exp_sign ys)"]
    by (auto simp: exp_part_def split_def)
qed

lemma num_sign_append: "xs \<noteq> [] \<Longrightarrow> num_sign (xs @ r) = (fst (num_sign xs), snd (num_sign xs) @ r)"
  by (cases xs) (simp_all add: num_sign_def)

lemma match_number_append:
  assumes "number_end r" and "match_number xs = Some (b, t, r1)"
  shows "match_number (xs @ r) = Some (b, t, r1 @ r)"
proof -
  have ne: "xs \<noteq> []" using assms(2) by (auto simp: match_number_def num_sign_def int_part_def)
  obtain i r' where i: "int_part (snd (num_sign xs)) = Some (i, r')"
    using assms(2) by (auto simp: match_number_def split_def split: option.splits)
  show ?thesis
    using assms(2) num_sign_append[OF ne] int_part_append[OF assms(1) i]
      frac_part_append[OF assms(1)] exp_part_append[OF assms(1)] i
    by (simp add: match_number_def split_def)
qed

lemma show_nat_hd: "n \<noteq> 0 \<Longrightarrow> hd (show_nat n) \<noteq> CHR ''0''"
proof (induction n rule: show_nat.induct)
  case (1 n)
  show ?case
  proof (cases "n < 10")
    case True
    then show ?thesis using 1(2) by (simp add: show_nat.simps[of n] digit_char_def char_of_eq_iff take_bit_eq_mod)
  next
    case False
    then show ?thesis using 1 by (simp add: show_nat.simps[of n])
  qed
qed

lemma int_part_show: "int_part (uc (show_nat n)) = Some (uc (show_nat n), [])"
proof (cases "n = 0")
  case True
  then show ?thesis by (simp add: show_nat.simps int_part_def uc_def digit_char_def cp_def)
next
  case False
  obtain c cs where s: "show_nat n = c # cs" using show_nat_not_Nil[of n] by (cases "show_nat n") auto
  have dg: "is_dig (cp x)" if "x \<in> set (c # cs)" for x
    using that show_nat_digits[of x n] by (simp add: s is_digit_def is_dig_def)
  have "c \<noteq> CHR ''0''" using show_nat_hd[OF False] s by simp
  then have "cp c \<noteq> 48" using cp_inj[of c "CHR ''0''"] by (simp add: cp_def)
  moreover have "takeWhile is_dig (map cp cs) = map cp cs" "dropWhile is_dig (map cp cs) = []"
    using dg by auto
  ultimately show ?thesis using dg by (simp add: s int_part_def uc_def)
qed

lemma match_show_int: "match_number (uc (show_int i)) = Some (False, uc (show_int i), [])"
proof (cases "i < 0")
  case True
  then show ?thesis
    using int_part_show[of "nat (- i)"]
    by (simp add: match_number_def num_sign_def show_int_def uc_def frac_part_def exp_part_def cp_def[of "CHR ''-''"])
next
  case False
  obtain c cs where s: "show_nat (nat i) = c # cs"
    using show_nat_not_Nil[of "nat i"] by (cases "show_nat (nat i)") auto
  have "cp c \<noteq> 45" using show_nat_digits[of c "nat i"] by (simp add: s is_digit_def)
  then have "num_sign (uc (show_nat (nat i))) = ([], uc (show_nat (nat i)))"
    by (simp add: num_sign_def s uc_def)
  then show ?thesis
    using False int_part_show[of "nat i"]
    by (simp add: match_number_def show_int_def frac_part_def exp_part_def)
qed

lemma uc_simps [simp]: "uc [] = []" "uc (c # s) = cp c # uc s" "length (uc s) = length s"
  by (simp_all add: uc_def)

lemma digits_show: "map (\<lambda>d. d - 48) (uc (show_nat n)) = map digit_val (show_nat n)"
  by (simp add: uc_def digit_val_def)

lemma int_value_show: "int_value (uc (show_int i)) = i"
proof (cases "i < 0")
  case True
  then show ?thesis
    using digits_show[of "nat (- i)"] digits_val_show_nat[of "nat (- i)"]
    by (simp add: int_value_def show_int_def cp_def[of "CHR ''-''"])
next
  case False
  obtain c cs where s: "show_nat (nat i) = c # cs"
    using show_nat_not_Nil[of "nat i"] by (cases "show_nat (nat i)") auto
  have "cp c \<noteq> 45" using show_nat_digits[of c "nat i"] by (simp add: s is_digit_def)
  then show ?thesis
    using False digits_show[of "nat i"] digits_val_show_nat[of "nat i"]
    by (simp add: int_value_def show_int_def s)
qed

lemma filter_digits_show: "length (filter is_dig (uc (show_int i))) = length (show_nat (nat \<bar>i\<bar>))"
proof -
  have "filter is_dig (uc (show_nat n)) = uc (show_nat n)" for n
    using show_nat_digits[of _ n] by (auto simp: uc_def is_digit_def is_dig_def intro!: filter_True)
  moreover have "\<not> is_dig (cp (CHR ''-''))" by (simp add: is_dig_def cp_def)
  ultimately show ?thesis by (auto simp: show_int_def abs_if)
qed

text \<open>A number is no literal.\<close>

lemma number_not_literal:
  assumes "match_number cs = Some m"
  shows "find (\<lambda>(t, _). take (length t) cs = t) literals = None"
proof -
  obtain c d r where c: "cs = c # r" "is_dig c \<or> (c = 45 \<and> (\<exists>r'. r = d # r' \<and> is_dig d))"
    using assms
    by (auto simp: match_number_def num_sign_def int_part_def is_dig_def split: list.splits if_splits option.splits)
  then show ?thesis
    by (auto simp: literals_def uc_def cp_def is_dig_def find_None_iff)
qed

lemma scan_float:
  assumes "match_number t = Some (True, t, [])" and "number_end r"
  shows "scan_atom flt (t @ r) = Inr (UFloat (flt t), r)"
  using match_number_append[OF assms(2,1)] number_not_literal[of "t @ r"]
  by (simp add: scan_atom_def scan_number_def)

lemma scan_int:
  assumes "length (show_nat (nat \<bar>i\<bar>)) \<le> 4300" and "number_end r"
  shows "scan_atom flt (uc (show_int i) @ r) = Inr (UInt i, r)"
  using match_number_append[OF assms(2) match_show_int] number_not_literal[of "uc (show_int i) @ r"] assms(1)
  by (simp add: scan_atom_def scan_number_def filter_digits_show int_value_show)

lemma number_start:
  assumes "match_number cs = Some m"
  shows "\<exists>c r. cs = c # r \<and> (is_dig c \<or> c = 45)"
  using assms by (auto simp: match_number_def num_sign_def int_part_def is_dig_def split: list.splits if_splits)

definition value_start :: "utext \<Rightarrow> bool" where
  "value_start cs \<longleftrightarrow> (case cs of [] \<Rightarrow> False | c # _ \<Rightarrow> \<not> is_ws c \<and> c \<noteq> 93 \<and> c \<noteq> 125)"

definition atom_start :: "utext \<Rightarrow> bool" where
  "atom_start cs \<longleftrightarrow> (case cs of [] \<Rightarrow> False | c # _ \<Rightarrow> c \<notin> {34, 91, 123})"

lemma scan_once_atom: "atom_start cs \<Longrightarrow> scan_once flt (cs @ r) = scan_atom flt (cs @ r)"
  by (cases cs) (simp_all add: atom_start_def)

lemma number_starts: "match_number cs = Some m \<Longrightarrow> value_start cs \<and> atom_start cs"
  using number_start[of cs m] by (auto simp: value_start_def atom_start_def is_dig_def is_ws_def)

lemma float_starts: "float_ok flt t \<Longrightarrow> value_start (float_text t) \<and> atom_start (float_text t)"
  using number_starts[of t "(True, t, [])"]
  by (auto simp: float_ok_def float_text_def)
    (simp_all add: value_start_def atom_start_def is_ws_def uc_def cp_def)

lemma int_starts: "value_start (uc (show_int i)) \<and> atom_start (uc (show_int i))"
  by (rule number_starts) (rule match_show_int)

lemma udumps_start: "ujson_ok flt u \<Longrightarrow> value_start (udumps u @ r)"
proof -
  have app: "value_start cs \<Longrightarrow> value_start (cs @ r)" for cs by (cases cs) (simp_all add: value_start_def)
  show "ujson_ok flt u \<Longrightarrow> ?thesis"
    using float_starts int_starts
    by (cases u) (auto intro!: app, auto simp: value_start_def is_ws_def uquote_def cp_def)
qed

lemma skip_value: "value_start cs \<Longrightarrow> skip_ws cs = cs"
  by (cases cs) (simp_all add: value_start_def skip_ws_def)

lemma scan_literal:
  "scan_atom flt (uc ''null'' @ r) = Inr (UNull, r)"
  "scan_atom flt (uc ''true'' @ r) = Inr (UBool True, r)"
  "scan_atom flt (uc ''false'' @ r) = Inr (UBool False, r)"
  "scan_atom flt (uc ''NaN'' @ r) = Inr (UFloat (uc ''nan''), r)"
  "scan_atom flt (uc ''Infinity'' @ r) = Inr (UFloat (uc ''inf''), r)"
  "scan_atom flt (uc ''-Infinity'' @ r) = Inr (UFloat (uc ''-inf''), r)"
  by (simp_all add: scan_atom_def literals_def cp_def)

lemma scan_float_text:
  assumes "float_ok flt t" and "number_end r"
  shows "scan_once flt (float_text t @ r) = Inr (UFloat t, r)"
proof -
  have "scan_atom flt (float_text t @ r) = Inr (UFloat t, r)"
  proof (cases "t \<in> {uc ''nan'', uc ''inf'', uc ''-inf''}")
    case True
    then show ?thesis using scan_literal(4-6) by (auto simp: float_text_def)
  next
    case False
    then have "match_number t = Some (True, t, [])" "flt t = t" "float_text t = t"
      using assms(1) by (auto simp: float_ok_def float_text_def)
    then show ?thesis using scan_float[OF _ assms(2), of t] by simp
  qed
  then show ?thesis using scan_once_atom float_starts[OF assms(1)] by simp
qed

lemma scan_once_quote: "scan_once flt (uquote t @ r) = Inr (UStr t, r)"
  using scan_uescapes[of _ t r] by (simp add: uquote_def scan_map_def)

lemma skip_ws_nonws [simp]: "\<not> is_ws c \<Longrightarrow> skip_ws (c # r) = c # r"
  by (simp add: skip_ws_def)

lemma json_punct [simp]: "\<not> is_ws 44" "\<not> is_ws 58" "\<not> is_ws 93" "\<not> is_ws 125" "\<not> is_ws 34"
  "number_end (44 # r)" "number_end (93 # r)" "number_end (125 # r)" "number_end []"
  by (simp_all add: is_ws_def number_end_def is_dig_def)

lemma value_not_close: "value_start cs \<Longrightarrow> take 1 cs \<noteq> [93] \<and> take 1 cs \<noteq> [125]"
  by (cases cs) (simp_all add: value_start_def)

lemma dict_of_distinct: "distinct (map fst kvs) \<Longrightarrow> dict_of kvs = kvs"
proof -
  have "foldl (\<lambda>d (k, v). dict_set k v d) d kvs = d @ kvs" if "distinct (map fst (d @ kvs))" for d kvs
    using that
  proof (induction kvs arbitrary: d)
    case (Cons kv kvs)
    obtain k v where kv: "kv = (k, v)" by (cases kv)
    have "dict_set k v d = d @ [(k, v)]" using Cons.prems by (intro dict_set_new) (auto simp: kv)
    then show ?case using Cons.IH[of "d @ [(k, v)]"] Cons.prems by (simp add: kv)
  qed simp
  from this[of "[]" kvs] show "distinct (map fst kvs) \<Longrightarrow> ?thesis" by (simp add: dict_of_def)
qed

lemma scan_once_open:
  assumes "value_start cs"
  shows "scan_once flt (91 # cs) = scan_map UList (scan_array flt cs)"
    and "scan_once flt (123 # cs) = scan_map (UObj \<circ> dict_of) (scan_object flt cs)"
  using skip_value[OF assms] value_not_close[OF assms] by (simp_all del: scan_array.simps scan_object.simps)

declare scan_once.simps [simp del] scan_array.simps [simp del] scan_object.simps [simp del]

theorem scan_dumps:
  "ujson_ok flt u \<Longrightarrow> number_end r \<Longrightarrow> scan_once flt (udumps u @ r) = Inr (u, r)"
  "list_all (ujson_ok flt) xs \<Longrightarrow> xs \<noteq> [] \<Longrightarrow> scan_array flt (udumps_list xs @ 93 # r) = Inr (xs, r)"
  "list_all (\<lambda>kv. ujson_ok flt (snd kv)) kvs \<Longrightarrow> kvs \<noteq> [] \<Longrightarrow>
     scan_object flt (udumps_items kvs @ 125 # r) = Inr (kvs, r)"
proof (induction u and xs and kvs arbitrary: r and r and r rule: udumps_udumps_list_udumps_items.induct)
  case 1
  have "atom_start (uc ''null'')" by (simp add: atom_start_def cp_def)
  then show ?case using scan_literal(1) by (simp only: udumps.simps scan_once_atom)
next
  case (2 b)
  have "atom_start (uc ''true'')" "atom_start (uc ''false'')" by (simp_all add: atom_start_def cp_def)
  then show ?case using scan_literal(2,3) by (cases b) (simp_all only: udumps.simps scan_once_atom if_True if_False)
next
  case (3 i)
  then show ?case using scan_once_atom int_starts scan_int by simp
next
  case (4 t)
  then show ?case using scan_float_text by simp
next
  case (5 t)
  then show ?case by (simp add: scan_once_quote)
next
  case (6 xs)
  show ?case
  proof (cases xs)
    case Nil
    then show ?thesis by (simp add: scan_once.simps)
  next
    case (Cons x ys)
    have "value_start (udumps_list xs @ 93 # r)"
      using "6.prems"(1) udumps_start[of flt x] by (simp add: Cons)
    then show ?thesis using "6.IH"[of r] "6.prems"(1) Cons by (simp add: scan_once_open(1) scan_map_def)
  qed
next
  case (7 kvs)
  show ?case
  proof (cases kvs)
    case Nil
    then show ?thesis by (simp add: scan_once.simps)
  next
    case (Cons kv ys)
    have "value_start (udumps_items kvs @ 125 # r)"
      by (cases kv) (simp add: Cons uquote_def value_start_def)
    then show ?thesis
      using "7.IH"[of r] "7.prems"(1) Cons dict_of_distinct[of kvs] by (simp add: scan_once_open(2) scan_map_def)
  qed
next
  case (9 x xs)
  show ?case
  proof (cases xs)
    case Nil
    then show ?thesis using "9.IH"(1)[of "93 # r"] "9.prems"(1) by (simp add: scan_array.simps)
  next
    case (Cons y ys)
    have "value_start (udumps_list xs @ 93 # r)"
      using "9.prems"(1) udumps_start[of flt y] by (simp add: Cons)
    then show ?thesis
      using "9.IH"(1)[of "44 # udumps_list xs @ 93 # r"] "9.IH"(2)[of r] "9.prems"(1) Cons
      by (simp add: scan_array.simps[of _ "udumps x @ _"] skip_value scan_map_def)
  qed
next
  case (11 k v kvs)
  have v: "value_start (udumps v @ r')" for r' using "11.prems"(1) udumps_start[of flt v] by simp
  have k: "scan_string n (concat (map uescape k) @ 34 # r') = Inr (k, r')" for n r' by (rule scan_uescapes)
  show ?case
  proof (cases kvs)
    case Nil
    then show ?thesis
      using "11.IH"(1)[of "125 # r"] "11.prems"(1) by (simp add: uquote_def scan_object.simps k skip_value[OF v])
  next
    case (Cons kv ys)
    have "value_start (udumps_items kvs @ 125 # r)"
      by (cases kv) (simp add: Cons uquote_def value_start_def)
    then show ?thesis
      using "11.IH"(1)[of "44 # udumps_items kvs @ 125 # r"] "11.IH"(2)[of r] "11.prems"(1) Cons
      by (simp add: uquote_def scan_object.simps(2)[of _ 34 "concat (map uescape k) @ _"] k skip_value[OF v]
          skip_value scan_map_def)
  qed
qed simp_all

lemma is_ws_blank: "list_all is_ws w \<Longrightarrow> skip_ws (w @ r) = skip_ws r"
  by (induction w) (simp_all add: skip_ws_def)

lemma number_end_ws: "list_all is_ws w \<Longrightarrow> number_end w"
  by (cases w) (auto simp: number_end_def is_ws_def is_dig_def)

text \<open>Printing and reading back, with white space around.\<close>

theorem json_decode_dumps:
  assumes "ujson_ok flt u" and "list_all is_ws w" and "list_all is_ws w'"
  shows "json_decode flt (w @ udumps u @ w') = Inr u"
proof -
  have "skip_ws (w @ udumps u @ w') = udumps u @ w'"
    using is_ws_blank[OF assms(2)] skip_value[OF udumps_start[OF assms(1)]] by simp
  moreover have "skip_ws w' = []" using is_ws_blank[OF assms(3), of "[]"] by (simp add: skip_ws_def)
  ultimately show ?thesis
    using scan_dumps(1)[OF assms(1) number_end_ws[OF assms(3)]] by (simp add: json_decode_def)
qed

section \<open>What a dump is made of\<close>

definition number_char :: "nat \<Rightarrow> bool" where
  "number_char c \<longleftrightarrow> is_dig c \<or> c \<in> {43, 45, 46, 69, 101}"

lemma match_number_chars:
  assumes "match_number cs = Some (b, t, r)"
  shows "list_all number_char t"
proof -
  have dig: "list_all number_char (takeWhile is_dig xs)" for xs
    using set_takeWhileD[of _ is_dig xs] by (auto simp: list_all_iff number_char_def)
  have "list_all number_char (fst (num_sign xs))" for xs
    by (auto simp: num_sign_def number_char_def split: list.splits)
  moreover have "list_all number_char i" if "int_part xs = Some (i, r)" for xs i r
    using that dig by (auto simp: int_part_def number_char_def is_dig_def split: list.splits if_splits)
  moreover have "list_all number_char (fst (frac_part xs))" for xs
    using dig by (auto simp: frac_part_def number_char_def split: list.splits)
  moreover have sign: "list_all number_char (fst (exp_sign xs))" for xs
    by (auto simp: exp_sign_def number_char_def split: list.splits)
  moreover have "list_all number_char (fst (exp_part xs))" for xs
    using dig sign[of "tl xs"] by (auto simp: exp_part_def number_char_def split: list.splits prod.splits)
  ultimately show ?thesis
    using assms by (auto simp: match_number_def split: prod.splits option.splits) (metis fst_conv)+
qed

lemma number_printable: "list_all number_char t \<Longrightarrow> list_all ((\<le>) 32) t"
  by (auto simp: list_all_iff number_char_def is_dig_def)

lemma hex_digit_printable: "n < 16 \<Longrightarrow> 32 \<le> cp (hex_digit n)"
  by (auto simp: hex_digit_def cp_def)

lemma uquote_printable: "list_all ((\<le>) 32) (uquote t)"
proof -
  have "list_all ((\<le>) 32) (uescape c)" for c
    using hex_digit_printable by (auto simp: uescape_def uc_def hex_byte_def less_mult_imp_div_less)
  then show ?thesis by (induction t) (auto simp: uquote_def)
qed

lemma float_printable: "float_ok flt r \<Longrightarrow> list_all ((\<le>) 32) (float_text r)"
  using match_number_chars[of r True r "[]"] number_printable[of r]
  by (auto simp: float_ok_def float_text_def uc_def cp_def)

text \<open>A dump is one line: it has no control characters.\<close>

lemma udumps_printable:
  "ujson_ok flt u \<Longrightarrow> list_all ((\<le>) 32) (udumps u)"
  "list_all (ujson_ok flt) xs \<Longrightarrow> list_all ((\<le>) 32) (udumps_list xs)"
  "list_all (\<lambda>kv. ujson_ok flt (snd kv)) kvs \<Longrightarrow> list_all ((\<le>) 32) (udumps_items kvs)"
proof (induction u and xs and kvs rule: udumps_udumps_list_udumps_items.induct)
  case (3 i)
  show ?case using number_printable[OF match_number_chars[OF match_show_int]] by simp
qed (auto simp: uquote_printable float_printable, auto simp: cp_def)

lemma udumps_first:
  assumes "ujson_ok flt u"
  shows "\<exists>c r. udumps u = c # r \<and> 32 \<le> c \<and> c < 128"
proof -
  have num: "\<exists>c r. t = c # r \<and> 32 \<le> c \<and> c < 128" if "match_number t = Some m" for t m
    using number_start[OF that] by (auto simp: is_dig_def)
  show ?thesis
  proof (cases u)
    case (UFloat t)
    then show ?thesis
      using assms num[of t "(True, t, [])"] by (auto simp: float_ok_def float_text_def) (simp_all add: uc_def cp_def)
  next
    case (UInt i)
    then show ?thesis using num[OF match_show_int] by simp
  qed (auto simp: uquote_def uc_def cp_def)
qed

theorem json_loads_dumps:
  assumes "ujson_ok flt u" and "list_all is_ws w"
  shows "json_loads flt (udumps u @ w) = Inr u"
proof -
  obtain c r where "udumps u = c # r" "c < 128" using udumps_first[OF assms(1)] by blast
  then have "take 1 (udumps u @ w) \<noteq> [0xFEFF]" by simp
  then show ?thesis using json_decode_dumps[OF assms(1) _ assms(2), of "[]"] by (simp add: json_loads_def)
qed

theorem json_bytes_dumps:
  assumes "ujson_ok flt u" and "list_all scalar (udumps u)"
  shows "json_loads_bytes other flt (uencode (udumps u)) = Inr u"
proof -
  obtain c r where c: "udumps u = c # r" "32 \<le> c" "c < 128" using udumps_first[OF assms(1)] by blast
  have z: "0 \<notin> set (udumps u)" using udumps_printable(1)[OF assms(1)] by (auto simp: list_all_iff)
  have "uencode (udumps u) = word_of_nat c # uencode r" using c by (simp add: uencode_def encode_one_def)
  moreover have "(word_of_nat c :: byte) \<notin> {0, 0xEF, 0xFE, 0xFF}"
  proof -
    have "unat (word_of_nat c :: byte) = c" using c(3) by (simp add: unat_of_nat)
    then show ?thesis using c(2,3) by auto
  qed
  ultimately have "detect_encoding (uencode (udumps u)) = ''utf-8''"
    using uencode_nonzero[OF assms(2) z] detect_utf8 by simp
  then show ?thesis
    using utf8_decode_uencode[OF assms(2)] json_decode_dumps[OF assms(1), of "[]" "[]"]
    by (simp add: json_loads_bytes_def)
qed

section \<open>Latin-1 values\<close>

text \<open>The value the normalizers and the fingerprint work on, and the same value as read from text.\<close>

fun of_json :: "json \<Rightarrow> ujson" where
  "of_json JNull = UNull"
| "of_json (JBool b) = UBool b"
| "of_json (JInt i) = UInt i"
| "of_json (JFloat r) = UFloat (uc r)"
| "of_json (JStr s) = UStr (uc s)"
| "of_json (JList xs) = UList (map of_json xs)"
| "of_json (JObj kvs) = UObj (map (\<lambda>kv. (uc (fst kv), of_json (snd kv))) kvs)"

abbreviation of_obj :: "json_obj \<Rightarrow> (utext \<times> ujson) list" where
  "of_obj \<equiv> map (\<lambda>kv. (uc (fst kv), of_json (snd kv)))"

definition latin1 :: "utext \<Rightarrow> string option" where
  "latin1 t = (if list_all (\<lambda>n. n < 256) t then Some (map char_of t) else None)"

fun all_some :: "'a option list \<Rightarrow> 'a list option" where
  "all_some [] = Some []"
| "all_some (None # xs) = None"
| "all_some (Some x # xs) = map_option ((#) x) (all_some xs)"

definition pair_some :: "'a option \<Rightarrow> 'b option \<Rightarrow> ('a \<times> 'b) option" where
  "pair_some a b = (case a of None \<Rightarrow> None | Some x \<Rightarrow> map_option (Pair x) b)"

fun as_json :: "ujson \<Rightarrow> json option" where
  "as_json UNull = Some JNull"
| "as_json (UBool b) = Some (JBool b)"
| "as_json (UInt i) = Some (JInt i)"
| "as_json (UFloat r) = map_option JFloat (latin1 r)"
| "as_json (UStr s) = map_option JStr (latin1 s)"
| "as_json (UList xs) = map_option JList (all_some (map as_json xs))"
| "as_json (UObj kvs) = map_option JObj (all_some (map (\<lambda>kv. pair_some (latin1 (fst kv)) (as_json (snd kv))) kvs))"

lemma latin1_uc [simp]: "latin1 (uc s) = Some s"
proof -
  have "map (char_of \<circ> cp) s = s" by (rule map_idI) (simp add: cp_def)
  then show ?thesis by (simp add: latin1_def uc_def list_all_iff)
qed

lemma all_some_Some: "all_some (map (\<lambda>x. Some (f x)) xs) = Some (map f xs)"
  by (induction xs) simp_all

lemma as_of_json [simp]: "as_json (of_json j) = Some j"
proof (induction j)
  case (JList xs)
  then have "map as_json (map of_json xs) = map (\<lambda>x. Some (id x)) xs" by simp
  then show ?case using all_some_Some[of id xs] by (simp only: of_json.simps as_json.simps) simp
next
  case (JObj kvs)
  let ?f = "\<lambda>kv. pair_some (latin1 (fst kv)) (as_json (snd kv))"
  have "?f (uc (fst kv), of_json (snd kv)) = Some (id kv)" if "kv \<in> set kvs" for kv
    using JObj[OF that, of "snd kv"] by (cases kv) (simp add: pair_some_def)
  then have "map ?f (of_obj kvs) = map (\<lambda>kv. Some (id kv)) kvs" by simp
  then show ?case using all_some_Some[of id kvs] by (simp only: of_json.simps as_json.simps) simp
qed simp_all

lemma uescape_uc: "uescape (cp c) = uc (json_escape c)"
proof -
  have e: "cp dquote = 34" "cp bslash = 92" "cp (CHR 0x0A) = 10" "cp (CHR 0x0D) = 13" "cp (CHR 0x09) = 9"
    "cp (CHR 0x0C) = 12" "cp (CHR 0x08) = 8" "cp (CHR ''n'') = 110" "cp (CHR ''r'') = 114" "cp (CHR ''t'') = 116"
    "cp (CHR ''f'') = 102" "cp (CHR ''b'') = 98" "cp (CHR ''u'') = 117" "cp (CHR ''0'') = 48"
    by (simp_all add: cp_def)
  have "cp c = 34 \<longleftrightarrow> c = dquote" "cp c = 92 \<longleftrightarrow> c = bslash" "cp c = 10 \<longleftrightarrow> c = CHR 0x0A"
    "cp c = 13 \<longleftrightarrow> c = CHR 0x0D" "cp c = 9 \<longleftrightarrow> c = CHR 0x09" "cp c = 12 \<longleftrightarrow> c = CHR 0x0C"
    "cp c = 8 \<longleftrightarrow> c = CHR 0x08"
    using cp_inj[of c] e(1-7) by metis+
  then show ?thesis by (simp add: uescape_def json_escape_def e)
qed

lemma uc_append [simp]: "uc (s @ t) = uc s @ uc t"
  by (simp add: uc_def)

lemma uquote_uc: "uquote (uc s) = uc (json_quote s)"
proof -
  have "concat (map uescape (uc s)) = uc (concat (map json_escape s))"
    by (induction s) (simp_all add: uescape_uc)
  moreover have "cp dquote = 34" by (simp add: cp_def)
  ultimately show ?thesis by (simp add: uquote_def json_quote_def)
qed

lemma uc_eq [simp]: "uc s = uc t \<longleftrightarrow> s = t"
  by (auto simp: uc_def inj_map_eq_map inj_def)

lemma py_join_Cons: "py_join sep (x # xs) = x @ (if xs = [] then [] else sep @ py_join sep xs)"
  by (cases xs) simp_all

lemma udumps_of_json:
  "udumps (of_json j) = uc (json_dumps j)"
  "udumps_list (map of_json xs) = uc (py_join '','' (json_dumps_list xs))"
  "udumps_items (of_obj kvs) = uc (py_join '','' (json_dumps_items kvs))"
proof (induction j and xs and kvs rule: json_dumps_json_dumps_list_json_dumps_items.induct)
  case (9 x xs)
  then show ?case by (cases xs) (simp_all add: cp_def)
next
  case (11 k v kvs)
  then show ?case by (cases kvs) (auto simp: py_join_Cons uquote_uc, simp_all add: cp_def)
next
  case (4 r)
  have "uc r = uc t \<longleftrightarrow> r = t" for t by simp
  then show ?case by (simp add: float_text_def del: uc_simps)
qed (auto simp: uquote_uc, simp_all add: cp_def)

text \<open>Reading back what \<^verbatim>\<open>json.dumps\<close> wrote, as text and as UTF-8 bytes.\<close>

corollary json_text_roundtrip:
  assumes "ujson_ok flt (of_json j)"
  shows "json_loads flt (uc (json_dumps j)) = Inr (of_json j)"
    and "json_loads_bytes other flt (utf8 (json_dumps j)) = Inr (of_json j)"
  using json_loads_dumps[OF assms, of "[]"] json_bytes_dumps[OF assms] uc_scalar[of "json_dumps j"]
  by (simp_all add: udumps_of_json utf8_uencode)

section \<open>What is read is well formed\<close>

lemma digits_val_bound: "list_all (\<lambda>d. d < 10) ds \<Longrightarrow> digits_val ds < 10 ^ length ds"
proof (induction ds rule: rev_induct)
  case (snoc d ds)
  then have "digits_val ds < 10 ^ length ds" "d < 10" by simp_all
  then show ?case by (simp add: digits_val_snoc)
qed (simp add: digits_val_def)

lemma digits_ok:
  assumes "list_all is_dig ds" and "ds \<noteq> []" and "length ds \<le> 4300"
  shows "length (show_nat (digits_val (map (\<lambda>d. d - 48) ds))) \<le> 4300"
proof -
  have "list_all (\<lambda>d. d < 10) (map (\<lambda>d. d - 48) ds)" using assms(1) by (auto simp: list_all_iff is_dig_def)
  from digits_val_bound[OF this] have "length (show_nat (digits_val (map (\<lambda>d. d - 48) ds))) \<le> length ds"
    using show_nat_length[of "length ds"] assms(2) by simp
  then show ?thesis using assms(3) by simp
qed

lemma int_text:
  assumes "match_number cs = Some (False, t, r)"
  obtains ds where "list_all is_dig ds" "ds \<noteq> []" "t = ds \<or> t = 45 # ds"
proof -
  have *: "list_all is_dig i \<and> i \<noteq> []" if "int_part xs = Some (i, r)" for xs i r
    using that set_takeWhileD[of _ is_dig]
    by (auto simp: int_part_def list_all_iff is_dig_def split: list.splits if_splits)
  obtain sign i r0 r1 where s: "num_sign cs = (sign, r0)" and i: "int_part r0 = Some (i, r1)" and t: "t = sign @ i"
    using assms by (auto simp: match_number_def split: prod.splits option.splits)
  moreover have "sign = [] \<or> sign = [45]" using s by (auto simp: num_sign_def split: list.splits if_splits)
  ultimately show ?thesis using that[of i] *[OF i] by auto
qed

lemma int_value_ok:
  assumes "match_number cs = Some (False, t, r)" and "length (filter is_dig t) \<le> 4300"
  shows "ujson_ok flt (UInt (int_value t))"
proof -
  obtain ds where d: "list_all is_dig ds" "ds \<noteq> []" and t: "t = ds \<or> t = 45 # ds" by (rule int_text[OF assms(1)])
  have f: "filter is_dig ds = ds" using d(1) by (auto simp: list_all_iff intro: filter_True)
  have m: "\<not> is_dig 45" by (simp add: is_dig_def)
  have "length ds \<le> 4300" using assms(2) t f m by auto
  note ok = digits_ok[OF d this]
  show ?thesis
  proof (cases "t = 45 # ds")
    case False
    then have "t = ds" using t by blast
    moreover obtain c cs where "ds = c # cs" using d(2) by (cases ds) auto
    moreover have "c \<noteq> 45" using d(1) calculation(2) by (auto simp: is_dig_def)
    ultimately show ?thesis using ok by (simp add: int_value_def)
  qed (use ok in \<open>simp add: int_value_def\<close>)
qed

text \<open>\<^verbatim>\<open>repr(float(t))\<close> is a float that reads as itself: what the decoder relies on.\<close>

definition repr_float :: "(utext \<Rightarrow> utext) \<Rightarrow> bool" where
  "repr_float flt \<longleftrightarrow> (\<forall>cs t r. match_number cs = Some (True, t, r) \<longrightarrow> float_ok flt (flt t))"

lemma scan_atom_ok:
  assumes "repr_float flt" and "scan_atom flt cs = Inr (v, r)"
  shows "ujson_ok flt v"
proof (cases "find (\<lambda>(t, _). take (length t) cs = t) literals")
  case None
  then obtain f t where m: "match_number cs = Some (f, t, r)"
      "v = (if f then UFloat (flt t) else UInt (int_value t))" "\<not> f \<Longrightarrow> length (filter is_dig t) \<le> 4300"
    using assms(2) by (auto simp: scan_atom_def scan_number_def split: option.splits if_splits)
  then show ?thesis using assms(1) int_value_ok[of cs t r flt] by (cases f) (auto simp: repr_float_def)
next
  case (Some p)
  then have "p \<in> set literals" by (metis find_Some_iff nth_mem)
  moreover have "v = snd p" using assms(2) Some by (auto simp: scan_atom_def split: prod.splits)
  ultimately show ?thesis by (auto simp: literals_def float_ok_def)
qed

lemma dict_of_keys: "distinct (map fst (dict_of kvs))"
proof -
  have "distinct (map fst (foldl (\<lambda>d (k, v). dict_set k v d) d kvs))" if "distinct (map fst d)" for d kvs
    using that by (induction kvs arbitrary: d) (auto simp: distinct_dict_set)
  from this[of "[]"] show ?thesis by (simp add: dict_of_def)
qed

lemma dict_set_values: "list_all (\<lambda>kv. P (snd kv)) d \<Longrightarrow> P v \<Longrightarrow> list_all (\<lambda>kv. P (snd kv)) (dict_set k v d)"
  by (induction k v d rule: dict_set.induct) auto

lemma dict_of_values: "list_all (\<lambda>kv. P (snd kv)) kvs \<Longrightarrow> list_all (\<lambda>kv. P (snd kv)) (dict_of kvs)"
proof -
  have "list_all (\<lambda>kv. P (snd kv)) (foldl (\<lambda>d (k, v). dict_set k v d) d kvs)"
    if "list_all (\<lambda>kv. P (snd kv)) d" "list_all (\<lambda>kv. P (snd kv)) kvs" for d kvs
    using that by (induction kvs arbitrary: d) (auto simp: dict_set_values)
  from this[of "[]"] show "list_all (\<lambda>kv. P (snd kv)) kvs \<Longrightarrow> ?thesis" by (simp add: dict_of_def)
qed

lemma scan_wf:
  assumes "repr_float flt"
  shows "scan_once flt cs = Inr (v, r) \<Longrightarrow> ujson_ok flt v"
    and "scan_array flt cs = Inr (vs, r) \<Longrightarrow> list_all (ujson_ok flt) vs"
    and "scan_object flt cs = Inr (kvs, r) \<Longrightarrow> list_all (\<lambda>kv. ujson_ok flt (snd kv)) kvs"
  using assms
proof (induction flt cs and flt cs and flt cs arbitrary: v r and vs r and kvs r
    rule: scan_once_scan_array_scan_object.induct)
  case (2 flt c cs)
  show ?case
    using "2.prems" "2.IH" scan_atom_ok[OF "2.prems"(2), of "c # cs"] dict_of_keys dict_of_values
    by (auto simp: scan_once.simps scan_map_def split: if_splits sum.splits)
next
  case (3 flt cs)
  show ?case
    using "3.prems" "3.IH"
    by (fastforce simp: scan_array.simps[of flt cs] scan_map_def split: if_splits sum.splits list.splits)
next
  case (5 flt q cs)
  show ?case
    using "5.prems" "5.IH"
    by (fastforce simp: scan_object.simps scan_map_def split: if_splits sum.splits list.splits)
qed (simp_all add: scan_once.simps scan_object.simps)

theorem loads_wf:
  assumes "repr_float flt" and "json_decode flt doc = Inr u"
  shows "ujson_ok flt u"
  using scan_wf(1)[OF assms(1)] assms(2) by (auto simp: json_decode_def split: sum.splits if_splits)

text \<open>Decoding is idempotent through the printed form.\<close>

corollary loads_dumps_loads:
  assumes "repr_float flt" and "json_decode flt doc = Inr u"
  shows "json_loads flt (udumps u) = Inr u"
  using json_loads_dumps[OF loads_wf[OF assms], of "[]"] by simp

end
