(* ===== verification/Bodies.thy ===== *)
theory Bodies
  imports Routes JsonText
begin

text \<open>
  \<^verbatim>\<open>request.json()\<close> in the webhook handlers of \<^verbatim>\<open>receiver/routes.py\<close>: \<^verbatim>\<open>json.loads\<close> of
  the raw body, in the encoding its first bytes suggest. The locale \<open>body_decoder\<close> says what
  a decoder of bodies owes the handlers; \<open>body_json\<close>, the model of \<^verbatim>\<open>json.loads\<close> on bytes,
  is its interpretation \<open>bj\<close>. \<open>other\<close> decodes UTF-16 and UTF-32, \<open>flt\<close> is
  \<^verbatim>\<open>repr(float(literal))\<close>. A decoded body with text beyond Latin-1 has no value in \<open>json\<close>:
  there \<open>body_json\<close> gives an error that stands for no Python exception, and no fact below
  speaks of it. When Python's recursion limit is hit is not modelled; what the handlers then do
  is (\<open>deep_body_500\<close>).
\<close>

definition body_json ::
  "(string \<Rightarrow> byte list \<Rightarrow> utext result) \<Rightarrow> (utext \<Rightarrow> utext) \<Rightarrow> byte list \<Rightarrow> json result" where
  "body_json other flt body =
     res_bind (json_loads_bytes other flt body) (\<lambda>u.
       case as_json u of Some j \<Rightarrow> Inr j | None \<Rightarrow> Inl (InternalError ''text beyond Latin-1''))"

definition utf8_body :: "byte list \<Rightarrow> bool" where
  "utf8_body body \<longleftrightarrow> detect_encoding body = ''utf-8'' \<or> detect_encoding body = ''utf-8-sig''"

text \<open>The exception a UTF-8 body is refused with.\<close>

definition json_refusal ::
  "(string \<Rightarrow> byte list \<Rightarrow> utext result) \<Rightarrow> (utext \<Rightarrow> utext) \<Rightarrow> byte list \<Rightarrow> py_error option" where
  "json_refusal other flt body =
     (if utf8_body body
      then (case json_loads_bytes other flt body of Inl e \<Rightarrow> Some e | Inr _ \<Rightarrow> None) else None)"

text \<open>A body that does not decode is quarantined with the decoder's own words.\<close>

definition quarantined :: "py_error \<Rightarrow> world \<Rightarrow> (nat \<times> json_obj) handler_result \<Rightarrow> bool" where
  "quarantined e w result \<longleftrightarrow>
     (\<exists>r. result =
        (Inr (202, [(''status'', JStr ''quarantined''), (''reason'', JStr (take 500 (err_text e)))]),
         w\<lparr>w_db := (w_db w)\<lparr>events := events (w_db w) @ [r]\<rparr>\<rparr>)
      \<and> er_quarantined r \<and> er_quarantine_reason r = Some (take 500 (err_text e)))"

section \<open>Every refusal is a ValueError\<close>

lemma utf8_text_error: "utf8_text pass pos bs = Inl e \<Longrightarrow> is_value_error e"
  by (induction pass pos bs rule: utf8_text.induct)
    (auto simp: decode_failure_def res_bind_def split: utf8_step.splits option.splits sum.splits if_splits)

lemma json_decode_error: "json_decode flt doc = Inl e \<Longrightarrow> is_value_error e"
proof -
  have "is_value_error (scan_failure doc x)" for x by (cases x) (simp_all add: decode_error_def Let_def)
  then show "json_decode flt doc = Inl e \<Longrightarrow> ?thesis"
    by (auto simp: json_decode_def decode_error_def Let_def split: sum.splits if_splits)
qed

lemma json_bytes_error:
  assumes "utf8_body body" and "json_loads_bytes other flt body = Inl e"
  shows "is_value_error e"
  using assms utf8_text_error json_decode_error
  by (auto simp: utf8_body_def json_loads_bytes_def utf8_decode_def res_bind_eq_Inl split: if_splits)

section \<open>What the handlers rely on\<close>

locale body_decoder =
  fixes decode :: "byte list \<Rightarrow> json result"
    and readable :: "json \<Rightarrow> bool"
    and refusal :: "byte list \<Rightarrow> py_error option"
  assumes printed: "readable j \<Longrightarrow> decode (utf8 (json_dumps j)) = Inr j"
    and refused: "refusal body = Some e \<Longrightarrow> decode body = Inl e \<and> is_value_error e"
begin

lemma dumps_injective:
  assumes "readable j" and "readable j'" and "json_dumps j = json_dumps j'"
  shows "j = j'"
  using printed[OF assms(1)] printed[OF assms(2)] assms(3) by (metis sum.inject(2))

text \<open>A printed payload reaches the normalizers as it was printed.\<close>

lemma printed_events:
  assumes "en_json env = decode" and "readable j" and "rq_body rq = utf8 (json_dumps j)"
  shows "hook_events env h rq =
           res_bind (hook_normalize h (en_isoparse env) (en_uuid env) j (en_received_at env)) (\<lambda>fired.
           res_bind (hook_resolved h (en_isoparse env) (en_uuid_resolved env) j (en_received_at env)) (\<lambda>resolved.
             Inr (fired, resolved)))"
    and "datadog_event env rq = res_bind (normalize j (en_received_at env) (en_uuid env 0)) (\<lambda>event. Inr (j, event))"
  using printed[OF assms(2)] assms(1,3) by (simp_all add: hook_events_def datadog_event_def)

lemma refused_quarantined:
  assumes "en_json env = decode" and "refusal (rq_body rq) = Some e" and "env_up n env (w_db w)"
  shows "hook_verify h secrets allow rq = Inr True \<Longrightarrow> quarantined e w (handler env secrets allow h rq w)"
    and "verify_shared_token (rq_headers rq) secret = Inr True \<Longrightarrow> quarantined e w (datadog_webhook env secret rq w)"
proof -
  have e: "is_value_error e" "en_json env (rq_body rq) = Inl e" using refused[OF assms(2)] assms(1) by simp_all
  have up: "en_quarantine_tx env = TxOk" "fresh_id (en_quarantine_id env) (w_db w)"
    using assms(3) by (simp_all add: env_up_def)
  note q = quarantine_delivery_ok[OF disjI1[OF e(1)] up]
  have ev: "hook_events env h rq = Inl e" "datadog_event env rq = Inl e"
    using e(2) by (simp_all add: hook_events_def datadog_event_def)
  show "hook_verify h secrets allow rq = Inr True \<Longrightarrow> quarantined e w (handler env secrets allow h rq w)"
    using q[of "hook_name h"] hook_name_source[of h] ev(1) by (auto simp: handler_def quarantined_def)
  show "verify_shared_token (rq_headers rq) secret = Inr True \<Longrightarrow> quarantined e w (datadog_webhook env secret rq w)"
    using q[of "''datadog''"] ev(2) by (auto simp: datadog_webhook_def quarantined_def)
qed

end

interpretation bj: body_decoder "body_json other flt" "\<lambda>j. ujson_ok flt (of_json j)" "json_refusal other flt" for other flt
proof unfold_locales
  fix j assume "ujson_ok flt (of_json j)"
  then show "body_json other flt (utf8 (json_dumps j)) = Inr j"
    using json_text_roundtrip(2)[of flt j other] by (simp add: body_json_def)
next
  fix body e assume "json_refusal other flt body = Some e"
  then have "utf8_body body" "json_loads_bytes other flt body = Inl e"
    by (auto simp: json_refusal_def split: if_splits sum.splits)
  then show "body_json other flt body = Inl e \<and> is_value_error e"
    using json_bytes_error by (auto simp: body_json_def)
qed

section \<open>What the handlers do not catch\<close>

text \<open>
  \<^verbatim>\<open>json.loads\<close> raises \<open>RecursionError\<close>, a \<open>RuntimeError\<close>, on a body nested too deeply for the
  interpreter. The handlers catch only \<open>ValueError\<close> and \<open>TypeError\<close>: the sender gets 500 and
  nothing is quarantined.
\<close>

lemma deep_body_500:
  assumes "en_json env (rq_body rq) = Inl (RuntimeError m)"
  shows "hook_verify h secrets allow rq = Inr True \<Longrightarrow>
           http_status (handler env secrets allow h rq w) = 500 \<and> snd (handler env secrets allow h rq w) = w"
    and "verify_shared_token (rq_headers rq) secret = Inr True \<Longrightarrow>
           http_status (datadog_webhook env secret rq w) = 500 \<and> snd (datadog_webhook env secret rq w) = w"
  using assms
  by (simp_all add: handler_def datadog_webhook_def hook_events_def datadog_event_def quarantine_delivery_def http_status_def)

end
