(* ===== verification/Actions.thy ===== *)
theory Actions
  imports Repository Dedupe
begin

text \<open>
  Actions on a conclusion, \<^verbatim>\<open>src/smokejumper/actions/service.py\<close>: the ticket of an
  incident and the lifecycle of a run. Each operation runs inside one transaction of the
  caller. The row lock on \<^verbatim>\<open>runs\<close> and the partial unique index make concurrent calls
  equivalent to some order of these operations.
\<close>

record TicketOutcome =
  out_ticket_id :: string
  out_external_id :: string
  out_created :: bool
  out_update_count :: int
  out_replayed :: bool

record RunClaim =
  clm_status :: string
  clm_conclusion_status :: "string option"

definition external_id_of :: "string \<Rightarrow> string" where
  "external_id_of fingerprint = ''SMOKE-'' @ py_upper (take 8 fingerprint)"

text \<open>\<^verbatim>\<open>INSERT ... ON CONFLICT (fingerprint) WHERE closed_at IS NULL DO NOTHING\<close>\<close>

definition insert_ticket :: "ticket_row \<Rightarrow> db \<Rightarrow> (ticket_row option \<times> db) result" where
  "insert_ticket t s =
     (if list_ex (open_ticket (tk_fingerprint t)) (tickets s) then Inr (None, s)
      else if tk_id t \<in> tk_id ` set (tickets s)
        then Inl (IntegrityError ''duplicate key value violates unique constraint tickets_pkey'')
      else Inr (Some t, s\<lparr>tickets := tickets s @ [t]\<rparr>))"

text \<open>\<^verbatim>\<open>UPDATE tickets SET update_count = update_count + 1 ... RETURNING\<close>\<close>

definition count_update :: "string \<Rightarrow> db \<Rightarrow> (ticket_row option \<times> db) result" where
  "count_update fp s =
     (let bump = (\<lambda>t. t\<lparr>tk_update_count := tk_update_count t + 1\<rparr>);
          open_rows = filter (open_ticket fp) (tickets s)
      in if list_ex (\<lambda>t. pg_int_max < tk_update_count t + 1) open_rows
           then Inl (DataError ''integer out of range'')
         else Inr (case open_rows of [] \<Rightarrow> None | t # _ \<Rightarrow> Some (bump t),
                   s\<lparr>tickets := update_where (open_ticket fp) bump (tickets s)\<rparr>))"

definition insert_action :: "action_row \<Rightarrow> db \<Rightarrow> db result" where
  "insert_action a s =
     (if ta_run_id a \<in> ta_run_id ` set (ticket_actions s)
        then Inl (IntegrityError ''duplicate key value violates unique constraint ticket_actions_pkey'')
      else if ta_run_id a \<notin> rr_run_id ` set (runs s) \<or> ta_ticket_id a \<notin> tk_id ` set (tickets s)
        then Inl (IntegrityError ''violates foreign key constraint on ticket_actions'')
      else Inr (s\<lparr>ticket_actions := ticket_actions s @ [a]\<rparr>))"

definition ticket_outcome :: "ticket_row \<Rightarrow> bool \<Rightarrow> TicketOutcome" where
  "ticket_outcome t created =
     \<lparr>out_ticket_id = tk_id t, out_external_id = tk_external_id t, out_created = created,
      out_update_count = (if created then 0 else tk_update_count t), out_replayed = False\<rparr>"

definition replayed_outcome :: "action_row \<Rightarrow> TicketOutcome" where
  "replayed_outcome a =
     \<lparr>out_ticket_id = ta_ticket_id a, out_external_id = ta_external_id a, out_created = ta_created a,
      out_update_count = ta_update_count a, out_replayed = True\<rparr>"

definition apply_action ::
  "uuid \<Rightarrow> int \<Rightarrow> Conclusion \<Rightarrow> db \<Rightarrow> (TicketOutcome \<times> db) result" where
  "apply_action ticket_id now conclusion s =
     (if con_run_id conclusion \<notin> rr_run_id ` set (runs s)
        then Inl (RuntimeError (''run '' @ con_run_id conclusion @ '' must exist before Actions''))
      else case find (\<lambda>a. ta_run_id a = con_run_id conclusion) (ticket_actions s) of
        Some prior \<Rightarrow> Inr (replayed_outcome prior, s)
      | None \<Rightarrow>
          res_bind
            (res_bind
               (insert_ticket
                  \<lparr>tk_id = ticket_id, tk_fingerprint = con_fingerprint conclusion,
                   tk_provider = ''fixture'',
                   tk_external_id = external_id_of (con_fingerprint conclusion), tk_url = None,
                   tk_created_at = now, tk_closed_at = None, tk_update_count = 0\<rparr> s)
               (\<lambda>(inserted, s1).
                  case inserted of
                    Some t \<Rightarrow> Inr (ticket_outcome t True, s1)
                  | None \<Rightarrow>
                      res_bind (count_update (con_fingerprint conclusion) s1) (\<lambda>(updated, s2).
                        case updated of
                          None \<Rightarrow> Inl (RuntimeError (''no open ticket for ''
                                     @ con_fingerprint conclusion @ '' after a conflicting insert''))
                        | Some t \<Rightarrow> Inr (ticket_outcome t False, s2))))
            (\<lambda>(outcome, s3).
               res_bind (insert_action
                   \<lparr>ta_run_id = con_run_id conclusion, ta_fingerprint = con_fingerprint conclusion,
                    ta_ticket_id = out_ticket_id outcome, ta_external_id = out_external_id outcome,
                    ta_created = out_created outcome, ta_update_count = out_update_count outcome,
                    ta_applied_at = now\<rparr> s3) (\<lambda>s4.
                 Inr (outcome, s4))))"

text \<open>The statements of \<open>open_run\<close>: the row it inserts on no conflict, the columns it repoints.\<close>

definition repointed :: "string \<Rightarrow> int \<Rightarrow> int \<Rightarrow> run_row \<Rightarrow> run_row" where
  "repointed f off t r =
     r\<lparr>rr_audit_log_file := f, rr_audit_start_offset := off, rr_started_at := t\<rparr>"

definition new_run :: "uuid \<Rightarrow> uuid \<Rightarrow> string \<Rightarrow> string \<Rightarrow> int \<Rightarrow> int \<Rightarrow> run_row" where
  "new_run run_id event_id fp f off t =
     \<lparr>rr_run_id = run_id, rr_event_id = Some event_id, rr_fingerprint = fp, rr_status = ''running'',
      rr_started_at = t, rr_audit_log_file = f, rr_audit_start_offset = off,
      rr_audit_end_offset = None, rr_conclusion = None, rr_finished_at = None\<rparr>"

definition claimed_runs :: "uuid \<Rightarrow> uuid \<Rightarrow> string \<Rightarrow> string \<Rightarrow> int \<Rightarrow> int \<Rightarrow> run_row list \<Rightarrow> run_row list" where
  "claimed_runs run_id event_id fp f off t rs =
     update_where (\<lambda>r. rr_run_id r = run_id \<and> rr_status r = ''running'') (repointed f off t)
       (if run_id \<in> rr_run_id ` set rs then rs else rs @ [new_run run_id event_id fp f off t])"

definition open_run ::
  "uuid \<Rightarrow> uuid \<Rightarrow> string \<Rightarrow> string \<Rightarrow> int \<Rightarrow> int \<Rightarrow> db \<Rightarrow> (RunClaim \<times> db) result" where
  "open_run run_id event_id fingerprint audit_log_file audit_start_offset started_at s =
     (let rs = claimed_runs run_id event_id fingerprint audit_log_file audit_start_offset
                 started_at (runs s)
      in if \<not> list_all runs_check rs then Inl (IntegrityError ''violates check constraint on runs'')
         else case find (\<lambda>r. rr_run_id r = run_id) rs of
                None \<Rightarrow> Inl (RuntimeError ''No row was found when one was required'')
              | Some r \<Rightarrow>
                  Inr (\<lparr>clm_status = rr_status r,
                        clm_conclusion_status =
                          map_option (\<lambda>c. status_value (con_status c)) (rr_conclusion r)\<rparr>,
                       s\<lparr>runs := rs\<rparr>))"

definition close_run ::
  "uuid \<Rightarrow> string \<Rightarrow> Conclusion option \<Rightarrow> int \<Rightarrow> int \<Rightarrow> db \<Rightarrow> (unit \<times> db) result" where
  "close_run run_id status conclusion audit_end_offset finished_at s =
     (let updated = update_where (\<lambda>r. rr_run_id r = run_id)
            (\<lambda>r. r\<lparr>rr_status := status, rr_conclusion := conclusion,
                  rr_finished_at := Some finished_at, rr_audit_end_offset := Some audit_end_offset\<rparr>)
            (runs s)
      in if \<not> list_all runs_check updated then Inl (IntegrityError ''violates check constraint on runs'')
         else Inr ((), s\<lparr>runs := updated\<rparr>))"

section \<open>What \<open>apply\<close> does\<close>

definition new_ticket :: "uuid \<Rightarrow> int \<Rightarrow> string \<Rightarrow> ticket_row" where
  "new_ticket i now fp =
     \<lparr>tk_id = i, tk_fingerprint = fp, tk_provider = ''fixture'', tk_external_id = external_id_of fp,
      tk_url = None, tk_created_at = now, tk_closed_at = None, tk_update_count = 0\<rparr>"

definition action_of :: "int \<Rightarrow> Conclusion \<Rightarrow> TicketOutcome \<Rightarrow> action_row" where
  "action_of now c outcome =
     \<lparr>ta_run_id = con_run_id c, ta_fingerprint = con_fingerprint c,
      ta_ticket_id = out_ticket_id outcome, ta_external_id = out_external_id outcome,
      ta_created = out_created outcome, ta_update_count = out_update_count outcome,
      ta_applied_at = now\<rparr>"

definition bump :: "ticket_row \<Rightarrow> ticket_row" where
  "bump t = t\<lparr>tk_update_count := tk_update_count t + 1\<rparr>"

lemma bump_simps [simp]:
  "tk_id (bump t) = tk_id t" "tk_fingerprint (bump t) = tk_fingerprint t"
  "tk_closed_at (bump t) = tk_closed_at t" "tk_external_id (bump t) = tk_external_id t"
  "open_ticket fp (bump t) = open_ticket fp t" "tk_update_count (bump t) = tk_update_count t + 1"
  by (simp_all add: bump_def open_ticket_def)

lemma apply_cases:
  assumes "apply_action i now c s = Inr (outcome, s')"
  obtains
    (replayed) a where "a \<in> set (ticket_actions s)" and "ta_run_id a = con_run_id c"
      and "outcome = replayed_outcome a" and "s' = s"
  | (created) "con_run_id c \<in> rr_run_id ` set (runs s)"
      and "con_run_id c \<notin> ta_run_id ` set (ticket_actions s)"
      and "filter (open_ticket (con_fingerprint c)) (tickets s) = []"
      and "i \<notin> tk_id ` set (tickets s)"
      and "outcome = ticket_outcome (new_ticket i now (con_fingerprint c)) True"
      and "s' = s\<lparr>tickets := tickets s @ [new_ticket i now (con_fingerprint c)],
                  ticket_actions := ticket_actions s @ [action_of now c outcome]\<rparr>"
  | (updated) t ts where "con_run_id c \<in> rr_run_id ` set (runs s)"
      and "con_run_id c \<notin> ta_run_id ` set (ticket_actions s)"
      and "filter (open_ticket (con_fingerprint c)) (tickets s) = t # ts"
      and "tk_update_count t < pg_int_max"
      and "outcome = ticket_outcome (bump t) False"
      and "s' = s\<lparr>tickets := update_where (open_ticket (con_fingerprint c)) bump (tickets s),
                  ticket_actions := ticket_actions s @ [action_of now c outcome]\<rparr>"
proof -
  have run: "con_run_id c \<in> rr_run_id ` set (runs s)"
    using assms by (auto simp: apply_action_def split: if_splits)
  show thesis
  proof (cases "find (\<lambda>a. ta_run_id a = con_run_id c) (ticket_actions s)")
    case (Some a)
    then show ?thesis
      using assms run find_Some_iff_hd[OF Some] by (intro replayed[of a]) (auto simp: apply_action_def)
  next
    case None
    then have fresh: "con_run_id c \<notin> ta_run_id ` set (ticket_actions s)"
      by (auto simp: find_None_iff)
    show ?thesis
    proof (cases "filter (open_ticket (con_fingerprint c)) (tickets s)")
      case Nil
      then have "\<not> list_ex (open_ticket (con_fingerprint c)) (tickets s)"
        by (auto simp: filter_empty_conv list_ex_iff)
      then show ?thesis
        using assms run None fresh Nil
        by (intro created)
          (auto simp: apply_action_def insert_ticket_def new_ticket_def action_of_def insert_action_def
            split: if_splits)
    next
      case (Cons t ts)
      then have "list_ex (open_ticket (con_fingerprint c)) (tickets s)"
        by (metis filter_eq_ConsD in_set_conv_decomp list_ex_iff)
      then show ?thesis
        using assms run None fresh Cons
        by (intro updated)
          (auto simp: apply_action_def insert_ticket_def count_update_def Let_def action_of_def
            insert_action_def bump_def[abs_def] split: if_splits)
    qed
  qed
qed

section \<open>Integrity and the ledger\<close>

text \<open>
  The ledger accounts for every ticket write: a ticket was written once when it was
  created and once per update, each on behalf of one recorded run.
\<close>

definition writes_of :: "action_row list \<Rightarrow> uuid \<Rightarrow> nat" where
  "writes_of as i = length (filter (\<lambda>a. ta_ticket_id a = i) as)"

definition ledger_ok :: "db \<Rightarrow> bool" where
  "ledger_ok s \<longleftrightarrow>
     list_all (\<lambda>t. tk_update_count t + 1 = int (writes_of (ticket_actions s) (tk_id t))) (tickets s)"

lemma writes_of_append [simp]:
  "writes_of (as @ [a]) i = writes_of as i + (if ta_ticket_id a = i then 1 else 0)"
  by (simp add: writes_of_def)

lemma ledger_ok_empty [simp]: "ledger_ok empty_db"
  by (simp add: ledger_ok_def empty_db_def)

lemma ledger_ok_events [simp]: "ledger_ok (s\<lparr>events := es\<rparr>) = ledger_ok s"
  by (simp add: ledger_ok_def)

lemma ledger_ok_runs [simp]: "ledger_ok (s\<lparr>runs := rs\<rparr>) = ledger_ok s"
  by (simp add: ledger_ok_def)

lemma open_unique:
  assumes "tickets_ok ts" and "filter (open_ticket fp) ts = t # rest"
  shows "rest = []"
  using assms by (cases rest) (auto simp: tickets_ok_def at_most_one_def dest: spec[of _ fp])

lemma filter_single_key:
  assumes "filter q xs = [y]" and "distinct (map f xs)" and "x \<in> set xs"
  shows "q x \<longleftrightarrow> f x = f y"
proof -
  have y: "y \<in> set xs" "q y" using filter_ConsD[OF assms(1)] by auto
  have "x = y" if "q x"
  proof -
    have "x \<in> set (filter q xs)" using that assms(3) by simp
    then show ?thesis by (simp add: assms(1))
  qed
  moreover have "x = y" if "f x = f y"
    using that y(1) assms(2,3) by (metis distinct_map inj_onD)
  ultimately show ?thesis using y(2) by blast
qed

lemma apply_db_ok [inv_intros]:
  assumes "apply_action i now c s = Inr (outcome, s')" and "db_ok s"
  shows "db_ok s'"
  using assms(1)
proof (cases rule: apply_cases)
  case (replayed a)
  then show ?thesis using assms(2) by simp
next
  case created
  let ?t = "new_ticket i now (con_fingerprint c)"
  have "tickets_ok (tickets s @ [?t])"
    using created(3,4) assms(2)
    by (auto simp: db_ok_def tickets_ok_def at_most_one_append1 new_ticket_def open_ticket_def)
  then show ?thesis
    using created assms(2)
    by (auto simp: db_ok_def actions_ok_def action_of_def ticket_outcome_def new_ticket_def)
next
  case (updated t ts)
  have "tickets_ok (update_where (open_ticket (con_fingerprint c)) bump (tickets s))"
    using assms(2) by (simp add: db_ok_def tickets_ok_def map_update_where at_most_one_update_where)
  moreover have "tk_id ` set (update_where (open_ticket (con_fingerprint c)) bump (tickets s))
      = tk_id ` set (tickets s)"
    by (rule image_update_where) simp
  moreover have "tk_id t \<in> tk_id ` set (tickets s)"
    using filter_ConsD[OF updated(3)] by blast
  ultimately show ?thesis
    using updated assms(2) by (auto simp: db_ok_def actions_ok_def action_of_def ticket_outcome_def)
qed

lemma apply_ledger_ok [inv_intros]:
  assumes "apply_action i now c s = Inr (outcome, s')" and "db_ok s" and "ledger_ok s"
  shows "ledger_ok s'"
  using assms(1)
proof (cases rule: apply_cases)
  case (replayed a)
  then show ?thesis using assms(3) by simp
next
  case created
  have "writes_of (ticket_actions s) i = 0"
    using created(4) assms(2) by (auto simp: writes_of_def db_ok_def actions_ok_def filter_empty_conv)
  then show ?thesis
    using created(4,5,6) assms(3)
    by (auto simp: ledger_ok_def list_all_iff action_of_def ticket_outcome_def new_ticket_def)
next
  case (updated t ts)
  have ids: "distinct (map tk_id (tickets s))" using assms(2) by (simp add: db_ok_def tickets_ok_def)
  have one: "filter (open_ticket (con_fingerprint c)) (tickets s) = [t]"
    using updated(3) open_unique assms(2) by (metis db_ok_def)
  have row: "ta_ticket_id (action_of now c outcome) = tk_id t"
    by (simp add: updated(5) action_of_def ticket_outcome_def)
  let ?ok = "\<lambda>y. tk_update_count y + 1 = int (writes_of (ticket_actions s @ [action_of now c outcome]) (tk_id y))"
  have "?ok y"
    if "x \<in> set (tickets s)" "y = (if open_ticket (con_fingerprint c) x then bump x else x)" for x y
    using that filter_single_key[OF one ids that(1)] assms(3)
    by (auto simp: ledger_ok_def list_all_iff row)
  then have "\<forall>y \<in> set (update_where (open_ticket (con_fingerprint c)) bump (tickets s)). ?ok y"
    unfolding set_update_where by blast
  then show ?thesis by (simp add: updated(6) ledger_ok_def list_all_iff)
qed

lemma close_ticket_counts:
  "map (\<lambda>t. (tk_id t, tk_update_count t)) (fold close_ticket_on_window rows ts)
     = map (\<lambda>t. (tk_id t, tk_update_count t)) ts"
proof (induction rows arbitrary: ts)
  case (Cons row rows)
  have "map (\<lambda>t. (tk_id t, tk_update_count t)) (close_ticket_on_window row ts)
      = map (\<lambda>t. (tk_id t, tk_update_count t)) ts"
    by (cases row) (simp add: close_ticket_on_window_def map_update_where)
  then show ?case using Cons.IH[of "close_ticket_on_window row ts"] by simp
qed simp

lemma ledger_ok_counts:
  "ledger_ok s = list_all (\<lambda>(i, n). n + 1 = int (writes_of (ticket_actions s) i))
     (map (\<lambda>t. (tk_id t, tk_update_count t)) (tickets s))"
  by (simp add: ledger_ok_def list.pred_map comp_def)

lemma close_window_ledger_ok [inv_intros]:
  "ledger_ok s \<Longrightarrow> ledger_ok (snd (close_window fp t s))"
  unfolding ledger_ok_counts by (simp add: close_window_def Let_def close_ticket_counts del: list.pred_map)

lemma admit_ledger_ok [inv_intros]:
  assumes "admit dump W e s = Inr (a, s')" and "ledger_ok s"
  shows "ledger_ok s'"
  using assms(1) by (cases rule: admit_cases) (use assms(2) in simp_all)

lemma quarantine_ledger_ok [inv_intros]:
  "quarantine i src t r s = Inr s' \<Longrightarrow> ledger_ok s \<Longrightarrow> ledger_ok s'"
  by (auto simp: quarantine_def insert_event_Inr)

lemma mark_queued_ledger_ok [simp]: "ledger_ok (mark_queued i m t s) = ledger_ok s"
  by (simp add: mark_queued_def)

section \<open>Exactly one ticket, exactly once per run\<close>

text \<open>A second \<open>apply\<close> for the run answers with the first result and writes nothing.\<close>

lemma apply_again:
  assumes "apply_action i now c s = Inr (outcome, s')" and "db_ok s"
  shows "apply_action i' now' c s' = Inr (outcome\<lparr>out_replayed := True\<rparr>, s')"
proof -
  obtain a where a: "a \<in> set (ticket_actions s')" "ta_run_id a = con_run_id c"
    and out: "replayed_outcome a = outcome\<lparr>out_replayed := True\<rparr>"
    using assms(1)
  proof (cases rule: apply_cases)
    case (replayed a)
    then show ?thesis by (intro that[of a]) (simp_all add: replayed_outcome_def)
  next
    case created
    then show ?thesis
      by (intro that[of "action_of now c outcome"])
        (simp_all add: action_of_def replayed_outcome_def ticket_outcome_def)
  next
    case (updated t ts)
    then show ?thesis
      by (intro that[of "action_of now c outcome"])
        (simp_all add: action_of_def replayed_outcome_def ticket_outcome_def)
  qed
  have ok: "db_ok s'" by (rule apply_db_ok[OF assms])
  then have "find (\<lambda>x. ta_run_id x = con_run_id c) (ticket_actions s') = Some a"
    using find_distinct_key[of ta_run_id "ticket_actions s'" a] a by (simp add: db_ok_def actions_ok_def)
  moreover have "con_run_id c \<in> rr_run_id ` set (runs s')"
    unfolding a(2)[symmetric] using ok a(1) by (simp add: db_ok_def actions_ok_def)
  ultimately show ?thesis by (simp add: apply_action_def out)
qed

lemma apply_one_open:
  assumes "apply_action i now c s = Inr (outcome, s')" and "db_ok s" and "\<not> out_replayed outcome"
  shows "\<exists>t. filter (open_ticket (con_fingerprint c)) (tickets s') = [t]
           \<and> out_ticket_id outcome = tk_id t \<and> out_update_count outcome = tk_update_count t
           \<and> out_created outcome = (filter (open_ticket (con_fingerprint c)) (tickets s) = [])"
  using assms(1)
proof (cases rule: apply_cases)
  case (replayed a)
  then show ?thesis using assms(3) by (simp add: replayed_outcome_def)
next
  case created
  then show ?thesis by (simp add: ticket_outcome_def new_ticket_def open_ticket_def)
next
  case (updated t ts)
  then have "filter (open_ticket (con_fingerprint c)) (tickets s') = [bump t]"
    using open_unique[OF _ updated(3)] filter_ConsD[OF updated(3)] assms(2)
    by (simp add: db_ok_def filter_update_where_same)
  then show ?thesis using updated by (simp add: ticket_outcome_def)
qed

text \<open>When it answers: the run exists, the new id is unused, the counters have room.\<close>

lemma apply_total:
  assumes "db_ok s" and "con_run_id c \<in> rr_run_id ` set (runs s)" and "i \<notin> tk_id ` set (tickets s)"
    and "\<forall>t \<in> set (tickets s). tk_update_count t < pg_int_max"
  shows "\<exists>outcome s'. apply_action i now c s = Inr (outcome, s')"
proof (cases "find (\<lambda>a. ta_run_id a = con_run_id c) (ticket_actions s)")
  case (Some a)
  then show ?thesis using assms(2) by (simp add: apply_action_def)
next
  case None
  then have fresh: "con_run_id c \<notin> ta_run_id ` set (ticket_actions s)" by (auto simp: find_None_iff)
  show ?thesis
  proof (cases "filter (open_ticket (con_fingerprint c)) (tickets s)")
    case Nil
    then have "\<not> list_ex (open_ticket (con_fingerprint c)) (tickets s)"
      by (auto simp: filter_empty_conv list_ex_iff)
    then show ?thesis
      using assms(2,3) None fresh
      by (simp add: apply_action_def insert_ticket_def insert_action_def ticket_outcome_def)
  next
    case (Cons t ts)
    have t: "t \<in> set (tickets s)" "open_ticket (con_fingerprint c) t"
      using filter_ConsD[OF Cons] by auto
    have room: "\<not> list_ex (\<lambda>t. pg_int_max < tk_update_count t + 1)
        (filter (open_ticket (con_fingerprint c)) (tickets s))"
      using assms(4) by (auto simp: list_ex_iff)
    let ?s = "s\<lparr>tickets := update_where (open_ticket (con_fingerprint c)) bump (tickets s)\<rparr>"
    have "list_ex (open_ticket (con_fingerprint c)) (tickets s)" using t by (auto simp: list_ex_iff)
    moreover have "count_update (con_fingerprint c) s = Inr (Some (bump t), ?s)"
      using room by (simp add: count_update_def Let_def bump_def [abs_def] Cons)
    moreover have "tk_id t \<in> tk_id ` set (tickets ?s)"
      using t(1) by (simp add: image_update_where)
    ultimately show ?thesis
      using assms(2) None fresh
      by (simp add: apply_action_def insert_ticket_def insert_action_def ticket_outcome_def)
  qed
qed

section \<open>The life of a run\<close>

text \<open>
  A run is \<^verbatim>\<open>running\<close> with no outcome, or \<^verbatim>\<open>concluded\<close> with the conclusion of its own
  run id, a complete byte range, and its ticket write in the ledger.
\<close>

definition run_ok :: "db \<Rightarrow> run_row \<Rightarrow> bool" where
  "run_ok s r \<longleftrightarrow>
     (rr_status r = ''running'' \<and> rr_conclusion r = None \<and> rr_audit_end_offset r = None)
     \<or> (rr_status r = ''concluded'' \<and> rr_run_id r \<in> ta_run_id ` set (ticket_actions s)
        \<and> rr_audit_end_offset r \<noteq> None
        \<and> (case rr_conclusion r of None \<Rightarrow> False
           | Some c \<Rightarrow> con_run_id c = rr_run_id r
                       \<and> (con_status c = NEEDS_HUMAN \<or> con_status c = INCONCLUSIVE)))"

definition runs_wf :: "db \<Rightarrow> bool" where
  "runs_wf s \<longleftrightarrow> list_all (run_ok s) (runs s)"

lemma runs_wf_empty [simp]: "runs_wf empty_db"
  by (simp add: runs_wf_def empty_db_def)

lemma run_ok_cong:
  "ta_run_id ` set (ticket_actions s) \<subseteq> ta_run_id ` set (ticket_actions s') \<Longrightarrow> run_ok s r \<Longrightarrow> run_ok s' r"
  by (auto simp: run_ok_def)

lemma runs_wf_actions:
  "runs_wf s \<Longrightarrow> runs s' = runs s \<Longrightarrow>
     ta_run_id ` set (ticket_actions s) \<subseteq> ta_run_id ` set (ticket_actions s') \<Longrightarrow> runs_wf s'"
  by (auto simp: runs_wf_def list_all_iff intro: run_ok_cong)

lemma repointed_simps [simp]:
  "rr_run_id (repointed f off t r) = rr_run_id r" "rr_status (repointed f off t r) = rr_status r"
  "rr_conclusion (repointed f off t r) = rr_conclusion r"
  "rr_audit_end_offset (repointed f off t r) = rr_audit_end_offset r"
  "rr_audit_log_file (repointed f off t r) = f" "rr_audit_start_offset (repointed f off t r) = off"
  "run_ok s (repointed f off t r) = run_ok s r"
  by (auto simp: repointed_def run_ok_def split: option.splits)

lemma claimed_ids:
  "rr_run_id ` set (claimed_runs run_id event_id fp f off t rs) = insert run_id (rr_run_id ` set rs)"
proof -
  have "rr_run_id ` set (claimed_runs run_id event_id fp f off t rs)
      = rr_run_id ` set (if run_id \<in> rr_run_id ` set rs then rs else rs @ [new_run run_id event_id fp f off t])"
    unfolding claimed_runs_def by (rule image_update_where) simp
  then show ?thesis by (auto simp: new_run_def)
qed

lemma claimed_distinct:
  assumes "distinct (map rr_run_id rs)"
  shows "distinct (map rr_run_id (claimed_runs run_id event_id fp f off t rs))"
proof -
  have "map rr_run_id (claimed_runs run_id event_id fp f off t rs)
      = map rr_run_id (if run_id \<in> rr_run_id ` set rs then rs else rs @ [new_run run_id event_id fp f off t])"
    unfolding claimed_runs_def by (rule map_update_where) simp
  then show ?thesis using assms by (auto simp: new_run_def)
qed

text \<open>The rows after a claim: other runs as they were, the claimed one new, repointed or concluded.\<close>

lemma claimed_row:
  assumes "r \<in> set (claimed_runs run_id event_id fp f off t rs)"
  shows "(r \<in> set rs \<and> (rr_run_id r \<noteq> run_id \<or> rr_status r \<noteq> ''running''))
         \<or> (rr_run_id r = run_id \<and> rr_status r = ''running'' \<and> rr_audit_log_file r = f
            \<and> rr_audit_start_offset r = off
            \<and> ((\<exists>r0 \<in> set rs. r = repointed f off t r0) \<or> r = repointed f off t (new_run run_id event_id fp f off t)))"
  using assms unfolding claimed_runs_def set_update_where
  by (auto split: if_splits simp: new_run_def)

lemma runs_check_running:
  "rr_status r = ''running'' \<Longrightarrow> rr_audit_end_offset r = None \<Longrightarrow> runs_check r"
  by (simp add: runs_check_def runs_audit_offsets_ordered_def RUN_STATUSES_def)

lemma claimed_check:
  assumes "list_all runs_check rs" and "list_all (run_ok s) rs"
  shows "list_all runs_check (claimed_runs run_id event_id fp f off t rs)
         \<and> list_all (run_ok s) (claimed_runs run_id event_id fp f off t rs)"
proof -
  have "runs_check r \<and> run_ok s r" if "r \<in> set (claimed_runs run_id event_id fp f off t rs)" for r
  proof -
    have new: "run_ok s (repointed f off t (new_run run_id event_id fp f off t))"
      by (simp add: run_ok_def new_run_def)
    have ok: "run_ok s r"
      using claimed_row[OF that] assms(2) new by (metis list_all_iff repointed_simps(7))
    moreover have "runs_check r"
      using claimed_row[OF that] assms(1) ok
      by (auto simp: list_all_iff run_ok_def intro: runs_check_running)
    ultimately show ?thesis by blast
  qed
  then show ?thesis by (simp add: list_all_iff)
qed

text \<open>Claiming a run always answers, with the state of the one row of that run.\<close>

lemma open_run_total:
  assumes "db_ok s" and "runs_wf s"
  shows "\<exists>claim r. open_run run_id event_id fp f off t s
             = Inr (claim, s\<lparr>runs := claimed_runs run_id event_id fp f off t (runs s)\<rparr>)
           \<and> r \<in> set (claimed_runs run_id event_id fp f off t (runs s)) \<and> rr_run_id r = run_id
           \<and> clm_status claim = rr_status r
           \<and> clm_conclusion_status claim = map_option (\<lambda>c. status_value (con_status c)) (rr_conclusion r)"
proof -
  let ?rs = "claimed_runs run_id event_id fp f off t (runs s)"
  have chk: "list_all runs_check ?rs"
    using claimed_check assms by (auto simp: db_ok_def runs_ok_def runs_wf_def)
  have "run_id \<in> rr_run_id ` set ?rs" by (simp add: claimed_ids)
  then obtain r where r: "find (\<lambda>r. rr_run_id r = run_id) ?rs = Some r"
    by (metis (mono_tags, lifting) find_None_iff imageE option.exhaust)
  show ?thesis
    using chk r find_Some_iff_hd[OF r] by (auto simp: open_run_def Let_def)
qed

lemma open_run_keeps:
  assumes "open_run run_id event_id fp f off t s = Inr (claim, s')" and "db_ok s" and "runs_wf s"
  shows "db_ok s' \<and> runs_wf s' \<and> s' = s\<lparr>runs := claimed_runs run_id event_id fp f off t (runs s)\<rparr>"
proof -
  have s': "s' = s\<lparr>runs := claimed_runs run_id event_id fp f off t (runs s)\<rparr>"
    using assms(1) open_run_total[OF assms(2,3), of run_id event_id fp f off t] by auto
  have "list_all runs_check (claimed_runs run_id event_id fp f off t (runs s))
        \<and> list_all (run_ok s) (claimed_runs run_id event_id fp f off t (runs s))"
    by (rule claimed_check) (use assms in \<open>auto simp: db_ok_def runs_ok_def runs_wf_def\<close>)
  moreover have "run_ok s' = run_ok s" by (simp add: fun_eq_iff run_ok_def s')
  ultimately show ?thesis
    using assms(2) claimed_distinct[of "runs s" run_id event_id fp f off t]
    by (auto simp: s' db_ok_def runs_ok_def runs_wf_def actions_ok_def claimed_ids)
qed

definition concluded_run :: "Conclusion \<Rightarrow> int \<Rightarrow> int \<Rightarrow> run_row \<Rightarrow> run_row" where
  "concluded_run c off t r =
     r\<lparr>rr_status := ''concluded'', rr_conclusion := Some c, rr_finished_at := Some t,
       rr_audit_end_offset := Some off\<rparr>"

lemma concluded_run_simps [simp]:
  "rr_run_id (concluded_run c off t r) = rr_run_id r"
  "rr_status (concluded_run c off t r) = ''concluded''"
  "rr_conclusion (concluded_run c off t r) = Some c"
  "rr_audit_end_offset (concluded_run c off t r) = Some off"
  "rr_audit_start_offset (concluded_run c off t r) = rr_audit_start_offset r"
  "rr_audit_log_file (concluded_run c off t r) = rr_audit_log_file r"
  by (simp_all add: concluded_run_def)

lemma close_run_concluded:
  assumes "db_ok s" and "\<And>r. r \<in> set (runs s) \<Longrightarrow> rr_run_id r = run_id \<Longrightarrow> rr_audit_start_offset r \<le> off"
  shows "close_run run_id ''concluded'' (Some c) off t s
           = Inr ((), s\<lparr>runs := update_where (\<lambda>r. rr_run_id r = run_id) (concluded_run c off t) (runs s)\<rparr>)"
proof -
  have "list_all runs_check (update_where (\<lambda>r. rr_run_id r = run_id) (concluded_run c off t) (runs s))"
    using assms
    by (auto simp: db_ok_def runs_ok_def list_all_iff set_update_where runs_check_def
        runs_audit_offsets_ordered_def RUN_STATUSES_def)
  then show ?thesis by (simp add: close_run_def Let_def concluded_run_def [abs_def])
qed

lemma close_run_Inr:
  assumes "close_run run_id ''concluded'' (Some c) off t s = Inr (u, s')"
  shows "s' = s\<lparr>runs := update_where (\<lambda>r. rr_run_id r = run_id) (concluded_run c off t) (runs s)\<rparr>"
    and "list_all runs_check (runs s')"
  using assms by (auto simp: close_run_def Let_def concluded_run_def [abs_def] split: if_splits)

lemma close_run_keeps:
  assumes "close_run run_id ''concluded'' (Some c) off t s = Inr (u, s')" and "db_ok s" and "runs_wf s"
    and "con_run_id c = run_id" and "con_status c = NEEDS_HUMAN \<or> con_status c = INCONCLUSIVE"
    and "run_id \<in> ta_run_id ` set (ticket_actions s)"
  shows "db_ok s' \<and> runs_wf s'"
proof -
  let ?rs = "update_where (\<lambda>r. rr_run_id r = run_id) (concluded_run c off t) (runs s)"
  have s': "s' = s\<lparr>runs := ?rs\<rparr>" and chk: "list_all runs_check ?rs"
    using close_run_Inr[OF assms(1)] by auto
  have ids: "map rr_run_id ?rs = map rr_run_id (runs s)" by (rule map_update_where) simp
  have "run_ok s' r" if "r \<in> set ?rs" for r
    using that assms(3-6) by (auto simp: set_update_where s' runs_wf_def list_all_iff run_ok_def)
  moreover have "rr_run_id ` set ?rs = rr_run_id ` set (runs s)" by (metis ids image_set)
  ultimately show ?thesis
    using assms(2) chk ids by (simp add: s' db_ok_def runs_ok_def runs_wf_def actions_ok_def list_all_iff)
qed

lemma apply_run_recorded:
  assumes "apply_action i now c s = Inr (outcome, s')"
  shows "con_run_id c \<in> ta_run_id ` set (ticket_actions s') \<and> runs s' = runs s
         \<and> ta_run_id ` set (ticket_actions s) \<subseteq> ta_run_id ` set (ticket_actions s')
         \<and> events s' = events s"
  using assms
proof (cases rule: apply_cases)
  case (replayed a)
  then show ?thesis by (metis image_eqI subset_refl)
qed (auto simp: action_of_def)

end
