(* ===== verification/Triage.thy ===== *)
theory Triage
  imports Contracts
begin

text \<open>
  Deterministic triage, \<^verbatim>\<open>src/smokejumper/intelligence/triage.py\<close>: the conclusion drawn
  from one event. The clock is an argument: \<open>elapsed_ms\<close> is the whole milliseconds
  between the two readings. Confidences are the decimal literals of the source.
\<close>

definition ESCALATING :: "Severity list" where
  "ESCALATING = [CRITICAL, HIGH]"

definition NO_SPEND :: Budget where
  "NO_SPEND = \<lparr>schema_version = 1, bud_tool_calls = 0, bud_tokens = 0\<rparr>"

definition entity_summary :: "AgentEvent \<Rightarrow> string" where
  "entity_summary event =
     (if ev_entities event = [] then ''no entities were tagged on this alert''
      else py_join '', '' (map (\<lambda>e. ent_type e @ ''='' @ ent_id e) (ev_entities event)))"

definition evidence_refs :: "AgentEvent \<Rightarrow> string list" where
  "evidence_refs event = [''event:'' @ ev_id event, ''fingerprint:'' @ ev_fingerprint event]"

definition finding :: "string \<Rightarrow> string \<Rightarrow> string list \<Rightarrow> Finding" where
  "finding agent hypothesis evidence =
     \<lparr>schema_version = 1, fnd_agent = agent, fnd_hypothesis = hypothesis, fnd_evidence = evidence,
      fnd_confidence = 1, fnd_budget_spent = NO_SPEND\<rparr>"

definition findings :: "AgentEvent \<Rightarrow> Finding list" where
  "findings event =
     [finding ''receiver''
        (source_value (ev_source event) @ '' monitor '' @ ev_key event @ '' is firing at ''
          @ severity_value (ev_severity event) @ '' severity'')
        (evidence_refs event)]
     @ (if ev_entities event = [] then []
        else [finding ''receiver'' (''affected subject: '' @ entity_summary event)
                (map (\<lambda>e. ''entity:'' @ ent_type e @ '':'' @ ent_id e) (ev_entities event))])
     @ [finding ''triage''
          (''no root cause determined: this build has no metric history, deploy ''
            @ ''timeline, or log correlation to reason over'')
          [''capability:read-tier-tools-absent'']]"

definition newline :: string where
  "newline = [CHR 0x0A]"

definition backquoted :: "string \<Rightarrow> string" where
  "backquoted t = CHR 0x60 # t @ [CHR 0x60]"

definition summary :: "AgentEvent \<Rightarrow> ConclusionStatus \<Rightarrow> string" where
  "summary event status =
     py_join newline
       ([''**'' @ ev_title event @ ''**'', [],
         ''- source: '' @ backquoted (source_value (ev_source event)) @ '' monitor ''
           @ backquoted (ev_key event),
         ''- severity: '' @ backquoted (severity_value (ev_severity event)),
         ''- subject: '' @ entity_summary event,
         ''- first seen: '' @ isoformat (ev_occurred_at event), [],
         ''Triage reached '' @ backquoted (status_value status) @ ''.'']
        @ (if ev_body event = [] then []
           else [[], ''Alert detail:'', [], replicate 3 (CHR 0x60), py_strip (ev_body event),
                 replicate 3 (CHR 0x60)]))"

definition triage_status :: "AgentEvent \<Rightarrow> ConclusionStatus" where
  "triage_status event =
     (if ev_severity event \<in> set ESCALATING then NEEDS_HUMAN else INCONCLUSIVE)"

definition triage :: "int \<Rightarrow> AgentEvent \<Rightarrow> uuid option \<Rightarrow> Conclusion" where
  "triage elapsed_ms event run_id =
     (let status = triage_status event in
      \<lparr>schema_version = 1,
       con_run_id = (case run_id of None \<Rightarrow> ev_id event | Some r \<Rightarrow> r),
       con_fingerprint = ev_fingerprint event,
       con_status = status,
       con_confidence = (if ev_entities event = [] then 6 / 10 else 9 / 10),
       con_summary_md = summary event status,
       con_findings = findings event,
       con_evidence_refs = evidence_refs event,
       con_proposed_actions =
         (if ev_entities event = []
          then [''identify the affected subject: this alert carried no entity tags'']
          else map (\<lambda>e. ''inspect '' @ ent_type e @ '' '' @ ent_id e) (ev_entities event)),
       con_tokens_spent = 0,
       con_wall_ms = max 1 elapsed_ms\<rparr>)"

lemma finding_valid: "agent \<noteq> [] \<Longrightarrow> Finding_valid (finding agent hyp evd)"
  by (simp add: finding_def NO_SPEND_def contract_defs contract_ok_def)

text \<open>Constructing the \<open>Conclusion\<close> never fails validation, and it never overclaims.\<close>

lemma triage_valid: "AgentEvent_valid event \<Longrightarrow> Conclusion_valid (triage ms event r)"
  by (simp add: triage_def Let_def Conclusion_valid_def contract_ok_def findings_def finding_valid
      AgentEvent_valid_def)

lemma triage_status_cases:
  "con_status (triage ms event r) = NEEDS_HUMAN \<or> con_status (triage ms event r) = INCONCLUSIVE"
  by (simp add: triage_def Let_def triage_status_def)

lemma triage_needs_human:
  "con_status (triage ms event r) = NEEDS_HUMAN \<longleftrightarrow> ev_severity event \<in> {CRITICAL, HIGH}"
  by (simp add: triage_def Let_def triage_status_def ESCALATING_def)

text \<open>Replay: only the run id and the clock may differ between two triages of an event.\<close>

lemma triage_deterministic:
  "(triage ms event r)\<lparr>con_run_id := i, con_wall_ms := t\<rparr>
     = (triage ms' event r')\<lparr>con_run_id := i, con_wall_ms := t\<rparr>"
  by (simp add: triage_def Let_def)

lemma triage_simps [simp]:
  "con_run_id (triage ms event (Some r)) = r"
  "con_fingerprint (triage ms event r') = ev_fingerprint event"
  by (simp_all add: triage_def Let_def)

text \<open>Every finding carries evidence, and each affected entity is cited and acted upon.\<close>

lemma findings_have_evidence: "f \<in> set (findings event) \<Longrightarrow> fnd_evidence f \<noteq> []"
  by (auto simp: findings_def finding_def evidence_refs_def split: if_splits)

lemma proposed_actions_cover:
  "ev_entities event \<noteq> [] \<Longrightarrow>
     length (con_proposed_actions (triage ms event r)) = length (ev_entities event)"
  by (simp add: triage_def Let_def)

end
