(* ===== verification/Recorder.thy ===== *)
theory Recorder
  imports Contracts JsonText
begin

text \<open>
  The append-only flight recorder, \<^verbatim>\<open>src/smokejumper/recorder/writer.py\<close>. The file is
  its bytes. A write either lands whole and is flushed, or raises \<open>OSError\<close> after some
  prefix of the line has landed (\<open>WriteFails n\<close>). \<open>dump\<close> is pydantic's
  \<^verbatim>\<open>model_dump_json\<close> of \<open>AuditEvent\<close>. Reading decodes the file as strict UTF-8 with universal
  newlines and gives each line that is not blank to \<^verbatim>\<open>json.loads\<close> (\<^theory_text>\<open>JsonText\<close>); the file is
  decoded whole here and in chunks of 8192 bytes there, which can only change which of two
  errors in one file is the one that is raised.
\<close>

record recorder =
  rc_name :: string
  rc_file :: "byte list"
  rc_seq :: "(string \<times> int) list"
  rc_failures :: nat

datatype write_io = WriteOk | WriteFails nat string

definition new_recorder :: "string \<Rightarrow> nat \<Rightarrow> recorder" where
  "new_recorder stamp pid =
     \<lparr>rc_name = ''audit-'' @ stamp @ ''-'' @ show_nat pid @ ''.jsonl'', rc_file = [], rc_seq = [],
      rc_failures = 0\<rparr>"

definition last_seq :: "recorder \<Rightarrow> string \<Rightarrow> int" where
  "last_seq rc run = (case map_of (rc_seq rc) run of None \<Rightarrow> 0 | Some n \<Rightarrow> n)"

definition audit_line :: "(AuditEvent \<Rightarrow> string) \<Rightarrow> AuditEvent \<Rightarrow> byte list" where
  "audit_line dump event = utf8 (dump event @ [CHR 0x0A])"

text \<open>The counter advances before the write and is not taken back when the write fails.\<close>

definition append ::
  "(AuditEvent \<Rightarrow> string) \<Rightarrow> write_io \<Rightarrow> AuditEvent \<Rightarrow> recorder \<Rightarrow> (int \<times> nat) result \<times> recorder" where
  "append dump io event rc =
     (let run = aud_run_id event;
          seq = last_seq rc run + 1;
          rc' = rc\<lparr>rc_seq := (run, seq) # rc_seq rc\<rparr>;
          line = audit_line dump (event\<lparr>aud_seq := seq\<rparr>)
      in case io of
           WriteOk \<Rightarrow>
             (Inr (seq, length (rc_file rc @ line)), rc'\<lparr>rc_file := rc_file rc @ line\<rparr>)
         | WriteFails n msg \<Rightarrow>
             (Inl (OSError msg),
              rc'\<lparr>rc_file := rc_file rc @ take n line, rc_failures := rc_failures rc + 1\<rparr>))"

definition start_offset :: "recorder \<Rightarrow> nat" where
  "start_offset rc = length (rc_file rc)"

definition AUDIT_KINDS :: "(string \<times> AuditKind) list" where
  "AUDIT_KINDS = map (\<lambda>k. (audit_kind_value k, k)) [EVENT, TRANSITION, LLM_CALL, TOOL_CALL, GATE, ACTION]"

definition record_audit ::
  "(json_obj \<Rightarrow> LlmCallPayload option) \<Rightarrow> (AuditEvent \<Rightarrow> string) \<Rightarrow> write_io \<Rightarrow> py_datetime
     \<Rightarrow> uuid \<Rightarrow> string \<Rightarrow> string \<Rightarrow> json_obj \<Rightarrow> recorder \<Rightarrow> (int \<times> nat) result \<times> recorder" where
  "record_audit read_llm dump io ts run_id actor kind payload rc =
     (case map_of AUDIT_KINDS kind of
        None \<Rightarrow> (Inl (ValidationError ''validation error''), rc)
      | Some k \<Rightarrow>
          (case contract_make (AuditEvent_valid read_llm)
                  \<lparr>schema_version = 1, aud_run_id = run_id, aud_seq = 1, aud_ts = ts,
                   aud_actor = actor, aud_kind = k, aud_payload = payload\<rparr> of
             Inl e \<Rightarrow> (Inl e, rc)
           | Inr event \<Rightarrow> append dump io event rc))"

text \<open>A file opened in text mode: \<^verbatim>\<open>\r\n\<close> and \<^verbatim>\<open>\r\<close> are line ends too, and a line keeps its end.\<close>

fun universal_newlines :: "utext \<Rightarrow> utext" where
  "universal_newlines [] = []"
| "universal_newlines (c # cs) =
     (if c = 13 then 10 # universal_newlines (if take 1 cs = [10] then drop 1 cs else cs)
      else c # universal_newlines cs)"

fun file_lines :: "utext \<Rightarrow> utext list" where
  "file_lines [] = []"
| "file_lines (c # cs) =
     (if c = 10 then [10] # file_lines cs
      else case file_lines cs of [] \<Rightarrow> [[c]] | l # ls \<Rightarrow> (c # l) # ls)"

text \<open>\<^verbatim>\<open>not line.strip()\<close>: nothing but the white space of \<^verbatim>\<open>str.isspace\<close>.\<close>

definition blank :: "utext \<Rightarrow> bool" where
  "blank l \<longleftrightarrow> list_all uspace l"

fun type_name :: "ujson \<Rightarrow> string" where
  "type_name UNull = ''NoneType''"
| "type_name (UBool _) = ''bool''"
| "type_name (UInt _) = ''int''"
| "type_name (UFloat _) = ''float''"
| "type_name (UStr _) = ''str''"
| "type_name (UList _) = ''list''"
| "type_name (UObj _) = ''dict''"

definition line_record :: "(utext \<Rightarrow> utext) \<Rightarrow> utext \<Rightarrow> (utext \<times> ujson) list result" where
  "line_record flt line =
     res_bind (json_loads flt line) (\<lambda>record.
       case record of
         UObj obj \<Rightarrow> Inr obj
       | _ \<Rightarrow> Inl (AttributeError (squote # type_name record @ squote # '' object has no attribute ''
                 @ squote # ''get'' @ [squote])))"

definition read_run :: "(utext \<Rightarrow> utext) \<Rightarrow> uuid \<Rightarrow> recorder \<Rightarrow> (utext \<times> ujson) list list result" where
  "read_run flt wanted rc =
     res_bind (utf8_decode False (rc_file rc)) (\<lambda>text.
     res_bind (res_mapM (line_record flt)
                 (filter (\<lambda>l. \<not> blank l) (file_lines (universal_newlines text)))) (\<lambda>records.
       Inr (filter (\<lambda>obj. map_of obj (uc ''run_id'') = Some (UStr (uc wanted))) records)))"

section \<open>The file only grows\<close>

lemma append_extends: "\<exists>bs. rc_file (snd (append dump io event rc)) = rc_file rc @ bs"
  by (cases io) (auto simp: append_def Let_def)

lemma append_name [simp]: "rc_name (snd (append dump io event rc)) = rc_name rc"
  by (cases io) (auto simp: append_def Let_def)

lemma append_ok:
  assumes "append dump io event rc = (Inr (seq, off), rc')"
  shows "io = WriteOk" and "seq = last_seq rc (aud_run_id event) + 1"
    and "rc_file rc' = rc_file rc @ audit_line dump (event\<lparr>aud_seq := seq\<rparr>)"
    and "off = length (rc_file rc')"
  using assms by (cases io; auto simp: append_def Let_def)+

lemma append_seq:
  "last_seq (snd (append dump io event rc)) run =
     (if run = aud_run_id event then last_seq rc run + 1 else last_seq rc run)"
  by (cases io) (auto simp: append_def Let_def last_seq_def)

lemma append_failures:
  "rc_failures (snd (append dump io event rc)) =
     rc_failures rc + (case fst (append dump io event rc) of Inl _ \<Rightarrow> 1 | Inr _ \<Rightarrow> 0)"
  by (cases io) (auto simp: append_def Let_def)

lemma record_audit_extends:
  "\<exists>bs. rc_file (snd (record_audit rl dump io ts run actor kind p rc)) = rc_file rc @ bs"
  using append_extends by (auto simp: record_audit_def split: option.splits sum.splits)

lemma record_audit_name [simp]:
  "rc_name (snd (record_audit rl dump io ts run actor kind p rc)) = rc_name rc"
  by (auto simp: record_audit_def split: option.splits sum.splits)

lemma audit_line_not_Nil [simp]: "audit_line dump e \<noteq> []"
  by (simp add: audit_line_def utf8_def utf8_char_def Let_def)

section \<open>Round trip\<close>

lemma file_lines_line:
  assumes "10 \<notin> set l"
  shows "file_lines (l @ 10 # cs) = (l @ [10]) # file_lines cs"
  using assms by (induction l) auto

lemma universal_newlines_id: "13 \<notin> set t \<Longrightarrow> universal_newlines t = t"
  by (induction t) auto

fun append_all ::
  "(AuditEvent \<Rightarrow> string) \<Rightarrow> AuditEvent list \<Rightarrow> recorder \<Rightarrow> recorder" where
  "append_all dump [] rc = rc"
| "append_all dump (e # es) rc = append_all dump es (snd (append dump WriteOk e rc))"

text \<open>The event as it is written: with the sequence number the recorder gives it.\<close>

fun numbered :: "recorder \<Rightarrow> AuditEvent list \<Rightarrow> (AuditEvent \<Rightarrow> string) \<Rightarrow> AuditEvent list" where
  "numbered rc [] dump = []"
| "numbered rc (e # es) dump =
     e\<lparr>aud_seq := last_seq rc (aud_run_id e) + 1\<rparr> # numbered (snd (append dump WriteOk e rc)) es dump"

lemma append_all_file:
  "rc_file (append_all dump es rc)
     = rc_file rc @ concat (map (audit_line dump) (numbered rc es dump))"
  by (induction es arbitrary: rc) (auto simp: append_def Let_def)

lemma utf8_append: "utf8 (xs @ ys) = utf8 xs @ utf8 ys"
  by (simp add: utf8_def)

lemma utf8_ascii: "list_all (\<lambda>c. cp c < 128) s \<Longrightarrow> utf8 s = map (\<lambda>c. word_of_nat (cp c)) s"
  by (induction s) (simp_all add: utf8_def utf8_char_def)

text \<open>A torn write of an ASCII line leaves the text of its prefix.\<close>

lemma append_torn:
  assumes "list_all (\<lambda>c. cp c < 128) (dump (event\<lparr>aud_seq := last_seq rc (aud_run_id event) + 1\<rparr>))"
    and "n \<le> length (dump (event\<lparr>aud_seq := last_seq rc (aud_run_id event) + 1\<rparr>))"
  shows "rc_file (snd (append dump (WriteFails n msg) event rc))
           = rc_file rc @ utf8 (take n (dump (event\<lparr>aud_seq := last_seq rc (aud_run_id event) + 1\<rparr>)))"
proof -
  have "take n (utf8 s) = utf8 (take n s)" if "list_all (\<lambda>c. cp c < 128) s" for s
  proof -
    have "list_all (\<lambda>c. cp c < 128) (take n s)" using that by (auto simp: list_all_iff dest: in_set_takeD)
    then show ?thesis using that by (simp add: utf8_ascii take_map)
  qed
  moreover have "length (utf8 s) = length s" if "list_all (\<lambda>c. cp c < 128) s" for s
    using that by (simp add: utf8_ascii)
  ultimately show ?thesis using assms by (simp add: append_def Let_def audit_line_def utf8_append)
qed

text \<open>
  What the reader relies on: the serializer writes the compact JSON of an object that has the run id.
\<close>

definition line_reads ::
  "(utext \<Rightarrow> utext) \<Rightarrow> (AuditEvent \<Rightarrow> string) \<Rightarrow> (AuditEvent \<Rightarrow> json_obj) \<Rightarrow> AuditEvent \<Rightarrow> bool" where
  "line_reads flt dump obj e \<longleftrightarrow>
     dump e = json_dumps (JObj (obj e)) \<and> ujson_ok flt (of_json (JObj (obj e)))
     \<and> map_of (obj e) ''run_id'' = Some (JStr (aud_run_id e))"

lemma map_of_obj: "map_of (of_obj kvs) (uc k) = map_option of_json (map_of kvs k)"
  by (induction kvs) auto

text \<open>Such a line stands alone in the file, is not blank, and decodes to its object.\<close>

lemma line_of_audit:
  assumes "line_reads flt dump obj e"
  shows "list_all ((\<le>) 32) (uc (dump e))" and "\<not> blank (uc (dump e) @ [10])"
    and "line_record flt (uc (dump e) @ [10]) = Inr (of_obj (obj e))"
    and "map_of (of_obj (obj e)) (uc ''run_id'') = Some (UStr (uc run)) \<longleftrightarrow> aud_run_id e = run"
proof -
  let ?u = "of_json (JObj (obj e))"
  have ok: "ujson_ok flt ?u" and d: "uc (dump e) = udumps ?u"
    using assms unfolding line_reads_def udumps_of_json(1) by (blast, metis)
  show "list_all ((\<le>) 32) (uc (dump e))" unfolding d by (rule udumps_printable(1)[OF ok])
  show "\<not> blank (uc (dump e) @ [10])" unfolding d by (simp add: blank_def uspace_def)
  show "line_record flt (uc (dump e) @ [10]) = Inr (of_obj (obj e))"
    unfolding d using json_loads_dumps[OF ok, of "[10]"] by (simp add: line_record_def is_ws_def)
  show "map_of (of_obj (obj e)) (uc ''run_id'') = Some (UStr (uc run)) \<longleftrightarrow> aud_run_id e = run"
    unfolding map_of_obj using assms by (auto simp: line_reads_def)
qed

lemma audit_text: "concat (map (audit_line dump) es) = utf8 (concat (map (\<lambda>e. dump e @ [CHR 0x0A]) es))"
  by (induction es) (simp_all add: audit_line_def utf8_def)

lemma lines_of_audit:
  assumes "list_all (line_reads flt dump obj) es"
  shows "file_lines (universal_newlines (uc (concat (map (\<lambda>e. dump e @ [CHR 0x0A]) es))))
           = map (\<lambda>e. uc (dump e) @ [10]) es"
proof -
  let ?t = "uc (concat (map (\<lambda>e. dump e @ [CHR 0x0A]) es))"
  have nl: "cp (CHR 0x0A) = 10" by (simp add: cp_def)
  have no: "10 \<notin> set (uc (dump e)) \<and> 13 \<notin> set (uc (dump e))" if "line_reads flt dump obj e" for e
    using line_of_audit(1)[OF that] by (auto simp: list_all_iff)
  have "13 \<notin> set ?t" using assms no by (induction es) (auto simp: nl)
  moreover have "file_lines ?t = map (\<lambda>e. uc (dump e) @ [10]) es"
    using assms no by (induction es) (auto simp: nl file_lines_line)
  ultimately show ?thesis by (simp add: universal_newlines_id)
qed

lemma read_run_events:
  assumes "list_all (line_reads flt dump obj) es"
    and "rc_file rc = concat (map (audit_line dump) es)"
  shows "read_run flt run rc = Inr (map (of_obj \<circ> obj) (filter (\<lambda>e. aud_run_id e = run) es))"
proof -
  let ?ls = "map (\<lambda>e. uc (dump e) @ [10]) es"
  have "filter (\<lambda>l. \<not> blank l) ?ls = ?ls"
    using assms(1) line_of_audit(2) by (induction es) auto
  moreover have "res_mapM (line_record flt) ?ls = Inr (map (of_obj \<circ> obj) es)"
    using assms(1) line_of_audit(3) by (induction es) auto
  moreover have "filter (\<lambda>o'. map_of o' (uc ''run_id'') = Some (UStr (uc run))) (map (of_obj \<circ> obj) es)
      = map (of_obj \<circ> obj) (filter (\<lambda>e. aud_run_id e = run) es)"
    using assms(1) line_of_audit(4) by (induction es) (auto simp: o_def)
  ultimately show ?thesis
    unfolding read_run_def assms(2) audit_text utf8_decode_utf8 by (simp add: lines_of_audit[OF assms(1)])
qed

text \<open>The sequence numbers of a run count up from one, without gaps, while writes succeed.\<close>

lemma numbered_seq:
  "map aud_seq (filter (\<lambda>e. aud_run_id e = run) (numbered rc es dump))
     = [last_seq rc run + 1 .. last_seq rc run + int (length (filter (\<lambda>e. aud_run_id e = run) es))]"
proof (induction es arbitrary: rc)
  case (Cons e es)
  let ?k = "int (length (filter (\<lambda>e. aud_run_id e = run) es))"
  have ih: "map aud_seq (filter (\<lambda>e. aud_run_id e = run) (numbered (snd (append dump WriteOk e rc)) es dump))
      = [last_seq (snd (append dump WriteOk e rc)) run + 1
         .. last_seq (snd (append dump WriteOk e rc)) run + ?k]"
    by (rule Cons.IH)
  show ?case
  proof (cases "aud_run_id e = run")
    case True
    have "[last_seq rc run + 1 .. last_seq rc run + 1 + ?k]
        = (last_seq rc run + 1) # [last_seq rc run + 1 + 1 .. last_seq rc run + 1 + ?k]"
      by (rule upto_rec1) simp
    then show ?thesis using ih True by (simp add: append_seq ac_simps)
  next
    case False
    then show ?thesis using ih by (simp add: append_seq)
  qed
qed simp

lemma new_recorder_simps [simp]:
  "rc_file (new_recorder stamp pid) = []" "last_seq (new_recorder stamp pid) run = 0"
  by (simp_all add: new_recorder_def last_seq_def)

text \<open>A line that was recorded, whole, at the end of the file.\<close>

definition audit_event ::
  "uuid \<Rightarrow> int \<Rightarrow> py_datetime \<Rightarrow> string \<Rightarrow> AuditKind \<Rightarrow> json_obj \<Rightarrow> AuditEvent" where
  "audit_event run seq ts actor kind payload =
     \<lparr>schema_version = 1, aud_run_id = run, aud_seq = seq, aud_ts = ts, aud_actor = actor,
      aud_kind = kind, aud_payload = payload\<rparr>"

lemma record_audit_Inr:
  assumes "record_audit rl dump io ts run actor kind p rc = (Inr (seq, off), rc')"
    and "map_of AUDIT_KINDS kind = Some k"
  shows "rc_file rc' = rc_file rc @ audit_line dump (audit_event run seq ts actor k p)"
    and "off = length (rc_file rc')" and "seq = last_seq rc run + 1" and "rc_name rc' = rc_name rc"
    and "last_seq rc' run = last_seq rc run + 1"
proof -
  let ?e = "audit_event run 1 ts actor k p"
  have a: "append dump io ?e rc = (Inr (seq, off), rc')"
    using assms by (auto simp: record_audit_def audit_event_def contract_make_def split: if_splits)
  show "rc_file rc' = rc_file rc @ audit_line dump (audit_event run seq ts actor k p)"
    using append_ok(3)[OF a] by (simp add: audit_event_def)
  show "off = length (rc_file rc')" by (rule append_ok(4)[OF a])
  show "seq = last_seq rc run + 1" using append_ok(2)[OF a] by (simp add: audit_event_def)
  show "rc_name rc' = rc_name rc" by (metis a append_name snd_conv)
  show "last_seq rc' run = last_seq rc run + 1"
    using append_seq[of dump io ?e rc run] a by (simp add: audit_event_def)
qed

lemma record_audit_total:
  assumes "map_of AUDIT_KINDS kind = Some k" and "k \<noteq> LLM_CALL" and "actor \<noteq> []"
  shows "\<exists>seq off rc'. record_audit rl dump WriteOk ts run actor kind p rc = (Inr (seq, off), rc')"
  using assms
  by (simp add: record_audit_def contract_make_def AuditEvent_valid_def contract_ok_def append_def Let_def)

lemma audit_kind_names:
  "map_of AUDIT_KINDS ''event'' = Some EVENT" "map_of AUDIT_KINDS ''transition'' = Some TRANSITION"
  "map_of AUDIT_KINDS ''action'' = Some ACTION"
  by (simp_all add: AUDIT_KINDS_def)

end
