(* ===== verification/Worker.thy ===== *)
theory Worker
  imports Actions Triage Recorder Delivery
begin

text \<open>
  The consumer, \<^verbatim>\<open>src/smokejumper/worker.py\<close>: one queue message through claim, triage,
  ticket, audit and acknowledgement.

  \<open>handle_io\<close> is everything an attempt meets outside: the clock, the \<open>uuid4\<close> of a new
  ticket, and for each of its three transactions and three audit writes whether it
  succeeded. \<open>worker_codec\<close> holds the serializers of pydantic. The state of the process
  is the database and the recorder (\<open>wstate\<close>).
\<close>

record worker_codec =
  wc_codec :: codec
  wc_event_json :: "AgentEvent \<Rightarrow> json"
  wc_float_json :: "rat \<Rightarrow> json"
  wc_audit_dump :: "AuditEvent \<Rightarrow> string"
  wc_read_llm :: "json_obj \<Rightarrow> LlmCallPayload option"

record handle_io =
  hi_started :: int
  hi_stat :: "py_error option"
  hi_open :: tx
  hi_write :: "nat \<Rightarrow> write_io"
  hi_ts :: "nat \<Rightarrow> py_datetime"
  hi_elapsed_ms :: int
  hi_apply :: tx
  hi_ticket_id :: uuid
  hi_now :: int
  hi_close :: tx
  hi_finished :: int

record wstate =
  ws_db :: db
  ws_rec :: recorder

definition GROUP :: string where "GROUP = ''intelligence''"

definition BLOCK_MS :: nat where "BLOCK_MS = 2000"

text \<open>\<open>ensure_group\<close> with the reply of Redis: an existing group is not an error.\<close>

fun ensure_group :: "unit result \<Rightarrow> unit result" where
  "ensure_group (Inr u) = Inr u"
| "ensure_group (Inl (ResponseError msg)) =
     (if contains ''BUSYGROUP'' msg then Inr () else Inl (ResponseError msg))"
| "ensure_group (Inl e) = Inl e"

definition ws_tx :: "tx \<Rightarrow> (db \<Rightarrow> ('a \<times> db) result) \<Rightarrow> wstate \<Rightarrow> 'a result \<times> wstate" where
  "ws_tx t f st = (case transact t f (ws_db st) of (r, s) \<Rightarrow> (r, st\<lparr>ws_db := s\<rparr>))"

definition ws_record ::
  "worker_codec \<Rightarrow> handle_io \<Rightarrow> nat \<Rightarrow> uuid \<Rightarrow> string \<Rightarrow> string \<Rightarrow> json_obj \<Rightarrow> wstate
     \<Rightarrow> (int \<times> nat) result \<times> wstate" where
  "ws_record wc io k run_id actor kind payload st =
     (case record_audit (wc_read_llm wc) (wc_audit_dump wc) (hi_write io k) (hi_ts io k)
             run_id actor kind payload (ws_rec st) of
        (r, rc) \<Rightarrow> (r, st\<lparr>ws_rec := rc\<rparr>))"

definition event_payload :: "worker_codec \<Rightarrow> AgentEvent \<Rightarrow> json_obj" where
  "event_payload wc event = [(''event'', wc_event_json wc event)]"

definition transition_payload :: "worker_codec \<Rightarrow> Conclusion \<Rightarrow> json_obj" where
  "transition_payload wc c =
     [(''status'', JStr (status_value (con_status c))),
      (''confidence'', wc_float_json wc (con_confidence c)),
      (''findings'', JInt (int (length (con_findings c))))]"

definition action_payload :: "TicketOutcome \<Rightarrow> json_obj" where
  "action_payload outcome =
     [(''ticket'', JStr (out_external_id outcome)), (''created'', JBool (out_created outcome)),
      (''update_count'', JInt (out_update_count outcome)),
      (''replayed'', JBool (out_replayed outcome))]"

text \<open>From the second audit write on: what is left of an attempt once the run is claimed.\<close>

definition conclude ::
  "worker_codec \<Rightarrow> handle_io \<Rightarrow> AgentEvent \<Rightarrow> wstate \<Rightarrow> string result \<times> wstate" where
  "conclude wc io event st2 =
     (let run_id = ev_id event;
          conclusion = triage (hi_elapsed_ms io) event (Some run_id)
      in st_bind (ws_record wc io 1 run_id ''triage'' ''transition''
                    (transition_payload wc conclusion) st2) (\<lambda>_ st3.
         st_bind (ws_tx (hi_apply io)
                    (apply_action (hi_ticket_id io) (hi_now io) conclusion) st3) (\<lambda>outcome st4.
         st_bind (ws_record wc io 2 run_id ''actions'' ''action'' (action_payload outcome) st4)
                    (\<lambda>(_, end_offset) st5.
         st_bind (ws_tx (hi_close io)
                    (close_run run_id ''concluded'' (Some conclusion) (int end_offset)
                       (hi_finished io)) st5) (\<lambda>_ st6.
         (Inr (status_value (con_status conclusion)), st6))))))"

definition handle ::
  "worker_codec \<Rightarrow> handle_io \<Rightarrow> AgentEvent \<Rightarrow> wstate \<Rightarrow> string result \<times> wstate" where
  "handle wc io event st =
     (case hi_stat io of
        Some e \<Rightarrow> (Inl e, st)
      | None \<Rightarrow>
          (let run_id = ev_id event; start = start_offset (ws_rec st) in
           st_bind (ws_tx (hi_open io)
                      (open_run run_id (ev_id event) (ev_fingerprint event) (rc_name (ws_rec st))
                         (int start) (hi_started io)) st) (\<lambda>claim st1.
             if clm_status claim = ''concluded''
             then (Inr (case clm_conclusion_status claim of None \<Rightarrow> ''concluded''
                        | Some v \<Rightarrow> py_or v ''concluded''), st1)
             else
               st_bind (ws_record wc io 0 run_id ''worker'' ''event'' (event_payload wc event) st1)
                 (\<lambda>_ st2. conclude wc io event st2))))"

text \<open>
  A queue message: field names arrive as bytes or as text, depending on the client's
  decoding. The reply of \<^verbatim>\<open>XACK\<close> is an argument; its exception leaves \<open>process_message\<close>
  and, since nothing above catches it, ends the worker loop.
\<close>

record message =
  msg_id :: string
  msg_bytes_fields :: "(string \<times> string) list"
  msg_text_fields :: "(string \<times> string) list"

definition raw_event :: "message \<Rightarrow> string option" where
  "raw_event m =
     (case map_of (msg_bytes_fields m) ''event'' of
        Some v \<Rightarrow> if v = [] then map_of (msg_text_fields m) ''event'' else Some v
      | None \<Rightarrow> map_of (msg_text_fields m) ''event'')"

datatype ack = Acknowledged | LeftPending

definition process_message ::
  "worker_codec \<Rightarrow> handle_io \<Rightarrow> py_error option \<Rightarrow> message \<Rightarrow> wstate \<Rightarrow> ack result \<times> wstate" where
  "process_message wc io xack m st =
     (let ack = (case xack of None \<Rightarrow> Inr Acknowledged | Some e \<Rightarrow> Inl e) in
      case raw_event m of
        None \<Rightarrow> (ack, st)
      | Some raw \<Rightarrow>
          (case cd_load (wc_codec wc) raw of
             Inl _ \<Rightarrow> (ack, st)
           | Inr event \<Rightarrow>
               (case handle wc io event st of
                  (Inl _, st') \<Rightarrow> (Inr LeftPending, st')
                | (Inr _, st') \<Rightarrow> (ack, st'))))"

fun process_batch ::
  "worker_codec \<Rightarrow> (nat \<Rightarrow> handle_io \<times> py_error option) \<Rightarrow> message list \<Rightarrow> wstate
     \<Rightarrow> ack list result \<times> wstate" where
  "process_batch wc io [] st = (Inr [], st)"
| "process_batch wc io (m # ms) st =
     st_bind (process_message wc (fst (io 0)) (snd (io 0)) m st) (\<lambda>a st'.
       st_bind (process_batch wc (\<lambda>k. io (Suc k)) ms st') (\<lambda>as st''. (Inr (a # as), st'')))"

text \<open>One turn of \<open>run_worker\<close>: a failed read is retried a second later.\<close>

definition worker_turn ::
  "worker_codec \<Rightarrow> (nat \<Rightarrow> handle_io \<times> py_error option) \<Rightarrow> message list result \<Rightarrow> wstate
     \<Rightarrow> task_state \<times> wstate" where
  "worker_turn wc io batch st =
     (case batch of
        Inl _ \<Rightarrow> (TaskRunning, st)
      | Inr ms \<Rightarrow>
          (case process_batch wc io ms st of
             (Inl e, st') \<Rightarrow> (TaskFailed e, st')
           | (Inr _, st') \<Rightarrow> (TaskRunning, st')))"

text \<open>\<open>queue_depth\<close> over the reply of \<^verbatim>\<open>XINFO GROUPS\<close>: each group as its decoded fields.\<close>

record group_info =
  gi_name :: string
  gi_lag :: "int option"
  gi_pending :: "int option"

fun queue_depth :: "group_info list result \<Rightarrow> (int \<times> int) result" where
  "queue_depth (Inl (ResponseError _)) = Inr (0, 0)"
| "queue_depth (Inl e) = Inl e"
| "queue_depth (Inr groups) =
     (case find (\<lambda>g. gi_name g = GROUP) groups of
        None \<Rightarrow> Inr (0, 0)
      | Some g \<Rightarrow> Inr (case gi_lag g of None \<Rightarrow> 0 | Some n \<Rightarrow> n,
                       case gi_pending g of None \<Rightarrow> 0 | Some n \<Rightarrow> n))"

fun worker_status :: "task_state \<Rightarrow> string" where
  "worker_status TaskRunning = ''ok''"
| "worker_status TaskCancelled = ''dead: cancelled''"
| "worker_status (TaskFailed e) = ''dead: '' @ err_class e"
| "worker_status TaskExited = ''dead: exited''"

section \<open>Every attempt keeps the database whole\<close>

definition wk_ok :: "db \<Rightarrow> bool" where
  "wk_ok s \<longleftrightarrow> db_ok s \<and> ledger_ok s \<and> runs_wf s"

lemma ws_tx_db: "ws_db (snd (ws_tx t f st)) = snd (transact t f (ws_db st))"
  by (simp add: ws_tx_def split: prod.splits)

lemma ws_tx_rec [simp]: "ws_rec (snd (ws_tx t f st)) = ws_rec st"
  by (simp add: ws_tx_def split: prod.splits)

lemma ws_tx_fst: "fst (ws_tx t f st) = fst (transact t f (ws_db st))"
  by (simp add: ws_tx_def split: prod.splits)

lemma ws_record_db [simp]: "ws_db (snd (ws_record wc io k run actor kind p st)) = ws_db st"
  by (simp add: ws_record_def split: prod.splits)

lemma ws_record_rec:
  "ws_rec (snd (ws_record wc io k run actor kind p st))
     = snd (record_audit (wc_read_llm wc) (wc_audit_dump wc) (hi_write io k) (hi_ts io k)
              run actor kind p (ws_rec st))"
  by (simp add: ws_record_def split: prod.splits)

lemmas wk_bind = st_bind_inv[where P = "\<lambda>st. wk_ok (ws_db st)"]

lemma open_run_wk_ok:
  assumes "wk_ok s"
  shows "wk_ok (snd (transact t (open_run run ev fp f off now) s))"
proof (rule transact_inv[where P = wk_ok, OF assms])
  fix x s' assume o: "open_run run ev fp f off now s = Inr (x, s')"
  then have "db_ok s' \<and> runs_wf s' \<and> s' = s\<lparr>runs := claimed_runs run ev fp f off now (runs s)\<rparr>"
    using open_run_keeps assms by (auto simp: wk_ok_def)
  then show "wk_ok s'" using assms by (auto simp: wk_ok_def)
qed

lemma apply_wk_ok:
  assumes "wk_ok s" and "apply_action i now c s = Inr (x, s')"
  shows "wk_ok s'"
  using assms apply_run_recorded[OF assms(2)]
  by (auto simp: wk_ok_def intro: apply_db_ok apply_ledger_ok runs_wf_actions)

lemma conclude_wk_ok:
  assumes "wk_ok (ws_db st)"
  shows "wk_ok (ws_db (snd (conclude wc io event st)))"
  unfolding conclude_def Let_def
proof (rule wk_bind, goal_cases)
  case 1
  show ?case using assms by simp
next
  case (2 u)
  let ?c = "triage (hi_elapsed_ms io) event (Some (ev_id event))"
  let ?st = "snd (ws_record wc io 1 (ev_id event) ''triage'' ''transition'' (transition_payload wc ?c) st)"
  let ?ap = "ws_tx (hi_apply io) (apply_action (hi_ticket_id io) (hi_now io) ?c) ?st"
  have ap: "wk_ok (ws_db (snd ?ap))"
    unfolding ws_tx_db by (rule transact_inv) (use assms apply_wk_ok in auto)
  show ?case
  proof (rule wk_bind[OF ap], rule wk_bind)
    show "wk_ok (ws_db (snd (ws_record wc io 2 (ev_id event) ''actions'' ''action''
             (action_payload outcome) (snd ?ap))))" for outcome
      using ap by simp
  next
    fix outcome :: TicketOutcome and off
    assume "fst ?ap = Inr outcome"
    then have "apply_action (hi_ticket_id io) (hi_now io) ?c (ws_db ?st) = Inr (outcome, ws_db (snd ?ap))"
      by (cases "transact (hi_apply io) (apply_action (hi_ticket_id io) (hi_now io) ?c) (ws_db ?st)")
        (auto simp: ws_tx_def transact_Inr)
    then have rec: "ev_id event \<in> ta_run_id ` set (ticket_actions (ws_db (snd ?ap)))"
      using apply_run_recorded by fastforce
    let ?r = "ws_record wc io 2 (ev_id event) ''actions'' ''action'' (action_payload outcome) (snd ?ap)"
    have "wk_ok (ws_db (snd (ws_tx (hi_close io)
            (close_run (ev_id event) ''concluded'' (Some ?c) off' (hi_finished io)) (snd ?r))))" for off'
      unfolding ws_tx_db
      by (rule transact_inv)
        (use ap rec close_run_keeps triage_status_cases in
          \<open>auto simp: wk_ok_def dest!: close_run_Inr(1)\<close>)
    then show "wk_ok (ws_db (snd ((case off of (_, end_offset) \<Rightarrow> \<lambda>st5.
         st_bind (ws_tx (hi_close io)
                    (close_run (ev_id event) ''concluded'' (Some ?c) (int end_offset)
                       (hi_finished io)) st5) (\<lambda>_ st6.
         (Inr (status_value (con_status ?c)), st6))) (snd ?r))))"
      by (cases off) (auto intro!: wk_bind)
  qed
qed

lemma handle_wk_ok [inv_intros]:
  assumes "wk_ok (ws_db st)"
  shows "wk_ok (ws_db (snd (handle wc io event st)))"
proof (cases "hi_stat io")
  case None
  have "wk_ok (ws_db (snd (ws_tx (hi_open io) (open_run (ev_id event) (ev_id event) (ev_fingerprint event)
          (rc_name (ws_rec st)) (int (start_offset (ws_rec st))) (hi_started io)) st)))"
    unfolding ws_tx_db by (rule open_run_wk_ok[OF assms])
  then show ?thesis
    unfolding handle_def Let_def by (auto simp: None intro!: wk_bind conclude_wk_ok)
qed (simp add: handle_def assms)

lemma process_message_wk_ok [inv_intros]:
  assumes "wk_ok (ws_db st)"
  shows "wk_ok (ws_db (snd (process_message wc io xack m st)))"
proof -
  have "wk_ok (ws_db st')" if "handle wc io event st = (r, st')" for event r st'
    using handle_wk_ok[OF assms, of wc io event] that by simp
  then show ?thesis
    using assms by (auto simp: process_message_def Let_def split: option.splits sum.splits prod.splits)
qed

section \<open>An attempt that answers\<close>

lemma ws_tx_Inr:
  "ws_tx t f st = (Inr x, st') \<longleftrightarrow> t = TxOk \<and> (\<exists>s'. f (ws_db st) = Inr (x, s') \<and> st' = st\<lparr>ws_db := s'\<rparr>)"
  by (auto simp: ws_tx_def transact_def split: sum.splits tx.splits)

lemma ws_record_Inr:
  "ws_record wc io k run actor kind p st = (Inr x, st') \<longleftrightarrow>
     (\<exists>rc'. record_audit (wc_read_llm wc) (wc_audit_dump wc) (hi_write io k) (hi_ts io k)
              run actor kind p (ws_rec st) = (Inr x, rc') \<and> st' = st\<lparr>ws_rec := rc'\<rparr>)"
  by (auto simp: ws_record_def split: prod.splits)

abbreviation run_conclusion :: "handle_io \<Rightarrow> AgentEvent \<Rightarrow> Conclusion" where
  "run_conclusion io event \<equiv> triage (hi_elapsed_ms io) event (Some (ev_id event))"

definition claim_run :: "handle_io \<Rightarrow> AgentEvent \<Rightarrow> wstate \<Rightarrow> (RunClaim \<times> db) result" where
  "claim_run io event st =
     open_run (ev_id event) (ev_id event) (ev_fingerprint event) (rc_name (ws_rec st))
       (int (start_offset (ws_rec st))) (hi_started io) (ws_db st)"

text \<open>The audit lines an attempt leaves: what came in, what was concluded, what was done.\<close>

definition attempt_lines ::
  "worker_codec \<Rightarrow> handle_io \<Rightarrow> AgentEvent \<Rightarrow> int \<Rightarrow> TicketOutcome \<Rightarrow> byte list" where
  "attempt_lines wc io event n outcome =
     (let line = (\<lambda>k actor kind p.
            audit_line (wc_audit_dump wc)
              (audit_event (ev_id event) (n + 1 + int k) (hi_ts io k) actor kind p))
      in line 0 ''worker'' EVENT (event_payload wc event)
         @ line 1 ''triage'' TRANSITION (transition_payload wc (run_conclusion io event))
         @ line 2 ''actions'' ACTION (action_payload outcome))"

lemma handle_cases:
  assumes "handle wc io event st = (Inr v, st')"
  obtains
    (redelivered) claim s1 where "claim_run io event st = Inr (claim, s1)"
      and "clm_status claim = ''concluded''" and "st' = st\<lparr>ws_db := s1\<rparr>"
  | (completed) claim s1 outcome s2 rc' s3 where "claim_run io event st = Inr (claim, s1)"
      and "clm_status claim \<noteq> ''concluded''"
      and "apply_action (hi_ticket_id io) (hi_now io) (run_conclusion io event) s1 = Inr (outcome, s2)"
      and "rc_file rc' = rc_file (ws_rec st)
             @ attempt_lines wc io event (last_seq (ws_rec st) (ev_id event)) outcome"
      and "rc_name rc' = rc_name (ws_rec st)"
      and "close_run (ev_id event) ''concluded'' (Some (run_conclusion io event))
             (int (length (rc_file rc'))) (hi_finished io) s2 = Inr ((), s3)"
      and "st' = \<lparr>ws_db = s3, ws_rec = rc'\<rparr>"
      and "v = status_value (con_status (run_conclusion io event))"
proof -
  have "hi_stat io = None" using assms by (auto simp: handle_def split: option.splits)
  then obtain claim s1 where c: "claim_run io event st = Inr (claim, s1)"
    and rest: "(if clm_status claim = ''concluded''
             then (Inr (case clm_conclusion_status claim of None \<Rightarrow> ''concluded''
                        | Some v \<Rightarrow> py_or v ''concluded''), st\<lparr>ws_db := s1\<rparr>)
             else
               st_bind (ws_record wc io 0 (ev_id event) ''worker'' ''event'' (event_payload wc event)
                          (st\<lparr>ws_db := s1\<rparr>))
                 (\<lambda>_ st2. conclude wc io event st2)) = (Inr v, st')"
    using assms by (auto simp: handle_def Let_def st_bind_eq_Inr ws_tx_Inr claim_run_def)
  show thesis
  proof (cases "clm_status claim = ''concluded''")
    case True
    then show ?thesis using c rest by (intro redelivered) auto
  next
    case False
    then obtain q0 o0 rc0 q1 o1 rc1 outcome s2 q2 o2 rc2 s3 where
        r0: "record_audit (wc_read_llm wc) (wc_audit_dump wc) (hi_write io 0) (hi_ts io 0)
              (ev_id event) ''worker'' ''event'' (event_payload wc event) (ws_rec st) = (Inr (q0, o0), rc0)"
      and r1: "record_audit (wc_read_llm wc) (wc_audit_dump wc) (hi_write io 1) (hi_ts io 1)
              (ev_id event) ''triage'' ''transition''
              (transition_payload wc (run_conclusion io event)) rc0 = (Inr (q1, o1), rc1)"
      and ap: "apply_action (hi_ticket_id io) (hi_now io) (run_conclusion io event) s1 = Inr (outcome, s2)"
      and r2: "record_audit (wc_read_llm wc) (wc_audit_dump wc) (hi_write io 2) (hi_ts io 2)
              (ev_id event) ''actions'' ''action'' (action_payload outcome) rc1 = (Inr (q2, o2), rc2)"
      and cl: "close_run (ev_id event) ''concluded'' (Some (run_conclusion io event)) (int o2)
              (hi_finished io) s2 = Inr ((), s3)"
      and fin: "st' = st\<lparr>ws_db := s3, ws_rec := rc2\<rparr>"
        "v = status_value (con_status (run_conclusion io event))"
      using rest
      by (auto simp: conclude_def Let_def st_bind_eq_Inr ws_record_Inr ws_tx_Inr)
    note i0 = record_audit_Inr[OF r0 audit_kind_names(1)]
      and i1 = record_audit_Inr[OF r1 audit_kind_names(2)]
      and i2 = record_audit_Inr[OF r2 audit_kind_names(3)]
    show ?thesis
    proof (rule completed[OF c False ap, of rc2 s3])
      show "rc_file rc2 = rc_file (ws_rec st)
          @ attempt_lines wc io event (last_seq (ws_rec st) (ev_id event)) outcome"
        using i0 i1 i2 by (simp add: attempt_lines_def Let_def algebra_simps)
      show "rc_name rc2 = rc_name (ws_rec st)" using i0(4) i1(4) i2(4) by simp
      show "close_run (ev_id event) ''concluded'' (Some (run_conclusion io event))
          (int (length (rc_file rc2))) (hi_finished io) s2 = Inr ((), s3)"
        using cl i2(2) by simp
      show "st' = \<lparr>ws_db = s3, ws_rec = rc2\<rparr>" by (simp add: fin)
      show "v = status_value (con_status (run_conclusion io event))" by (rule fin)
    qed
  qed
qed

lemma claim_running:
  assumes "wk_ok (ws_db st)" and "claim_run io event st = Inr (claim, s1)"
    and "clm_status claim \<noteq> ''concluded''" and "r \<in> set (runs s1)" and "rr_run_id r = ev_id event"
  shows "rr_status r = ''running'' \<and> rr_audit_log_file r = rc_name (ws_rec st)
         \<and> rr_audit_start_offset r = int (start_offset (ws_rec st))"
proof -
  let ?rs = "claimed_runs (ev_id event) (ev_id event) (ev_fingerprint event) (rc_name (ws_rec st))
               (int (start_offset (ws_rec st))) (hi_started io) (runs (ws_db st))"
  have ok: "db_ok (ws_db st)" "runs_wf (ws_db st)" using assms(1) by (auto simp: wk_ok_def)
  from open_run_total[OF ok, of "ev_id event" "ev_id event" "ev_fingerprint event" "rc_name (ws_rec st)"
      "int (start_offset (ws_rec st))" "hi_started io"] assms(2)
  obtain r' where s1: "s1 = (ws_db st)\<lparr>runs := ?rs\<rparr>" and r': "r' \<in> set ?rs" "rr_run_id r' = ev_id event"
    and st: "clm_status claim = rr_status r'"
    unfolding claim_run_def by auto
  have keep: "db_ok s1" "runs_wf s1"
    using open_run_keeps[OF assms(2)[unfolded claim_run_def] ok] by auto
  have "r = r'"
    by (rule distinct_map_key[of rr_run_id "runs s1"])
      (use keep(1) assms(4,5) r' s1 in \<open>simp_all add: db_ok_def runs_ok_def\<close>)
  moreover have "rr_status r = ''running''"
    using keep(2) assms(3,4) st \<open>r = r'\<close> by (auto simp: runs_wf_def list_all_iff run_ok_def)
  ultimately show ?thesis using claimed_row[OF r'(1)] r'(2) by auto
qed

lemma claim_total:
  assumes "wk_ok (ws_db st)"
  shows "\<exists>claim s1. claim_run io event st = Inr (claim, s1)"
  using open_run_total assms unfolding claim_run_def wk_ok_def by blast

lemma claim_wk_ok:
  assumes "wk_ok (ws_db st)" and "claim_run io event st = Inr (claim, s1)"
  shows "wk_ok s1 \<and> ticket_actions s1 = ticket_actions (ws_db st) \<and> tickets s1 = tickets (ws_db st)
         \<and> events s1 = events (ws_db st) \<and> ev_id event \<in> rr_run_id ` set (runs s1)"
proof -
  have o: "db_ok s1" "runs_wf s1" "s1 = (ws_db st)\<lparr>runs := claimed_runs (ev_id event) (ev_id event)
      (ev_fingerprint event) (rc_name (ws_rec st)) (int (start_offset (ws_rec st))) (hi_started io)
      (runs (ws_db st))\<rparr>"
    using open_run_keeps[OF assms(2)[unfolded claim_run_def]] assms(1) unfolding wk_ok_def by blast+
  have "ledger_ok s1" using assms(1) by (simp add: wk_ok_def o(3))
  with o(1,2) show ?thesis by (simp add: wk_ok_def o(3) claimed_ids)
qed

text \<open>A concluded run is never touched again.\<close>

lemma claimed_runs_concluded:
  assumes "r \<in> set rs" and "rr_run_id r = run_id" and "rr_status r = ''concluded''"
    and "distinct (map rr_run_id rs)"
  shows "claimed_runs run_id event_id fp f off t rs = rs"
proof -
  have "\<not> (rr_run_id x = run_id \<and> rr_status x = ''running'')" if "x \<in> set rs" for x
    using distinct_map_key[OF assms(4) that assms(1)] assms(2,3) by auto
  then have "update_where (\<lambda>r. rr_run_id r = run_id \<and> rr_status r = ''running'') g rs = rs" for g
    by (intro update_where_none) auto
  then show ?thesis using assms(1,2) by (auto simp: claimed_runs_def)
qed

definition run_concluded :: "db \<Rightarrow> uuid \<Rightarrow> bool" where
  "run_concluded s i \<longleftrightarrow> list_ex (\<lambda>r. rr_run_id r = i \<and> rr_status r = ''concluded'') (runs s)"

lemma claim_concluded:
  assumes "wk_ok (ws_db st)" and "run_concluded (ws_db st) (ev_id event)"
  shows "\<exists>claim. claim_run io event st = Inr (claim, ws_db st) \<and> clm_status claim = ''concluded''"
proof -
  obtain r where r: "r \<in> set (runs (ws_db st))" "rr_run_id r = ev_id event" "rr_status r = ''concluded''"
    using assms(2) by (auto simp: run_concluded_def list_ex_iff)
  have ok: "db_ok (ws_db st)" "runs_wf (ws_db st)" using assms(1) by (auto simp: wk_ok_def)
  have d: "distinct (map rr_run_id (runs (ws_db st)))" using ok by (simp add: db_ok_def runs_ok_def)
  note same = claimed_runs_concluded[OF r d]
  from open_run_total[OF ok, of "ev_id event" "ev_id event" "ev_fingerprint event" "rc_name (ws_rec st)"
      "int (start_offset (ws_rec st))" "hi_started io"]
  obtain claim r' where c: "claim_run io event st = Inr (claim, ws_db st)"
    and r': "r' \<in> set (runs (ws_db st))" "rr_run_id r' = ev_id event" "clm_status claim = rr_status r'"
    unfolding claim_run_def same by auto
  have "r' = r" by (rule distinct_map_key[OF d r'(1) r(1)]) (simp add: r r')
  then show ?thesis using c r'(3) r(3) by auto
qed

text \<open>A run that is not concluded is claimed for another attempt.\<close>

lemma claim_not_concluded:
  assumes "wk_ok (ws_db st)" and "claim_run io event st = Inr (claim, s1)"
    and "\<not> run_concluded (ws_db st) (ev_id event)"
  shows "clm_status claim \<noteq> ''concluded''"
proof
  assume "clm_status claim = ''concluded''"
  with open_run_total[of "ws_db st" "ev_id event" "ev_id event" "ev_fingerprint event"
      "rc_name (ws_rec st)" "int (start_offset (ws_rec st))" "hi_started io"] assms(1,2)
  obtain r where r: "r \<in> set (claimed_runs (ev_id event) (ev_id event) (ev_fingerprint event)
      (rc_name (ws_rec st)) (int (start_offset (ws_rec st))) (hi_started io) (runs (ws_db st)))"
    "rr_run_id r = ev_id event" "rr_status r = ''concluded''"
    unfolding wk_ok_def claim_run_def by auto
  then have "r \<in> set (runs (ws_db st))" using claimed_row[of r] by force
  then show False using assms(3) r by (auto simp: run_concluded_def list_ex_iff)
qed

lemma handle_concluded:
  assumes "wk_ok (ws_db st)" and "run_concluded (ws_db st) (ev_id event)"
  shows "snd (handle wc io event st) = st"
proof -
  obtain claim where c: "claim_run io event st = Inr (claim, ws_db st)" "clm_status claim = ''concluded''"
    using claim_concluded[OF assms] by blast
  show ?thesis
  proof (cases "hi_stat io")
    case None
    then show ?thesis
      using c by (cases "hi_open io")
        (simp_all add: handle_def Let_def ws_tx_def transact_def claim_run_def)
  qed (simp add: handle_def)
qed

text \<open>What an answered attempt leaves: the run concluded and its ticket write in the ledger.\<close>

lemma concluded_has_action:
  assumes "runs_wf s" and "run_concluded s i"
  shows "i \<in> ta_run_id ` set (ticket_actions s)"
  using assms by (auto simp: runs_wf_def run_concluded_def list_all_iff list_ex_iff run_ok_def)

lemma handle_success:
  assumes "wk_ok (ws_db st)" and "handle wc io event st = (Inr v, st')"
  shows "run_concluded (ws_db st') (ev_id event)"
  using assms(2)
proof (cases rule: handle_cases)
  case (redelivered claim s1)
  from open_run_total[of "ws_db st" "ev_id event" "ev_id event" "ev_fingerprint event"
      "rc_name (ws_rec st)" "int (start_offset (ws_rec st))" "hi_started io"] assms(1) redelivered(1,2)
  obtain r where "r \<in> set (runs s1)" "rr_run_id r = ev_id event" "rr_status r = ''concluded''"
    unfolding wk_ok_def claim_run_def by auto
  then show ?thesis by (auto simp: redelivered(3) run_concluded_def list_ex_iff)
next
  case (completed claim s1 outcome s2 rc' s3)
  have "ev_id event \<in> rr_run_id ` set (runs s2)"
    using claim_wk_ok[OF assms(1) completed(1)] apply_run_recorded[OF completed(3)] by simp
  then obtain r where r: "r \<in> set (runs s2)" "rr_run_id r = ev_id event" by auto
  let ?r = "concluded_run (run_conclusion io event) (int (length (rc_file rc'))) (hi_finished io) r"
  have "?r \<in> set (runs (ws_db st'))"
    using close_run_Inr(1)[OF completed(6)] r by (auto simp: completed(7) set_update_where)
  then show ?thesis
    using r(2) unfolding run_concluded_def list_ex_iff by (intro bexI[of _ ?r]) auto
qed

text \<open>The byte range stored with the run holds exactly the three lines of its attempt.\<close>

definition file_slice :: "byte list \<Rightarrow> int \<Rightarrow> int \<Rightarrow> byte list" where
  "file_slice bs a b = take (nat b - nat a) (drop (nat a) bs)"

lemma file_slice_grows:
  "0 \<le> b \<Longrightarrow> nat b \<le> length bs \<Longrightarrow> file_slice (bs @ cs) a b = file_slice bs a b"
  by (cases "nat a \<le> nat b") (simp_all add: file_slice_def)

lemma handle_audit_range:
  assumes "wk_ok (ws_db st)" and "handle wc io event st = (Inr v, st')"
    and "\<not> run_concluded (ws_db st) (ev_id event)"
  shows "\<exists>r outcome. r \<in> set (runs (ws_db st')) \<and> rr_run_id r = ev_id event
           \<and> rr_audit_log_file r = rc_name (ws_rec st')
           \<and> (\<exists>off. rr_audit_end_offset r = Some off \<and> off = int (length (rc_file (ws_rec st')))
                \<and> file_slice (rc_file (ws_rec st')) (rr_audit_start_offset r) off
                    = attempt_lines wc io event (last_seq (ws_rec st) (ev_id event)) outcome)"
  using assms(2)
proof (cases rule: handle_cases)
  case (redelivered claim s1)
  then show ?thesis using claim_not_concluded[OF assms(1) redelivered(1) assms(3)] by simp
next
  case (completed claim s1 outcome s2 rc' s3)
  have runs2: "runs s2 = runs s1" using apply_run_recorded[OF completed(3)] by simp
  obtain r where r: "r \<in> set (runs s1)" "rr_run_id r = ev_id event"
    using claim_wk_ok[OF assms(1) completed(1)] by force
  let ?r = "concluded_run (run_conclusion io event) (int (length (rc_file rc'))) (hi_finished io) r"
  have "?r \<in> set (runs (ws_db st'))"
    using close_run_Inr(1)[OF completed(6)] r by (auto simp: completed(7) set_update_where runs2)
  moreover have "rr_audit_log_file ?r = rc_name (ws_rec st')"
      "rr_audit_start_offset ?r = int (length (rc_file (ws_rec st)))"
    using claim_running[OF assms(1) completed(1,2) r] completed(5,7) by (simp_all add: start_offset_def)
  moreover have "file_slice (rc_file rc') (int (length (rc_file (ws_rec st)))) (int (length (rc_file rc')))
      = attempt_lines wc io event (last_seq (ws_rec st) (ev_id event)) outcome"
    by (simp add: file_slice_def completed(4))
  ultimately show ?thesis
    by (intro exI[of _ ?r] exI[of _ outcome]) (auto simp: r completed(7))
qed

section \<open>Progress\<close>

text \<open>What a complete attempt needs: both services answer, the file takes the three lines, the
  ticket id is new and the counters have room.\<close>

definition attempt_up :: "handle_io \<Rightarrow> db \<Rightarrow> bool" where
  "attempt_up io s \<longleftrightarrow>
     hi_stat io = None \<and> hi_open io = TxOk \<and> hi_apply io = TxOk \<and> hi_close io = TxOk
     \<and> hi_write io 0 = WriteOk \<and> hi_write io 1 = WriteOk \<and> hi_write io 2 = WriteOk
     \<and> hi_ticket_id io \<notin> tk_id ` set (tickets s)
     \<and> (\<forall>t \<in> set (tickets s). tk_update_count t < pg_int_max)"

lemma wstate_update:
  "st\<lparr>ws_rec := rc\<rparr> = \<lparr>ws_db = ws_db st, ws_rec = rc\<rparr>"
  "st\<lparr>ws_db := s\<rparr> = \<lparr>ws_db = s, ws_rec = ws_rec st\<rparr>"
  by (cases st; simp)+

lemma ws_record_up:
  assumes "hi_write io k = WriteOk" and "map_of AUDIT_KINDS kind = Some kd" and "kd \<noteq> LLM_CALL"
    and "actor \<noteq> []"
  shows "\<exists>seq rc'. ws_record wc io k run actor kind p st
             = (Inr (seq, length (rc_file rc')), \<lparr>ws_db = ws_db st, ws_rec = rc'\<rparr>)
           \<and> length (rc_file (ws_rec st)) \<le> length (rc_file rc')"
proof -
  obtain seq off rc' where r: "record_audit (wc_read_llm wc) (wc_audit_dump wc) WriteOk (hi_ts io k) run
      actor kind p (ws_rec st) = (Inr (seq, off), rc')"
    using record_audit_total[OF assms(2-4)] by blast
  show ?thesis
    using record_audit_Inr(1,2)[OF r assms(2)] r assms(1)
    by (intro exI[of _ seq] exI[of _ rc']) (simp add: ws_record_def wstate_update)
qed

lemma handle_up:
  assumes "wk_ok (ws_db st)" and "attempt_up io (ws_db st)"
  shows "\<exists>v st'. handle wc io event st = (Inr v, st')"
proof -
  obtain claim s1 where c: "claim_run io event st = Inr (claim, s1)" using claim_total[OF assms(1)] by blast
  note up = assms(2)[unfolded attempt_up_def]
  show ?thesis
  proof (cases "clm_status claim = ''concluded''")
    case True
    then show ?thesis using c up by (simp add: handle_def Let_def ws_tx_def claim_run_def)
  next
    case False
    let ?c = "run_conclusion io event"
    note cw = claim_wk_ok[OF assms(1) c]
    obtain q0 rc0 where r0: "ws_record wc io 0 (ev_id event) ''worker'' ''event'' (event_payload wc event)
        \<lparr>ws_db = s1, ws_rec = ws_rec st\<rparr> = (Inr (q0, length (rc_file rc0)), \<lparr>ws_db = s1, ws_rec = rc0\<rparr>)"
      and l0: "length (rc_file (ws_rec st)) \<le> length (rc_file rc0)"
      using ws_record_up[OF _ audit_kind_names(1), of io 0 "''worker''" wc "ev_id event"
          "event_payload wc event" "\<lparr>ws_db = s1, ws_rec = ws_rec st\<rparr>"] up by auto
    obtain q1 rc1 where r1: "ws_record wc io 1 (ev_id event) ''triage'' ''transition''
        (transition_payload wc ?c) \<lparr>ws_db = s1, ws_rec = rc0\<rparr>
        = (Inr (q1, length (rc_file rc1)), \<lparr>ws_db = s1, ws_rec = rc1\<rparr>)"
      and l1: "length (rc_file rc0) \<le> length (rc_file rc1)"
      using ws_record_up[OF _ audit_kind_names(2), of io 1 "''triage''" wc "ev_id event"
          "transition_payload wc ?c" "\<lparr>ws_db = s1, ws_rec = rc0\<rparr>"] up by auto
    obtain outcome s2 where ap: "apply_action (hi_ticket_id io) (hi_now io) ?c s1 = Inr (outcome, s2)"
      using apply_total[of s1 ?c "hi_ticket_id io" "hi_now io"] cw up by (auto simp: wk_ok_def)
    obtain q2 rc2 where r2: "ws_record wc io 2 (ev_id event) ''actions'' ''action''
        (action_payload outcome) \<lparr>ws_db = s2, ws_rec = rc1\<rparr>
        = (Inr (q2, length (rc_file rc2)), \<lparr>ws_db = s2, ws_rec = rc2\<rparr>)"
      and l2: "length (rc_file rc1) \<le> length (rc_file rc2)"
      using ws_record_up[OF _ audit_kind_names(3), of io 2 "''actions''" wc "ev_id event"
          "action_payload outcome" "\<lparr>ws_db = s2, ws_rec = rc1\<rparr>"] up by auto
    have "db_ok s2" using apply_wk_ok[OF _ ap] cw by (simp add: wk_ok_def)
    moreover have "rr_audit_start_offset r \<le> int (length (rc_file rc2))"
      if "r \<in> set (runs s2)" "rr_run_id r = ev_id event" for r
      using claim_running[OF assms(1) c False _ that(2)] that(1) apply_run_recorded[OF ap] l0 l1 l2
      by (simp add: start_offset_def)
    ultimately have "\<exists>s3. close_run (ev_id event) ''concluded'' (Some ?c) (int (length (rc_file rc2)))
        (hi_finished io) s2 = Inr ((), s3)"
      using close_run_concluded by blast
    then obtain s3 where cl: "close_run (ev_id event) ''concluded'' (Some ?c)
        (int (length (rc_file rc2))) (hi_finished io) s2 = Inr ((), s3)" by blast
    show ?thesis
      using c False up r0 r1 ap r2 cl
      by (simp add: handle_def conclude_def Let_def ws_tx_def claim_run_def wstate_update)
  qed
qed

section \<open>Exactly once under redelivery\<close>

text \<open>
  A consumer that may be handed any message any number of times, each attempt failing
  anywhere. What makes its effect exactly-once: one effect per key at most, effects are
  never lost, and an attempt answers only when the effect is there.
\<close>

fun attempts ::
  "('io \<Rightarrow> 'e \<Rightarrow> 's \<Rightarrow> 'r result \<times> 's) \<Rightarrow> ('io \<times> 'e) list \<Rightarrow> 's \<Rightarrow> 'r result list \<times> 's" where
  "attempts att [] s = ([], s)"
| "attempts att (x # xs) s =
     (let (r, s1) = att (fst x) (snd x) s; (rs, s2) = attempts att xs s1 in (r # rs, s2))"

locale idempotent_consumer =
  fixes attempt :: "'io \<Rightarrow> 'e \<Rightarrow> 's \<Rightarrow> 'r result \<times> 's"
    and key :: "'e \<Rightarrow> 'k"
    and effects :: "'s \<Rightarrow> 'k \<Rightarrow> nat"
    and invar :: "'s \<Rightarrow> bool"
  assumes attempt_invar: "invar s \<Longrightarrow> invar (snd (attempt io e s))"
    and at_most_once: "invar s \<Longrightarrow> effects s k \<le> 1"
    and effects_kept: "invar s \<Longrightarrow> effects s k \<le> effects (snd (attempt io e s)) k"
    and effects_own: "invar s \<Longrightarrow> k \<noteq> key e \<Longrightarrow> effects (snd (attempt io e s)) k = effects s k"
    and success_effect: "invar s \<Longrightarrow> fst (attempt io e s) = Inr r \<Longrightarrow> 1 \<le> effects (snd (attempt io e s)) (key e)"
begin

lemma attempts_invar: "invar s \<Longrightarrow> invar (snd (attempts attempt xs s))"
proof (induction xs arbitrary: s)
  case (Cons x xs)
  then show ?case
    using attempt_invar[OF Cons.prems, of "fst x" "snd x"] by (auto simp: case_prod_beta Let_def)
qed simp

lemma attempts_kept: "invar s \<Longrightarrow> effects s k \<le> effects (snd (attempts attempt xs s)) k"
proof (induction xs arbitrary: s)
  case (Cons x xs)
  let ?s1 = "snd (attempt (fst x) (snd x) s)"
  have "effects s k \<le> effects ?s1 k" by (rule effects_kept[OF Cons.prems])
  also have "\<dots> \<le> effects (snd (attempts attempt xs ?s1)) k"
    by (rule Cons.IH[OF attempt_invar[OF Cons.prems]])
  finally show ?case by (simp add: case_prod_beta Let_def)
qed simp

lemma exactly_once:
  assumes "invar s" and "i < length xs" and "fst (attempts attempt xs s) ! i = Inr r"
  shows "effects (snd (attempts attempt xs s)) (key (snd (xs ! i))) = 1"
  using assms
proof (induction xs arbitrary: s i)
  case (Cons x xs)
  let ?a = "attempt (fst x) (snd x) s"
  have inv1: "invar (snd ?a)" by (rule attempt_invar[OF Cons.prems(1)])
  show ?case
  proof (cases i)
    case 0
    then have "fst ?a = Inr r" using Cons.prems(3) by (simp add: case_prod_beta Let_def)
    then have "1 \<le> effects (snd (attempts attempt xs (snd ?a))) (key (snd x))"
      using success_effect[OF Cons.prems(1)] attempts_kept[OF inv1, of "key (snd x)" xs] by fastforce
    moreover have "effects (snd (attempts attempt xs (snd ?a))) (key (snd x)) \<le> 1"
      by (rule at_most_once[OF attempts_invar[OF inv1]])
    ultimately show ?thesis using 0 by (simp add: case_prod_beta Let_def)
  next
    case (Suc j)
    then show ?thesis
      using Cons.IH[OF inv1, of j] Cons.prems(2,3) by (simp add: case_prod_beta Let_def)
  qed
qed simp

lemma attempts_other:
  assumes "invar s" and "\<And>x. x \<in> set xs \<Longrightarrow> key (snd x) \<noteq> k"
  shows "effects (snd (attempts attempt xs s)) k = effects s k"
  using assms
proof (induction xs arbitrary: s)
  case (Cons x xs)
  have "effects (snd (attempt (fst x) (snd x) s)) k = effects s k"
    using effects_own[OF Cons.prems(1), of k "snd x" "fst x"] Cons.prems(2)[of x] by auto
  then show ?case
    using Cons.IH[OF attempt_invar[OF Cons.prems(1)]] Cons.prems(2) by (simp add: case_prod_beta Let_def)
qed simp

end

text \<open>The effect of a run: its ticket writes in the ledger.\<close>

definition run_writes :: "db \<Rightarrow> uuid \<Rightarrow> nat" where
  "run_writes s i = length (filter (\<lambda>a. ta_run_id a = i) (ticket_actions s))"

lemma run_writes_le_1: "db_ok s \<Longrightarrow> run_writes s i \<le> 1"
  unfolding run_writes_def by (rule distinct_key_count) (simp add: db_ok_def actions_ok_def)

lemma wk_writes_le_1: "wk_ok s \<Longrightarrow> run_writes s i \<le> 1"
  by (simp add: wk_ok_def run_writes_le_1[simplified])

lemma run_writes_pos: "Suc 0 \<le> run_writes s i \<longleftrightarrow> i \<in> ta_run_id ` set (ticket_actions s)"
proof -
  have "run_writes s i = 0 \<longleftrightarrow> i \<notin> ta_run_id ` set (ticket_actions s)"
    by (auto simp: run_writes_def filter_empty_conv)
  then show ?thesis by linarith
qed

text \<open>Whatever fails, an attempt only ever adds ledger rows of its own run.\<close>

definition actions_grow :: "uuid \<Rightarrow> db \<Rightarrow> db \<Rightarrow> bool" where
  "actions_grow run s s' \<longleftrightarrow>
     (\<exists>as. ticket_actions s' = ticket_actions s @ as \<and> list_all (\<lambda>a. ta_run_id a = run) as)"

lemma actions_grow_refl: "ticket_actions s' = ticket_actions s \<Longrightarrow> actions_grow run s s'"
  by (simp add: actions_grow_def)

lemma actions_grow_same:
  "actions_grow run s s1 \<Longrightarrow> ticket_actions s' = ticket_actions s1 \<Longrightarrow> actions_grow run s s'"
  by (simp add: actions_grow_def)

lemma apply_grows:
  assumes "apply_action i now c s1 = Inr (x, s')" and "actions_grow (con_run_id c) s s1"
  shows "actions_grow (con_run_id c) s s'"
proof -
  have "\<exists>as. ticket_actions s' = ticket_actions s1 @ as \<and> list_all (\<lambda>a. ta_run_id a = con_run_id c) as"
    using assms(1)
  proof (cases rule: apply_cases)
    case (replayed a)
    then show ?thesis by simp
  qed (simp_all add: action_of_def)
  with assms(2) show ?thesis by (auto simp: actions_grow_def)
qed

lemma open_run_actions: "open_run run ev fp f off t s = Inr (x, s') \<Longrightarrow> ticket_actions s' = ticket_actions s"
  by (auto simp: open_run_def Let_def split: if_splits option.splits)

lemma close_run_actions: "close_run run v c off t s = Inr (x, s') \<Longrightarrow> ticket_actions s' = ticket_actions s"
  by (auto simp: close_run_def Let_def split: if_splits)

lemmas grow_bind = st_bind_inv[where P = "\<lambda>st'. actions_grow run s (ws_db st')" for run s]

lemma ws_tx_grows:
  assumes "actions_grow run s (ws_db st)"
    and "\<And>x s'. f (ws_db st) = Inr (x, s') \<Longrightarrow> actions_grow run s s'"
  shows "actions_grow run s (ws_db (snd (ws_tx t f st)))"
  unfolding ws_tx_db by (rule transact_inv[where P = "actions_grow run s"]) (use assms in auto)

lemma ws_open_grows:
  "actions_grow run s (ws_db st) \<Longrightarrow> actions_grow run s (ws_db (snd (ws_tx t (open_run i ev fp f off now) st)))"
  by (rule ws_tx_grows) (auto intro: actions_grow_same open_run_actions)

lemma ws_apply_grows:
  "actions_grow (con_run_id c) s (ws_db st) \<Longrightarrow>
     actions_grow (con_run_id c) s (ws_db (snd (ws_tx t (apply_action i now c) st)))"
  by (rule ws_tx_grows) (auto intro: apply_grows)

lemma ws_close_grows:
  "actions_grow run s (ws_db st) \<Longrightarrow> actions_grow run s (ws_db (snd (ws_tx t (close_run i v c off now) st)))"
  by (rule ws_tx_grows) (auto intro: actions_grow_same close_run_actions)

lemma conclude_grows:
  assumes "actions_grow (ev_id event) s (ws_db st)"
  shows "actions_grow (ev_id event) s (ws_db (snd (conclude wc io event st)))"
  unfolding conclude_def Let_def case_prod_beta
  using assms ws_apply_grows[of "run_conclusion io event" s]
  by (auto intro!: grow_bind ws_close_grows)

lemma handle_grows:
  "actions_grow (ev_id event) (ws_db st) (ws_db (snd (handle wc io event st)))"
proof (cases "hi_stat io")
  case None
  have "actions_grow (ev_id event) (ws_db st) (ws_db st)" by (simp add: actions_grow_refl)
  then show ?thesis
    unfolding handle_def Let_def
    by (auto simp: None intro!: grow_bind ws_open_grows conclude_grows)
qed (simp add: handle_def actions_grow_refl)

lemma handle_writes:
  "run_writes (ws_db st) k \<le> run_writes (ws_db (snd (handle wc io event st))) k"
  "k \<noteq> ev_id event \<Longrightarrow> run_writes (ws_db (snd (handle wc io event st))) k = run_writes (ws_db st) k"
  using handle_grows[of event st wc io]
  by (auto simp: actions_grow_def run_writes_def list_all_iff filter_empty_conv)

interpretation wk: idempotent_consumer "handle wc" ev_id "\<lambda>st. run_writes (ws_db st)"
  "\<lambda>st. wk_ok (ws_db st)" for wc
proof unfold_locales
  fix s :: wstate and io e and r :: string
  assume ok: "wk_ok (ws_db s)" and r: "fst (handle wc io e s) = Inr r"
  obtain s' where h: "handle wc io e s = (Inr r, s')" using r by (metis prod.collapse)
  have "runs_wf (ws_db s')" using handle_wk_ok[OF ok, of wc io e] h by (simp add: wk_ok_def)
  then show "1 \<le> run_writes (ws_db (snd (handle wc io e s))) (ev_id e)"
    using concluded_has_action[OF _ handle_success[OF ok h]] h run_writes_pos by simp
qed (rule handle_wk_ok wk_writes_le_1 handle_writes; assumption)+

section \<open>Acknowledgement\<close>

text \<open>A message is acknowledged only when it can never be processed, or its run is concluded.\<close>

lemma process_acknowledged:
  assumes "wk_ok (ws_db st)" and "process_message wc io xack m st = (Inr Acknowledged, st')"
  shows "(raw_event m = None \<and> st' = st)
         \<or> (\<exists>raw e. raw_event m = Some raw \<and> cd_load (wc_codec wc) raw = Inl e \<and> st' = st)
         \<or> (\<exists>raw event. raw_event m = Some raw \<and> cd_load (wc_codec wc) raw = Inr event
              \<and> run_concluded (ws_db st') (ev_id event))"
  using assms(2) handle_success[OF assms(1), of wc io]
  by (auto simp: process_message_def Let_def split: option.splits sum.splits prod.splits)

lemma process_left_pending:
  assumes "process_message wc io xack m st = (Inr LeftPending, st')"
  shows "\<exists>raw event e. raw_event m = Some raw \<and> cd_load (wc_codec wc) raw = Inr event
           \<and> handle wc io event st = (Inl e, st')"
  using assms by (auto simp: process_message_def Let_def split: option.splits sum.splits prod.splits)

end
