(* ===== verification/System.thy ===== *)
theory System
  imports Routes Worker
begin

text \<open>
  The process as a whole, \<^verbatim>\<open>src/smokejumper/app.py\<close>'s lifespan: webhook requests, the
  outbox loop and the worker loop over one database, one stream and one recorder. A step
  is one request handled, one turn of the outbox, or one message processed; requests, their
  outcomes and the messages handed to the worker are arbitrary, so the relation covers any
  redelivery, reordering or loss by Redis and any failure of the services. A restart
  opens a new audit file.
\<close>

record sys =
  sy_world :: world
  sy_rec :: recorder

record sys_config =
  sc_codec :: worker_codec
  sc_datadog_secret :: string
  sc_secrets :: "(string \<times> string) list"
  sc_allowlist :: "ip_network list"

definition worker_view :: "sys \<Rightarrow> wstate" where
  "worker_view sy = \<lparr>ws_db = w_db (sy_world sy), ws_rec = sy_rec sy\<rparr>"

definition worker_put :: "wstate \<Rightarrow> sys \<Rightarrow> sys" where
  "worker_put st sy = \<lparr>sy_world = (sy_world sy)\<lparr>w_db := ws_db st\<rparr>, sy_rec = ws_rec st\<rparr>"

definition initial :: "string \<Rightarrow> nat \<Rightarrow> sys" where
  "initial stamp pid =
     \<lparr>sy_world = \<lparr>w_db = empty_db, w_xadds = []\<rparr>, sy_rec = new_recorder stamp pid\<rparr>"

inductive step :: "sys_config \<Rightarrow> sys \<Rightarrow> sys \<Rightarrow> bool" for cfg where
  datadog: "en_codec env = wc_codec (sc_codec cfg) \<Longrightarrow>
     step cfg sy (sy\<lparr>sy_world := snd (datadog_webhook env (sc_datadog_secret cfg) rq (sy_world sy))\<rparr>)"
| webhook: "en_codec env = wc_codec (sc_codec cfg) \<Longrightarrow>
     step cfg sy (sy\<lparr>sy_world := snd (handler env (sc_secrets cfg) (sc_allowlist cfg) h rq (sy_world sy))\<rparr>)"
| outbox: "step cfg sy (sy\<lparr>sy_world := snd (outbox_turn (wc_codec (sc_codec cfg)) io (sy_world sy))\<rparr>)"
| work: "step cfg sy (worker_put (snd (process_message (sc_codec cfg) io xack m (worker_view sy))) sy)"
| restart: "step cfg sy (sy\<lparr>sy_rec := new_recorder stamp pid\<rparr>)"

inductive reachable :: "sys_config \<Rightarrow> string \<Rightarrow> nat \<Rightarrow> sys \<Rightarrow> bool" for cfg stamp pid where
  start: "reachable cfg stamp pid (initial stamp pid)"
| more: "reachable cfg stamp pid sy \<Longrightarrow> step cfg sy sy' \<Longrightarrow> reachable cfg stamp pid sy'"

inductive_cases stepE: "step cfg sy sy'"

definition sys_ok :: "sys_config \<Rightarrow> sys \<Rightarrow> bool" where
  "sys_ok cfg sy \<longleftrightarrow> world_ok (wc_codec (sc_codec cfg)) (sy_world sy) \<and> wk_ok (w_db (sy_world sy))"

section \<open>The Receiver keeps what the worker relies on\<close>

lemma wk_ok_events:
  assumes "wk_ok s" and "db_ok s'" and "runs s' = runs s" and "ticket_actions s' = ticket_actions s"
    and "ledger_ok s'"
  shows "wk_ok s'"
  using assms by (auto simp: wk_ok_def intro: runs_wf_actions)

lemma admit_wk_ok:
  assumes "admit dump W e s = Inr (a, s')" and "wk_ok s"
  shows "wk_ok s'"
proof -
  have "runs s' = runs s \<and> ticket_actions s' = ticket_actions s"
    using assms(1) by (cases rule: admit_cases) simp_all
  moreover have "db_ok s'" "ledger_ok s'"
    using admit_db_ok[OF assms(1)] admit_ledger_ok[OF assms(1)] assms(2) by (simp_all add: wk_ok_def)
  ultimately show ?thesis using wk_ok_events[OF assms(2)] by blast
qed

lemma quarantine_wk_ok:
  assumes "quarantine i src t r s = Inr s'" and "wk_ok s"
  shows "wk_ok s'"
proof -
  have "runs s' = runs s \<and> ticket_actions s' = ticket_actions s"
    using assms(1) by (auto simp: quarantine_def insert_event_Inr)
  moreover have "db_ok s'" "ledger_ok s'"
    using quarantine_db_ok[OF assms(1)] quarantine_ledger_ok[OF assms(1)] assms(2)
    by (simp_all add: wk_ok_def)
  ultimately show ?thesis using wk_ok_events[OF assms(2)] by blast
qed

lemma close_window_wk_ok:
  assumes "wk_ok s"
  shows "wk_ok (snd (close_window fp t s))"
proof (rule wk_ok_events[OF assms])
  show "db_ok (snd (close_window fp t s))" "ledger_ok (snd (close_window fp t s))"
    using assms by (simp_all add: wk_ok_def close_window_db_ok close_window_ledger_ok)
qed (simp_all add: close_window_def Let_def)

lemma mark_queued_wk_ok:
  assumes "wk_ok s"
  shows "wk_ok (mark_queued i m t s)"
proof (rule wk_ok_events[OF assms])
  show "db_ok (mark_queued i m t s)" "ledger_ok (mark_queued i m t s)"
    using assms by (simp_all add: wk_ok_def mark_queued_db_ok)
qed (simp_all add: mark_queued_def)

lemmas db_bind = st_bind_inv[where P = "\<lambda>w. wk_ok (w_db w)"]

lemma world_tx_wk_ok:
  assumes "wk_ok (w_db w)" and "\<And>x s. f (w_db w) = Inr (x, s) \<Longrightarrow> wk_ok s"
  shows "wk_ok (w_db (snd (world_tx t f w)))"
proof -
  have "wk_ok (snd (transact t f (w_db w)))"
    by (rule transact_inv[where P = wk_ok]) (use assms in auto)
  then show ?thesis by (cases "transact t f (w_db w)") (simp add: world_tx_def)
qed

lemma dispatch_wk_ok: "wk_ok (w_db w) \<Longrightarrow> wk_ok (w_db (snd (dispatch_event cd io i w)))"
  by (cases cd io i w rule: dispatch_event_cases) (simp_all add: mark_queued_wk_ok)

lemma admit_and_publish_one_wk_ok:
  assumes "wk_ok (w_db w)"
  shows "wk_ok (w_db (snd (admit_and_publish_one cd tx io event w)))"
  unfolding admit_and_publish_one_def
proof (rule db_bind)
  let ?m = "world_tx tx (admit (cd_dump cd) DEDUPE_WINDOW event) w"
  show ok: "wk_ok (w_db (snd ?m))" by (rule world_tx_wk_ok[OF assms]) (rule admit_wk_ok[OF _ assms])
  fix a :: Admission
  let ?d = "dispatch_event cd io (adm_event_id a) (snd ?m)"
  have "wk_ok (w_db (snd ?d))" by (rule dispatch_wk_ok[OF ok])
  then show "wk_ok (w_db (snd (case ?d of
      (Inl e, w'') \<Rightarrow> (Inr (admission_result event a None), w'')
    | (Inr message_id, w'') \<Rightarrow> (Inr (admission_result event a message_id), w''))))"
    by (cases ?d; cases "fst ?d") auto
qed

lemma admit_and_enqueue_wk_ok:
  "wk_ok (w_db w) \<Longrightarrow> wk_ok (w_db (snd (admit_and_enqueue cd tx io es w)))"
  by (induction es arbitrary: tx io w) (auto intro!: db_bind simp: admit_and_publish_one_wk_ok)

lemma close_tx_wk_ok:
  assumes "wk_ok (w_db w)"
  shows "wk_ok (w_db (snd (close_tx tx fp t w)))"
  unfolding close_tx_def
proof (rule world_tx_wk_ok[OF assms])
  fix x s assume "(Inr (close_window fp t (w_db w)) :: (nat \<times> db) result) = Inr (x, s)"
  then have "s = snd (close_window fp t (w_db w))" by simp
  then show "wk_ok s" using close_window_wk_ok[OF assms] by simp
qed

lemma close_windows_wk_ok:
  "wk_ok (w_db w) \<Longrightarrow> wk_ok (w_db (snd (close_windows tx t es n w)))"
  by (induction es arbitrary: tx n w) (auto intro!: db_bind simp: close_tx_wk_ok)

lemma quarantine_delivery_wk_ok:
  assumes "wk_ok (w_db w)"
  shows "wk_ok (w_db (snd (quarantine_delivery env src err w)))"
proof -
  let ?f = "\<lambda>s. res_bind (quarantine (en_quarantine_id env) src (dt_utc (en_received_at env))
                      (take 500 (err_text err)) s) (\<lambda>s'. Inr ((), s'))"
  have "wk_ok (w_db (snd (world_tx (en_quarantine_tx env) ?f w)))"
    by (rule world_tx_wk_ok[OF assms]) (auto intro: quarantine_wk_ok[OF _ assms])
  then show ?thesis
    using assms unfolding quarantine_delivery_def Let_def by (auto intro!: db_bind)
qed

lemmas route_wk_ok =
  admit_and_publish_one_wk_ok admit_and_enqueue_wk_ok close_tx_wk_ok close_windows_wk_ok
  quarantine_delivery_wk_ok

lemma datadog_webhook_wk_ok:
  "wk_ok (w_db w) \<Longrightarrow> wk_ok (w_db (snd (datadog_webhook env secret rq w)))"
  unfolding datadog_webhook_def
  by (auto intro!: db_bind route_wk_ok split: sum.splits bool.splits)

lemma handler_wk_ok:
  "wk_ok (w_db w) \<Longrightarrow> wk_ok (w_db (snd (handler env secrets allow h rq w)))"
  unfolding handler_def
  by (auto intro!: db_bind route_wk_ok split: sum.splits bool.splits)

section \<open>The outbox turn\<close>

lemma dispatch_all_inv:
  assumes "P w" and "\<And>io i w. P w \<Longrightarrow> P (snd (dispatch_event cd io i w))"
  shows "P (snd (dispatch_all cd io is w))"
  using assms(1)
proof (induction "is" arbitrary: io w)
  case (Cons i "is")
  have "P (snd (dispatch_event cd (io 0) i w))" by (rule assms(2)[OF Cons.prems])
  then show ?case
    using Cons.IH by (auto split: prod.splits sum.splits)
qed simp

lemma outbox_turn_inv:
  assumes "P w" and "\<And>io i w. P w \<Longrightarrow> P (snd (dispatch_event cd io i w))"
  shows "P (snd (outbox_turn cd io w))"
  using dispatch_all_inv[of P w cd io "pending_queue_event_ids 100 (w_db w)", OF assms]
  by (auto simp: outbox_turn_def dispatch_pending_def Let_def split: prod.splits sum.splits)

section \<open>The worker keeps what the Receiver relies on\<close>

lemma apply_events: "apply_action i now c s = Inr (x, s') \<Longrightarrow> events s' = events s"
  using apply_run_recorded by blast

lemma open_run_events: "open_run run ev fp f off t s = Inr (x, s') \<Longrightarrow> events s' = events s"
  by (auto simp: open_run_def Let_def split: if_splits option.splits)

lemma close_run_events: "close_run run v c off t s = Inr (x, s') \<Longrightarrow> events s' = events s"
  by (auto simp: close_run_def Let_def split: if_splits)

lemmas events_bind = st_bind_inv[where P = "\<lambda>st. events (ws_db st) = es" for es]

lemma ws_tx_events:
  assumes "\<And>x s'. f (ws_db st) = Inr (x, s') \<Longrightarrow> events s' = events (ws_db st)"
  shows "events (ws_db (snd (ws_tx t f st))) = events (ws_db st)"
  unfolding ws_tx_db
proof (rule transact_inv[where P = "\<lambda>s. events s = events (ws_db st)"])
  show "f (ws_db st) = Inr (x, s') \<Longrightarrow> events s' = events (ws_db st)" for x s' by (rule assms)
qed simp

lemma ws_events [simp]:
  "events (ws_db (snd (ws_tx t (open_run i ev fp f off now) st))) = events (ws_db st)"
  "events (ws_db (snd (ws_tx t (apply_action k now c) st))) = events (ws_db st)"
  "events (ws_db (snd (ws_tx t (close_run i v cn off now) st))) = events (ws_db st)"
  by (rule ws_tx_events, blast intro: open_run_events apply_events close_run_events)+

lemma conclude_events: "events (ws_db (snd (conclude wc io event st))) = events (ws_db st)"
  unfolding conclude_def Let_def case_prod_beta by (intro events_bind) simp_all

lemma handle_events: "events (ws_db (snd (handle wc io event st))) = events (ws_db st)"
proof (cases "hi_stat io")
  case None
  show ?thesis
    unfolding handle_def Let_def None option.case
    by (rule events_bind) (auto intro!: events_bind simp: conclude_events)
qed (simp add: handle_def)

lemma process_events: "events (ws_db (snd (process_message wc io xack m st))) = events (ws_db st)"
proof -
  have "events (ws_db st') = events (ws_db st)" if "handle wc io event st = (r, st')" for event r st'
    using handle_events[of wc io event st] that by simp
  then show ?thesis
    by (auto simp: process_message_def Let_def split: option.splits sum.splits prod.splits)
qed

section \<open>Reachable states\<close>

lemma receipts_backed_events:
  "events s = events (w_db w) \<Longrightarrow> receipts_backed cd (w\<lparr>w_db := s\<rparr>) = receipts_backed cd w"
  by (simp add: receipts_backed_def cong: option.case_cong)

lemma initial_ok: "sys_ok cfg (initial stamp pid)"
  by (simp add: sys_ok_def initial_def world_ok_def wk_ok_def receipts_backed_def windows_spaced_def)
    (simp add: empty_db_def)

lemma step_ok:
  assumes "step cfg sy sy'" and "sys_ok cfg sy"
  shows "sys_ok cfg sy'"
  using assms(1)
proof (cases rule: step.cases)
  case (datadog env rq)
  then show ?thesis
    using assms(2) datadog_webhook_world_ok[of env "sy_world sy"] datadog_webhook_wk_ok
    by (simp add: sys_ok_def)
next
  case (webhook env h rq)
  then show ?thesis
    using assms(2) handler_world_ok[of env "sy_world sy"] handler_wk_ok by (simp add: sys_ok_def)
next
  case (outbox io)
  let ?P = "\<lambda>w. world_ok (wc_codec (sc_codec cfg)) w \<and> wk_ok (w_db w)"
  have "?P (snd (outbox_turn (wc_codec (sc_codec cfg)) io (sy_world sy)))"
    by (rule outbox_turn_inv) (use assms(2) in \<open>auto simp: sys_ok_def dispatch_world_ok dispatch_wk_ok\<close>)
  then show ?thesis by (simp add: sys_ok_def outbox)
next
  case (work io xack m)
  let ?st = "snd (process_message (sc_codec cfg) io xack m (worker_view sy))"
  have "wk_ok (ws_db ?st)"
    using assms(2) by (intro process_message_wk_ok) (simp add: sys_ok_def worker_view_def)
  moreover have "events (ws_db ?st) = events (w_db (sy_world sy))"
    using process_events[of "sc_codec cfg" io xack m "worker_view sy"] by (simp add: worker_view_def)
  ultimately show ?thesis
    using assms(2)
    by (simp add: work sys_ok_def worker_put_def world_ok_def receipts_backed_events wk_ok_def)
next
  case (restart stamp pid)
  then show ?thesis using assms(2) by (simp add: sys_ok_def)
qed

lemma reachable_ok: "reachable cfg stamp pid sy \<Longrightarrow> sys_ok cfg sy"
  by (induction rule: reachable.induct) (auto intro: initial_ok step_ok)

section \<open>The audit file is only ever appended to\<close>

definition grown :: "byte list \<Rightarrow> wstate \<Rightarrow> bool" where
  "grown f st \<longleftrightarrow> (\<exists>bs. rc_file (ws_rec st) = f @ bs)"

lemmas grown_bind = st_bind_inv[where P = "grown f" for f]

lemma grown_tx [inv_intros]: "grown f st \<Longrightarrow> grown f (snd (ws_tx t g st))"
  by (simp add: grown_def)

lemma grown_record [inv_intros]: "grown f st \<Longrightarrow> grown f (snd (ws_record wc io k run actor kind p st))"
  using record_audit_extends[of "wc_read_llm wc" "wc_audit_dump wc" "hi_write io k" "hi_ts io k" run actor kind p "ws_rec st"]
  by (auto simp: grown_def ws_record_rec)

lemma conclude_grown [inv_intros]: "grown f st \<Longrightarrow> grown f (snd (conclude wc io event st))"
  unfolding conclude_def Let_def by (auto intro!: grown_bind grown_tx grown_record split: prod.splits)

lemma handle_grown: "grown f st \<Longrightarrow> grown f (snd (handle wc io event st))"
  unfolding handle_def Let_def
  by (auto split: option.splits intro!: grown_bind grown_tx grown_record conclude_grown)

lemma process_grown: "grown f st \<Longrightarrow> grown f (snd (process_message wc io xack m st))"
  using handle_grown[of f st wc io]
  by (auto simp: process_message_def Let_def split: option.splits sum.splits prod.splits) (metis snd_conv)+

text \<open>No step of the process changes or removes a recorded byte; a restart opens a new, empty file.\<close>

lemma audit_append_only:
  assumes "step cfg sy sy'"
  shows "(\<exists>bs. rc_file (sy_rec sy') = rc_file (sy_rec sy) @ bs) \<or> rc_file (sy_rec sy') = []"
  using assms
proof (elim stepE)
  fix io xack m assume "sy' = worker_put (snd (process_message (sc_codec cfg) io xack m (worker_view sy))) sy"
  then show ?thesis
    using process_grown[of "rc_file (sy_rec sy)" "worker_view sy" "sc_codec cfg" io xack m]
    by (simp add: grown_def worker_view_def worker_put_def)
qed auto

end
