(* ===== verification/Config.thy ===== *)
theory Config
  imports Contracts IpAddress
begin

text \<open>
  The settings object, \<^verbatim>\<open>src/smokejumper/config.py\<close>: which environment's file is
  layered in, how the shared environment is reconciled, and the gates that refuse to boot.

  pydantic parses and layers the values; the model starts where the module's own
  code runs: \<open>resolve_env\<close>, the two validators that run before the fields, the
  validator \<open>fail_closed\<close> that runs after them, and the rendering of an error. A
  \<open>SecretStr\<close> is its secret text, a \<open>frozenset\<close> a list without order.
\<close>

type_synonym environ = "(string \<times> string) list"

definition ENV_VAR :: string where "ENV_VAR = ''SMOKEJUMPER_ENV''"
definition DEFAULT_ENV :: string where "DEFAULT_ENV = ''local''"
definition AMBIGUOUS_ENV_VAR :: string where "AMBIGUOUS_ENV_VAR = ''SMOKEJUMPER__ENV''"
definition LOCAL_ONLY_PROFILES :: "string list" where "LOCAL_ONLY_PROFILES = [''lab'']"

definition STUB_SELECTIONS :: "(string \<times> string) list" where
  "STUB_SELECTIONS =
     [(''auth'', ''AllowAll''), (''governance'', ''NoopGovernance''), (''model'', ''RecordedModel''),
      (''platform'', ''FixturePlatform''), (''channel'', ''FakeChannel''),
      (''ticketing'', ''FixtureTicketing''), (''memory'', ''InMemoryStore'')]"

definition CREDENTIALS_FOR :: "((string \<times> string) \<times> (string \<times> string) list) list" where
  "CREDENTIALS_FOR =
     [((''model'', ''DirectProvider''),
       [(''model.worker'', ''SMOKEJUMPER__MODEL__WORKER''),
        (''model.synthesis'', ''SMOKEJUMPER__MODEL__SYNTHESIS''),
        (''model.api_key'', ''SMOKEJUMPER__MODEL__API_KEY'')]),
      ((''channel'', ''Slack''),
       [(''slack.bot_token'', ''SLACK_BOT_TOKEN''), (''slack.app_token'', ''SLACK_APP_TOKEN''),
        (''slack.channel_id'', ''SMOKEJUMPER__SLACK__CHANNEL_ID'')]),
      ((''ticketing'', ''Linear''),
       [(''ticketing.api_key'', ''LINEAR_API_KEY''),
        (''ticketing.team_id'', ''SMOKEJUMPER__TICKETING__TEAM_ID'')])]"

definition BARE_SECRET_VARS :: "(string \<times> string \<times> string) list" where
  "BARE_SECRET_VARS =
     [(''SLACK_BOT_TOKEN'', ''slack'', ''bot_token''), (''SLACK_APP_TOKEN'', ''slack'', ''app_token''),
      (''LINEAR_API_KEY'', ''ticketing'', ''api_key'')]"

definition COMPOSE_ONLY_SUFFIX :: string where "COMPOSE_ONLY_SUFFIX = ''_host_port''"

text \<open>The directory of the YAML layers; \<open>base\<close> is where the package lies.\<close>

definition CONFIG_DIR :: "environ \<Rightarrow> string \<Rightarrow> string" where
  "CONFIG_DIR environ base =
     (case map_of environ ''SMOKEJUMPER_CONFIG_DIR'' of
        None \<Rightarrow> base @ ''/config''
      | Some v \<Rightarrow> py_or v (base @ ''/config''))"

definition PLANNED_SELECTIONS :: "(string \<times> string) list" where
  "PLANNED_SELECTIONS =
     [(''HostVerifier'', ''a host-supplied adapter (SPEC 11.5.2)''),
      (''HostPolicy'', ''a host-supplied adapter (SPEC 11.5.2)''),
      (''HostPlatform'', ''a host-supplied adapter (SPEC 11.5.2)''),
      (''DirectProvider'', ''M2''), (''Slack'', ''M2''), (''Linear'', ''M2''), (''Postgres'', ''M3'')]"

section \<open>Sections\<close>

text \<open>
  A URL is its text: that it is a Postgres, Redis or HTTP URL is the parser's concern.
\<close>

record DatabaseSettings =
  db_url :: string

record RedisSettings =
  rd_url :: string

record EmbeddingSettings =
  em_model :: "string option"
  em_dimension :: "int option"

definition EmbeddingSettings_valid :: "EmbeddingSettings \<Rightarrow> bool" where
  "EmbeddingSettings_valid e \<longleftrightarrow> (case em_dimension e of None \<Rightarrow> True | Some n \<Rightarrow> 0 < n)"

record BudgetSettings =
  bg_max_usd_per_run :: "rat option"

definition BudgetSettings_valid :: "BudgetSettings \<Rightarrow> bool" where
  "BudgetSettings_valid b \<longleftrightarrow> (case bg_max_usd_per_run b of None \<Rightarrow> True | Some x \<Rightarrow> 0 < x)"

record ToolsSettings =
  tl_prometheus_url :: "string option"
  tl_loki_url :: "string option"

text \<open>Each source's shared secret, and the networks Alertmanager may post from.\<close>

record WebhookSettings =
  wh_grafana :: "string option"
  wh_datadog :: "string option"
  wh_pagerduty :: "string option"
  wh_generic :: "string option"
  wh_alertmanager_allowlist :: "ip_network list"

record ModelSettings =
  md_worker :: "string option"
  md_synthesis :: "string option"
  md_api_key :: "string option"

record SlackSettings =
  sl_bot_token :: "string option"
  sl_app_token :: "string option"
  sl_channel_id :: "string option"

record TicketingSettings =
  ts_provider :: string
  ts_api_key :: "string option"
  ts_team_id :: "string option"
  ts_project_id :: "string option"

record PortSelection =
  ps_auth :: string
  ps_governance :: string
  ps_tenancy :: string
  ps_model :: string
  ps_platform :: string
  ps_channel :: string
  ps_ticketing :: string
  ps_memory :: string

text \<open>The \<open>Literal\<close> types of the fields.\<close>

definition PortSelection_valid :: "PortSelection \<Rightarrow> bool" where
  "PortSelection_valid p \<longleftrightarrow>
     ps_auth p \<in> set [''AllowAll'', ''HostVerifier'']
     \<and> ps_governance p \<in> set [''NoopGovernance'', ''HostPolicy'']
     \<and> ps_tenancy p \<in> set [''SingleTenant'']
     \<and> ps_model p \<in> set [''RecordedModel'', ''DirectProvider'']
     \<and> ps_platform p \<in> set [''FixturePlatform'', ''HostPlatform'']
     \<and> ps_channel p \<in> set [''FakeChannel'', ''Slack'']
     \<and> ps_ticketing p \<in> set [''FixtureTicketing'', ''Linear'']
     \<and> ps_memory p \<in> set [''InMemoryStore'', ''Postgres'']"

definition default_ports :: PortSelection where
  "default_ports =
     \<lparr>ps_auth = ''AllowAll'', ps_governance = ''NoopGovernance'', ps_tenancy = ''SingleTenant'',
      ps_model = ''RecordedModel'', ps_platform = ''FixturePlatform'', ps_channel = ''FakeChannel'',
      ps_ticketing = ''FixtureTicketing'', ps_memory = ''InMemoryStore''\<rparr>"

text \<open>\<open>getattr(ports, name)\<close>, with the fields in declaration order.\<close>

definition port_items :: "PortSelection \<Rightarrow> (string \<times> string) list" where
  "port_items p =
     [(''auth'', ps_auth p), (''governance'', ps_governance p), (''tenancy'', ps_tenancy p),
      (''model'', ps_model p), (''platform'', ps_platform p), (''channel'', ps_channel p),
      (''ticketing'', ps_ticketing p), (''memory'', ps_memory p)]"

definition port_attr :: "PortSelection \<Rightarrow> string \<Rightarrow> string" where
  "port_attr p name = (case map_of (port_items p) name of None \<Rightarrow> [] | Some v \<Rightarrow> v)"

definition stubbed :: "PortSelection \<Rightarrow> string list" where
  "stubbed p = map fst (filter (\<lambda>(port, stub). port_attr p port = stub) STUB_SELECTIONS)"

definition unimplemented :: "PortSelection \<Rightarrow> (string \<times> string \<times> string) list" where
  "unimplemented p =
     List.map_filter
       (\<lambda>(port, value). map_option (\<lambda>when. (port, value, when)) (map_of PLANNED_SELECTIONS value))
       (port_items p)"

record Settings =
  st_env :: string
  st_compose_profiles :: "string list"
  st_log_dir :: string
  st_database :: DatabaseSettings
  st_redis :: RedisSettings
  st_ports :: PortSelection
  st_model :: ModelSettings
  st_embedding :: EmbeddingSettings
  st_budget :: BudgetSettings
  st_slack :: SlackSettings
  st_ticketing :: TicketingSettings
  st_tools :: ToolsSettings
  st_webhooks :: WebhookSettings

definition Settings_valid :: "Settings \<Rightarrow> bool" where
  "Settings_valid s \<longleftrightarrow>
     st_env s \<in> set [''local'', ''dev'', ''prod'']
     \<and> set (st_compose_profiles s) \<subseteq> set [''lab'', ''obs'']
     \<and> PortSelection_valid (st_ports s)
     \<and> EmbeddingSettings_valid (st_embedding s) \<and> BudgetSettings_valid (st_budget s)
     \<and> ts_provider (st_ticketing s) = ''linear''"

section \<open>Validators that run before the fields\<close>

definition split_profiles :: "string \<Rightarrow> string list" where
  "split_profiles value = filter (\<lambda>x. x \<noteq> []) (map py_strip (py_split (CHR '','') value))"

text \<open>The raw data pydantic hands to the model validator.\<close>

datatype cfg = CNull | CStr string | CDict "(string \<times> cfg) list" | COther string

fun cfg_is_none :: "cfg \<Rightarrow> bool" where
  "cfg_is_none CNull = True"
| "cfg_is_none _ = False"

definition cfg_pop :: "string \<Rightarrow> (string \<times> cfg) list \<Rightarrow> cfg \<times> (string \<times> cfg) list" where
  "cfg_pop k d =
     (case map_of d k of None \<Rightarrow> CNull | Some v \<Rightarrow> v, filter (\<lambda>kv. fst kv \<noteq> k) d)"

definition cfg_set :: "string \<Rightarrow> cfg \<Rightarrow> (string \<times> cfg) list \<Rightarrow> (string \<times> cfg) list" where
  "cfg_set k v d =
     (if k \<in> fst ` set d then map (\<lambda>kv. if fst kv = k then (k, v) else kv) d else d @ [(k, v)])"

definition env_or :: "environ \<Rightarrow> string \<Rightarrow> cfg \<Rightarrow> cfg" where
  "env_or environ variable from_dotenv =
     (case map_of environ variable of
        None \<Rightarrow> from_dotenv
      | Some v \<Rightarrow> if v = [] then from_dotenv else CStr v)"

text \<open>\<^verbatim>\<open>{key: value, **existing}\<close>: what the section already says wins.\<close>

definition merge_under :: "string \<Rightarrow> cfg \<Rightarrow> (string \<times> cfg) list \<Rightarrow> (string \<times> cfg) list" where
  "merge_under key value existing =
     (if key \<in> fst ` set existing
      then (key, the (map_of existing key)) # filter (\<lambda>kv. fst kv \<noteq> key) existing
      else (key, value) # existing)"

fun bare_secret ::
  "environ \<Rightarrow> string \<times> string \<times> string \<Rightarrow> (string \<times> cfg) list \<Rightarrow> (string \<times> cfg) list" where
  "bare_secret environ (variable, section, key) data =
     (let (from_dotenv, data) = cfg_pop (py_lower variable) data;
          value = env_or environ variable from_dotenv
      in if cfg_is_none value then data
         else case map_of data section of
                None \<Rightarrow> cfg_set section (CDict [(key, value)]) data
              | Some CNull \<Rightarrow> cfg_set section (CDict [(key, value)]) data
              | Some (CDict existing) \<Rightarrow> cfg_set section (CDict (merge_under key value existing)) data
              | Some _ \<Rightarrow> data)"

definition reconcile_shared_env :: "environ \<Rightarrow> (string \<times> cfg) list \<Rightarrow> (string \<times> cfg) list" where
  "reconcile_shared_env environ data =
     fold (bare_secret environ) BARE_SECRET_VARS
       (filter (\<lambda>kv. \<not> py_endswith (py_lower (fst kv)) COMPOSE_ONLY_SUFFIX) data)"

section \<open>The gates\<close>

definition present :: "string option \<Rightarrow> bool" where
  "present value = (case value of None \<Rightarrow> False | Some v \<Rightarrow> py_strip v \<noteq> [])"

definition settings_at :: "Settings \<Rightarrow> string \<Rightarrow> string option" where
  "settings_at s path =
     (case map_of
        [(''model.worker'', md_worker (st_model s)), (''model.synthesis'', md_synthesis (st_model s)),
         (''model.api_key'', md_api_key (st_model s)), (''slack.bot_token'', sl_bot_token (st_slack s)),
         (''slack.app_token'', sl_app_token (st_slack s)),
         (''slack.channel_id'', sl_channel_id (st_slack s)),
         (''ticketing.api_key'', ts_api_key (st_ticketing s)),
         (''ticketing.team_id'', ts_team_id (st_ticketing s))] path of
        None \<Rightarrow> None
      | Some v \<Rightarrow> v)"

definition port_var :: "string \<Rightarrow> string" where
  "port_var port = ''SMOKEJUMPER__PORTS__'' @ py_upper port"

definition stub_problems :: "Settings \<Rightarrow> string list" where
  "stub_problems s =
     (let stubs = stubbed (st_ports s) in
      if stubs = [] then []
      else [''prod refuses to boot with stub ports (SPEC 5.10): ''
            @ py_join '', '' (map (\<lambda>port. port @ ''='' @ port_attr (st_ports s) port) stubs)
            @ ''. Set '' @ py_join '', '' (map port_var stubs)
            @ '' to a real implementation, or run with '' @ ENV_VAR @ ''=local.''])"

definition budget_problems :: "Settings \<Rightarrow> string list" where
  "budget_problems s =
     (if bg_max_usd_per_run (st_budget s) = None
      then [''prod requires an explicit spend ceiling (SPEC 2d): set ''
            @ ''SMOKEJUMPER__BUDGET__MAX_USD_PER_RUN to a positive USD amount. ''
            @ ''Boot fails rather than defaulting to unlimited.'']
      else [])"

definition unimplemented_problems :: "Settings \<Rightarrow> string list" where
  "unimplemented_problems s =
     (let un = unimplemented (st_ports s) in
      if un = [] then []
      else [''these port selections have no implementation yet: ''
            @ py_join '', '' (map (\<lambda>(port, value, when).
                port @ ''='' @ value @ '' (arrives with '' @ when @ '')'') un)
            @ ''. Set '' @ py_join '', '' (map (\<lambda>(port, _, _). port_var port) un)
            @ '' to a substitute, or wait for the milestone that builds it. ''
            @ ''Boot fails here rather than reporting a usable configuration.''])"

definition profile_problems :: "Settings \<Rightarrow> string list" where
  "profile_problems s =
     (let local_only = sort (remdups (filter (\<lambda>p. p \<in> set LOCAL_ONLY_PROFILES) (st_compose_profiles s)))
      in if local_only \<noteq> [] \<and> st_env s \<noteq> ''local''
         then [''compose profiles '' @ py_join '', '' local_only
               @ '' are local-only (SPEC 2c) but '' @ ENV_VAR @ ''='' @ st_env s
               @ ''. Remove them from COMPOSE_PROFILES, or run with '' @ ENV_VAR @ ''=local.'']
         else [])"

definition credential_problems ::
  "Settings \<Rightarrow> (string \<times> string) \<times> (string \<times> string) list \<Rightarrow> string list" where
  "credential_problems s entry =
     (case entry of ((port, selection), credentials) \<Rightarrow>
        if port_attr (st_ports s) port \<noteq> selection then []
        else
          (let missing = sort (map snd (filter (\<lambda>(path, var). \<not> present (settings_at s path)) credentials))
           in if missing = [] then []
              else [port @ ''='' @ selection @ '' is enabled but unset: '' @ py_join '', '' missing
                    @ ''. Supply them, or select ''
                    @ (case map_of STUB_SELECTIONS port of None \<Rightarrow> [] | Some v \<Rightarrow> v)
                    @ '' via '' @ port_var port @ ''.'']))"

definition boot_problems :: "Settings \<Rightarrow> string list" where
  "boot_problems s =
     (if st_env s = ''prod'' then stub_problems s @ budget_problems s else [])
     @ unimplemented_problems s
     @ profile_problems s
     @ concat (map (credential_problems s) CREDENTIALS_FOR)"

definition fail_closed :: "Settings \<Rightarrow> Settings result" where
  "fail_closed s =
     (if boot_problems s \<noteq> []
      then Inl (ValueError (py_join (CHR 0x0A # ''  '') (boot_problems s)))
      else Inr s)"

section \<open>Environment selection and error rendering\<close>

text \<open>
  \<open>flags\<close> are the keyword arguments of \<open>load_settings\<close>: a flag that is not text is
  ignored, an empty one falls through to the next spelling.
\<close>

definition flag_text :: "(string \<times> cfg) list \<Rightarrow> string option" where
  "flag_text flags =
     (let truthy = (\<lambda>v. case v of CNull \<Rightarrow> False | CStr t \<Rightarrow> t \<noteq> [] | CDict d \<Rightarrow> d \<noteq> [] | COther _ \<Rightarrow> True);
          get = (\<lambda>k. case map_of flags k of None \<Rightarrow> CNull | Some v \<Rightarrow> v);
          flag = (if truthy (get ENV_VAR) then get ENV_VAR else get ''env'')
      in case flag of CStr t \<Rightarrow> Some t | _ \<Rightarrow> None)"

definition resolve_env :: "environ \<Rightarrow> (string \<times> cfg) list \<Rightarrow> string result" where
  "resolve_env environ flags =
     (if AMBIGUOUS_ENV_VAR \<in> fst ` set environ
      then Inl (ConfigError (AMBIGUOUS_ENV_VAR @ '' is not a supported spelling; it would select an ''
             @ ''environment without selecting its config file. Use '' @ ENV_VAR @ '' instead.''))
      else case flag_text flags of
             Some t \<Rightarrow> Inr t
           | None \<Rightarrow> Inr (case map_of environ ENV_VAR of
                            None \<Rightarrow> DEFAULT_ENV
                          | Some v \<Rightarrow> py_or v DEFAULT_ENV))"

text \<open>The sources in the order \<open>settings_customise_sources\<close> returns them, highest first.\<close>

datatype source = InitFlags | EnvVars | DotEnv | YamlFile string

definition settings_sources :: "environ \<Rightarrow> (string \<times> cfg) list \<Rightarrow> source list result" where
  "settings_sources environ flags =
     res_bind (resolve_env environ flags) (\<lambda>env.
       Inr [InitFlags, EnvVars, DotEnv, YamlFile (env @ ''.yaml''), YamlFile ''base.yaml''])"

datatype loc_part = LocStr string | LocInt int

fun loc_text :: "loc_part \<Rightarrow> string" where
  "loc_text (LocStr s) = s"
| "loc_text (LocInt i) = show_int i"

definition env_var_for :: "loc_part list \<Rightarrow> string" where
  "env_var_for loc =
     (let head = loc_text (hd loc) in
      if py_startswith head ''SMOKEJUMPER'' then head
      else ''SMOKEJUMPER__'' @ py_upper (py_join ''__'' (map loc_text loc)))"

record error_detail =
  ed_type :: string
  ed_loc :: "loc_part list"
  ed_msg :: string

text \<open>The fields of \<open>Settings\<close> with the required keys of the section each one holds.\<close>

definition SECTION_REQUIRED :: "(string \<times> string list) list" where
  "SECTION_REQUIRED =
     [(''env'', []), (''compose_profiles'', []), (''log_dir'', []), (''database'', [''url'']),
      (''redis'', [''url'']), (''ports'', []), (''model'', []), (''embedding'', []), (''budget'', []),
      (''slack'', []), (''ticketing'', []), (''tools'', []), (''webhooks'', [])]"

definition env_vars_for :: "error_detail \<Rightarrow> string list result" where
  "env_vars_for detail =
     (let loc = ed_loc detail in
      if ed_type detail = ''missing'' \<and> length loc = 1 then
        (case map_of SECTION_REQUIRED (loc_text (hd loc)) of
           None \<Rightarrow> Inl (KeyError (loc_text (hd loc)))
         | Some required \<Rightarrow>
             if required = [] then Inr [env_var_for loc]
             else Inr (map (\<lambda>name. env_var_for (loc @ [LocStr name])) required))
      else Inr [env_var_for loc])"

definition describe_one :: "error_detail \<Rightarrow> string result" where
  "describe_one detail =
     (let message = py_removeprefix (ed_msg detail) ''Value error, '' in
      if ed_loc detail = [] then Inr message
      else res_bind (env_vars_for detail) (\<lambda>vars. Inr (py_join '', '' vars @ '': '' @ message)))"

definition describe :: "error_detail list \<Rightarrow> string result" where
  "describe details =
     res_bind (res_mapM describe_one details) (\<lambda>lines.
       Inr (''configuration is invalid:'' @ (CHR 0x0A # ''  '')
            @ py_join (CHR 0x0A # ''  '') lines))"

text \<open>\<open>load_settings\<close>: \<open>validated\<close> is what pydantic's construction of \<open>Settings\<close> gave.\<close>

definition load_settings :: "error_detail list + Settings \<Rightarrow> Settings result" where
  "load_settings validated =
     (case validated of
        Inr s \<Rightarrow> Inr s
      | Inl details \<Rightarrow> res_bind (describe details) (\<lambda>msg. Inl (ConfigError msg)))"

section \<open>What boots\<close>

text \<open>Every non-substitute selection is planned: none of them has an implementation.\<close>

lemma map_filter_Nil: "List.map_filter f xs = [] \<longleftrightarrow> (\<forall>x \<in> set xs. f x = None)"
  by (auto simp: List.map_filter_def filter_empty_conv)

lemma planned_none:
  assumes "PortSelection_valid p"
  shows "map_of PLANNED_SELECTIONS (ps_auth p) = None \<longleftrightarrow> ps_auth p = ''AllowAll''"
    and "map_of PLANNED_SELECTIONS (ps_governance p) = None \<longleftrightarrow> ps_governance p = ''NoopGovernance''"
    and "map_of PLANNED_SELECTIONS (ps_tenancy p) = None \<longleftrightarrow> ps_tenancy p = ''SingleTenant''"
    and "map_of PLANNED_SELECTIONS (ps_model p) = None \<longleftrightarrow> ps_model p = ''RecordedModel''"
    and "map_of PLANNED_SELECTIONS (ps_platform p) = None \<longleftrightarrow> ps_platform p = ''FixturePlatform''"
    and "map_of PLANNED_SELECTIONS (ps_channel p) = None \<longleftrightarrow> ps_channel p = ''FakeChannel''"
    and "map_of PLANNED_SELECTIONS (ps_ticketing p) = None \<longleftrightarrow> ps_ticketing p = ''FixtureTicketing''"
    and "map_of PLANNED_SELECTIONS (ps_memory p) = None \<longleftrightarrow> ps_memory p = ''InMemoryStore''"
  using assms unfolding PortSelection_valid_def PLANNED_SELECTIONS_def by fastforce+

lemma unimplemented_none:
  assumes "PortSelection_valid p"
  shows "unimplemented p = [] \<longleftrightarrow> p = default_ports"
proof -
  have "unimplemented p = [] \<longleftrightarrow> (\<forall>v \<in> snd ` set (port_items p). map_of PLANNED_SELECTIONS v = None)"
    unfolding unimplemented_def map_filter_Nil by auto
  also have "\<dots> \<longleftrightarrow> p = default_ports"
    using planned_none[OF assms] by (cases p) (simp add: port_items_def default_ports_def)
  finally show ?thesis .
qed

lemma stubbed_default: "stubbed default_ports \<noteq> []"
  by (simp add: stubbed_def default_ports_def STUB_SELECTIONS_def port_attr_def port_items_def)

lemma credentials_default: "st_ports s = default_ports \<Longrightarrow> concat (map (credential_problems s) CREDENTIALS_FOR) = []"
  by (simp add: CREDENTIALS_FOR_def credential_problems_def default_ports_def port_attr_def port_items_def)

lemma profile_problems_none:
  "profile_problems s = [] \<longleftrightarrow> (''lab'' \<in> set (st_compose_profiles s) \<longrightarrow> st_env s = ''local'')"
proof -
  let ?l = "remdups (filter (\<lambda>p. p \<in> set LOCAL_ONLY_PROFILES) (st_compose_profiles s))"
  have "sort ?l = [] \<longleftrightarrow> set ?l = {}" by (metis set_empty set_sort)
  also have "\<dots> \<longleftrightarrow> ''lab'' \<notin> set (st_compose_profiles s)"
    by (auto simp: LOCAL_ONLY_PROFILES_def)
  finally show ?thesis by (auto simp: profile_problems_def Let_def)
qed

lemma fail_closed_ok:
  assumes "Settings_valid s"
  shows "fail_closed s = Inr s \<longleftrightarrow>
           st_env s \<noteq> ''prod'' \<and> st_ports s = default_ports
           \<and> (''lab'' \<in> set (st_compose_profiles s) \<longrightarrow> st_env s = ''local'')"
proof -
  have pv: "PortSelection_valid (st_ports s)" using assms by (simp add: Settings_valid_def)
  have un: "unimplemented_problems s = [] \<longleftrightarrow> st_ports s = default_ports"
    using unimplemented_none[OF pv] by (simp add: unimplemented_problems_def Let_def)
  have "fail_closed s = Inr s \<longleftrightarrow> boot_problems s = []" by (simp add: fail_closed_def)
  also have "\<dots> \<longleftrightarrow> (st_env s = ''prod'' \<longrightarrow> stub_problems s = [] \<and> budget_problems s = [])
      \<and> st_ports s = default_ports \<and> profile_problems s = []
      \<and> concat (map (credential_problems s) CREDENTIALS_FOR) = []"
    by (auto simp: boot_problems_def un)
  also have "\<dots> \<longleftrightarrow> st_env s \<noteq> ''prod'' \<and> st_ports s = default_ports \<and> profile_problems s = []"
    using credentials_default stubbed_default by (auto simp: stub_problems_def Let_def)
  finally show ?thesis by (simp only: profile_problems_none)
qed

text \<open>An empty or blank credential does not count as supplied.\<close>

lemma credential_blank_reported:
  assumes "port_attr (st_ports s) port = selection"
    and "(path, var) \<in> set credentials" and "\<not> present (settings_at s path)"
  shows "credential_problems s ((port, selection), credentials) \<noteq> []"
proof -
  let ?m = "map snd (filter (\<lambda>(path, var). \<not> present (settings_at s path)) credentials)"
  have "var \<in> set ?m" using assms(2,3) by force
  then have "sort ?m \<noteq> []" by (metis empty_iff list.set(1) set_sort)
  then show ?thesis using assms(1) by (simp add: credential_problems_def Let_def)
qed

section \<open>The shared environment\<close>

lemma map_of_replace:
  "map_of (map (\<lambda>kv. if fst kv = k then (k, v) else kv) d) k'
     = (if k' = k then (if k \<in> fst ` set d then Some v else None) else map_of d k')"
  by (induction d) (auto simp: image_iff Bex_def)

lemma fst_replace: "map fst (map (\<lambda>kv. if fst kv = k then (k, v) else kv) d) = map fst d"
  by (induction d) auto

lemma cfg_set_keys: "fst ` set (cfg_set k v d) = insert k (fst ` set d)"
proof (cases "k \<in> fst ` set d")
  case True
  then show ?thesis
    using arg_cong[OF fst_replace[of k v d], of set] unfolding cfg_set_def set_map by auto
qed (simp add: cfg_set_def)

lemma map_of_cfg_set: "map_of (cfg_set k v d) k' = (if k' = k then Some v else map_of d k')"
proof (cases "k \<in> fst ` set d")
  case True
  then show ?thesis by (simp add: cfg_set_def map_of_replace)
next
  case False
  then have "map_of d k = None" by (simp add: map_of_eq_None_iff)
  then show ?thesis using False by (auto simp: cfg_set_def map_add_def split: option.splits)
qed

lemma bare_secret_keys:
  "fst ` set (bare_secret environ (variable, section, key) data)
     \<subseteq> insert section (fst ` set data - {py_lower variable})"
  by (auto simp: cfg_pop_def Let_def cfg_set_keys split: option.splits cfg.splits)

lemma map_of_filter_key: "k \<noteq> j \<Longrightarrow> map_of (filter (\<lambda>kv. fst kv \<noteq> j) d) k = map_of d k"
  by (induction d) auto

text \<open>A section that already names the key keeps its value; another section is untouched.\<close>

lemma map_of_merge_under:
  "map_of (merge_under key value existing) k =
     (case map_of existing k of Some v \<Rightarrow> Some v | None \<Rightarrow> if k = key then Some value else None)"
proof (cases "map_of existing key")
  case None
  then show ?thesis
    using map_of_eq_None_iff[of existing key] by (auto simp: merge_under_def split: option.splits)
next
  case (Some v)
  then have "key \<in> fst ` set existing" by (metis map_of_eq_None_iff option.distinct(1))
  then show ?thesis using Some by (auto simp: merge_under_def map_of_filter_key split: option.splits)
qed

lemma bare_secret_keeps:
  assumes "map_of data sec = Some (CDict old)" and "sec \<noteq> py_lower variable"
  shows "\<exists>new. map_of (bare_secret environ (variable, section, key) data) sec = Some (CDict new)
           \<and> map_of old \<subseteq>\<^sub>m map_of new"
proof -
  let ?d = "filter (\<lambda>kv. fst kv \<noteq> py_lower variable) data"
  have d: "map_of ?d sec = Some (CDict old)" using assms by (simp add: map_of_filter_key)
  have le: "map_of old \<subseteq>\<^sub>m map_of (merge_under key v old)" for v
    by (auto simp: map_le_def map_of_merge_under)
  show ?thesis
    using d le by (auto simp: cfg_pop_def Let_def map_of_cfg_set split: option.splits cfg.splits)
qed

lemma lower_bare:
  "py_lower ''SLACK_BOT_TOKEN'' = ''slack_bot_token''"
  "py_lower ''SLACK_APP_TOKEN'' = ''slack_app_token''"
  "py_lower ''LINEAR_API_KEY'' = ''linear_api_key''"
  by (code_simp)+

lemma reconcile_keeps:
  assumes "map_of data sec = Some (CDict old)" and "sec \<in> {''slack'', ''ticketing''}"
  shows "\<exists>new. map_of (reconcile_shared_env environ data) sec = Some (CDict new)
           \<and> map_of old \<subseteq>\<^sub>m map_of new"
proof -
  let ?d0 = "filter (\<lambda>kv. \<not> py_endswith (py_lower (fst kv)) COMPOSE_ONLY_SUFFIX) data"
  have keep: "\<not> py_endswith (py_lower sec) COMPOSE_ONLY_SUFFIX"
    using assms(2) by (auto simp: COMPOSE_ONLY_SUFFIX_def) code_simp+
  have "map_of (filter (\<lambda>kv. P (fst kv)) d) k = map_of d k" if "P k" for P and d :: "(string \<times> cfg) list" and k
    using that by (induction d) auto
  from this[of "\<lambda>k. \<not> py_endswith (py_lower k) COMPOSE_ONLY_SUFFIX", OF keep]
  have d0: "map_of ?d0 sec = Some (CDict old)" using assms(1) by simp
  have ne: "sec \<noteq> py_lower ''SLACK_BOT_TOKEN''" "sec \<noteq> py_lower ''SLACK_APP_TOKEN''"
      "sec \<noteq> py_lower ''LINEAR_API_KEY''"
    using assms(2) by (auto simp: lower_bare)
  obtain n1 where n1: "map_of (bare_secret environ (''SLACK_BOT_TOKEN'', ''slack'', ''bot_token'') ?d0) sec
      = Some (CDict n1)" "map_of old \<subseteq>\<^sub>m map_of n1"
    using bare_secret_keeps[OF d0 ne(1)] by blast
  obtain n2 where n2: "map_of (bare_secret environ (''SLACK_APP_TOKEN'', ''slack'', ''app_token'')
      (bare_secret environ (''SLACK_BOT_TOKEN'', ''slack'', ''bot_token'') ?d0)) sec
      = Some (CDict n2)" "map_of n1 \<subseteq>\<^sub>m map_of n2"
    using bare_secret_keeps[OF n1(1) ne(2)] by blast
  show ?thesis
    using bare_secret_keeps[OF n2(1) ne(3), of environ "''ticketing''" "''api_key''"] n1(2) n2(2)
    unfolding reconcile_shared_env_def BARE_SECRET_VARS_def by (auto intro: map_le_trans)
qed

lemma reconcile_keys:
  assumes "k \<in> fst ` set (reconcile_shared_env environ data)"
  shows "k \<in> {''slack'', ''ticketing''}
         \<or> (k \<in> fst ` set data \<and> \<not> py_endswith (py_lower k) COMPOSE_ONLY_SUFFIX
            \<and> k \<notin> {''slack_bot_token'', ''slack_app_token'', ''linear_api_key''})"
proof -
  let ?d0 = "filter (\<lambda>kv. \<not> py_endswith (py_lower (fst kv)) COMPOSE_ONLY_SUFFIX) data"
  let ?d1 = "bare_secret environ (''SLACK_BOT_TOKEN'', ''slack'', ''bot_token'') ?d0"
  let ?d2 = "bare_secret environ (''SLACK_APP_TOKEN'', ''slack'', ''app_token'') ?d1"
  let ?d3 = "bare_secret environ (''LINEAR_API_KEY'', ''ticketing'', ''api_key'') ?d2"
  have eq: "reconcile_shared_env environ data = ?d3"
    by (simp add: reconcile_shared_env_def BARE_SECRET_VARS_def del: bare_secret.simps)
  have chain: "k = t \<or> k = u \<or> (k \<in> D \<and> k \<noteq> a \<and> k \<noteq> b \<and> k \<noteq> c)"
    if "k \<in> insert t (A - {a})" "A \<subseteq> insert u (B - {b})" "B \<subseteq> insert u (C - {c})" "C \<subseteq> D"
    for t u a b c :: string and A B C D
    using that by blast
  have 1: "k \<in> insert ''ticketing'' (fst ` set ?d2 - {''linear_api_key''})"
    using assms unfolding eq
    by (rule subsetD[OF bare_secret_keys[of environ "''LINEAR_API_KEY''" "''ticketing''" "''api_key''" ?d2,
            unfolded lower_bare], rotated])
  have 2: "fst ` set ?d2 \<subseteq> insert ''slack'' (fst ` set ?d1 - {''slack_app_token''})"
    by (rule bare_secret_keys[of environ "''SLACK_APP_TOKEN''" "''slack''" "''app_token''" ?d1,
          unfolded lower_bare])
  have 3: "fst ` set ?d1 \<subseteq> insert ''slack'' (fst ` set ?d0 - {''slack_bot_token''})"
    by (rule bare_secret_keys[of environ "''SLACK_BOT_TOKEN''" "''slack''" "''bot_token''" ?d0,
          unfolded lower_bare])
  have 4: "fst ` set ?d0 \<subseteq> {k \<in> fst ` set data. \<not> py_endswith (py_lower k) COMPOSE_ONLY_SUFFIX}"
    by auto
  from chain[OF 1 2 3 4] show ?thesis unfolding mem_Collect_eq insert_iff empty_iff by blast
qed

section \<open>Which file, which environment\<close>

text \<open>pydantic-settings takes a field from the first source that provides it.\<close>

fun first_provided :: "(source \<Rightarrow> 'a option) \<Rightarrow> source list \<Rightarrow> 'a option" where
  "first_provided lookup [] = None"
| "first_provided lookup (s # ss) =
     (case lookup s of Some v \<Rightarrow> Some v | None \<Rightarrow> first_provided lookup ss)"

definition env_field :: "(source \<Rightarrow> string option) \<Rightarrow> source list \<Rightarrow> string" where
  "env_field lookup sources =
     (case first_provided lookup sources of None \<Rightarrow> DEFAULT_ENV | Some v \<Rightarrow> v)"

lemma resolve_env_flag:
  assumes "AMBIGUOUS_ENV_VAR \<notin> fst ` set environ" and "v \<noteq> []"
  shows "resolve_env environ [(''env'', CStr v)] = Inr v"
  using assms by (simp add: resolve_env_def flag_text_def ENV_VAR_def Let_def)

lemma resolve_env_default:
  assumes "AMBIGUOUS_ENV_VAR \<notin> fst ` set environ" and "map_of environ ENV_VAR = None"
  shows "resolve_env environ [] = Inr DEFAULT_ENV"
  using assms by (simp add: resolve_env_def flag_text_def)

end
