(* ===== verification/App.thy ===== *)
theory App
  imports System Config
begin

text \<open>
  The HTTP application beside the webhooks, \<^verbatim>\<open>src/smokejumper/app.py\<close>: the health
  endpoint, the read path of an operator, and the composition root; with
  \<^verbatim>\<open>persistence/database.py\<close>'s probes and the \<^verbatim>\<open>check-config\<close> command of
  \<^verbatim>\<open>cli.py\<close>. What Postgres and Redis answer to a probe is an argument
  (\<open>probes\<close>); an awaited call may also never answer.
\<close>

section \<open>Health\<close>

definition SCHEMA_HEAD :: string where
  "SCHEMA_HEAD = ''0004_event_queue_outbox''"

definition PROBE_TIMEOUT_MICROS :: nat where
  "PROBE_TIMEOUT_MICROS = 3000000"

datatype 'a awaited = Answers "'a result" | Hangs

text \<open>\<open>check_connection\<close> and \<open>check_schema\<close> with the reply of the driver to their query.\<close>

definition check_connection :: "unit result \<Rightarrow> unit result" where
  "check_connection reply = res_bind reply (\<lambda>_. Inr ())"

definition check_schema :: "string option result \<Rightarrow> unit result" where
  "check_schema reply =
     res_bind reply (\<lambda>current.
       if current \<noteq> Some SCHEMA_HEAD
       then Inl (RuntimeError (''schema revision ''
              @ (case current of None \<Rightarrow> ''None'' | Some v \<Rightarrow> repr_str v)
              @ ''; expected '' @ repr_str SCHEMA_HEAD))
       else Inr ())"

fun probe :: "('a result \<Rightarrow> 'b result) \<Rightarrow> 'a awaited \<Rightarrow> string" where
  "probe check Hangs = ''down: TimeoutError''"
| "probe check (Answers reply) =
     (case check reply of Inl e \<Rightarrow> ''down: '' @ err_class e | Inr _ \<Rightarrow> ''ok'')"

record probes =
  pr_postgres :: "unit awaited"
  pr_schema :: "string option awaited"
  pr_redis :: "unit awaited"
  pr_groups :: "group_info list result"
  pr_count :: "py_error option"

definition health_checks :: "task_state option \<Rightarrow> task_state option \<Rightarrow> probes \<Rightarrow> (string \<times> string) list" where
  "health_checks worker outbox p =
     [(''postgres'', probe check_connection (pr_postgres p)),
      (''schema'', probe check_schema (pr_schema p)),
      (''redis'', probe id (pr_redis p)),
      (''worker'', case worker of None \<Rightarrow> ''starting'' | Some t \<Rightarrow> worker_status t),
      (''outbox'', case outbox of None \<Rightarrow> ''starting'' | Some t \<Rightarrow> outbox_status t)]"

definition health_details :: "recorder \<Rightarrow> probes \<Rightarrow> world \<Rightarrow> json_obj" where
  "health_details rc p w =
     [(''recorder_write_failures'', JInt (int (rc_failures rc)))]
     @ (case queue_depth (pr_groups p) of
          Inl _ \<Rightarrow> []
        | Inr (lag, pending) \<Rightarrow> [(''queue'', JObj [(''lag'', JInt lag), (''pending'', JInt pending)])])
     @ (case pr_count p of
          Some _ \<Rightarrow> []
        | None \<Rightarrow> [(''outbox_pending'', JInt (int (pending_count w)))])"

definition healthz ::
  "task_state option \<Rightarrow> task_state option \<Rightarrow> recorder \<Rightarrow> probes \<Rightarrow> world \<Rightarrow> nat \<times> json_obj" where
  "healthz worker outbox rc p w =
     (let checks = health_checks worker outbox p;
          healthy = list_all (\<lambda>(_, value). value = ''ok'') checks
      in (if healthy then 200 else 503,
          [(''status'', JStr (if healthy then ''ok'' else ''unhealthy''))]
          @ map (\<lambda>(k, v). (k, JStr v)) checks @ health_details rc p w))"

section \<open>The read path\<close>

text \<open>\<^verbatim>\<open>ORDER BY started_at DESC LIMIT 1\<close>; rows with equal times stay in insertion order.\<close>

definition latest_run :: "string \<Rightarrow> run_row list \<Rightarrow> run_row option" where
  "latest_run fp rs =
     (case sort_key (\<lambda>r. - rr_started_at r) (filter (\<lambda>r. rr_fingerprint r = fp) rs) of
        [] \<Rightarrow> None
      | r # _ \<Rightarrow> Some r)"

definition newest_ticket :: "string \<Rightarrow> ticket_row list \<Rightarrow> uuid option" where
  "newest_ticket fp ts =
     (case sort_key (\<lambda>t. - tk_created_at t) (filter (\<lambda>t. tk_fingerprint t = fp) ts) of
        [] \<Rightarrow> None
      | t # _ \<Rightarrow> Some (tk_id t))"

text \<open>The \<^verbatim>\<open>LEFT JOIN\<close>: the ticket of the run's ledger row, else the newest of its fingerprint.\<close>

definition run_ticket :: "run_row \<Rightarrow> db \<Rightarrow> ticket_row option" where
  "run_ticket r s =
     (let wanted = (case find (\<lambda>a. ta_run_id a = rr_run_id r) (ticket_actions s) of
                      Some a \<Rightarrow> Some (ta_ticket_id a)
                    | None \<Rightarrow> newest_ticket (rr_fingerprint r) (tickets s))
      in case wanted of None \<Rightarrow> None | Some i \<Rightarrow> find (\<lambda>t. tk_id t = i) (tickets s))"

record view_codec =
  vc_float :: "rat \<Rightarrow> json"
  vc_finding :: "Finding \<Rightarrow> json"

definition opt_json :: "('a \<Rightarrow> json) \<Rightarrow> 'a option \<Rightarrow> json" where
  "opt_json f x = (case x of None \<Rightarrow> JNull | Some v \<Rightarrow> f v)"

definition run_view :: "view_codec \<Rightarrow> run_row \<Rightarrow> ticket_row option \<Rightarrow> json_obj" where
  "run_view vc r t =
     [(''run_id'', JStr (rr_run_id r)),
      (''status'', JStr (rr_status r)),
      (''conclusion_status'', opt_json (\<lambda>c. JStr (status_value (con_status c))) (rr_conclusion r)),
      (''confidence'', opt_json (\<lambda>c. vc_float vc (con_confidence c)) (rr_conclusion r)),
      (''summary_md'', opt_json (\<lambda>c. JStr (con_summary_md c)) (rr_conclusion r)),
      (''findings'', JList (case rr_conclusion r of None \<Rightarrow> [] | Some c \<Rightarrow> map (vc_finding vc) (con_findings c))),
      (''proposed_actions'',
         JList (case rr_conclusion r of None \<Rightarrow> [] | Some c \<Rightarrow> map JStr (con_proposed_actions c))),
      (''ticket'', opt_json (\<lambda>k. JStr (tk_external_id k)) t),
      (''ticket_updates'', opt_json (\<lambda>k. JInt (tk_update_count k)) t),
      (''audit'', JObj [(''file'', JStr (rr_audit_log_file r)),
                        (''start_offset'', JInt (rr_audit_start_offset r)),
                        (''end_offset'', opt_json JInt (rr_audit_end_offset r))])]"

definition run_for :: "view_codec \<Rightarrow> string \<Rightarrow> db \<Rightarrow> nat \<times> json_obj" where
  "run_for vc fingerprint s =
     (case latest_run fingerprint (runs s) of
        None \<Rightarrow> (404, [(''status'', JStr ''no run for fingerprint'')])
      | Some r \<Rightarrow> (200, run_view vc r (run_ticket r s)))"

section \<open>The composition root and the preflight command\<close>

definition reveal :: "string option \<Rightarrow> string" where
  "reveal value = (case value of None \<Rightarrow> [] | Some secret \<Rightarrow> secret)"

definition app_from_env :: "worker_codec \<Rightarrow> WebhookSettings \<Rightarrow> sys_config" where
  "app_from_env wc h =
     \<lparr>sc_codec = wc, sc_datadog_secret = reveal (wh_datadog h),
      sc_secrets = [(''grafana'', reveal (wh_grafana h)), (''pagerduty'', reveal (wh_pagerduty h)),
                    (''generic'', reveal (wh_generic h))],
      sc_allowlist = wh_alertmanager_allowlist h\<rparr>"

text \<open>
  The exit code of \<^verbatim>\<open>smokejumper check-config\<close> with what it prints, given what
  \<open>load_settings\<close> returned or raised; an exception that is no \<open>ValueError\<close> leaves it.
\<close>

definition check_config :: "Settings result \<Rightarrow> (nat \<times> string) result" where
  "check_config loaded =
     (case loaded of
        Inl e \<Rightarrow> if is_value_error e then Inr (1, ''configuration invalid: '' @ err_text e) else Inl e
      | Inr s \<Rightarrow> Inr (0, ''configuration valid for SMOKEJUMPER_ENV='' @ st_env s))"

text \<open>
  pydantic reports the \<open>ValueError\<close> of a model validator as one error with an empty location
  and its text behind a fixed prefix.
\<close>

definition construct_settings :: "Settings \<Rightarrow> error_detail list + Settings" where
  "construct_settings s =
     (case fail_closed s of
        Inr s' \<Rightarrow> Inr s'
      | Inl e \<Rightarrow> Inl [\<lparr>ed_type = ''value_error'', ed_loc = [], ed_msg = ''Value error, '' @ err_text e\<rparr>])"

section \<open>When the process reports healthy\<close>

lemma probe_ok: "probe check a = ''ok'' \<longleftrightarrow> (\<exists>r x. a = Answers r \<and> check r = Inr x)"
  by (cases a) (auto split: sum.splits)

lemma status_ok:
  "worker_status t = ''ok'' \<longleftrightarrow> t = TaskRunning" "outbox_status t = ''ok'' \<longleftrightarrow> t = TaskRunning"
  by (cases t; simp)+

lemma check_schema_ok: "check_schema r = Inr x \<longleftrightarrow> r = Inr (Some SCHEMA_HEAD)"
  by (auto simp: check_schema_def)

lemma check_connection_ok: "check_connection r = Inr x \<longleftrightarrow> r = Inr ()"
  by (auto simp: check_connection_def)

lemma healthz_200:
  "fst (healthz worker outbox rc p w) = 200 \<longleftrightarrow>
     pr_postgres p = Answers (Inr ()) \<and> pr_schema p = Answers (Inr (Some SCHEMA_HEAD))
     \<and> pr_redis p = Answers (Inr ()) \<and> worker = Some TaskRunning \<and> outbox = Some TaskRunning"
  by (auto simp: healthz_def health_checks_def Let_def probe_ok status_ok check_schema_ok
        check_connection_ok split: option.splits)

lemma healthz_cases: "fst (healthz worker outbox rc p w) \<in> {200, 503}"
  by (simp add: healthz_def Let_def)

section \<open>What an operator reads\<close>

lemma run_for_404: "fst (run_for vc fp s) = 404 \<longleftrightarrow> (\<forall>r \<in> set (runs s). rr_fingerprint r \<noteq> fp)"
proof -
  have "latest_run fp (runs s) = None \<longleftrightarrow> filter (\<lambda>r. rr_fingerprint r = fp) (runs s) = []"
    by (auto simp: latest_run_def split: list.splits) (metis list.distinct(1) set_empty set_sort)+
  then show ?thesis by (auto simp: run_for_def filter_empty_conv split: option.splits)
qed

text \<open>The only newest run of a fingerprint is the one that is read.\<close>

lemma latest_run_newest:
  assumes "r \<in> set rs" and "rr_fingerprint r = fp"
    and "\<And>q. q \<in> set rs \<Longrightarrow> rr_fingerprint q = fp \<Longrightarrow> q = r \<or> rr_started_at q < rr_started_at r"
  shows "latest_run fp rs = Some r"
proof -
  let ?xs = "sort_key (\<lambda>r. - rr_started_at r) (filter (\<lambda>r. rr_fingerprint r = fp) rs)"
  have r: "r \<in> set ?xs" using assms(1,2) by simp
  then obtain q qs where q: "?xs = q # qs" by (cases ?xs) auto
  then have "q \<in> set ?xs" by simp
  then have in_rs: "q \<in> set rs" "rr_fingerprint q = fp" by auto
  have "sorted (map (\<lambda>r. - rr_started_at r) (q # qs))" using q by (metis sorted_sort_key)
  then have "rr_started_at r \<le> rr_started_at q" using r q by auto
  then have "q = r" using assms(3)[OF in_rs] by auto
  then show ?thesis using q by (simp add: latest_run_def)
qed

lemma run_ticket_ledger:
  assumes "db_ok s" and "a \<in> set (ticket_actions s)" and "ta_run_id a = rr_run_id r"
  shows "\<exists>t \<in> set (tickets s). tk_id t = ta_ticket_id a \<and> run_ticket r s = Some t"
proof -
  have "find (\<lambda>x. ta_run_id x = rr_run_id r) (ticket_actions s) = Some a"
    using find_distinct_key[of ta_run_id "ticket_actions s" a] assms by (simp add: db_ok_def actions_ok_def)
  moreover obtain t where "t \<in> set (tickets s)" "tk_id t = ta_ticket_id a"
    using assms by (fastforce simp: db_ok_def actions_ok_def)
  moreover from this have "find (\<lambda>x. tk_id x = ta_ticket_id a) (tickets s) = Some t"
    using find_distinct_key[of tk_id "tickets s" t] assms(1) by (simp add: db_ok_def tickets_ok_def)
  ultimately show ?thesis by (auto simp: run_ticket_def)
qed

text \<open>
  After an attempt that answered, and while no later run of its fingerprint exists, the read
  path shows that run with its conclusion and the ticket its ledger row names.
\<close>

lemma claimed_started:
  assumes "r \<in> set (claimed_runs run_id event_id fp f off t rs)" and "rr_run_id r = run_id"
    and "\<not> (\<exists>q \<in> set rs. rr_run_id q = run_id \<and> rr_status q \<noteq> ''running'')"
    and "\<And>q. q \<in> set rs \<Longrightarrow> rr_run_id q = run_id \<Longrightarrow> rr_fingerprint q = fp"
  shows "rr_started_at r = t \<and> rr_fingerprint r = fp"
proof -
  have "(\<exists>r0 \<in> set rs. r = repointed f off t r0) \<or> r = repointed f off t (new_run run_id event_id fp f off t)"
    using claimed_row[OF assms(1)] assms(2,3) by auto
  then show ?thesis
  proof (elim disjE bexE)
    fix r0 assume r0: "r0 \<in> set rs" "r = repointed f off t r0"
    then have "rr_fingerprint r0 = fp" using assms(2,4) by simp
    then show ?thesis by (simp add: r0(2) repointed_def)
  qed (simp add: repointed_def new_run_def)
qed

lemma run_ok_status: "wk_ok s \<Longrightarrow> r \<in> set (runs s) \<Longrightarrow> rr_status r = ''running'' \<or> rr_status r = ''concluded''"
  by (auto simp: wk_ok_def runs_wf_def run_ok_def list_all_iff)

lemma handle_runs:
  assumes "wk_ok (ws_db st)" and "handle wc io event st = (Inr v, st')"
    and "\<not> run_concluded (ws_db st) (ev_id event)"
  obtains off where
    "runs (ws_db st') = update_where (\<lambda>r. rr_run_id r = ev_id event)
       (concluded_run (run_conclusion io event) off (hi_finished io))
       (claimed_runs (ev_id event) (ev_id event) (ev_fingerprint event) (rc_name (ws_rec st))
          (int (start_offset (ws_rec st))) (hi_started io) (runs (ws_db st)))"
  using assms(2)
proof (cases rule: handle_cases)
  case (redelivered claim s1)
  then show ?thesis using claim_not_concluded[OF assms(1) redelivered(1) assms(3)] by simp
next
  case (completed claim s1 outcome s2 rc' s3)
  have "db_ok (ws_db st)" "runs_wf (ws_db st)" using assms(1) by (simp_all add: wk_ok_def)
  then have "runs s1 = claimed_runs (ev_id event) (ev_id event) (ev_fingerprint event) (rc_name (ws_rec st))
          (int (start_offset (ws_rec st))) (hi_started io) (runs (ws_db st))"
    using open_run_keeps completed(1) by (fastforce simp: claim_run_def)
  moreover have "runs s2 = runs s1" using apply_run_recorded[OF completed(3)] by simp
  ultimately show ?thesis
    using close_run_Inr(1)[OF completed(6)] that completed(7) by simp
qed

lemma handle_reported:
  assumes ok: "wk_ok (ws_db st)" and ans: "handle wc io event st = (Inr v, st')"
    and fresh: "\<not> run_concluded (ws_db st) (ev_id event)"
    and own: "\<And>q. q \<in> set (runs (ws_db st)) \<Longrightarrow> rr_run_id q = ev_id event
                \<Longrightarrow> rr_fingerprint q = ev_fingerprint event"
    and newest: "\<And>q. q \<in> set (runs (ws_db st)) \<Longrightarrow> rr_fingerprint q = ev_fingerprint event
                \<Longrightarrow> rr_run_id q \<noteq> ev_id event \<Longrightarrow> rr_started_at q < hi_started io"
  shows "\<exists>r t a. run_for vc (ev_fingerprint event) (ws_db st') = (200, run_view vc r (Some t))
           \<and> rr_run_id r = ev_id event \<and> rr_status r = ''concluded''
           \<and> rr_conclusion r = Some (run_conclusion io event)
           \<and> a \<in> set (ticket_actions (ws_db st')) \<and> ta_run_id a = ev_id event
           \<and> t \<in> set (tickets (ws_db st')) \<and> tk_id t = ta_ticket_id a"
proof -
  let ?claimed = "claimed_runs (ev_id event) (ev_id event) (ev_fingerprint event) (rc_name (ws_rec st))
          (int (start_offset (ws_rec st))) (hi_started io) (runs (ws_db st))"
  have ok': "wk_ok (ws_db st')" using handle_wk_ok[OF ok, of wc io event] ans by simp
  obtain off where rs: "runs (ws_db st') = update_where (\<lambda>r. rr_run_id r = ev_id event)
       (concluded_run (run_conclusion io event) off (hi_finished io)) ?claimed"
    using handle_runs[OF ok ans fresh] .
  have "ev_id event \<in> rr_run_id ` set ?claimed" by (simp add: claimed_ids)
  then obtain r0 where r0: "r0 \<in> set ?claimed" "rr_run_id r0 = ev_id event" by auto
  define r where "r = concluded_run (run_conclusion io event) off (hi_finished io) r0"
  have r: "r \<in> set (runs (ws_db st'))" "rr_run_id r = ev_id event"
    using r0 unfolding rs r_def by (auto simp: set_update_where)
  have running: "\<not> (\<exists>q \<in> set (runs (ws_db st)). rr_run_id q = ev_id event \<and> rr_status q \<noteq> ''running'')"
    using fresh run_ok_status[OF ok] by (auto simp: run_concluded_def list_ex_iff)
  have st: "rr_started_at r = hi_started io" "rr_fingerprint r = ev_fingerprint event"
    using claimed_started[OF r0 running own] by (simp_all add: r_def concluded_run_def)
  have "latest_run (ev_fingerprint event) (runs (ws_db st')) = Some r"
  proof (rule latest_run_newest[OF r(1) st(2)])
    fix q assume q: "q \<in> set (runs (ws_db st'))" "rr_fingerprint q = ev_fingerprint event"
    show "q = r \<or> rr_started_at q < rr_started_at r"
    proof (cases "rr_run_id q = ev_id event")
      case True
      then show ?thesis using distinct_map_key[of rr_run_id "runs (ws_db st')" q r] ok' q r
        by (simp add: wk_ok_def db_ok_def runs_ok_def)
    next
      case False
      then have "q \<in> set ?claimed" using q(1) by (auto simp: rs set_update_where split: if_splits)
      then have "q \<in> set (runs (ws_db st))" using claimed_row False by blast
      then show ?thesis using newest q(2) False st(1) by simp
    qed
  qed
  moreover obtain a where a: "a \<in> set (ticket_actions (ws_db st'))" "ta_run_id a = ev_id event"
    using concluded_has_action[of "ws_db st'"] handle_success[OF ok ans] ok' by (force simp: wk_ok_def)
  moreover obtain t where "t \<in> set (tickets (ws_db st'))" "tk_id t = ta_ticket_id a"
      "run_ticket r (ws_db st') = Some t"
    using run_ticket_ledger[of "ws_db st'" a r] a r(2) ok' by (auto simp: wk_ok_def)
  ultimately show ?thesis
    using r(2) by (intro exI[of _ r] exI[of _ t] exI[of _ a]) (simp add: run_for_def r_def)
qed

section \<open>What the preflight reports\<close>

lemma describe_gate:
  "describe [\<lparr>ed_type = ''value_error'', ed_loc = [], ed_msg = ''Value error, '' @ msg\<rparr>]
     = Inr (''configuration is invalid:'' @ CHR 0x0A # ''  '' @ msg)"
proof -
  have "describe_one \<lparr>ed_type = ''value_error'', ed_loc = [], ed_msg = ''Value error, '' @ msg\<rparr> = Inr msg"
    by (simp only: describe_one_def Let_def py_removeprefix_append error_detail.simps simp_thms if_True)
  then show ?thesis by (simp add: describe_def)
qed

lemma check_config_exact:
  assumes "Settings_valid s"
  shows "check_config (load_settings (construct_settings s)) =
           (if st_env s \<noteq> ''prod'' \<and> st_ports s = default_ports
               \<and> (''lab'' \<in> set (st_compose_profiles s) \<longrightarrow> st_env s = ''local'')
            then Inr (0, ''configuration valid for SMOKEJUMPER_ENV='' @ st_env s)
            else Inr (1, ''configuration invalid: configuration is invalid:'' @ CHR 0x0A # ''  ''
                         @ py_join (CHR 0x0A # ''  '') (boot_problems s)))"
proof (cases "fail_closed s = Inr s")
  case True
  then show ?thesis
    using fail_closed_ok[OF assms] by (auto simp: construct_settings_def load_settings_def check_config_def)
next
  case False
  then have "fail_closed s = Inl (ValueError (py_join (CHR 0x0A # ''  '') (boot_problems s)))"
    by (auto simp: fail_closed_def split: if_splits)
  then have "load_settings (construct_settings s) = Inl (ConfigError (''configuration is invalid:''
       @ CHR 0x0A # ''  '' @ py_join (CHR 0x0A # ''  '') (boot_problems s)))"
    using describe_gate by (simp add: construct_settings_def load_settings_def)
  then show ?thesis using False fail_closed_ok[OF assms] by (auto simp: check_config_def)
qed

section \<open>Sources without a secret\<close>

definition hook_configured :: "WebhookSettings \<Rightarrow> hook \<Rightarrow> bool" where
  "hook_configured h k =
     (case k of
        Alertmanager \<Rightarrow> wh_alertmanager_allowlist h \<noteq> []
      | Pagerduty \<Rightarrow> reveal (wh_pagerduty h) \<noteq> []
      | Grafana \<Rightarrow> reveal (wh_grafana h) \<noteq> []
      | Generic \<Rightarrow> reveal (wh_generic h) \<noteq> [])"

lemma hook_unconfigured:
  assumes "\<not> hook_configured h k"
  shows "hook_verify k (sc_secrets (app_from_env wc h)) (sc_allowlist (app_from_env wc h)) rq = Inr False"
  using assms
  by (cases k) (simp_all add: hook_configured_def hook_verify_def app_from_env_def dict_get_def verify_fails_closed)

end
