(* ===== verification/Lifecycle.thy ===== *)
theory Lifecycle
  imports App
begin

text \<open>
  The two background tasks over the life of the process: \<open>run_worker\<close> as the turns it takes
  (\<^verbatim>\<open>worker.py\<close>), and the context managers \<open>worker_task\<close>, \<open>outbox_task\<close> and the lifespan of
  \<^verbatim>\<open>app.py\<close> that starts and stops them. How a task that is cancelled while it runs comes to
  its end is an argument: it raises \<open>CancelledError\<close>, or it was about to return or to raise
  something else. A cancellation that the task's own cleanup replaces by an exception it
  then handles is not modelled.
\<close>

section \<open>The worker loop\<close>

text \<open>
  One turn: whether \<open>stop\<close> is set when the loop looks at it, what Redis hands over, and what
  happens to each message. \<open>worker_loop\<close> is the \<^verbatim>\<open>while\<close>, still running when the turns are used up.
\<close>

record turn =
  tn_stop :: bool
  tn_batch :: "message list result"
  tn_io :: "nat \<Rightarrow> handle_io \<times> py_error option"

fun worker_loop :: "worker_codec \<Rightarrow> turn list \<Rightarrow> wstate \<Rightarrow> task_state \<times> wstate" where
  "worker_loop wc [] st = (TaskRunning, st)"
| "worker_loop wc (t # ts) st =
     (if tn_stop t then (TaskExited, st)
      else case worker_turn wc (tn_io t) (tn_batch t) st of
        (TaskRunning, st') \<Rightarrow> worker_loop wc ts st'
      | (ended, st') \<Rightarrow> (ended, st'))"

definition run_worker :: "worker_codec \<Rightarrow> unit result \<Rightarrow> turn list \<Rightarrow> wstate \<Rightarrow> task_state \<times> wstate" where
  "run_worker wc reply turns st =
     (case ensure_group reply of
        Inl e \<Rightarrow> (TaskFailed e, st)
      | Inr _ \<Rightarrow> worker_loop wc turns st)"

section \<open>Starting and stopping\<close>

text \<open>\<^verbatim>\<open>task.cancel()\<close> and the end of the task: a task that is done stays as it is.\<close>

definition cancel_task :: "task_state \<Rightarrow> task_state \<Rightarrow> task_state" where
  "cancel_task ending task = (if task = TaskRunning then ending else task)"

text \<open>
  Leaving \<open>worker_task\<close> or \<open>outbox_task\<close> with the exception in flight, if any:
  \<^verbatim>\<open>suppress(CancelledError)\<close> around \<^verbatim>\<open>await task\<close> swallows a cancellation and nothing else.
\<close>

definition leave_task :: "task_state \<Rightarrow> task_state \<Rightarrow> py_error option \<Rightarrow> task_state \<times> py_error option" where
  "leave_task ending task exc =
     (let task' = cancel_task ending task in
      (task', case task' of TaskFailed e \<Rightarrow> Some e | _ \<Rightarrow> exc))"

datatype close_step = Dispose | Aclose | StopWorker | StopOutbox

record lifespan_io =
  li_body :: "py_error option"
  li_dispose :: "unit result"
  li_aclose :: "unit result"
  li_worker_end :: task_state
  li_outbox_end :: task_state

text \<open>The \<^verbatim>\<open>finally\<close> of the lifespan: the connections are closed while both tasks still run.\<close>

definition close_clients :: "lifespan_io \<Rightarrow> close_step list \<times> py_error option" where
  "close_clients io =
     (case li_dispose io of
        Inl e \<Rightarrow> ([Dispose], Some e)
      | Inr _ \<Rightarrow> ([Dispose, Aclose], case li_aclose io of Inl e \<Rightarrow> Some e | Inr _ \<Rightarrow> li_body io))"

text \<open>What the lifespan leaves behind: the steps in order, both tasks, and the exception that leaves it.\<close>

record shutdown =
  sh_steps :: "close_step list"
  sh_worker :: task_state
  sh_outbox :: task_state
  sh_raised :: "py_error option"

definition lifespan_exit :: "lifespan_io \<Rightarrow> task_state \<Rightarrow> task_state \<Rightarrow> shutdown" where
  "lifespan_exit io worker outbox =
     (let (steps, exc) = close_clients io;
          (worker', exc') = leave_task (li_worker_end io) worker exc;
          (outbox', exc'') = leave_task (li_outbox_end io) outbox exc'
      in \<lparr>sh_steps = steps @ [StopWorker, StopOutbox], sh_worker = worker', sh_outbox = outbox',
          sh_raised = exc''\<rparr>)"

section \<open>What ends the worker\<close>

lemma process_raises:
  assumes "process_message wc io xack m st = (Inl e, st')"
  shows "xack = Some e"
  using assms by (auto simp: process_message_def Let_def split: option.splits sum.splits prod.splits)

lemma batch_raises:
  "process_batch wc io ms st = (Inl e, st') \<Longrightarrow> \<exists>k < length ms. snd (io k) = Some e"
proof (induction ms arbitrary: io st)
  case (Cons m ms)
  show ?case
  proof (cases "process_message wc (fst (io 0)) (snd (io 0)) m st")
    case (Pair r st1)
    show ?thesis
    proof (cases r)
      case (Inl e')
      then show ?thesis using Cons.prems Pair process_raises[of wc "fst (io 0)" "snd (io 0)" m st e'] by auto
    next
      case (Inr a)
      then have "process_batch wc (\<lambda>k. io (Suc k)) ms st1 = (Inl e, st')"
        using Cons.prems Pair by (auto simp: st_bind_def prod_eq_iff split: prod.splits sum.splits)
      from Cons.IH[OF this] show ?thesis by auto
    qed
  qed
qed simp

lemma turn_state: "fst (worker_turn wc io batch st) = TaskRunning \<or> (\<exists>e. fst (worker_turn wc io batch st) = TaskFailed e)"
  by (auto simp: worker_turn_def split: sum.splits prod.splits)

lemma turn_fails:
  assumes "fst (worker_turn wc io batch st) = TaskFailed e"
  shows "\<exists>ms. batch = Inr ms \<and> (\<exists>k < length ms. snd (io k) = Some e)"
  using assms batch_raises[of wc io _ st e] by (auto simp: worker_turn_def split: sum.splits prod.splits)

lemma loop_states: "fst (worker_loop wc ts st) \<noteq> TaskCancelled"
proof (induction ts arbitrary: st)
  case (Cons t ts)
  then show ?case using turn_state[of wc "tn_io t" "tn_batch t" st]
    by (cases "worker_turn wc (tn_io t) (tn_batch t) st") auto
qed simp

lemma loop_fails:
  "fst (worker_loop wc ts st) = TaskFailed e
     \<Longrightarrow> \<exists>t \<in> set ts. \<exists>ms. tn_batch t = Inr ms \<and> (\<exists>k < length ms. snd (tn_io t k) = Some e)"
proof (induction ts arbitrary: st)
  case (Cons t ts)
  show ?case
  proof (cases "worker_turn wc (tn_io t) (tn_batch t) st")
    case (Pair s st')
    then show ?thesis
      using Cons.prems Cons.IH[of st'] turn_state[of wc "tn_io t" "tn_batch t" st]
        turn_fails[of wc "tn_io t" "tn_batch t" st e]
      by (auto split: if_splits)
  qed
qed simp

lemma loop_exits: "fst (worker_loop wc ts st) = TaskExited \<Longrightarrow> \<exists>t \<in> set ts. tn_stop t"
proof (induction ts arbitrary: st)
  case (Cons t ts)
  show ?case
  proof (cases "worker_turn wc (tn_io t) (tn_batch t) st")
    case (Pair s st')
    then show ?thesis
      using Cons.prems Cons.IH[of st'] turn_state[of wc "tn_io t" "tn_batch t" st] by (auto split: if_splits)
  qed
qed simp

text \<open>The worker dies of \<^verbatim>\<open>XGROUP CREATE\<close> or of an \<^verbatim>\<open>XACK\<close>, and of nothing else.\<close>

lemma run_worker_fails:
  assumes "fst (run_worker wc reply ts st) = TaskFailed e"
  shows "ensure_group reply = Inl e
         \<or> (\<exists>t \<in> set ts. \<exists>ms. tn_batch t = Inr ms \<and> (\<exists>k < length ms. snd (tn_io t k) = Some e))"
  using assms loop_fails[of wc ts st e] by (auto simp: run_worker_def split: sum.splits)

lemma run_worker_survives:
  assumes "ensure_group reply = Inr ()" and "\<And>t k. t \<in> set ts \<Longrightarrow> snd (tn_io t k) = None \<and> \<not> tn_stop t"
  shows "fst (run_worker wc reply ts st) = TaskRunning"
proof -
  have "fst (worker_loop wc ts st) \<noteq> TaskExited" using loop_exits[of wc ts st] assms(2) by blast
  moreover have "fst (worker_loop wc ts st) \<noteq> TaskFailed e" for e
    using loop_fails[of wc ts st e] assms(2) by (metis option.distinct(1))
  ultimately show ?thesis
    using loop_states[of wc ts st] assms(1)
    by (cases "fst (worker_loop wc ts st)") (auto simp: run_worker_def)
qed

section \<open>The loops are paths of the process\<close>

lemma worker_lens [simp]:
  "worker_view (worker_put st sy) = st" "worker_put st (worker_put st' sy) = worker_put st sy"
  "worker_put (worker_view sy) sy = sy"
  by (simp_all add: worker_view_def worker_put_def)

lemma batch_reachable:
  "reachable cfg stamp pid sy \<Longrightarrow>
     reachable cfg stamp pid (worker_put (snd (process_batch (sc_codec cfg) io ms (worker_view sy))) sy)"
proof (induction ms arbitrary: io sy)
  case (Cons m ms)
  let ?r = "process_message (sc_codec cfg) (fst (io 0)) (snd (io 0)) m (worker_view sy)"
  have r: "reachable cfg stamp pid (worker_put (snd ?r) sy)"
    by (rule reachable.more[OF Cons.prems step.work])
  show ?case
  proof (cases "fst ?r")
    case (Inl e)
    then show ?thesis using r by (simp add: st_bind_def split: prod.splits)
  next
    case (Inr a)
    have "snd (st_bind (process_batch (sc_codec cfg) (\<lambda>k. io (Suc k)) ms (snd ?r)) (\<lambda>as st. (Inr (a # as), st)))
        = snd (process_batch (sc_codec cfg) (\<lambda>k. io (Suc k)) ms (snd ?r))"
      by (simp add: st_bind_def split: prod.splits sum.splits)
    then show ?thesis
      using Cons.IH[OF r, of "\<lambda>k. io (Suc k)"] Inr by (simp add: st_bind_def split: prod.splits sum.splits)
  qed
qed simp

lemma turn_reachable:
  assumes "reachable cfg stamp pid sy"
  shows "reachable cfg stamp pid (worker_put (snd (worker_turn (sc_codec cfg) io batch (worker_view sy))) sy)"
proof (cases batch)
  case (Inr ms)
  then have "snd (worker_turn (sc_codec cfg) io batch (worker_view sy))
      = snd (process_batch (sc_codec cfg) io ms (worker_view sy))"
    by (simp add: worker_turn_def split: prod.splits sum.splits)
  then show ?thesis using batch_reachable[OF assms] by simp
qed (use assms in \<open>simp add: worker_turn_def\<close>)

lemma loop_reachable:
  "reachable cfg stamp pid sy \<Longrightarrow>
     reachable cfg stamp pid (worker_put (snd (worker_loop (sc_codec cfg) ts (worker_view sy))) sy)"
proof (induction ts arbitrary: sy)
  case (Cons t ts)
  let ?r = "worker_turn (sc_codec cfg) (tn_io t) (tn_batch t) (worker_view sy)"
  have r: "reachable cfg stamp pid (worker_put (snd ?r) sy)" by (rule turn_reachable[OF Cons.prems])
  show ?case
    using r Cons.IH[OF r] Cons.prems by (cases ?r; cases "fst ?r") auto
qed simp

lemma run_worker_reachable:
  assumes "reachable cfg stamp pid sy"
  shows "reachable cfg stamp pid (worker_put (snd (run_worker (sc_codec cfg) reply ts (worker_view sy))) sy)"
  using loop_reachable[OF assms] assms by (simp add: run_worker_def split: sum.splits)

lemma outbox_reachable:
  "reachable cfg stamp pid sy \<Longrightarrow>
     reachable cfg stamp pid (sy\<lparr>sy_world := outbox_turns (wc_codec (sc_codec cfg)) io n (sy_world sy)\<rparr>)"
proof (induction n arbitrary: io sy)
  case (Suc n)
  let ?w = "snd (outbox_turn (wc_codec (sc_codec cfg)) (io 0) (sy_world sy))"
  have "reachable cfg stamp pid (sy\<lparr>sy_world := ?w\<rparr>)" by (rule reachable.more[OF Suc.prems step.outbox])
  from Suc.IH[OF this, of "\<lambda>k. io (Suc k)"] show ?case by simp
qed simp

section \<open>Shutdown\<close>

definition ended :: "task_state \<Rightarrow> bool" where
  "ended t \<longleftrightarrow> t \<noteq> TaskRunning"

fun failure :: "task_state \<Rightarrow> py_error option" where
  "failure (TaskFailed e) = Some e"
| "failure _ = None"

definition first_error :: "py_error option list \<Rightarrow> py_error option" where
  "first_error es = (case filter (\<lambda>e. e \<noteq> None) es of [] \<Rightarrow> None | e # _ \<Rightarrow> e)"

lemma leave_task_simps:
  "fst (leave_task ending task exc) = cancel_task ending task"
  "snd (leave_task ending task exc) = (case failure (cancel_task ending task) of None \<Rightarrow> exc | Some e \<Rightarrow> Some e)"
  by (cases "cancel_task ending task"; simp add: leave_task_def Let_def)+

lemma cancel_ended: "ended ending \<Longrightarrow> ended (cancel_task ending task)"
  by (simp add: cancel_task_def ended_def)

lemma cancel_done: "ended task \<Longrightarrow> cancel_task ending task = task"
  by (simp add: cancel_task_def ended_def)

lemma lifespan_tasks:
  "sh_worker (lifespan_exit io worker outbox) = cancel_task (li_worker_end io) worker"
  "sh_outbox (lifespan_exit io worker outbox) = cancel_task (li_outbox_end io) outbox"
  "sh_steps (lifespan_exit io worker outbox) = fst (close_clients io) @ [StopWorker, StopOutbox]"
  by (simp_all add: lifespan_exit_def leave_task_simps Let_def split: prod.splits)
    (simp_all add: leave_task_def Let_def)

text \<open>Of the exceptions on the way out, the last one raised is the one that leaves the lifespan.\<close>

lemma lifespan_raised:
  "sh_raised (lifespan_exit io worker outbox) =
     first_error [failure (cancel_task (li_outbox_end io) outbox), failure (cancel_task (li_worker_end io) worker),
       snd (close_clients io)]"
proof -
  have "sh_raised (lifespan_exit io worker outbox)
      = snd (leave_task (li_outbox_end io) outbox (snd (leave_task (li_worker_end io) worker (snd (close_clients io)))))"
    by (simp add: lifespan_exit_def Let_def split: prod.splits)
  then show ?thesis by (auto simp: leave_task_simps first_error_def split: option.splits)
qed

end
