(* ===== verification/Ports.thy ===== *)
theory Ports
  imports Actions
begin

text \<open>
  The port substitutes, \<^verbatim>\<open>src/smokejumper/ports/stubs.py\<close> and \<^verbatim>\<open>ports/tenancy.py\<close>, each
  with its state as a record. The interface \<open>ticket_tracker\<close> is what the create-or-update
  rule of \<^verbatim>\<open>ports/ticketing.py\<close> needs of a tracker; it is interpreted by the in-memory
  fixture and by the Postgres tickets that \<^verbatim>\<open>actions/service.py\<close> writes.
\<close>

section \<open>The substitutes\<close>

definition allow_all_verify :: "string \<Rightarrow> (string \<times> string) list \<Rightarrow> byte list \<Rightarrow> bool" where
  "allow_all_verify src hs body = True"

definition allow_all_mint :: "string \<Rightarrow> string \<Rightarrow> string" where
  "allow_all_mint token_urlsafe binding = token_urlsafe"

definition allow_all_consume :: "string \<Rightarrow> string \<Rightarrow> bool" where
  "allow_all_consume token binding = True"

definition noop_identity :: string where
  "noop_identity = ''noop''"

definition single_tenant_id :: string where
  "single_tenant_id = ''default''"

record recorded_model =
  rm_completions :: "string list"
  rm_dimension :: int

definition model_complete :: "string \<Rightarrow> recorded_model \<Rightarrow> string result \<times> recorded_model" where
  "model_complete role m =
     (case rm_completions m of
        [] \<Rightarrow> (Inl (LookupError (''no recorded completion left for role '' @ repr_str role)), m)
      | c # cs \<Rightarrow> (Inr c, m\<lparr>rm_completions := cs\<rparr>))"

definition model_embed :: "string list \<Rightarrow> recorded_model \<Rightarrow> rat list list" where
  "model_embed texts m = map (\<lambda>_. replicate (nat (rm_dimension m)) 0) texts"

record fixture_platform =
  fxp_assets :: "json list"
  fxp_written :: "json list"

definition query_assets :: "json \<Rightarrow> fixture_platform \<Rightarrow> json list" where
  "query_assets query p = fxp_assets p"

definition write_finding :: "json \<Rightarrow> fixture_platform \<Rightarrow> fixture_platform" where
  "write_finding f p = p\<lparr>fxp_written := fxp_written p @ [f]\<rparr>"

record sent_message =
  sm_channel_id :: string
  sm_text :: string
  sm_thread_ts :: "string option"

definition channel_listen :: "sent_message list \<Rightarrow> json list" where
  "channel_listen sent = []"

definition channel_send ::
  "string \<Rightarrow> string \<Rightarrow> string option \<Rightarrow> sent_message list \<Rightarrow> string \<times> sent_message list" where
  "channel_send channel_id txt thread_ts sent =
     (show_nat (length sent) @ ''.000000'',
      sent @ [\<lparr>sm_channel_id = channel_id, sm_text = txt, sm_thread_ts = thread_ts\<rparr>])"

text \<open>\<^verbatim>\<open>episodes[:limit]\<close>: a negative limit counts from the end.\<close>

definition search_episodes :: "int \<Rightarrow> json list \<Rightarrow> json list" where
  "search_episodes limit episodes =
     (if 0 \<le> limit then take (nat limit) episodes
      else take (length episodes - nat (- limit)) episodes)"

definition write_episode :: "json \<Rightarrow> json list \<Rightarrow> json list" where
  "write_episode e episodes = episodes @ [e]"

section \<open>The fixture tracker\<close>

record FixtureTicket =
  fxt_id :: string
  fxt_closed :: bool
  fxt_updates :: "TicketUpdate list"

text \<open>The dict in insertion order; assigning to a present key keeps its position.\<close>

type_synonym fixture_tracker = "(string \<times> FixtureTicket) list"

definition ticket_ref :: "FixtureTicket \<Rightarrow> TicketRef" where
  "ticket_ref t = \<lparr>schema_version = 1, tkr_provider = LINEAR, tkr_external_id = fxt_id t, tkr_url = None\<rparr>"

definition find_open_by_fingerprint :: "string \<Rightarrow> fixture_tracker \<Rightarrow> TicketRef option" where
  "find_open_by_fingerprint fp d =
     (case map_of d fp of
        None \<Rightarrow> None
      | Some t \<Rightarrow> if fxt_closed t then None else Some (ticket_ref t))"

definition fixture_create :: "TicketDraft \<Rightarrow> fixture_tracker \<Rightarrow> TicketRef \<times> fixture_tracker" where
  "fixture_create draft d =
     (let t = \<lparr>fxt_id = ''FIXTURE-'' @ show_nat (length d + 1), fxt_closed = False, fxt_updates = []\<rparr>
      in (ticket_ref t, dict_set (tkd_fingerprint draft) t d))"

fun by_ref :: "TicketRef \<Rightarrow> (FixtureTicket \<Rightarrow> FixtureTicket) \<Rightarrow> fixture_tracker \<Rightarrow> fixture_tracker result" where
  "by_ref ref f [] = Inl (KeyError (''unknown ticket '' @ repr_str (tkr_external_id ref)))"
| "by_ref ref f ((fp, t) # d) =
     (if fxt_id t = tkr_external_id ref then Inr ((fp, f t) # d)
      else res_bind (by_ref ref f d) (\<lambda>d'. Inr ((fp, t) # d')))"

definition fixture_update :: "TicketRef \<Rightarrow> TicketUpdate \<Rightarrow> fixture_tracker \<Rightarrow> fixture_tracker result" where
  "fixture_update ref u d = by_ref ref (\<lambda>t. t\<lparr>fxt_updates := fxt_updates t @ [u]\<rparr>) d"

definition fixture_close :: "TicketRef \<Rightarrow> string \<Rightarrow> fixture_tracker \<Rightarrow> fixture_tracker result" where
  "fixture_close ref resolution d = by_ref ref (\<lambda>t. t\<lparr>fxt_closed := True\<rparr>) d"

section \<open>Create or update\<close>

text \<open>
  \<^verbatim>\<open>TicketingPort\<close> promises exactly one ticket per fingerprint, created once and then updated.
  A client files an incident with \<open>fil\<close>: it answers whether it created the ticket. What
  a tracker must promise: it creates exactly when no ticket of the fingerprint is open,
  afterwards one is open, an open ticket stays the same one, and no other fingerprint is
  touched.
\<close>

fun file_all ::
  "('x \<Rightarrow> 's \<Rightarrow> (bool \<times> 's) result) \<Rightarrow> 'x list \<Rightarrow> 's \<Rightarrow> (bool list \<times> 's) result" where
  "file_all fil [] s = Inr ([], s)"
| "file_all fil (x # xs) s =
     res_bind (fil x s) (\<lambda>(c, s1). res_bind (file_all fil xs s1) (\<lambda>(cs, s2). Inr (c # cs, s2)))"

definition creations :: "('x \<Rightarrow> string) \<Rightarrow> 'x list \<Rightarrow> bool list \<Rightarrow> string \<Rightarrow> nat" where
  "creations key xs cs fp = length (filter (\<lambda>(x, c). key x = fp \<and> c) (zip xs cs))"

lemma creations_simps [simp]:
  "creations key [] cs fp = 0"
  "creations key (x # xs) (c # cs) fp = (if key x = fp \<and> c then 1 else 0) + creations key xs cs fp"
  by (simp_all add: creations_def)

locale ticket_tracker =
  fixes key :: "'x \<Rightarrow> string"
    and open_ref :: "string \<Rightarrow> 's \<Rightarrow> 'r option"
    and fil :: "'x \<Rightarrow> 's \<Rightarrow> (bool \<times> 's) result"
    and invar :: "'s \<Rightarrow> bool"
  assumes file_invar: "invar s \<Longrightarrow> fil x s = Inr (c, s') \<Longrightarrow> invar s'"
    and file_created: "invar s \<Longrightarrow> fil x s = Inr (c, s') \<Longrightarrow> c \<longleftrightarrow> open_ref (key x) s = None"
    and file_opens: "invar s \<Longrightarrow> fil x s = Inr (c, s') \<Longrightarrow> open_ref (key x) s' \<noteq> None"
    and file_keeps: "invar s \<Longrightarrow> fil x s = Inr (c, s') \<Longrightarrow> open_ref fp s = Some r \<Longrightarrow> open_ref fp s' = Some r"
    and file_other: "invar s \<Longrightarrow> fil x s = Inr (c, s') \<Longrightarrow> fp \<noteq> key x \<Longrightarrow> open_ref fp s' = open_ref fp s"
begin

lemma none_created:
  assumes "invar s" and "file_all fil xs s = Inr (cs, s')" and "open_ref fp s = Some r"
  shows "creations key xs cs fp = 0 \<and> open_ref fp s' = Some r"
  using assms
proof (induction xs arbitrary: s cs)
  case (Cons x xs)
  then obtain c s1 ds where 1: "fil x s = Inr (c, s1)" "file_all fil xs s1 = Inr (ds, s')" "cs = c # ds"
    by (auto split: prod.splits)
  have "open_ref fp s1 = Some r" by (rule file_keeps[OF Cons.prems(1) 1(1) Cons.prems(3)])
  then have "creations key xs ds fp = 0 \<and> open_ref fp s' = Some r"
    using Cons.IH[OF file_invar[OF Cons.prems(1) 1(1)] 1(2)] by blast
  moreover have "\<not> (key x = fp \<and> c)"
    using file_created[OF Cons.prems(1) 1(1)] Cons.prems(3) by auto
  ultimately show ?case using 1(3) by simp
qed simp

lemma created_once:
  assumes "invar s" and "file_all fil xs s = Inr (cs, s')"
  shows "creations key xs cs fp = (if fp \<in> key ` set xs \<and> open_ref fp s = None then 1 else 0)"
  using assms
proof (induction xs arbitrary: s cs)
  case (Cons x xs)
  then obtain c s1 ds where 1: "fil x s = Inr (c, s1)" "file_all fil xs s1 = Inr (ds, s')" "cs = c # ds"
    by (auto split: prod.splits)
  note inv1 = file_invar[OF Cons.prems(1) 1(1)]
  show ?case
  proof (cases "key x = fp")
    case True
    then obtain r where "open_ref fp s1 = Some r" using file_opens[OF Cons.prems(1) 1(1)] by auto
    then have "creations key xs ds fp = 0" using none_created[OF inv1 1(2)] by blast
    then show ?thesis using True 1(3) file_created[OF Cons.prems(1) 1(1)] by simp
  next
    case False
    then have "open_ref fp s1 = open_ref fp s" by (intro file_other[OF Cons.prems(1) 1(1)]) simp
    then show ?thesis using False 1(3) Cons.IH[OF inv1 1(2)] by auto
  qed
qed simp

end

subsection \<open>The fixture tracker\<close>

text \<open>A client of the port: look the fingerprint up, then create or update.\<close>

definition file_fixture ::
  "TicketDraft \<times> TicketUpdate \<Rightarrow> fixture_tracker \<Rightarrow> (bool \<times> fixture_tracker) result" where
  "file_fixture x d =
     (case find_open_by_fingerprint (tkd_fingerprint (fst x)) d of
        None \<Rightarrow> Inr (True, snd (fixture_create (fst x) d))
      | Some ref \<Rightarrow> res_bind (fixture_update ref (snd x) d) (\<lambda>d'. Inr (False, d')))"

text \<open>While nothing is closed the identifiers number the tickets in order.\<close>

definition fixture_id :: "nat \<Rightarrow> string" where
  "fixture_id n = ''FIXTURE-'' @ show_nat n"

definition fixture_ok :: "fixture_tracker \<Rightarrow> bool" where
  "fixture_ok d \<longleftrightarrow>
     distinct (map fst d) \<and> list_all (\<lambda>p. \<not> fxt_closed (snd p)) d
     \<and> map (\<lambda>p. fxt_id (snd p)) d = map (\<lambda>i. fixture_id (Suc i)) [0..<length d]"

lemma fixture_id_inj: "fixture_id m = fixture_id n \<longleftrightarrow> m = n"
  by (simp add: fixture_id_def show_nat_inj)

lemma fixture_ids_distinct:
  assumes "fixture_ok d"
  shows "distinct (map (\<lambda>p. fxt_id (snd p)) d)"
proof -
  have "map (\<lambda>p. fxt_id (snd p)) d = map (\<lambda>i. fixture_id (Suc i)) [0..<length d]"
    using assms by (simp add: fixture_ok_def)
  then show ?thesis by (simp add: distinct_map inj_on_def fixture_id_inj)
qed

lemma fixture_find_None:
  assumes "fixture_ok d"
  shows "find_open_by_fingerprint fp d = None \<longleftrightarrow> fp \<notin> fst ` set d"
proof (cases "map_of d fp")
  case None
  moreover from this have "fp \<notin> fst ` set d" by (simp add: map_of_eq_None_iff)
  ultimately show ?thesis by (simp add: find_open_by_fingerprint_def)
next
  case (Some t)
  then have "(fp, t) \<in> set d" by (rule map_of_SomeD)
  moreover from this have "\<not> fxt_closed t" using assms by (auto simp: fixture_ok_def list_all_iff)
  ultimately show ?thesis using Some by (force simp: find_open_by_fingerprint_def)
qed

lemma fixture_create_new:
  assumes "fixture_ok d" and "tkd_fingerprint draft \<notin> fst ` set d"
  shows "snd (fixture_create draft d)
           = d @ [(tkd_fingerprint draft,
                   \<lparr>fxt_id = fixture_id (Suc (length d)), fxt_closed = False, fxt_updates = []\<rparr>)]"
    and "fixture_ok (snd (fixture_create draft d))"
  using assms by (auto simp: fixture_create_def dict_set_new fixture_ok_def fixture_id_def Let_def)

text \<open>With distinct identifiers a reference reaches exactly the ticket it was made from.\<close>

lemma by_ref_own:
  assumes "distinct (map (\<lambda>p. fxt_id (snd p)) d)" and "(fp, t) \<in> set d"
    and "tkr_external_id ref = fxt_id t"
  shows "by_ref ref f d = Inr (map (\<lambda>p. if fxt_id (snd p) = fxt_id t then (fst p, f (snd p)) else p) d)"
  using assms
proof (induction d)
  case (Cons p d)
  show ?case
  proof (cases "fxt_id (snd p) = fxt_id t")
    case True
    then have "\<forall>q \<in> set d. fxt_id (snd q) \<noteq> fxt_id t" using Cons.prems(1) by force
    then have "map (\<lambda>p. if fxt_id (snd p) = fxt_id t then (fst p, f (snd p)) else p) d = d"
      by (intro map_idI) auto
    then show ?thesis using True Cons.prems(3) by (cases p) simp
  next
    case False
    then have "(fp, t) \<in> set d" using Cons.prems(2) by auto
    then show ?thesis using False Cons by (cases p) auto
  qed
qed simp

lemma fixture_update_own:
  assumes "fixture_ok d" and "find_open_by_fingerprint fp d = Some ref"
  shows "\<exists>d'. fixture_update ref u d = Inr d' \<and> fixture_ok d'
           \<and> (\<forall>fp'. find_open_by_fingerprint fp' d' = find_open_by_fingerprint fp' d)
           \<and> (\<exists>t t'. map_of d fp = Some t \<and> map_of d' fp = Some t'
                \<and> fxt_updates t' = fxt_updates t @ [u])"
proof -
  define g :: "string \<Rightarrow> FixtureTicket \<Rightarrow> FixtureTicket" where "g = (\<lambda>i t. if fxt_id t = i then t\<lparr>fxt_updates := fxt_updates t @ [u]\<rparr> else t)"
  obtain t where t: "map_of d fp = Some t" "ref = ticket_ref t"
    using assms(2) by (auto simp: find_open_by_fingerprint_def split: option.splits if_splits)
  have upd: "fixture_update ref u d = Inr (map (\<lambda>(k, x). (k, g (fxt_id t) x)) d)"
    unfolding fixture_update_def
    using by_ref_own[OF fixture_ids_distinct[OF assms(1)] map_of_SomeD[OF t(1)], of ref]
    by (auto simp: t(2) ticket_ref_def g_def split_def intro!: map_cong)
  have g: "fxt_id (g i x) = fxt_id x" "fxt_closed (g i x) = fxt_closed x" for i x
    by (simp_all add: g_def)
  have look: "map_of (map (\<lambda>(k, x). (k, g (fxt_id t) x)) d) k = map_option (g (fxt_id t)) (map_of d k)" for k
    by (simp add: map_of_map)
  have "find_open_by_fingerprint fp' (map (\<lambda>(k, x). (k, g (fxt_id t) x)) d) = find_open_by_fingerprint fp' d" for fp'
    by (simp add: find_open_by_fingerprint_def look g ticket_ref_def split: option.splits)
  moreover have "fixture_ok (map (\<lambda>(k, x). (k, g (fxt_id t) x)) d)"
    using assms(1) by (simp add: fixture_ok_def list_all_iff split_def g comp_def)
  moreover have "fxt_updates (g (fxt_id t) t) = fxt_updates t @ [u]" by (simp add: g_def)
  ultimately show ?thesis using upd t(1) look by (intro exI conjI) auto
qed

lemma file_fixture_laws:
  assumes "fixture_ok d" and "file_fixture x d = Inr (c, d')"
  shows "fixture_ok d'" and "c \<longleftrightarrow> find_open_by_fingerprint (tkd_fingerprint (fst x)) d = None"
    and "find_open_by_fingerprint (tkd_fingerprint (fst x)) d' \<noteq> None"
    and "find_open_by_fingerprint fp d = Some r \<Longrightarrow> find_open_by_fingerprint fp d' = Some r"
    and "fp \<noteq> tkd_fingerprint (fst x) \<Longrightarrow> find_open_by_fingerprint fp d' = find_open_by_fingerprint fp d"
proof -
  let ?fp = "tkd_fingerprint (fst x)"
  consider (none) "find_open_by_fingerprint ?fp d = None" | (some) ref where "find_open_by_fingerprint ?fp d = Some ref"
    by (cases "find_open_by_fingerprint ?fp d") auto
  then have "fixture_ok d' \<and> (c \<longleftrightarrow> find_open_by_fingerprint ?fp d = None)
      \<and> find_open_by_fingerprint ?fp d' \<noteq> None
      \<and> (\<forall>fp. fp \<noteq> ?fp \<or> find_open_by_fingerprint fp d \<noteq> None \<longrightarrow>
            find_open_by_fingerprint fp d' = find_open_by_fingerprint fp d)"
  proof cases
    case none
    then have new: "?fp \<notin> fst ` set d" using fixture_find_None[OF assms(1)] by blast
    have d': "c" "d' = snd (fixture_create (fst x) d)" using assms(2) none by (auto simp: file_fixture_def)
    have "map_of d' fp = map_of d fp" if "fp \<noteq> ?fp" for fp
      using that by (simp add: d'(2) fixture_create_new(1)[OF assms(1) new] map_add_def split: option.splits)
    then have "find_open_by_fingerprint fp d' = find_open_by_fingerprint fp d" if "fp \<noteq> ?fp" for fp
      using that by (simp add: find_open_by_fingerprint_def)
    moreover have "?fp \<in> fst ` set d'" by (simp add: d'(2) fixture_create_new(1)[OF assms(1) new])
    ultimately show ?thesis
      using none d' fixture_create_new(2)[OF assms(1) new] fixture_find_None by metis
  next
    case (some ref)
    then show ?thesis
      using assms(2) fixture_update_own[OF assms(1) some, of "snd x"] by (auto simp: file_fixture_def)
  qed
  then show "fixture_ok d'" and "c \<longleftrightarrow> find_open_by_fingerprint ?fp d = None"
    and "find_open_by_fingerprint ?fp d' \<noteq> None"
    and "find_open_by_fingerprint fp d = Some r \<Longrightarrow> find_open_by_fingerprint fp d' = Some r"
    and "fp \<noteq> ?fp \<Longrightarrow> find_open_by_fingerprint fp d' = find_open_by_fingerprint fp d"
    by (simp_all, metis option.distinct(1))
qed

interpretation fx: ticket_tracker "\<lambda>x. tkd_fingerprint (fst x)" find_open_by_fingerprint file_fixture fixture_ok
  by unfold_locales
    (erule (1) file_fixture_laws(1), erule (1) file_fixture_laws(2), erule (1) file_fixture_laws(3),
     erule (2) file_fixture_laws(4), erule (2) file_fixture_laws(5))

subsection \<open>The Postgres tickets\<close>

text \<open>The two statements of \<open>apply\<close> on the \<^verbatim>\<open>tickets\<close> table: insert, else count an update.\<close>

definition pg_open :: "string \<Rightarrow> db \<Rightarrow> uuid option" where
  "pg_open fp s = map_option tk_id (find (open_ticket fp) (tickets s))"

fun file_pg :: "uuid \<times> int \<times> string \<Rightarrow> db \<Rightarrow> (bool \<times> db) result" where
  "file_pg (i, now, fp) s =
     res_bind (insert_ticket (new_ticket i now fp) s) (\<lambda>(inserted, s1).
       case inserted of
         Some t \<Rightarrow> Inr (True, s1)
       | None \<Rightarrow> res_bind (count_update fp s1) (\<lambda>(_, s2). Inr (False, s2)))"

lemma find_None_filter: "find p xs = None \<longleftrightarrow> filter p xs = []"
  by (auto simp: find_None_iff filter_empty_conv)

lemma find_update_where:
  assumes "\<And>x. p (f x) = p x" and "\<And>x. g (f x) = g x"
  shows "map_option g (find p (update_where q f xs)) = map_option g (find p xs)"
  by (induction xs) (auto simp: assms)

lemma file_pg_cases:
  assumes "file_pg (i, now, fp) s = Inr (c, s')"
  shows "(c \<and> filter (open_ticket fp) (tickets s) = [] \<and> i \<notin> tk_id ` set (tickets s)
            \<and> s' = s\<lparr>tickets := tickets s @ [new_ticket i now fp]\<rparr>)
         \<or> (\<not> c \<and> filter (open_ticket fp) (tickets s) \<noteq> []
            \<and> s' = s\<lparr>tickets := update_where (open_ticket fp) bump (tickets s)\<rparr>)"
  using assms
  by (auto simp: insert_ticket_def count_update_def new_ticket_def bump_def[abs_def] Let_def
        list_ex_iff filter_empty_conv split: if_splits)

lemma open_ticket_new: "open_ticket fp' (new_ticket i now fp) \<longleftrightarrow> fp' = fp"
  by (auto simp: open_ticket_def new_ticket_def)

lemma find_snoc: "find p (xs @ [x]) = (case find p xs of None \<Rightarrow> if p x then Some x else None | Some y \<Rightarrow> Some y)"
  by (induction xs) auto

lemma file_pg_laws:
  assumes "tickets_ok (tickets s)" and "file_pg x s = Inr (c, s')"
  shows "tickets_ok (tickets s')" and "c \<longleftrightarrow> pg_open (snd (snd x)) s = None"
    and "pg_open (snd (snd x)) s' \<noteq> None"
    and "pg_open fp s = Some r \<Longrightarrow> pg_open fp s' = Some r"
    and "fp \<noteq> snd (snd x) \<Longrightarrow> pg_open fp s' = pg_open fp s"
proof -
  obtain i now f where x: "x = (i, now, f)" by (cases x) auto
  have upd: "pg_open fp' (s\<lparr>tickets := update_where (open_ticket f) bump (tickets s)\<rparr>) = pg_open fp' s" for fp'
    by (simp add: pg_open_def find_update_where)
  have upd_ok: "tickets_ok (update_where (open_ticket f) bump (tickets s))"
    using assms(1) by (simp add: tickets_ok_def map_update_where at_most_one_update_where)
  have new: "pg_open fp' (s\<lparr>tickets := tickets s @ [new_ticket i now f]\<rparr>)
      = (case pg_open fp' s of None \<Rightarrow> if fp' = f then Some i else None | Some r \<Rightarrow> Some r)" for fp'
    by (simp add: pg_open_def find_snoc open_ticket_new split: option.splits) (simp add: new_ticket_def)
  have new_ok: "tickets_ok (tickets s @ [new_ticket i now f])"
    if "filter (open_ticket f) (tickets s) = []" and "i \<notin> tk_id ` set (tickets s)"
    using that assms(1)
    by (auto simp: tickets_ok_def at_most_one_append1 open_ticket_new) (auto simp: new_ticket_def)
  have none: "pg_open f s = None \<longleftrightarrow> filter (open_ticket f) (tickets s) = []"
    by (simp add: pg_open_def find_None_filter)
  note c = file_pg_cases[OF assms(2)[unfolded x]]
  show "tickets_ok (tickets s')" using c new_ok upd_ok by auto
  show "c \<longleftrightarrow> pg_open (snd (snd x)) s = None" using c none by (auto simp: x)
  show "pg_open (snd (snd x)) s' \<noteq> None" using c none new upd by (auto simp: x split: option.splits)
  show "pg_open fp s = Some r \<Longrightarrow> pg_open fp s' = Some r" using c new upd by auto
  show "fp \<noteq> snd (snd x) \<Longrightarrow> pg_open fp s' = pg_open fp s"
    using c new upd by (auto simp: x split: option.splits)
qed

interpretation pt: ticket_tracker "\<lambda>x. snd (snd x)" pg_open file_pg "\<lambda>s. tickets_ok (tickets s)"
  by unfold_locales
    (erule (1) file_pg_laws(1), erule (1) file_pg_laws(2), erule (1) file_pg_laws(3),
     erule (2) file_pg_laws(4), erule (2) file_pg_laws(5))

text \<open>On a run that has no ledger row, \<open>apply\<close> files the ticket and then records the write.\<close>

lemma apply_files:
  assumes "apply_action i now c s = Inr (outcome, s')" and "\<not> out_replayed outcome" and "db_ok s"
  shows "\<exists>s1. file_pg (i, now, con_fingerprint c) s = Inr (out_created outcome, s1)
           \<and> s' = s1\<lparr>ticket_actions := ticket_actions s @ [action_of now c outcome]\<rparr>"
  using assms(1)
proof (cases rule: apply_cases)
  case (replayed a)
  then show ?thesis using assms(2) by (simp add: replayed_outcome_def)
next
  case created
  then show ?thesis
    by (simp add: insert_ticket_def list_ex_iff filter_empty_conv new_ticket_def ticket_outcome_def)
next
  case (updated t ts)
  then have "list_ex (open_ticket (con_fingerprint c)) (tickets s)"
    using filter_ConsD by (fastforce simp: list_ex_iff)
  moreover have "ts = []" using open_unique[OF _ updated(3)] assms(3) by (simp add: db_ok_def)
  ultimately show ?thesis
    using updated(3-6) by (simp add: insert_ticket_def count_update_def ticket_outcome_def new_ticket_def
      bump_def[abs_def] Let_def)
qed

section \<open>The recorded model\<close>

fun complete_all :: "string list \<Rightarrow> recorded_model \<Rightarrow> string result list" where
  "complete_all [] m = []"
| "complete_all (r # rs) m = fst (model_complete r m) # complete_all rs (snd (model_complete r m))"

text \<open>The completions are replayed in order; a call past the last one raises.\<close>

lemma complete_all_replays:
  "complete_all roles m
     = map Inr (take (length roles) (rm_completions m))
       @ map (\<lambda>r. Inl (LookupError (''no recorded completion left for role '' @ repr_str r)))
           (drop (length (rm_completions m)) roles)"
  by (induction roles arbitrary: m) (auto simp: model_complete_def split: list.splits)

section \<open>Where the in-memory tracker breaks its promise\<close>

text \<open>
  A new ticket is named after the number of fingerprints seen so far. After \<open>a\<close> is filed,
  closed and filed again, its second ticket is \<^verbatim>\<open>FIXTURE-2\<close>, and so is the first ticket of
  \<open>c\<close>: two open tickets share one reference, and an update addressed to the one of \<open>c\<close>
  lands on the one of \<open>a\<close>.
\<close>

lemma fixture_id_collision:
  assumes "tkd_fingerprint da \<noteq> tkd_fingerprint dc"
  shows "\<exists>d2 d4 ref d5 t.
     fixture_close (fst (fixture_create da [])) why (snd (fixture_create da [])) = Inr d2
     \<and> fixture_create dc (snd (fixture_create da d2)) = (ref, d4)
     \<and> find_open_by_fingerprint (tkd_fingerprint da) d4 = Some ref
     \<and> find_open_by_fingerprint (tkd_fingerprint dc) d4 = Some ref
     \<and> fixture_update ref u d4 = Inr d5
     \<and> map_of d5 (tkd_fingerprint dc) = map_of d4 (tkd_fingerprint dc)
     \<and> map_of d5 (tkd_fingerprint da) = Some t \<and> fxt_updates t = [u]"
  using assms
  by (simp add: fixture_create_def fixture_close_def fixture_update_def find_open_by_fingerprint_def
        ticket_ref_def Let_def)

end
