(* ===== verification/HostPorts.thy ===== *)
theory HostPorts
  imports PyText
begin

text \<open>
  The host-port preflight, \<^verbatim>\<open>scripts/check_host_ports.py\<close>. Whether a loopback port can be
  bound, and the text \<^verbatim>\<open>lsof\<close> prints about its holder, are arguments; the rest is the
  script: which ports a profile selection publishes, which of them collide, what is printed
  and the exit code.
\<close>

definition OVERRIDE_OFFSET :: int where "OVERRIDE_OFFSET = 10000"

record PublishedPort =
  pp_profile :: string
  pp_service :: string
  pp_container_port :: int
  pp_host_port :: int
  pp_env_var :: string

definition INVENTORY :: "PublishedPort list" where
  "INVENTORY =
     [\<lparr>pp_profile = ''default'', pp_service = ''app'', pp_container_port = 8000,
       pp_host_port = 8000, pp_env_var = ''APP_HOST_PORT''\<rparr>,
      \<lparr>pp_profile = ''lab'', pp_service = ''prometheus'', pp_container_port = 9090,
       pp_host_port = 9090, pp_env_var = ''PROMETHEUS_HOST_PORT''\<rparr>,
      \<lparr>pp_profile = ''obs'', pp_service = ''phoenix'', pp_container_port = 6006,
       pp_host_port = 6006, pp_env_var = ''PHOENIX_HOST_PORT''\<rparr>]"

definition SELECTABLE_PROFILES :: "string list" where "SELECTABLE_PROFILES = [''lab'', ''obs'']"
definition CORE_PROFILE :: string where "CORE_PROFILE = ''default''"

definition parse_profiles :: "string \<Rightarrow> string list result" where
  "parse_profiles raw =
     (let names = map py_strip (filter (\<lambda>n. py_strip n \<noteq> []) (py_split (CHR '','') raw));
          unknown = filter (\<lambda>n. n \<notin> set SELECTABLE_PROFILES) names
      in if unknown \<noteq> []
         then Inl (ValueError (''unknown profile(s): '' @ py_join '', '' unknown
                @ ''; choose from '' @ py_join '', '' SELECTABLE_PROFILES))
         else Inr names)"

definition selected_ports :: "string list \<Rightarrow> PublishedPort list" where
  "selected_ports profiles =
     filter (\<lambda>port. pp_profile port \<in> set (CORE_PROFILE # profiles)) INVENTORY"

definition find_collisions :: "PublishedPort list \<Rightarrow> (int \<Rightarrow> bool) \<Rightarrow> PublishedPort list" where
  "find_collisions ports is_free = filter (\<lambda>port. \<not> is_free (pp_host_port port)) ports"

definition override_hint :: "PublishedPort \<Rightarrow> string" where
  "override_hint port = pp_env_var port @ ''='' @ show_int (pp_host_port port + OVERRIDE_OFFSET)"

text \<open>\<^verbatim>\<open>probe_loopback\<close> with what \<^verbatim>\<open>bind\<close> does: only an \<open>OSError\<close> means taken.\<close>

fun probe_loopback :: "unit result \<Rightarrow> bool result" where
  "probe_loopback (Inr u) = Inr True"
| "probe_loopback (Inl (OSError m)) = Inr False"
| "probe_loopback (Inl e) = Inl e"

text \<open>\<^verbatim>\<open>str.splitlines()\<close>: the line boundaries below code point 256, CR LF as one.\<close>

definition line_boundary :: "char \<Rightarrow> bool" where
  "line_boundary c \<longleftrightarrow> (let n = cp c in (10 \<le> n \<and> n \<le> 13) \<or> (28 \<le> n \<and> n \<le> 30) \<or> n = 133)"

fun lines_from :: "string \<Rightarrow> string \<Rightarrow> string list" where
  "lines_from cur [] = (if cur = [] then [] else [rev cur])"
| "lines_from cur (c # cs) =
     (if line_boundary c
      then rev cur # lines_from [] (drop (if c = CHR 0x0D \<and> cs \<noteq> [] \<and> hd cs = CHR 0x0A then 1 else 0) cs)
      else lines_from (c # cur) cs)"

definition splitlines :: "string \<Rightarrow> string list" where
  "splitlines s = lines_from [] s"

text \<open>The loop over the output of \<^verbatim>\<open>lsof -F cp\<close>.\<close>

definition holder_text :: "string \<Rightarrow> string \<Rightarrow> string" where
  "holder_text command pid = command @ '' (pid '' @ pid @ '')''"

fun scan_holder :: "string list \<Rightarrow> string \<Rightarrow> string \<Rightarrow> string option" where
  "scan_holder [] command pid = None"
| "scan_holder (line # rest) command pid =
     (let (command, pid) =
            (if py_startswith line ''p'' then (command, drop 1 line)
             else if py_startswith line ''c'' then (drop 1 line, pid)
             else (command, pid))
      in if command \<noteq> [] \<and> pid \<noteq> [] then Some (holder_text command pid)
         else scan_holder rest command pid)"

text \<open>\<open>None\<close> when \<^verbatim>\<open>lsof\<close> is absent, cannot be run or times out.\<close>

definition describe_holder :: "string option \<Rightarrow> string option" where
  "describe_holder stdout =
     (case stdout of None \<Rightarrow> None | Some txt \<Rightarrow> scan_holder (splitlines txt) [] [])"

definition collision_lines :: "(int \<Rightarrow> string option) \<Rightarrow> PublishedPort \<Rightarrow> string list" where
  "collision_lines lsof port =
     (let holder = (case describe_holder (lsof (pp_host_port port)) of
                      None \<Rightarrow> ''an unidentified process''
                    | Some h \<Rightarrow> py_or h ''an unidentified process'')
      in [''ERROR: host port '' @ show_int (pp_host_port port) @ '' for service '' @ [squote]
            @ pp_service port @ [squote] @ '' (profile '' @ pp_profile port @ '') is held by '' @ holder,
          ''       set '' @ override_hint port @ '' in .env, or any other free port''])"

text \<open>The exit code and the printed lines, for the value of \<^verbatim>\<open>--profiles\<close>.\<close>

definition host_ports_main ::
  "(int \<Rightarrow> bool) \<Rightarrow> (int \<Rightarrow> string option) \<Rightarrow> string \<Rightarrow> nat \<times> string list" where
  "host_ports_main is_free lsof raw =
     (case parse_profiles raw of
        Inl e \<Rightarrow> (2, [''ERROR: '' @ err_text e])
      | Inr profiles \<Rightarrow>
          (let ports = selected_ports profiles;
               collisions = find_collisions ports is_free
           in if collisions \<noteq> []
              then (1, concat (map (collision_lines lsof) collisions)
                       @ [''host ports: FAIL ('' @ show_nat (length collisions) @ '' of ''
                          @ show_nat (length ports) @ '' checked port(s) unavailable)''])
              else (0, [''host ports: PASS ('' @ show_nat (length ports) @ '' checked)''])))"

section \<open>What the preflight decides\<close>

lemma host_ports_code:
  assumes "parse_profiles raw = Inr profiles"
  shows "fst (host_ports_main is_free lsof raw)
           = (if \<forall>port \<in> set (selected_ports profiles). is_free (pp_host_port port) then 0 else 1)"
  using assms by (auto simp: host_ports_main_def Let_def find_collisions_def filter_empty_conv)

lemma parse_profiles_known:
  "parse_profiles raw = Inr names \<Longrightarrow> set names \<subseteq> {''lab'', ''obs''}"
  by (auto simp: parse_profiles_def Let_def filter_empty_conv SELECTABLE_PROFILES_def split: if_splits)

lemma host_ports_usage: "fst (host_ports_main is_free lsof raw) = 2 \<longleftrightarrow> isl (parse_profiles raw)"
  by (auto simp: host_ports_main_def Let_def split: sum.splits)

text \<open>The core service is always checked; a profile adds its ports and no others.\<close>

lemma core_always_selected:
  "port \<in> set INVENTORY \<Longrightarrow> pp_profile port = CORE_PROFILE \<Longrightarrow> port \<in> set (selected_ports profiles)"
  by (simp add: selected_ports_def)

lemma selected_ports_iff:
  "port \<in> set (selected_ports profiles)
     \<longleftrightarrow> port \<in> set INVENTORY \<and> (pp_profile port = CORE_PROFILE \<or> pp_profile port \<in> set profiles)"
  by (auto simp: selected_ports_def)

text \<open>A suggested port is a valid one and collides with no other published port.\<close>

lemma override_valid:
  assumes "port \<in> set INVENTORY" and "other \<in> set INVENTORY"
  shows "pp_host_port port + OVERRIDE_OFFSET \<noteq> pp_host_port other
         \<and> 1024 \<le> pp_host_port port + OVERRIDE_OFFSET \<and> pp_host_port port + OVERRIDE_OFFSET < 65536"
  using assms by (auto simp: INVENTORY_def OVERRIDE_OFFSET_def)

text \<open>The holder that is named is never empty.\<close>

lemma scan_holder_named:
  "scan_holder lines command pid = Some h \<Longrightarrow>
     \<exists>c p. c \<noteq> [] \<and> p \<noteq> [] \<and> h = holder_text c p"
proof (induction lines arbitrary: command pid)
  case (Cons line rest)
  obtain c p where cp: "(if py_startswith line ''p'' then (command, drop 1 line)
      else if py_startswith line ''c'' then (drop 1 line, pid) else (command, pid)) = (c, p)"
    by (rule prod.exhaust)
  then have step: "scan_holder (line # rest) command pid
      = (if c \<noteq> [] \<and> p \<noteq> [] then Some (holder_text c p) else scan_holder rest c p)"
    by (simp only: scan_holder.simps Let_def split_conv)
  show ?case
  proof (cases "c \<noteq> [] \<and> p \<noteq> []")
    case True
    then have "h = holder_text c p" using Cons.prems[unfolded step] by simp
    then show ?thesis using True by (intro exI[of _ c] exI[of _ p]) simp
  next
    case False
    then show ?thesis using Cons.IH[of c p] Cons.prems[unfolded step] by (simp only: if_False)
  qed
qed simp

end
