(* ===== verification/Inbound.thy ===== *)
theory Inbound
  imports Contracts
begin

text \<open>
  The JSON form of \<open>VerifiedInbound\<close> (\<^verbatim>\<open>contracts/inbound.py\<close>): raw bytes in Python,
  base64 in JSON. \<open>b64encode\<close> and \<open>b64decode\<close> are the two routines of the standard
  library the field type calls, the reader in its strict form
  (\<^verbatim>\<open>validate=True\<close>) with the branches of CPython 3.12, the version the project pins:
  the position in the group of four, the bits left over, the count of padding characters
  and whether padding has begun. \<open>inbound_json\<close> is \<^verbatim>\<open>model_dump(mode="json")\<close> and
  \<open>inbound_validate\<close> is \<^verbatim>\<open>model_validate\<close> on a JSON value. The lemmas show that every body
  survives the trip, that reading accepts base64 text only, and that everything read
  satisfies the contract.
\<close>

section \<open>Base64\<close>

definition b64_alphabet :: string where
  "b64_alphabet =
     ''ABCDEFGHIJKLMNOPQRSTUVWXYZabcdefghijklmnopqrstuvwxyz0123456789'' @ [CHR ''+'', CHR ''/'']"

abbreviation (input) b64_pad :: char where "b64_pad \<equiv> CHR ''=''"

definition b64_char :: "nat \<Rightarrow> char" where
  "b64_char n = b64_alphabet ! (n mod 64)"

fun index_of :: "'a \<Rightarrow> 'a list \<Rightarrow> nat option" where
  "index_of x [] = None"
| "index_of x (y # ys) = (if x = y then Some 0 else map_option Suc (index_of x ys))"

definition b64_value :: "char \<Rightarrow> nat option" where
  "b64_value c = index_of c b64_alphabet"

text \<open>\<^verbatim>\<open>base64.b64encode(raw).decode("ascii")\<close>\<close>

fun b64encode :: "byte list \<Rightarrow> string" where
  "b64encode [] = []"
| "b64encode [a] = [b64_char (unat a div 4), b64_char (unat a mod 4 * 16), b64_pad, b64_pad]"
| "b64encode [a, b] =
     [b64_char (unat a div 4), b64_char (unat a mod 4 * 16 + unat b div 16),
      b64_char (unat b mod 16 * 4), b64_pad]"
| "b64encode (a # b # c # rest) =
     [b64_char (unat a div 4), b64_char (unat a mod 4 * 16 + unat b div 16),
      b64_char (unat b mod 16 * 4 + unat c div 64), b64_char (unat c mod 64)] @ b64encode rest"

text \<open>
  The loop of the reader: \<open>quad\<close> characters of the group read, \<open>left\<close> the bits not
  yet written, \<open>pads\<close> and \<open>padded\<close> the padding seen.
\<close>

fun a2b_base64 :: "nat \<Rightarrow> nat \<Rightarrow> nat \<Rightarrow> bool \<Rightarrow> string \<Rightarrow> byte list result" where
  "a2b_base64 quad left pads padded [] =
     (if quad = 0 then Inr []
      else if quad = 1 then Inl (ValueError ''Invalid base64-encoded string'')
      else Inl (ValueError ''Incorrect padding''))"
| "a2b_base64 quad left pads padded (c # cs) =
     (if c = b64_pad then
        (if 2 \<le> quad \<and> 4 \<le> quad + (pads + 1) then
           (if cs = [] then Inr [] else Inl (ValueError ''Excess data after padding''))
         else a2b_base64 quad left (if 2 \<le> quad then pads + 1 else pads) True cs)
      else case b64_value c of
          None \<Rightarrow> Inl (ValueError ''Only base64 data is allowed'')
        | Some v \<Rightarrow>
            if padded then Inl (ValueError ''Discontinuous padding not allowed'')
            else if quad = 0 then a2b_base64 1 v 0 padded cs
            else if quad = 1 then
              res_bind (a2b_base64 2 (v mod 16) 0 padded cs)
                (\<lambda>bs. Inr (word_of_nat (left * 4 + v div 16) # bs))
            else if quad = 2 then
              res_bind (a2b_base64 3 (v mod 4) 0 padded cs)
                (\<lambda>bs. Inr (word_of_nat (left * 16 + v div 4) # bs))
            else
              res_bind (a2b_base64 0 0 0 padded cs)
                (\<lambda>bs. Inr (word_of_nat (left * 64 + v) # bs)))"

text \<open>\<^verbatim>\<open>base64.b64decode(value, validate=True)\<close> on a \<^verbatim>\<open>str\<close>\<close>

definition b64decode :: "string \<Rightarrow> byte list result" where
  "b64decode s =
     (if \<not> list_all is_ascii s
      then Inl (ValueError ''string argument should contain only ASCII characters'')
      else if s \<noteq> [] \<and> hd s = b64_pad then Inl (ValueError ''Leading padding not allowed'')
      else a2b_base64 0 0 0 False s)"

section \<open>The model's JSON form\<close>

fun source_of_value :: "string \<Rightarrow> EventSource option" where
  "source_of_value s =
     find (\<lambda>e. source_value e = s)
       [GRAFANA, ALERTMANAGER, DATADOG, PAGERDUTY, GENERIC, SLACK, SCHEDULED]"

text \<open>\<open>_decode_body\<close>, with the bytes validator behind it: only a string has a body.\<close>

fun decode_body :: "json \<Rightarrow> byte list result" where
  "decode_body (JStr s) = b64decode s"
| "decode_body _ = Inl (ValidationError ''bytes_type'')"

definition inbound_json :: "VerifiedInbound \<Rightarrow> json" where
  "inbound_json v = JObj
     [(''schema_version'', JInt (schema_version v)),
      (''source'', JStr (source_value (vin_source v))),
      (''headers'', JObj (map (\<lambda>(k, x). (k, JStr x)) (vin_headers v))),
      (''body'', JStr (b64encode (vin_body v)))]"

fun str_item :: "string \<times> json \<Rightarrow> (string \<times> string) result" where
  "str_item (k, JStr x) = Inr (k, x)"
| "str_item (k, _) = Inl (ValidationError ''string_type'')"

fun read_headers :: "json option \<Rightarrow> (string \<times> string) list result" where
  "read_headers None = Inr []"
| "read_headers (Some (JObj kvs)) = res_mapM str_item kvs"
| "read_headers (Some _) = Inl (ValidationError ''dict_type'')"

fun read_source :: "json option \<Rightarrow> EventSource result" where
  "read_source (Some (JStr s)) =
     (case source_of_value s of None \<Rightarrow> Inl (ValidationError ''enum'') | Some e \<Rightarrow> Inr e)"
| "read_source (Some _) = Inl (ValidationError ''enum'')"
| "read_source None = Inl (ValidationError ''missing'')"

definition inbound_fields :: "string list" where
  "inbound_fields = [''schema_version'', ''source'', ''headers'', ''body'']"

text \<open>A field error of whatever kind is one \<open>ValidationError\<close> of the model.\<close>

definition as_validation :: "'a result \<Rightarrow> 'a result" where
  "as_validation r = (case r of Inl e \<Rightarrow> Inl (ValidationError (err_text e)) | Inr x \<Rightarrow> Inr x)"

fun inbound_validate :: "json \<Rightarrow> VerifiedInbound result" where
  "inbound_validate (JObj kvs) = as_validation
     (if \<not> list_all (\<lambda>(k, _). k \<in> set inbound_fields) kvs
      then Inl (ValidationError ''extra_forbidden'')
      else if map_of kvs ''schema_version'' \<noteq> Some (JInt 1)
      then Inl (ValidationError ''literal_error'')
      else res_bind (read_source (map_of kvs ''source'')) (\<lambda>src.
           res_bind (read_headers (map_of kvs ''headers'')) (\<lambda>hs.
           res_bind (case map_of kvs ''body'' of None \<Rightarrow> Inl (ValidationError ''missing'')
                     | Some b \<Rightarrow> decode_body b) (\<lambda>body.
           Inr \<lparr>schema_version = 1, vin_source = src, vin_headers = hs, vin_body = body\<rparr>))))"
| "inbound_validate _ = Inl (ValidationError ''model_type'')"

section \<open>The round trip\<close>

lemma index_of_nth: "distinct xs \<Longrightarrow> n < length xs \<Longrightarrow> index_of (xs ! n) xs = Some n"
proof (induction xs arbitrary: n)
  case (Cons x xs)
  then show ?case by (cases n) auto
qed simp

lemma index_of_Some: "index_of x xs = Some n \<Longrightarrow> x \<in> set xs \<and> n < length xs"
  by (induction x xs arbitrary: n rule: index_of.induct) (auto split: if_splits)

lemma b64_alphabet_length [simp]: "length b64_alphabet = 64"
  by (simp add: b64_alphabet_def)

lemma b64_alphabet_distinct: "distinct b64_alphabet"
  by (simp add: b64_alphabet_def)

lemma b64_alphabet_ascii: "c \<in> set b64_alphabet \<Longrightarrow> is_ascii c \<and> c \<noteq> b64_pad"
  by (auto simp: b64_alphabet_def is_ascii_def cp_def)

lemma b64_char_in: "b64_char n \<in> set b64_alphabet"
  by (simp add: b64_char_def)

lemma b64_value_char [simp]: "n < 64 \<Longrightarrow> b64_value (b64_char n) = Some n"
  using index_of_nth[OF b64_alphabet_distinct, of n] by (simp add: b64_value_def b64_char_def)

lemma b64_char_not_pad [simp]: "b64_char n \<noteq> b64_pad" "is_ascii (b64_char n)"
  using b64_alphabet_ascii[OF b64_char_in] by auto

lemma byte_bound: "unat (b :: byte) < 256"
  using unsigned_less[of b] by simp

text \<open>A byte is split over two characters at three places, and put together again.\<close>

lemma b64_parts [simp]:
  fixes b :: byte
  shows "unat b div 16 div 16 = 0" "unat b div 16 mod 16 = unat b div 16"
    "unat b div 64 div 4 = 0" "unat b div 64 mod 4 = unat b div 64"
  using byte_bound[of b] by simp_all

lemma b64_rejoin:
  fixes b :: byte
  shows "word_of_nat (unat b div 4) * 4 + word_of_nat (unat b mod 4) = b"
    and "word_of_nat (unat b div 16) * 16 + word_of_nat (unat b mod 16) = b"
    and "word_of_nat (unat b div 64) * 64 + word_of_nat (unat b mod 64) = b"
proof -
  have "word_of_nat (unat b div k * k + unat b mod k) = b" for k by simp
  from this[of 4] this[of 16] this[of 64]
  show "word_of_nat (unat b div 4) * 4 + word_of_nat (unat b mod 4) = b"
    and "word_of_nat (unat b div 16) * 16 + word_of_nat (unat b mod 16) = b"
    and "word_of_nat (unat b div 64) * 64 + word_of_nat (unat b mod 64) = b"
    by (simp_all only: of_nat_add of_nat_mult of_nat_numeral)
qed

lemma b64_digits:
  fixes a b c :: byte
  shows "unat a div 4 < 64" "unat a mod 4 * 16 < 64" "unat a mod 4 * 16 + unat b div 16 < 64"
    "unat b mod 16 * 4 < 64" "unat b mod 16 * 4 + unat c div 64 < 64"
  using byte_bound[of a] byte_bound[of b] byte_bound[of c] by linarith+

lemma a2b_base64_encode: "a2b_base64 0 0 0 False (b64encode bs) = Inr bs"
  by (induction bs rule: b64encode.induct) (simp_all add: b64_digits b64_rejoin)

lemma b64encode_ascii: "list_all is_ascii (b64encode bs)"
proof -
  have "is_ascii b64_pad" by (simp add: is_ascii_def cp_def)
  then show ?thesis by (induction bs rule: b64encode.induct) simp_all
qed

lemma b64encode_hd: "b64encode bs \<noteq> [] \<Longrightarrow> hd (b64encode bs) \<noteq> b64_pad"
  by (cases bs rule: b64encode.cases) simp_all

lemma b64_roundtrip: "b64decode (b64encode bs) = Inr bs"
  using b64encode_ascii b64encode_hd[of bs] a2b_base64_encode by (auto simp: b64decode_def)

lemma b64encode_length: "length (b64encode bs) = 4 * ((length bs + 2) div 3)"
proof (induction bs rule: b64encode.induct)
  case (4 a b c rest)
  have "(length (a # b # c # rest) + 2) div 3 = Suc ((length rest + 2) div 3)" by simp
  with 4 show ?case by simp
qed simp_all

text \<open>What the strict reader accepts is made of the alphabet and padding.\<close>

lemma a2b_base64_chars:
  "a2b_base64 quad left pads padded s = Inr bs \<Longrightarrow> set s \<subseteq> insert b64_pad (set b64_alphabet)"
proof (induction quad left pads padded s arbitrary: bs rule: a2b_base64.induct)
  case (2 quad left pads padded c cs)
  then show ?case
    by (auto simp: b64_value_def split: if_splits option.splits dest: index_of_Some)
qed simp

lemma b64decode_chars:
  "b64decode s = Inr bs \<Longrightarrow> set s \<subseteq> insert b64_pad (set b64_alphabet)"
  by (auto simp: b64decode_def split: if_splits dest: a2b_base64_chars)

lemma source_of_value_inv [simp]: "source_of_value (source_value e) = Some e"
  by (cases e) simp_all

declare source_of_value.simps [simp del]

lemma str_items [simp]: "res_mapM str_item (map (\<lambda>(k, x). (k, JStr x)) hs) = Inr hs"
  by (induction hs) auto

lemma inbound_validate_json:
  "VerifiedInbound_valid v \<Longrightarrow> inbound_validate (inbound_json v) = Inr v"
  by (cases v) (simp add: inbound_json_def inbound_fields_def as_validation_def b64_roundtrip
      VerifiedInbound_valid_def contract_ok_def)

lemma as_validation_Inr [simp]: "as_validation r = Inr x \<longleftrightarrow> r = Inr x"
  by (auto simp: as_validation_def split: sum.splits)

lemma inbound_validate_Inr:
  assumes "inbound_validate j = Inr v"
  shows "VerifiedInbound_valid v \<and> (\<exists>kvs s. j = JObj kvs \<and> map_of kvs ''body'' = Some (JStr s)
           \<and> b64decode s = Inr (vin_body v) \<and> set (map fst kvs) \<subseteq> set inbound_fields)"
proof (cases j)
  case (JObj kvs)
  with assms obtain b where "map_of kvs ''body'' = Some b" "decode_body b = Inr (vin_body v)"
    by (auto split: if_splits option.splits)
  moreover have "VerifiedInbound_valid v" "set (map fst kvs) \<subseteq> set inbound_fields"
    using assms JObj by (auto simp: VerifiedInbound_valid_def contract_ok_def list_all_iff split: if_splits)
  ultimately show ?thesis using JObj by (cases b) auto
qed (use assms in simp_all)

end
