(* ===== verification/DocScripts.thy ===== *)
theory DocScripts
  imports PyText
begin

text \<open>
  The two documentation scripts: the contract check \<^verbatim>\<open>scripts/check_doc_contract.py\<close> and the
  post-processing of \<^verbatim>\<open>scripts/render_architecture.py\<close>. The repository the check walks is an
  argument (\<open>doc_tree\<close>): what reading \<^verbatim>\<open>README.md\<close> and \<^verbatim>\<open>SPEC.md\<close> gives, the
  sorted result of \<^verbatim>\<open>rglob("*.md")\<close> with what reading each file gives, and whether a path
  beside a file exists. The two regular expressions are scanners that read as the engine
  does: \<open>status_search\<close> tries every position from the left, \<open>markdown_links\<close> goes on
  behind each match. The lemmas show what the scanners find and that the check passes for
  exactly the repositories that keep the contract.
\<close>

section \<open>Scanners\<close>

definition fence :: string where "fence = [CHR 0x60, CHR 0x60, CHR 0x60]"

text \<open>\<^verbatim>\<open>text.count("```")\<close>: occurrences that do not overlap, from the left\<close>

fun fence_count :: "string \<Rightarrow> nat" where
  "fence_count (a # b # c # s) =
     (if [a, b, c] = fence then Suc (fence_count s) else fence_count (b # c # s))"
| "fence_count _ = 0"

text \<open>\<^verbatim>\<open>\w\<close> below code point 256\<close>

definition is_word :: "char \<Rightarrow> bool" where
  "is_word c \<longleftrightarrow> (let n = cp c in
     (48 \<le> n \<and> n \<le> 57) \<or> (65 \<le> n \<and> n \<le> 90) \<or> n = 95 \<or> (97 \<le> n \<and> n \<le> 122)
     \<or> n \<in> {170, 178, 179, 181, 185, 186} \<or> (188 \<le> n \<and> n \<le> 190)
     \<or> (192 \<le> n \<and> n \<noteq> 215 \<and> n \<noteq> 247))"

text \<open>\<^verbatim>\<open>\b\<close> between the text before and the text after\<close>

definition boundary :: "string \<Rightarrow> string \<Rightarrow> bool" where
  "boundary before after \<longleftrightarrow>
     (before \<noteq> [] \<and> is_word (last before)) \<noteq> (after \<noteq> [] \<and> is_word (hd after))"

text \<open>One alternative of the pattern, case ignored: \<open>bounded\<close> asks for \<^verbatim>\<open>\b\<close> at both ends.\<close>

definition phrase_at :: "bool \<Rightarrow> string \<Rightarrow> string \<Rightarrow> string \<Rightarrow> bool" where
  "phrase_at bounded w before s \<longleftrightarrow>
     py_lower (take (length w) s) = w
     \<and> (bounded \<longrightarrow> boundary before s
         \<and> boundary (before @ take (length w) s) (drop (length w) s))"

definition README_STATUS_PATTERN :: "(bool \<times> string) list" where
  "README_STATUS_PATTERN =
     [(True, ''implemented''), (True, ''landed''), (True, ''outstanding''), (True, ''not yet''),
      (False, ''status:'')]"

definition status_at :: "string \<Rightarrow> string \<Rightarrow> string option" where
  "status_at before s =
     map_option (\<lambda>(_, w). take (length w) s)
       (find (\<lambda>(bounded, w). phrase_at bounded w before s) README_STATUS_PATTERN)"

text \<open>\<^verbatim>\<open>README_STATUS_PATTERN.search(readme)\<close> from the position behind \<open>before\<close>\<close>

fun status_search :: "string \<Rightarrow> string \<Rightarrow> string option" where
  "status_search before [] = status_at before []"
| "status_search before (c # s) =
     (case status_at before (c # s) of
        Some m \<Rightarrow> Some m
      | None \<Rightarrow> status_search (before @ [c]) s)"

text \<open>\<^verbatim>\<open>MARKDOWN_LINK\<close> at one position: the group and the text behind the match\<close>

definition link_at :: "string \<Rightarrow> (string \<times> string) option" where
  "link_at s =
     (case (if s \<noteq> [] \<and> hd s = CHR ''!'' then tl s else s) of
        [] \<Rightarrow> None
      | c # t \<Rightarrow>
          if c \<noteq> CHR ''['' then None
          else (case dropWhile (\<lambda>x. x \<noteq> CHR '']'') t of
              _ # p # u \<Rightarrow>
                if p = CHR ''('' \<and> takeWhile (\<lambda>x. x \<noteq> CHR '')'') u \<noteq> []
                then (case dropWhile (\<lambda>x. x \<noteq> CHR '')'') u of
                        [] \<Rightarrow> None
                      | _ # rest \<Rightarrow> Some (takeWhile (\<lambda>x. x \<noteq> CHR '')'') u, rest))
                else None
            | _ \<Rightarrow> None))"

lemma link_at_shorter:
  assumes "link_at s = Some (raw, rest)"
  shows "length rest < length s"
proof -
  define s' where "s' = (if s \<noteq> [] \<and> hd s = CHR ''!'' then tl s else s)"
  have s': "length s' \<le> length s" by (simp add: s'_def)
  obtain c t y p u z where t: "s' = c # t"
    and y: "dropWhile (\<lambda>x. x \<noteq> CHR '']'') t = y # p # u"
    and z: "dropWhile (\<lambda>x. x \<noteq> CHR '')'') u = z # rest"
    using assms by (auto simp: link_at_def s'_def[symmetric] split: list.splits if_splits)
  have "length (y # p # u) \<le> length t" "length (z # rest) \<le> length u"
    using length_dropWhile_le y z by metis+
  then show ?thesis using s' t by simp
qed

text \<open>\<^verbatim>\<open>MARKDOWN_LINK.findall(text)\<close>\<close>

function markdown_links :: "string \<Rightarrow> string list" where
  "markdown_links s =
     (case link_at s of
        Some (raw, rest) \<Rightarrow> raw # markdown_links rest
      | None \<Rightarrow> (case s of [] \<Rightarrow> [] | _ # t \<Rightarrow> markdown_links t))"
  by pat_completeness auto
termination
  by (relation "measure length") (auto dest: link_at_shorter)

declare markdown_links.simps [simp del]

section \<open>The check\<close>

type_synonym path = "string list"

record doc_tree =
  dt_readme :: "string result option"
  dt_spec :: "string result option"
  dt_markdown :: "(path \<times> string result) list"
  dt_exists :: "path \<Rightarrow> string \<Rightarrow> bool result"

definition REQUIRED_SPEC_HEADINGS :: "string list" where
  "REQUIRED_SPEC_HEADINGS =
     [''## 0. Documentation contract'',
      ''## 11. Build prerequisites and operator inputs'',
      ''## 12. Executable implementation plan'']"

definition README_FORBIDDEN_TOKENS :: "string list" where
  "README_FORBIDDEN_TOKENS =
     [fence, ''docker compose'', ''SMOKEJUMPER__'', ''SLACK_BOT_TOKEN'', ''SLACK_APP_TOKEN'',
      ''LINEAR_API_KEY'', ''localhost:'']"

definition EXCLUDED_DIRS :: "string list" where
  "EXCLUDED_DIRS =
     [''.git'', ''.venv'', ''venv'', ''.artifacts'', ''node_modules'', ''build'', ''dist'',
      ''.pytest_cache'', ''.ruff_cache'', ''.uv-cache'', ''.mypy_cache'']"

definition is_ours :: "path \<Rightarrow> bool" where
  "is_ours parts \<longleftrightarrow> \<not> list_ex (\<lambda>part. part \<in> set EXCLUDED_DIRS) parts"

definition token_errors :: "string \<Rightarrow> string list" where
  "token_errors readme =
     map (\<lambda>token. ''README.md contains forbidden normative token '' @ repr_str token
                    @ ''; link to SPEC.md instead'')
       (filter (\<lambda>token. contains token readme) README_FORBIDDEN_TOKENS)"

definition status_errors :: "string \<Rightarrow> string list" where
  "status_errors readme =
     (case status_search [] readme of
        None \<Rightarrow> []
      | Some claim \<Rightarrow>
          [''README.md contains implementation-status language '' @ repr_str claim
             @ ''; link to SPEC.md '' @ [CHR 0xA7] @ ''12 instead''])"

definition heading_errors :: "string \<Rightarrow> string list" where
  "heading_errors spec =
     map (\<lambda>heading. ''SPEC.md is missing required heading: '' @ heading)
       (filter (\<lambda>heading. \<not> contains heading spec) REQUIRED_SPEC_HEADINGS)"

definition strip_angles :: "string \<Rightarrow> string" where
  "strip_angles s =
     (let inb = (\<lambda>c. c = CHR ''<'' \<or> c = CHR ''>'')
      in rev (dropWhile inb (rev (dropWhile inb s))))"

text \<open>\<^verbatim>\<open>raw_target.strip().split()[0].strip("<>")\<close>: the first word, if there is one\<close>

definition link_target :: "string \<Rightarrow> string result" where
  "link_target raw =
     (if py_strip raw = [] then Inl (IndexError ''list index out of range'')
      else Inr (strip_angles (takeWhile (\<lambda>c. \<not> is_space c) (py_strip raw))))"

definition is_remote :: "string \<Rightarrow> bool" where
  "is_remote target \<longleftrightarrow>
     target = [] \<or> list_ex (py_startswith target) [''http://'', ''https://'', ''mailto:'', ''#'']"

definition path_text :: "path \<Rightarrow> string" where
  "path_text parts = py_join ''/'' parts"

definition link_errors :: "doc_tree \<Rightarrow> path \<Rightarrow> string \<Rightarrow> string list result" where
  "link_errors t parts raw =
     res_bind (link_target raw) (\<lambda>target.
       if is_remote target then Inr []
       else let path_part = takeWhile (\<lambda>c. c \<noteq> CHR ''#'') target in
         if path_part = [] then Inr []
         else res_bind (dt_exists t (butlast parts) path_part) (\<lambda>there.
           Inr (if there then []
                else [path_text parts @ '' has missing local link target: '' @ target])))"

definition file_errors :: "doc_tree \<Rightarrow> path \<times> string result \<Rightarrow> string list result" where
  "file_errors t f =
     (if \<not> is_ours (fst f) then Inr []
      else res_bind (snd f) (\<lambda>txt.
        res_bind (res_mapM (link_errors t (fst f)) (markdown_links txt)) (\<lambda>errs.
          Inr ((if odd (fence_count txt) then [path_text (fst f) @ '' has unbalanced code fences'']
                else []) @ concat errs))))"

definition validate :: "doc_tree \<Rightarrow> string list result" where
  "validate t =
     (let missing = (if dt_readme t = None then [''README.md is missing''] else [])
                  @ (if dt_spec t = None then [''SPEC.md is missing''] else [])
      in case (dt_readme t, dt_spec t) of
           (Some readme, Some spec) \<Rightarrow>
             res_bind readme (\<lambda>readme. res_bind spec (\<lambda>spec.
               res_bind (res_mapM (file_errors t) (dt_markdown t)) (\<lambda>errs.
                 Inr (token_errors readme @ status_errors readme @ heading_errors spec
                      @ concat errs))))
         | _ \<Rightarrow> Inr missing)"

text \<open>\<^verbatim>\<open>main\<close>: the lines printed and the exit code\<close>

definition doc_contract_main :: "doc_tree \<Rightarrow> (string list \<times> int) result" where
  "doc_contract_main t =
     res_bind (validate t) (\<lambda>errors.
       if errors \<noteq> []
       then Inr (map (\<lambda>error. ''ERROR: '' @ error) errors
              @ [''documentation contract: FAIL ('' @ show_nat (length errors) @ '' error(s))''], 1)
       else Inr ([''documentation contract: PASS''], 0))"

section \<open>Rendering the architecture diagram\<close>

definition svg_marker :: string where
  "svg_marker = ''<svg id='' @ [dquote] @ ''my-svg'' @ [dquote]"

definition svg_preserved :: string where
  "svg_preserved =
     ''<svg xml:space='' @ [dquote] @ ''preserve'' @ [dquote] @ '' id='' @ [dquote] @ ''my-svg'' @ [dquote]"

definition svg_background :: string where
  "svg_background =
     ''<rect width='' @ [dquote] @ ''100%'' @ [dquote] @ '' height='' @ [dquote] @ ''100%'' @ [dquote]
     @ '' fill='' @ [dquote] @ ''#fff'' @ [dquote] @ ''/>''"

text \<open>\<^verbatim>\<open>s.replace(old, new, 1)\<close>\<close>

fun replace_first :: "string \<Rightarrow> string \<Rightarrow> string \<Rightarrow> string" where
  "replace_first old new [] = (if old = [] then new else [])"
| "replace_first old new (c # cs) =
     (if py_startswith (c # cs) old then new @ drop (length old) (c # cs)
      else c # replace_first old new cs)"

text \<open>What follows the renderer: the text it wrote becomes the text stored.\<close>

definition post_process :: "string \<Rightarrow> string result" where
  "post_process rendered =
     (if \<not> contains svg_marker rendered
      then Inl (RuntimeError ''Mermaid output root changed; refusing an unverified post-process'')
      else let rendered = replace_first svg_marker svg_preserved rendered in
        if CHR ''>'' \<notin> set rendered then Inl (ValueError ''substring not found'')
        else let root_end = length (takeWhile (\<lambda>c. c \<noteq> CHR ''>'') rendered) + 1;
                 rendered = take root_end rendered @ svg_background @ drop root_end rendered
             in if \<not> py_endswith (rev (dropWhile is_space (rev rendered))) ''</svg>''
                then Inl (RuntimeError ''Mermaid output is not a complete SVG document'')
                else Inr rendered)"

text \<open>
  \<^verbatim>\<open>main\<close>: \<open>npx\<close> is where the tool was found, \<open>ended\<close> how it ended, \<open>output\<close>
  what reading its file gives; the result is the text written back.
\<close>

definition render_main :: "string option \<Rightarrow> unit result \<Rightarrow> string result \<Rightarrow> string result" where
  "render_main npx ended output =
     (if npx = None
      then Inl (RuntimeError ''npx is required to render the Mermaid architecture'')
      else res_bind ended (\<lambda>_. res_bind output post_process))"

section \<open>What the scanners find\<close>

lemma status_at_None:
  "status_at before s = None
     \<longleftrightarrow> (\<forall>(bounded, w) \<in> set README_STATUS_PATTERN. \<not> phrase_at bounded w before s)"
  by (auto simp: status_at_def find_None_iff)

lemma status_search_None:
  "status_search before s = None \<longleftrightarrow> (\<forall>a b. s = a @ b \<longrightarrow> status_at (before @ a) b = None)"
proof (induction before s rule: status_search.induct)
  case (2 before c s)
  have "(\<forall>a b. c # s = a @ b \<longrightarrow> status_at (before @ a) b = None)
      \<longleftrightarrow> status_at before (c # s) = None
        \<and> (\<forall>a b. s = a @ b \<longrightarrow> status_at ((before @ [c]) @ a) b = None)"
    by (auto simp: Cons_eq_append_conv)
  then show ?case using 2 by (auto split: option.splits)
qed simp

lemma link_at_link:
  assumes "CHR '']'' \<notin> set l" and "CHR '')'' \<notin> set r" and "r \<noteq> []"
  shows "link_at (CHR ''['' # l @ CHR '']'' # CHR ''('' # r @ CHR '')'' # b) = Some (r, b)"
proof -
  have "dropWhile (\<lambda>x. x \<noteq> CHR '']'') (l @ CHR '']'' # CHR ''('' # r @ CHR '')'' # b)
      = CHR '']'' # CHR ''('' # r @ CHR '')'' # b"
    using assms(1) by (subst dropWhile_append2) auto
  moreover have "takeWhile (\<lambda>x. x \<noteq> CHR '')'') (r @ CHR '')'' # b) = r"
    "dropWhile (\<lambda>x. x \<noteq> CHR '')'') (r @ CHR '')'' # b) = CHR '')'' # b"
    using assms(2) by (subst takeWhile_append2 dropWhile_append2; auto)+
  ultimately show ?thesis using assms(3) by (simp add: link_at_def)
qed

lemma link_at_plain: "c \<noteq> CHR ''['' \<Longrightarrow> c \<noteq> CHR ''!'' \<Longrightarrow> link_at (c # s) = None"
  by (simp add: link_at_def)

lemma link_at_bang:
  "link_at (CHR ''!'' # s) = (if s \<noteq> [] \<and> hd s = CHR ''['' then link_at s else None)"
  by (cases s) (auto simp: link_at_def)

lemma markdown_links_plain:
  "CHR ''['' \<notin> set a \<Longrightarrow> markdown_links (a @ CHR ''['' # s) = markdown_links (CHR ''['' # s)"
proof (induction a)
  case (Cons c a)
  show ?case
  proof (cases "link_at ((c # a) @ CHR ''['' # s)")
    case None
    then show ?thesis using Cons by (simp add: markdown_links.simps[of "c # a @ CHR ''['' # s"])
  next
    case (Some x)
    then have "a = []" "link_at ((c # a) @ CHR ''['' # s) = link_at (CHR ''['' # s)"
      using Cons.prems link_at_plain[of c] by (cases a; cases "c = CHR ''!''"; auto simp: link_at_bang)+
    then show ?thesis using Some by (simp add: markdown_links.simps[of "_ # _"] split: prod.splits)
  qed
qed simp

lemma markdown_links_none: "CHR ''['' \<notin> set a \<Longrightarrow> markdown_links a = []"
proof (induction a)
  case Nil
  then show ?case by (simp add: markdown_links.simps[of "[]"] link_at_def)
next
  case (Cons c a)
  then have "link_at (c # a) = None" by (cases a) (auto simp: link_at_def)
  with Cons show ?case by (simp add: markdown_links.simps[of "c # a"])
qed

text \<open>A document of plain text and links has exactly the targets of its links, in order.\<close>

definition link_text :: "string \<times> string \<times> string \<Rightarrow> string" where
  "link_text x = (case x of (a, l, r) \<Rightarrow>
     a @ [CHR ''[''] @ l @ [CHR '']'', CHR ''(''] @ r @ [CHR '')''])"

definition link_segment :: "string \<times> string \<times> string \<Rightarrow> bool" where
  "link_segment x \<longleftrightarrow> (case x of (a, l, r) \<Rightarrow>
     CHR ''['' \<notin> set a \<and> CHR '']'' \<notin> set l \<and> CHR '')'' \<notin> set r \<and> r \<noteq> [])"

lemma markdown_links_document:
  assumes "list_all link_segment xs" and "CHR ''['' \<notin> set rest"
  shows "markdown_links (concat (map link_text xs) @ rest) = map (\<lambda>(a, l, r). r) xs"
  using assms(1)
proof (induction xs)
  case Nil
  then show ?case using markdown_links_none[OF assms(2)] by simp
next
  case (Cons x xs)
  obtain a l r where x: "x = (a, l, r)" by (cases x)
  let ?b = "concat (map link_text xs) @ rest"
  have "markdown_links (concat (map link_text (x # xs)) @ rest)
      = markdown_links (CHR ''['' # l @ CHR '']'' # CHR ''('' # r @ CHR '')'' # ?b)"
    using Cons.prems markdown_links_plain[of a] by (simp add: x link_text_def link_segment_def)
  also have "\<dots> = r # markdown_links ?b"
    using Cons.prems link_at_link[of l r ?b]
    by (subst markdown_links.simps) (simp add: x link_segment_def)
  finally show ?case using Cons by (simp add: x)
qed

section \<open>When the check passes\<close>

lemma res_mapM_concat_Nil:
  "(\<exists>ys. res_mapM f xs = Inr ys \<and> concat ys = []) \<longleftrightarrow> (\<forall>x \<in> set xs. f x = Inr [])"
  by (induction xs) auto

definition link_ok :: "doc_tree \<Rightarrow> path \<Rightarrow> string \<Rightarrow> bool" where
  "link_ok t parts raw \<longleftrightarrow> (\<exists>target. link_target raw = Inr target
     \<and> (is_remote target \<or> takeWhile (\<lambda>c. c \<noteq> CHR ''#'') target = []
        \<or> dt_exists t (butlast parts) (takeWhile (\<lambda>c. c \<noteq> CHR ''#'') target) = Inr True))"

lemma link_errors_Nil: "link_errors t parts raw = Inr [] \<longleftrightarrow> link_ok t parts raw"
  by (cases "link_target raw") (auto simp: link_errors_def link_ok_def Let_def)

lemma file_errors_Nil:
  "file_errors t (parts, txt) = Inr [] \<longleftrightarrow>
     (is_ours parts \<longrightarrow> (\<exists>doc. txt = Inr doc \<and> even (fence_count doc)
        \<and> (\<forall>raw \<in> set (markdown_links doc). link_ok t parts raw)))"
  using res_mapM_concat_Nil[of "link_errors t parts"]
  by (auto simp: file_errors_def link_errors_Nil split: if_splits)

lemma validate_Nil:
  "validate t = Inr [] \<longleftrightarrow>
     (\<exists>readme spec. dt_readme t = Some (Inr readme) \<and> dt_spec t = Some (Inr spec)
        \<and> token_errors readme = [] \<and> status_errors readme = [] \<and> heading_errors spec = []
        \<and> (\<forall>f \<in> set (dt_markdown t). file_errors t f = Inr []))"
  using res_mapM_concat_Nil[of "file_errors t" "dt_markdown t"]
  by (auto simp: validate_def Let_def split: option.splits)

lemma doc_contract_main_0:
  "(\<exists>out. doc_contract_main t = Inr (out, 0)) \<longleftrightarrow> validate t = Inr []"
  by (cases "validate t") (auto simp: doc_contract_main_def)

lemma readme_errors_Nil:
  "token_errors readme = [] \<longleftrightarrow> (\<forall>w \<in> set README_FORBIDDEN_TOKENS. \<nexists>a b. readme = a @ w @ b)"
  "status_errors readme = [] \<longleftrightarrow>
     (\<forall>a b. readme = a @ b \<longrightarrow> (\<forall>(bounded, w) \<in> set README_STATUS_PATTERN. \<not> phrase_at bounded w a b))"
  "heading_errors spec = [] \<longleftrightarrow> (\<forall>h \<in> set REQUIRED_SPEC_HEADINGS. \<exists>a b. spec = a @ h @ b)"
proof -
  have "status_errors readme = [] \<longleftrightarrow> status_search [] readme = None"
    by (simp add: status_errors_def split: option.splits)
  then show "status_errors readme = [] \<longleftrightarrow>
     (\<forall>a b. readme = a @ b \<longrightarrow> (\<forall>(bounded, w) \<in> set README_STATUS_PATTERN. \<not> phrase_at bounded w a b))"
    by (simp only: status_search_None status_at_None append_Nil)
qed (auto simp: token_errors_def heading_errors_def filter_empty_conv contains_iff)

text \<open>A link whose parentheses hold white space only stops the check with an exception.\<close>

lemma blank_link_raises:
  assumes "dt_readme t = Some (Inr readme)" and "dt_spec t = Some (Inr spec)"
    and "dt_markdown t = (parts, Inr doc) # rest" and "is_ours parts"
    and "markdown_links doc = raw # raws" and "py_strip raw = []"
  shows "doc_contract_main t = Inl (IndexError ''list index out of range'')"
  using assms by (simp add: doc_contract_main_def validate_def file_errors_def link_errors_def
      link_target_def)

section \<open>What the rendering keeps\<close>

lemma replace_first_hit:
  assumes "old \<noteq> []" and "s = a @ old @ b" and "\<nexists>a' b'. length a' < length a \<and> s = a' @ old @ b'"
  shows "replace_first old new s = a @ new @ b"
  using assms(2,3)
proof (induction a arbitrary: s)
  case Nil
  then show ?case using assms(1) by (cases old) (auto simp: py_startswith_iff)
next
  case (Cons x a)
  have "s \<noteq> [] @ old @ b'" for b'
    using Cons.prems(2) by (metis length_greater_0_conv list.distinct(1) list.size(3))
  then have "\<not> py_startswith s old" by (auto simp: py_startswith_iff)
  moreover have "\<nexists>a' b'. length a' < length a \<and> a @ old @ b = a' @ old @ b'"
    using Cons.prems by (metis append_Cons length_Cons Suc_less_eq)
  ultimately show ?case using Cons by simp
qed

text \<open>
  When the first \<^verbatim>\<open>>\<close> closes the root tag, the stored document is the rendered one with
  the white-space attribute in that tag and the background as its first child.
\<close>

lemma post_process_shape:
  assumes "doc = pre @ svg_marker @ attrs @ CHR ''>'' # body"
    and "CHR ''>'' \<notin> set pre" and "CHR ''>'' \<notin> set attrs"
    and "\<nexists>a b. length a < length pre \<and> doc = a @ svg_marker @ b"
    and "py_endswith (rev (dropWhile is_space (rev
           (pre @ svg_preserved @ attrs @ CHR ''>'' # svg_background @ body)))) ''</svg>''"
  shows "post_process doc = Inr (pre @ svg_preserved @ attrs @ CHR ''>'' # svg_background @ body)"
proof -
  let ?new = "(pre @ svg_preserved @ attrs) @ CHR ''>'' # body"
  have "replace_first svg_marker svg_preserved doc = ?new"
    using replace_first_hit[OF _ assms(1,4)] by (simp add: svg_marker_def)
  moreover have "contains svg_marker doc" using assms(1) contains_iff by blast
  moreover have "takeWhile (\<lambda>c. c \<noteq> CHR ''>'') ?new = pre @ svg_preserved @ attrs"
    using assms(2,3) by (subst takeWhile_append2) (auto simp: svg_preserved_def)
  ultimately show ?thesis using assms(5) by (simp add: post_process_def)
qed

end
