(* ===== verification/IsoFormat.thy ===== *)
theory IsoFormat
  imports PyTime
begin

text \<open>
  \<^verbatim>\<open>datetime.fromisoformat\<close> of CPython 3.12, which the normalizers call on the time stamps
  of the senders. The reader works on the UTF-8 bytes of the text and sees a NUL behind
  its end. \<open>iso_separator\<close> finds where the date ends, \<open>iso_date\<close> reads the calendar and
  week forms, \<open>iso_hms\<close> the time of day and the offset, \<open>iso_clock\<close> both of them; the
  constructor's range checks come last. \<open>None\<close> is the \<open>ValueError\<close>. Two oddities of the
  reader are kept: an offset below one second reads as UTC, and a colon may stand before
  the fraction of a second.

  The lemmas show that the calendar conversion of \<open>isoformat\<close> is inverted exactly and that
  reading back what \<open>isoformat\<close> wrote gives the instant and the offset.
\<close>

section \<open>Calendar\<close>

definition is_leap :: "int \<Rightarrow> bool" where
  "is_leap y \<longleftrightarrow> y mod 4 = 0 \<and> (y mod 100 \<noteq> 0 \<or> y mod 400 = 0)"

definition days_in_month :: "int \<Rightarrow> int \<Rightarrow> int" where
  "days_in_month y m =
     (if m = 2 then (if is_leap y then 29 else 28) else if m \<in> {4, 6, 9, 11} then 30 else 31)"

text \<open>The day number of a date (0 is 1970-01-01), years counted from March.\<close>

definition days_from_civil :: "int \<Rightarrow> int \<Rightarrow> int \<Rightarrow> int" where
  "days_from_civil y m d =
     (let y = (if m \<le> 2 then y - 1 else y);
          era = y div 400;
          yoe = y mod 400;
          doy = (153 * (if 2 < m then m - 3 else m + 9) + 2) div 5 + d - 1
      in era * 146097 + (yoe * 365 + yoe div 4 - yoe div 100 + doy) - 719468)"

definition date_ok :: "int \<Rightarrow> int \<Rightarrow> int \<Rightarrow> bool" where
  "date_ok y m d \<longleftrightarrow>
     1 \<le> y \<and> y \<le> 9999 \<and> 1 \<le> m \<and> m \<le> 12 \<and> 1 \<le> d \<and> d \<le> days_in_month y m"

definition first_day :: int where "first_day = days_from_civil 1 1 1"
definition last_day :: int where "last_day = days_from_civil 9999 12 31"

section \<open>The reader\<close>

definition utf8_text :: "string \<Rightarrow> string" where
  "utf8_text s = concat (map (\<lambda>c. let n = cp c in
     if n < 128 then [c] else [char_of (192 + n div 64), char_of (128 + n mod 64)]) s)"

abbreviation (input) NUL :: char where "NUL \<equiv> CHR 0x00"

definition char_at :: "string \<Rightarrow> nat \<Rightarrow> char" where
  "char_at s i = (if i < length s then s ! i else NUL)"

definition iso_digits :: "string \<Rightarrow> nat \<Rightarrow> nat option" where
  "iso_digits s n =
     (let ds = take n s
      in if length ds = n \<and> list_all is_digit ds then Some (digits_val (map digit_val ds)) else None)"

definition iso_separator :: "string \<Rightarrow> nat option" where
  "iso_separator s =
     (if length s = 7 then Some 7
      else if char_at s 4 = CHR ''-'' then
        (if char_at s 5 = CHR ''W'' then
           (if 8 < length s \<and> char_at s 8 = CHR ''-'' then
              (if length s = 9 then None
               else if 10 < length s \<and> is_digit (char_at s 10) then Some 8
               else Some 10)
            else Some 8)
         else Some 10)
      else if char_at s 4 = CHR ''W'' then
        (let pos = 7 + length (takeWhile is_digit (drop 7 s))
         in if pos < 9 then Some pos else if even pos then Some 7 else Some 8)
      else Some 8)"

text \<open>A week date, as a day number.\<close>

definition iso_week_day :: "int \<Rightarrow> int \<Rightarrow> int \<Rightarrow> int option" where
  "iso_week_day y week day =
     (let jan1 = days_from_civil y 1 1;
          wd = (jan1 + 3) mod 7;
          monday = jan1 - wd + (if 3 < wd then 7 else 0);
          n = monday + (week - 1) * 7 + day - 1
      in if \<not> (1 \<le> y \<and> y \<le> 9999) then None
         else if \<not> (1 \<le> week \<and> week \<le> 52)
                 \<and> \<not> (week = 53 \<and> (wd = 3 \<or> wd = 2 \<and> is_leap y)) then None
         else if \<not> (1 \<le> day \<and> day \<le> 7) then None
         else if first_day \<le> n \<and> n \<le> last_day then Some n else None)"

text \<open>The date in the first \<open>n\<close> bytes, as a day number.\<close>

definition iso_date :: "string \<Rightarrow> nat \<Rightarrow> int option" where
  "iso_date s n =
     (case iso_digits s 4 of None \<Rightarrow> None | Some y \<Rightarrow>
        let dash = (char_at s 4 = CHR ''-''); p = (if dash then 5 else 4) in
        if char_at s p = CHR ''W'' then
          (case iso_digits (drop (p + 1) s) 2 of None \<Rightarrow> None | Some week \<Rightarrow>
             if p + 3 < n then
               (if dash \<and> char_at s (p + 3) \<noteq> CHR ''-'' then None
                else case iso_digits (drop (if dash then p + 4 else p + 3) s) 1 of
                       None \<Rightarrow> None
                     | Some day \<Rightarrow> iso_week_day (int y) (int week) (int day))
             else iso_week_day (int y) (int week) 1)
        else
          (case iso_digits (drop p s) 2 of None \<Rightarrow> None | Some m \<Rightarrow>
             if dash \<and> char_at s (p + 2) \<noteq> CHR ''-'' then None
             else let q = (if dash then p + 3 else p + 2) in
               case iso_digits (drop q s) 2 of None \<Rightarrow> None | Some d \<Rightarrow>
                 if q + 2 = n \<and> date_ok (int y) (int m) (int d)
                 then Some (days_from_civil (int y) (int m) (int d)) else None))"

text \<open>
  Hours, minutes and seconds with the fraction in microseconds, in the first \<open>e\<close> bytes of
  \<open>t\<close>; the last component says whether something follows. The loop reads at most three
  pairs of digits (\<open>n\<close> are left).
\<close>

definition iso_fraction :: "nat list \<Rightarrow> string \<Rightarrow> nat \<Rightarrow> (nat list \<times> nat \<times> bool) option" where
  "iso_fraction vs t e =
     (let k = min 6 e in
      case iso_digits t k of
        None \<Rightarrow> None
      | Some x \<Rightarrow> Some (vs, x * 10 ^ (6 - k), char_at (dropWhile is_digit (drop k t)) 0 \<noteq> NUL))"

fun iso_hms_from ::
  "nat \<Rightarrow> bool \<Rightarrow> nat list \<Rightarrow> string \<Rightarrow> nat \<Rightarrow> (nat list \<times> nat \<times> bool) option" where
  "iso_hms_from 0 colon vs t e = iso_fraction vs t e"
| "iso_hms_from (Suc n) colon vs t e =
     (case iso_digits t 2 of None \<Rightarrow> None | Some x \<Rightarrow>
        let c = char_at t 2;
            colon = (if n = 2 then c = CHR '':'' else colon);
            vs = vs @ [x]
        in if e \<le> 3 then Some (vs, 0, c \<noteq> NUL)
           else if colon \<and> c = CHR '':'' then iso_hms_from n colon vs (drop 3 t) (e - 3)
           else if c = CHR ''.'' \<or> c = CHR '','' then iso_fraction vs (drop 3 t) (e - 3)
           else if \<not> colon then iso_hms_from n colon vs (drop 2 t) (e - 2)
           else None)"

abbreviation iso_hms :: "string \<Rightarrow> nat \<Rightarrow> (nat list \<times> nat \<times> bool) option" where
  "iso_hms \<equiv> iso_hms_from 3 True []"

fun hms_seconds :: "nat list \<Rightarrow> nat" where
  "hms_seconds [h] = h * 3600"
| "hms_seconds [h, m] = h * 3600 + m * 60"
| "hms_seconds [h, m, s] = h * 3600 + m * 60 + s"
| "hms_seconds _ = 0"

definition hms_ok :: "nat list \<Rightarrow> bool" where
  "hms_ok vs \<longleftrightarrow> hd vs < 24 \<and> list_all (\<lambda>x. x < 60) (tl vs)"

definition is_zone :: "char \<Rightarrow> bool" where
  "is_zone c \<longleftrightarrow> c = CHR ''+'' \<or> c = CHR ''-'' \<or> c = CHR ''Z''"

definition day_us :: "nat list \<Rightarrow> nat \<Rightarrow> int" where
  "day_us vs us = int (hms_seconds vs) * us_per_second + int us"

text \<open>The time of day and, if one is given, the offset, both in microseconds.\<close>

definition iso_clock :: "string \<Rightarrow> (int \<times> int option) option" where
  "iso_clock t =
     (let z = length (takeWhile (\<lambda>c. \<not> is_zone c) t) in
      case iso_hms t z of None \<Rightarrow> None | Some (vs, us, rest) \<Rightarrow>
        if \<not> hms_ok vs then None
        else if z = length t then (if rest then None else Some (day_us vs us, None))
        else if t ! z = CHR ''Z'' then
          (if char_at t (z + 1) = NUL then Some (day_us vs us, Some 0) else None)
        else case iso_hms (drop (z + 1) t) (length t - (z + 1)) of
               None \<Rightarrow> None
             | Some (ovs, ous, orest) \<Rightarrow>
                 if orest \<or> us_per_day \<le> day_us ovs ous then None
                 else Some (day_us vs us, Some
                   (if hms_seconds ovs = 0 then 0
                    else if t ! z = CHR ''-'' then - day_us ovs ous else day_us ovs ous)))"

definition fromisoformat :: isoparse where
  "fromisoformat text =
     (let s = utf8_text text in
      if length s < 7 then None
      else case iso_separator s of None \<Rightarrow> None | Some k \<Rightarrow>
        case iso_date s k of None \<Rightarrow> None | Some day \<Rightarrow>
          case (if length s \<le> k then Some (0, None)
                else iso_clock (drop (k + (if cp (s ! k) < 128 then 1 else 2)) s)) of
            None \<Rightarrow> None
          | Some (us, off) \<Rightarrow> Some (day * us_per_day + us, off))"

section \<open>The calendar conversions are inverse\<close>

text \<open>Days before a year of the 400-year era, and the estimate the conversion divides by 365.\<close>

definition era_start :: "int \<Rightarrow> int" where
  "era_start y = (if y = 400 then 146097 else 365 * y + y div 4 - y div 100)"

definition era_estimate :: "int \<Rightarrow> int" where
  "era_estimate n = n - n div 1460 + n div 36524 - n div 146096"

lemma minus_div_mono:
  fixes x y c :: int
  assumes "x \<le> y" and "1 \<le> c"
  shows "x - x div c \<le> y - y div c"
proof -
  have "y \<le> x + c * (y - x)" using assms mult_right_mono[of 1 c "y - x"] by simp
  then have "y div c \<le> (x + c * (y - x)) div c" using assms by (intro zdiv_mono1) simp_all
  also have "\<dots> = x div c + (y - x)" using assms by simp
  finally show ?thesis by simp
qed

lemma era_estimate_mono:
  assumes "x \<le> y"
  shows "era_estimate x \<le> era_estimate y"
proof -
  have 4: "n div 146096 = n div 36524 div 4" for n :: int
    using zdiv_zmult2_eq[of 4 n 36524] by simp
  have "x - x div 1460 \<le> y - y div 1460" using assms by (rule minus_div_mono) simp
  moreover have "x div 36524 - x div 36524 div 4 \<le> y div 36524 - y div 36524 div 4"
    using assms by (intro minus_div_mono zdiv_mono1) simp_all
  ultimately show ?thesis unfolding era_estimate_def 4 by linarith
qed

lemma era_years:
  "list_all (\<lambda>y. era_estimate (era_start y) div 365 = y
     \<and> era_estimate (era_start (y + 1) - 1) div 365 = y
     \<and> era_start (y + 1) - era_start y = (if is_leap (y + 1) then 366 else 365)) [0..399]"
  by code_simp

lemma era_year:
  assumes "0 \<le> y" and "y < 400"
  shows "era_estimate (era_start y) div 365 = y"
    and "era_estimate (era_start (y + 1) - 1) div 365 = y"
    and "era_start (y + 1) - era_start y = (if is_leap (y + 1) then 366 else 365)"
  using era_years assms by (auto simp: list_all_iff)

lemma era_locate:
  assumes "0 \<le> n" and "n < 146097"
  shows "\<exists>y. 0 \<le> y \<and> y < 400 \<and> era_start y \<le> n \<and> n < era_start (y + 1)"
proof -
  have "0 \<le> k \<Longrightarrow> k \<le> 400 \<Longrightarrow> n < era_start k
      \<Longrightarrow> \<exists>y. 0 \<le> y \<and> y < 400 \<and> era_start y \<le> n \<and> n < era_start (y + 1)" for k
  proof (induction k rule: int_ge_induct[of 0])
    case base
    then show ?case using assms by (simp add: era_start_def)
  next
    case (step i)
    show ?case
    proof (cases "n < era_start i")
      case True
      then show ?thesis using step by simp
    next
      case False
      then show ?thesis using step by (intro exI[of _ i]) simp
    qed
  qed
  from this[of 400] show ?thesis using assms by (simp add: era_start_def)
qed

lemma era_estimate_year:
  assumes "0 \<le> n" and "n < 146097" and "y = era_estimate n div 365"
  shows "0 \<le> y \<and> y < 400 \<and> era_start y \<le> n \<and> n < era_start (y + 1)"
proof -
  obtain x where x: "0 \<le> x" "x < 400" "era_start x \<le> n" "n \<le> era_start (x + 1) - 1"
    using era_locate[OF assms(1,2)] by auto
  have "x \<le> y" "y \<le> x"
    using zdiv_mono1[OF era_estimate_mono[OF x(3)], of 365] era_year(1)[OF x(1,2)]
      zdiv_mono1[OF era_estimate_mono[OF x(4)], of 365] era_year(2)[OF x(1,2)] assms(3) by simp_all
  then show ?thesis using x by simp
qed

definition month_day :: "int \<Rightarrow> int \<times> int" where
  "month_day doy =
     (let mp = (5 * doy + 2) div 153
      in (if mp < 10 then mp + 3 else mp - 9, doy - (153 * mp + 2) div 5 + 1))"

lemma month_days:
  "list_all (\<lambda>n. case month_day n of (m, d) \<Rightarrow>
     1 \<le> m \<and> m \<le> 12 \<and> 1 \<le> d
     \<and> d \<le> (if m = 2 then if n = 365 then 29 else 28 else if m \<in> {4, 6, 9, 11} then 30 else 31)
     \<and> (n = 365 \<longrightarrow> m = 2)
     \<and> (153 * (if 2 < m then m - 3 else m + 9) + 2) div 5 + d - 1 = n) [0..365]"
  by code_simp

lemma month_day_ok:
  assumes "0 \<le> n" and "n \<le> 365" and "month_day n = (m, d)"
  shows "1 \<le> m" "m \<le> 12" "1 \<le> d"
    "d \<le> (if m = 2 then if n = 365 then 29 else 28 else if m \<in> {4, 6, 9, 11} then 30 else 31)"
    "n = 365 \<longrightarrow> m = 2" "(153 * (if 2 < m then m - 3 else m + 9) + 2) div 5 + d - 1 = n"
proof -
  have "n \<in> set [0..365]" using assms by simp
  note bspec[OF month_days[unfolded list_all_iff] this, unfolded assms(3) prod.case]
  then show "1 \<le> m" "m \<le> 12" "1 \<le> d"
    "d \<le> (if m = 2 then if n = 365 then 29 else 28 else if m \<in> {4, 6, 9, 11} then 30 else 31)"
    "n = 365 \<longrightarrow> m = 2" "(153 * (if 2 < m then m - 3 else m + 9) + 2) div 5 + d - 1 = n"
    by blast+
qed

lemma is_leap_era: "is_leap (y + e * 400) = is_leap y"
proof -
  have "(y + e * 400) mod 4 = y mod 4" "(y + e * 400) mod 100 = y mod 100"
    using mod_mult_self2[of y 4 "100 * e"] mod_mult_self2[of y 100 "4 * e"] by (simp_all add: ac_simps)
  then show ?thesis by (simp add: is_leap_def)
qed

lemma civil_from_days_parts:
  "civil_from_days z =
     (let doe = (z + 719468) mod 146097; yoe = era_estimate doe div 365;
          (m, d) = month_day (doe - (365 * yoe + yoe div 4 - yoe div 100))
      in (yoe + (z + 719468) div 146097 * 400 + (if m \<le> 2 then 1 else 0), m, d))"
  by (simp only: civil_from_days_def Let_def era_estimate_def month_day_def prod.case)

lemma civil_from_days_inverse:
  assumes "civil_from_days z = (y, m, d)"
  shows "days_from_civil y m d = z \<and> 1 \<le> m \<and> m \<le> 12 \<and> 1 \<le> d \<and> d \<le> days_in_month y m"
proof -
  define doe where "doe = (z + 719468) mod 146097"
  define era where "era = (z + 719468) div 146097"
  define yoe where "yoe = era_estimate doe div 365"
  define doy where "doy = doe - era_start yoe"
  have "0 \<le> doe" "doe < 146097" by (simp_all add: doe_def)
  then have yoe: "0 \<le> yoe" "yoe < 400" "era_start yoe \<le> doe" "doe < era_start (yoe + 1)"
    using era_estimate_year yoe_def by blast+
  have st: "era_start yoe = 365 * yoe + yoe div 4 - yoe div 100" using yoe(2) by (simp add: era_start_def)
  have doy: "0 \<le> doy" "doy \<le> 365" "doy = 365 \<Longrightarrow> is_leap (yoe + 1)"
    using yoe era_year(3)[OF yoe(1,2)] by (auto simp: doy_def split: if_splits)
  have ymd: "(m, d) = month_day doy" "y = yoe + era * 400 + (if m \<le> 2 then 1 else 0)"
    using assms unfolding civil_from_days_parts
    by (auto simp: Let_def doe_def[symmetric] era_def[symmetric] yoe_def[symmetric] st[symmetric]
        doy_def[symmetric] split: prod.splits)
  note md = month_day_ok[OF doy(1,2) ymd(1)[symmetric]]
  have "(if m \<le> 2 then y - 1 else y) = yoe + era * 400" by (simp add: ymd(2))
  then have "days_from_civil y m d = era * 146097 + (era_start yoe + doy) - 719468"
    using yoe(1,2) md(6) by (simp add: days_from_civil_def Let_def st)
  then have "days_from_civil y m d = z" by (simp add: doy_def doe_def era_def)
  moreover have "d \<le> days_in_month y m"
    using md(4,5) doy(3) is_leap_era[of "yoe + 1" era] ymd(2)
    by (auto simp: days_in_month_def algebra_simps split: if_splits)
  ultimately show ?thesis using md by simp
qed

section \<open>Reading back what was written\<close>

lemma digits_val_zeros: "digits_val (replicate k 0 @ ds) = digits_val ds"
  by (induction k) (simp_all add: digits_val_def)

lemma pad_int_digits:
  assumes "0 \<le> i" and "i < 10 ^ w" and "0 < w"
  shows "length (pad_int w i) = w" and "list_all is_digit (pad_int w i)"
    and "digits_val (map digit_val (pad_int w i)) = nat i"
proof -
  have "nat i < 10 ^ w" using assms by (simp add: nat_less_iff)
  then have "length (show_nat (nat i)) \<le> w" using assms by (intro show_nat_length)
  then show "length (pad_int w i) = w" by (simp add: pad_int_def Let_def)
  have "is_digit (CHR ''0'')" "digit_val (CHR ''0'') = 0" by (simp_all add: is_digit_def digit_val_def cp_def)
  then show "list_all is_digit (pad_int w i)" "digits_val (map digit_val (pad_int w i)) = nat i"
    using show_nat_digits[of _ "nat i"] digits_val_show_nat[of "nat i"]
    by (auto simp: pad_int_def Let_def list_all_iff digits_val_zeros)
qed

lemma iso_digits_pad:
  "0 \<le> i \<Longrightarrow> i < 10 ^ w \<Longrightarrow> 0 < w \<Longrightarrow> iso_digits (pad_int w i @ r) w = Some (nat i)"
  by (simp add: iso_digits_def pad_int_digits)

lemma pad2:
  assumes "0 \<le> i" and "i < 100"
  shows "length (pad_int 2 i) = 2" "iso_digits (pad_int 2 i @ r) 2 = Some (nat i)"
    "char_at (pad_int 2 i @ c # r) 2 = c" "drop 3 (pad_int 2 i @ c # r) = r"
    "char_at (pad_int 2 i @ r) 2 = char_at r 0"
  using assms pad_int_digits(1)[of i 2] iso_digits_pad[of i 2 r]
  by (auto simp: char_at_def nth_append)

lemma char_at_Cons [simp]: "char_at (c # r) 0 = c"
  by (simp add: char_at_def)

lemma not_digit_sep: "\<not> is_digit (CHR '':'')" "\<not> is_digit NUL"
  by (simp_all add: is_digit_def cp_def)

lemma dropWhile_digit: "\<not> is_digit (char_at r 0) \<Longrightarrow> dropWhile is_digit r = r"
  by (cases r) (auto simp: char_at_def)

lemmas iso_hms_steps =
  iso_hms_from.simps(2)[of 2, simplified] iso_hms_from.simps(2)[of "Suc 0", folded numeral_2_eq_2]
  iso_hms_from.simps(2)[of 0]

declare iso_hms_from.simps [simp del]

lemma iso_hms_minutes:
  assumes "0 \<le> h" "h < 100" "0 \<le> m" "m < 100"
  shows "iso_hms (pad_int 2 h @ CHR '':'' # pad_int 2 m @ r) 5
           = Some ([nat h, nat m], 0, char_at r 0 \<noteq> NUL)"
  using assms by (simp add: iso_hms_steps pad2 iso_hms_from.simps(1) Let_def)

lemma iso_hms_seconds:
  assumes "0 \<le> h" "h < 100" "0 \<le> m" "m < 100" "0 \<le> s" "s < 100"
  shows "iso_hms (pad_int 2 h @ CHR '':'' # pad_int 2 m @ CHR '':'' # pad_int 2 s @ r) 8
           = Some ([nat h, nat m, nat s], 0, char_at r 0 \<noteq> NUL)"
  using assms by (simp add: iso_hms_steps pad2 iso_hms_from.simps(1) Let_def)

lemma iso_hms_fraction:
  assumes "0 \<le> h" "h < 100" "0 \<le> m" "m < 100" "0 \<le> s" "s < 100" "0 \<le> f" "f < 1000000"
    and "\<not> is_digit (char_at r 0)"
  shows "iso_hms (pad_int 2 h @ CHR '':'' # pad_int 2 m @ CHR '':'' # pad_int 2 s @ CHR ''.''
             # pad_int 6 f @ r) 15
           = Some ([nat h, nat m, nat s], nat f, char_at r 0 \<noteq> NUL)"
proof -
  have "iso_fraction vs (pad_int 6 f @ r) 6 = Some (vs, nat f, char_at r 0 \<noteq> NUL)" for vs
    using assms pad_int_digits(1)[of f 6] iso_digits_pad[of f 6 r]
    by (simp add: iso_fraction_def dropWhile_digit)
  then show ?thesis using assms by (simp add: iso_hms_steps pad2 iso_hms_from.simps(1) Let_def)
qed

text \<open>The parts of a time of day.\<close>

lemma clock_parts:
  assumes "0 \<le> us" and "us < us_per_day"
  defines "sec \<equiv> us div us_per_second"
  shows "0 \<le> sec div 3600" "sec div 3600 < 24" "0 \<le> sec div 60 mod 60" "sec div 60 mod 60 < 60"
    "0 \<le> sec mod 60" "sec mod 60 < 60" "0 \<le> us mod us_per_second" "us mod us_per_second < 1000000"
    "sec div 3600 * 3600 + sec div 60 mod 60 * 60 + sec mod 60 = sec"
    "sec * us_per_second + us mod us_per_second = us"
proof -
  have "0 \<le> sec" "sec < 86400"
    using assms by (simp_all add: us_per_second_def us_per_day_def div_less_iff_less_mult)
  then show "0 \<le> sec div 3600" "sec div 3600 < 24" "0 \<le> sec div 60 mod 60" "sec div 60 mod 60 < 60"
    "0 \<le> sec mod 60" "sec mod 60 < 60" "0 \<le> us mod us_per_second" "us mod us_per_second < 1000000"
    "sec * us_per_second + us mod us_per_second = us"
    by (simp_all add: us_per_second_def sec_def)
  have "sec div 3600 = sec div 60 div 60" by simp
  moreover have "x div 60 * 60 + x mod 60 = x" for x :: int by simp
  note this[of "sec div 60"] this[of sec]
  ultimately show "sec div 3600 * 3600 + sec div 60 mod 60 * 60 + sec mod 60 = sec" by linarith
qed

definition clock_hms :: "int \<Rightarrow> nat list" where
  "clock_hms us = (let sec = us div us_per_second
     in [nat (sec div 3600), nat (sec div 60 mod 60), nat (sec mod 60)])"

lemma clock_hms_back:
  assumes "0 \<le> us" and "us < us_per_day"
  shows "hms_ok (clock_hms us)" "day_us (clock_hms us) (nat (us mod us_per_second)) = us"
    "int (hms_seconds (clock_hms us)) = us div us_per_second"
proof -
  define h m sc where d: "h = us div us_per_second div 3600" "m = us div us_per_second div 60 mod 60"
    "sc = us div us_per_second mod 60"
  note p = clock_parts[OF assms, folded d]
  have hms: "clock_hms us = [nat h, nat m, nat sc]" by (simp add: clock_hms_def Let_def d)
  show "hms_ok (clock_hms us)" using p(1-6) unfolding hms hms_ok_def by (simp add: nat_less_iff)
  show sec: "int (hms_seconds (clock_hms us)) = us div us_per_second"
    using p(1-6,9) unfolding hms by simp
  show "day_us (clock_hms us) (nat (us mod us_per_second)) = us"
    using p(7,10) unfolding day_us_def sec by simp
qed

lemma iso_hms_iso_time:
  assumes "0 \<le> us" and "us < us_per_day" and "\<not> is_digit (char_at r 0)"
  shows "iso_hms (iso_time us @ r) (length (iso_time us))
           = Some (clock_hms us, nat (us mod us_per_second), char_at r 0 \<noteq> NUL)"
proof -
  note p = clock_parts[OF assms(1,2)]
  define h m sc f where d: "h = us div us_per_second div 3600" "m = us div us_per_second div 60 mod 60"
    "sc = us div us_per_second mod 60" "f = us mod us_per_second"
  note q = p[folded d]
  have r: "0 \<le> h" "h < 100" "0 \<le> m" "m < 100" "0 \<le> sc" "sc < 100" "0 \<le> f" "f < 1000000"
    using q by simp_all
  have hms: "clock_hms us = [nat h, nat m, nat sc]" by (simp add: clock_hms_def Let_def d)
  have time: "iso_time us = pad_int 2 h @ CHR '':'' # pad_int 2 m @ CHR '':'' # pad_int 2 sc
      @ (if f = 0 then [] else CHR ''.'' # pad_int 6 f)"
    by (simp add: iso_time_def Let_def d)
  have len: "length (pad_int 2 h) = 2" "length (pad_int 2 m) = 2" "length (pad_int 2 sc) = 2"
    "length (pad_int 6 f) = 6" using r by (simp_all add: pad_int_digits)
  show ?thesis
  proof (cases "f = 0")
    case True
    then show ?thesis
      using iso_hms_seconds[OF r(1-6), of r] by (simp add: time hms len d(4)[symmetric])
  next
    case False
    then show ?thesis
      using iso_hms_fraction[OF r assms(3)] by (simp add: time hms len d(4)[symmetric])
  qed
qed

text \<open>The characters of the written form.\<close>

definition iso_chars :: "char set" where
  "iso_chars = {c. is_digit c \<or> c = CHR '':'' \<or> c = CHR ''.''}"

lemma pad_int_chars: "set (pad_int w i) \<subseteq> {c. is_digit c}"
  using show_nat_digits[of _ "nat i"]
  by (auto simp: pad_int_def Let_def is_digit_def cp_def)

lemma iso_time_chars: "set (iso_time us) \<subseteq> iso_chars"
  using pad_int_chars by (auto simp: iso_time_def Let_def iso_chars_def)

lemma iso_chars_not_zone: "c \<in> iso_chars \<Longrightarrow> \<not> is_zone c \<and> is_ascii c"
  by (auto simp: iso_chars_def is_zone_def is_digit_def is_ascii_def cp_def)

lemma utf8_text_ascii: "list_all is_ascii s \<Longrightarrow> utf8_text s = s"
  by (induction s) (auto simp: utf8_text_def is_ascii_def)

text \<open>An offset is read back unless it is below one second.\<close>

definition offset_ok :: "int \<Rightarrow> bool" where
  "offset_ok off \<longleftrightarrow> \<bar>off\<bar> < us_per_day \<and> (off = 0 \<or> us_per_second \<le> \<bar>off\<bar>)"

definition offset_text :: "int \<Rightarrow> string" where
  "offset_text a = (let sec = a div us_per_second; frac = a mod us_per_second
      in pad_int 2 (sec div 3600) @ '':'' @ pad_int 2 (sec div 60 mod 60)
           @ (if sec mod 60 = 0 \<and> frac = 0 then []
              else '':'' @ pad_int 2 (sec mod 60) @ (if frac = 0 then [] else ''.'' @ pad_int 6 frac)))"

lemma iso_offset_text: "iso_offset off = (if off < 0 then CHR ''-'' else CHR ''+'') # offset_text \<bar>off\<bar>"
  by (simp add: iso_offset_def offset_text_def Let_def)

lemma iso_offset_body:
  assumes "0 \<le> a" and "a < us_per_day"
  shows "\<exists>vs us. iso_hms (offset_text a) (length (offset_text a)) = Some (vs, us, False) \<and> day_us vs us = a
           \<and> int (hms_seconds vs) = a div us_per_second \<and> set (offset_text a) \<subseteq> iso_chars"
proof (cases "a div us_per_second mod 60 = 0 \<and> a mod us_per_second = 0")
  case False
  then have "offset_text a = iso_time a" by (auto simp: offset_text_def iso_time_def Let_def)
  moreover have "iso_hms (iso_time a @ []) (length (iso_time a))
      = Some (clock_hms a, nat (a mod us_per_second), char_at [] 0 \<noteq> NUL)"
    by (rule iso_hms_iso_time[OF assms(1,2)]) (simp add: char_at_def not_digit_sep)
  ultimately show ?thesis
    using clock_hms_back[OF assms(1,2)] iso_time_chars by (auto simp: char_at_def)
next
  case True
  note p = clock_parts[OF assms(1,2)]
  let ?h = "a div us_per_second div 3600" and ?m = "a div us_per_second div 60 mod 60"
  have r: "0 \<le> ?h" "?h < 100" "0 \<le> ?m" "?m < 100" using p by linarith+
  have b: "offset_text a = pad_int 2 ?h @ CHR '':'' # pad_int 2 ?m" using True by (simp add: offset_text_def Let_def)
  have "length (offset_text a) = 5" using r by (simp add: b pad_int_digits)
  then have "iso_hms (offset_text a) (length (offset_text a)) = Some ([nat ?h, nat ?m], 0, False)"
    using iso_hms_minutes[OF r, of "[]"] by (simp add: b char_at_def)
  moreover have sec: "int (hms_seconds [nat ?h, nat ?m]) = a div us_per_second"
    using p True by simp
  moreover have "day_us [nat ?h, nat ?m] 0 = a" unfolding day_us_def sec using p True by simp
  moreover have "set (offset_text a) \<subseteq> iso_chars" using pad_int_chars by (auto simp: b iso_chars_def)
  ultimately show ?thesis by blast
qed

lemma iso_clock_written:
  assumes "0 \<le> us" and "us < us_per_day" and "offset_ok off"
  shows "iso_clock (iso_time us @ iso_offset off) = Some (us, Some off)"
    and "list_all is_ascii (iso_time us @ iso_offset off)"
proof -
  define sign where "sign = (if off < 0 then CHR ''-'' else CHR ''+'')"
  define body where "body = offset_text \<bar>off\<bar>"
  have off0: "0 \<le> \<bar>off\<bar>" "\<bar>off\<bar> < us_per_day" using assms(3) by (simp_all add: offset_ok_def)
  obtain vs ous where body: "iso_offset off = sign # body"
    "iso_hms body (length body) = Some (vs, ous, False)" "day_us vs ous = \<bar>off\<bar>"
    "int (hms_seconds vs) = \<bar>off\<bar> div us_per_second" "set body \<subseteq> iso_chars"
    using iso_offset_body[OF off0] iso_offset_text[of off] unfolding body_def sign_def by blast
  have sign: "is_zone sign" "\<not> is_digit sign" "sign \<noteq> NUL" "sign \<noteq> CHR ''Z''" "is_ascii sign"
    by (simp_all add: sign_def is_zone_def is_digit_def cp_def is_ascii_def)
  have z: "takeWhile (\<lambda>c. \<not> is_zone c) (iso_time us @ sign # body) = iso_time us"
    using iso_time_chars iso_chars_not_zone sign by (subst takeWhile_append2) auto
  have "\<bar>off\<bar> div us_per_second = 0 \<longleftrightarrow> \<bar>off\<bar> < us_per_second"
    by (auto simp: us_per_second_def zdiv_eq_0_iff)
  then have "hms_seconds vs = 0 \<longleftrightarrow> \<bar>off\<bar> < us_per_second" using body(4) by linarith
  then have "hms_seconds vs = 0 \<longleftrightarrow> off = 0"
    using assms(3) by (auto simp: offset_ok_def us_per_second_def)
  then have off: "(if hms_seconds vs = 0 then 0 else if sign = CHR ''-'' then - day_us vs ous
      else day_us vs ous) = off"
    using body(3) by (auto simp: sign_def)
  have time: "iso_hms (iso_time us @ sign # body) (length (iso_time us))
      = Some (clock_hms us, nat (us mod us_per_second), True)"
    using iso_hms_iso_time[OF assms(1,2), of "sign # body"] sign by simp
  have lt: "\<not> us_per_day \<le> day_us vs ous" using assms(3) body(3) by (simp add: offset_ok_def)
  show "iso_clock (iso_time us @ iso_offset off) = Some (us, Some off)"
    unfolding iso_clock_def body(1) Let_def z time
    using clock_hms_back(1,2)[OF assms(1,2)] body(2) off lt sign(4)
    by (auto simp: nth_append split: if_splits)
  show "list_all is_ascii (iso_time us @ iso_offset off)"
    using iso_time_chars body(5) iso_chars_not_zone sign(5) by (auto simp: body(1) list_all_iff)
qed

lemma iso_date_written:
  assumes "date_ok y m d"
  shows "iso_separator (pad_int 4 y @ CHR ''-'' # pad_int 2 m @ CHR ''-'' # pad_int 2 d @ c # r) = Some 10"
    and "iso_date (pad_int 4 y @ CHR ''-'' # pad_int 2 m @ CHR ''-'' # pad_int 2 d @ c # r) 10
           = Some (days_from_civil y m d)"
proof -
  have b: "0 \<le> y" "y < 10000" "0 \<le> m" "m < 100" "0 \<le> d" "d < 100"
    using assms by (auto simp: date_ok_def days_in_month_def split: if_splits)
  let ?s = "pad_int 4 y @ CHR ''-'' # pad_int 2 m @ CHR ''-'' # pad_int 2 d @ c # r"
  have len: "length (pad_int 4 y) = 4" "length (pad_int 2 m) = 2" "length (pad_int 2 d) = 2"
    using b by (simp_all add: pad_int_digits)
  obtain m1 m2 where m12: "pad_int 2 m = [m1, m2]"
    using len(2) by (auto simp: numeral_2_eq_2 length_Suc_conv)
  then have "is_digit m1" using pad_int_chars[of 2 m] by auto
  then have W: "m1 \<noteq> CHR ''W''" by (auto simp: is_digit_def cp_def)
  have at: "char_at ?s 4 = CHR ''-''" "char_at ?s 5 = m1" "char_at ?s 7 = CHR ''-''"
    using len by (simp_all add: char_at_def nth_append m12)
  show "iso_separator ?s = Some 10" using at W len by (simp add: iso_separator_def)
  have "iso_digits ?s 4 = Some (nat y)" "iso_digits (drop 5 ?s) 2 = Some (nat m)"
    "iso_digits (drop 8 ?s) 2 = Some (nat d)"
    using b len iso_digits_pad[of y 4] pad2(2)[of m] pad2(2)[of d] by simp_all
  then show "iso_date ?s 10 = Some (days_from_civil y m d)"
    using at W b assms by (simp add: iso_date_def Let_def)
qed

theorem fromisoformat_isoformat:
  assumes "1 \<le> fst (civil_from_days ((dt_utc t + dt_offset t) div us_per_day))"
    and "fst (civil_from_days ((dt_utc t + dt_offset t) div us_per_day)) \<le> 9999"
    and "offset_ok (dt_offset t)"
  shows "fromisoformat (isoformat t) = Some (dt_utc t + dt_offset t, Some (dt_offset t))"
    and "CHR ''Z'' \<notin> set (isoformat t)"
proof -
  define local where "local = dt_utc t + dt_offset t"
  obtain y m d where civil: "civil_from_days (local div us_per_day) = (y, m, d)" by (metis prod_cases3)
  note inv = civil_from_days_inverse[OF civil]
  have ok: "date_ok y m d" using inv assms(1,2) civil by (simp add: date_ok_def local_def[symmetric])
  have us: "0 \<le> local mod us_per_day" "local mod us_per_day < us_per_day"
    by (simp_all add: us_per_day_def)
  let ?clock = "iso_time (local mod us_per_day) @ iso_offset (dt_offset t)"
  note clock = iso_clock_written[OF us assms(3)]
  have iso: "isoformat t = pad_int 4 y @ CHR ''-'' # pad_int 2 m @ CHR ''-'' # pad_int 2 d @ CHR ''T'' # ?clock"
    by (simp add: isoformat_def Let_def local_def[symmetric] civil)
  have digits: "list_all is_ascii (pad_int w i) \<and> CHR ''Z'' \<notin> set (pad_int w i)" for w i
    using pad_int_chars[of w i] by (auto simp: list_all_iff is_ascii_def is_digit_def cp_def)
  have "list_all is_ascii (isoformat t)"
    using clock(2) digits by (auto simp: iso list_all_iff is_ascii_def cp_def)
  then have u: "utf8_text (isoformat t) = isoformat t" by (rule utf8_text_ascii)
  have len: "length (pad_int 4 y) = 4" "length (pad_int 2 m) = 2" "length (pad_int 2 d) = 2"
    using ok by (auto simp: date_ok_def days_in_month_def pad_int_digits split: if_splits)
  have "drop 11 (isoformat t) = ?clock" "isoformat t ! 10 = CHR ''T''" "10 < length (isoformat t)"
    using len by (simp_all add: iso nth_append)
  then show "fromisoformat (isoformat t) = Some (dt_utc t + dt_offset t, Some (dt_offset t))"
    using iso_date_written[OF ok, of "CHR ''T''" ?clock, folded iso] clock(1) inv
    by (simp add: fromisoformat_def Let_def u cp_def local_def)
  have "CHR ''Z'' \<notin> iso_chars" by (simp add: iso_chars_def is_digit_def cp_def)
  moreover have "CHR ''Z'' \<notin> set (iso_offset off)" for off
    using digits by (auto simp: iso_offset_def Let_def)
  ultimately show "CHR ''Z'' \<notin> set (isoformat t)"
    using digits iso_time_chars[of "local mod us_per_day"] by (auto simp: iso)
qed

end
