(* ===== verification/Timestamps.thy ===== *)
theory Timestamps
  imports IsoFormat Sources
begin

text \<open>
  The time stamps of the senders through \<open>_parse_iso\<close>
  (\<^verbatim>\<open>receiver/normalizers/sources.py\<close>), with \<open>fromisoformat\<close> as the standard library
  has it: a stamp in the form \<open>isoformat\<close> writes, or in the form that ends in
  \<^verbatim>\<open>Z\<close>, is the time of the event, to the microsecond and with its offset; anything
  unreadable is the time of arrival.
\<close>

definition stamp_ok :: "py_datetime \<Rightarrow> bool" where
  "stamp_ok t \<longleftrightarrow>
     (let year = fst (civil_from_days ((dt_utc t + dt_offset t) div us_per_day))
      in 1 \<le> year \<and> year \<le> 9999) \<and> offset_ok (dt_offset t)"

text \<open>The same instant with \<^verbatim>\<open>Z\<close> for the offset.\<close>

definition zulu :: "py_datetime \<Rightarrow> string" where
  "zulu t = take (length (isoformat t) - 6) (isoformat t) @ ''Z''"

lemma py_replace_char_absent: "c \<notin> set s \<Longrightarrow> py_replace_char c new s = s"
  by (induction s) (auto simp: py_replace_char_def)

lemma isoformat_not_Nil: "isoformat t \<noteq> []"
  by (auto simp: isoformat_def Let_def split: prod.splits)

lemma parse_iso_isoformat:
  assumes "stamp_ok t"
  shows "parse_iso fromisoformat (isoformat t) fallback = t"
  using fromisoformat_isoformat[of t] assms
  by (simp add: parse_iso_def stamp_ok_def Let_def py_replace_char_absent isoformat_not_Nil)

lemma iso_offset_zero: "iso_offset 0 = ''+00:00''"
  by code_simp

lemma isoformat_utc: "dt_offset t = 0 \<Longrightarrow> \<exists>local. isoformat t = local @ ''+00:00''"
  by (simp add: isoformat_def Let_def iso_offset_zero split: prod.splits)

lemma parse_iso_zulu:
  assumes "stamp_ok t" and "dt_offset t = 0"
  shows "parse_iso fromisoformat (zulu t) fallback = t"
proof -
  obtain l where l: "isoformat t = l @ ''+00:00''" using isoformat_utc[OF assms(2)] by blast
  have z: "CHR ''Z'' \<notin> set l"
    using fromisoformat_isoformat(2)[of t] assms(1) by (auto simp: l stamp_ok_def Let_def)
  have "zulu t = l @ ''Z''" by (simp add: zulu_def l)
  then have "py_replace_char (CHR ''Z'') ''+00:00'' (zulu t) = isoformat t"
    using py_replace_char_absent[OF z] by (simp add: l py_replace_char_def)
  moreover have "py_replace_char (CHR ''Z'') ''+00:00'' (isoformat t) = isoformat t"
    using fromisoformat_isoformat(2)[of t] assms(1)
    by (intro py_replace_char_absent) (simp add: stamp_ok_def Let_def)
  ultimately show ?thesis
    using parse_iso_isoformat[OF assms(1), of fallback] isoformat_not_Nil[of t]
    by (simp add: parse_iso_def zulu_def)
qed

lemma py_strip_plain: "list_all (\<lambda>c. \<not> is_space c) s \<Longrightarrow> py_strip s = s"
proof -
  have "list_all (\<lambda>c. \<not> is_space c) xs \<Longrightarrow> dropWhile is_space xs = xs" for xs by (cases xs) auto
  then show "list_all (\<lambda>c. \<not> is_space c) s \<Longrightarrow> py_strip s = s" by (simp add: py_strip_def list_all_rev)
qed

lemma isoformat_plain: "list_all (\<lambda>c. \<not> is_space c) (isoformat t)"
proof -
  have pad: "list_all (\<lambda>c. \<not> is_space c) (pad_int w i)" for w i
    using pad_int_chars[of w i] by (auto simp: list_all_iff is_digit_def is_space_def cp_def Let_def)
  have chr: "\<not> is_space (CHR ''-'')" "\<not> is_space (CHR '':'')" "\<not> is_space (CHR ''T'')"
    "\<not> is_space (CHR ''.'')" "\<not> is_space (CHR ''+'')"
    by (simp_all add: is_space_def cp_def)
  have "list_all (\<lambda>c. \<not> is_space c) (iso_time us)" for us
    unfolding iso_time_def Let_def by (simp add: pad chr)
  moreover have "list_all (\<lambda>c. \<not> is_space c) (offset_text a)" for a
    unfolding offset_text_def Let_def by (simp add: pad chr)
  ultimately show ?thesis
    unfolding isoformat_def Let_def iso_offset_text
    by (simp add: pad chr split: prod.splits)
qed

lemma generic_occurred_at:
  assumes "normalize_generic isoparse uids (JObj p) rc = Inr es" and "e \<in> set es"
  shows "ev_occurred_at e = parse_iso isoparse (src_text p ''occurred_at'') rc"
  using assms by (auto simp: Let_def build_event_def contract_make_def split: if_splits)

lemma generic_stamp:
  assumes "stamp_ok t" and "py_get p ''occurred_at'' = JStr (isoformat t)"
    and "normalize_generic fromisoformat uids (JObj p) rc = Inr es" and "e \<in> set es"
  shows "ev_occurred_at e = t"
  using generic_occurred_at[OF assms(3,4)] parse_iso_isoformat[OF assms(1)]
  by (simp add: src_text_def assms(2) py_strip_plain[OF isoformat_plain])

end
