(* ===== verification/Examples.thy ===== *)
theory Examples
  imports Bodies Lifecycle Ports HostPorts Inbound DocScripts Timestamps
begin

text \<open>
  Concrete inputs at which the properties of the root theory are applied: an event of a
  Datadog monitor, serializers that know this event, services that answer, and a
  database with one admitted row.
\<close>

definition demo_fp :: string where
  "demo_fp = event_fingerprint ''datadog'' ''42'' [(''service'', ''api'')]"

definition demo_event :: AgentEvent where
  "demo_event =
     \<lparr>schema_version = 1, ev_id = ''e1'', ev_source = DATADOG, ev_kind = ALERT, ev_key = ''42'',
      ev_fingerprint = demo_fp, ev_severity = HIGH, ev_title = ''cpu'', ev_body = [],
      ev_entities = [mk_entity (''service'', ''api'')], ev_occurred_at = utc 0,
      ev_received_at = utc 1000, ev_dedupe_count = 1, ev_raw = []\<rparr>"

text \<open>The same incident a minute later, with its own identifier.\<close>

definition demo_again :: AgentEvent where
  "demo_again = demo_event\<lparr>ev_id := ''e2'', ev_received_at := utc 60001000\<rparr>"

definition demo_codec :: codec where
  "demo_codec = \<lparr>cd_dump = (\<lambda>e. ev_id e),
     cd_load = (\<lambda>s. if s = ''e1'' then Inr demo_event
                    else if s = ''e2'' then Inr demo_again
                    else Inl (ValidationError ''validation error''))\<rparr>"

definition demo_wc :: worker_codec where
  "demo_wc = \<lparr>wc_codec = demo_codec, wc_event_json = (\<lambda>e. JStr (ev_id e)),
     wc_float_json = (\<lambda>_. JFloat ''0.9''), wc_audit_dump = (\<lambda>a. audit_kind_value (aud_kind a)),
     wc_read_llm = (\<lambda>_. None)\<rparr>"

definition demo_io :: handle_io where
  "demo_io = \<lparr>hi_started = 0, hi_stat = None, hi_open = TxOk, hi_write = (\<lambda>_. WriteOk),
     hi_ts = (\<lambda>_. utc 0), hi_elapsed_ms = 3, hi_apply = TxOk, hi_ticket_id = ''t1'', hi_now = 5,
     hi_close = TxOk, hi_finished = 9\<rparr>"

definition demo_db :: db where
  "demo_db = empty_db\<lparr>events := [new_event_row (cd_dump demo_codec) demo_event]\<rparr>"

definition demo_world :: world where
  "demo_world = \<lparr>w_db = demo_db, w_xadds = []\<rparr>"

definition demo_message :: message where
  "demo_message = \<lparr>msg_id = ''1-0'', msg_bytes_fields = [(''event'', ''e1'')], msg_text_fields = []\<rparr>"

definition demo_cfg :: sys_config where
  "demo_cfg = \<lparr>sc_codec = demo_wc, sc_datadog_secret = ''s'', sc_secrets = [], sc_allowlist = []\<rparr>"

definition demo_sys :: sys where
  "demo_sys = worker_put (snd (process_message demo_wc demo_io None demo_message
     (worker_view (initial ''t'' 1)))) (initial ''t'' 1)"

definition demo_start :: wstate where
  "demo_start = \<lparr>ws_db = demo_db, ws_rec = new_recorder ''t'' 1\<rparr>"

lemma demo_event_simps [simp]:
  "ev_id demo_event = ''e1''" "ev_fingerprint demo_event = demo_fp" "ev_severity demo_event = HIGH"
  "ev_id demo_again = ''e2''" "ev_fingerprint demo_again = demo_fp"
  by (simp_all add: demo_event_def demo_again_def)

lemma demo_db_ok: "db_ok demo_db"
  by (simp add: demo_db_def empty_db_def db_ok_def events_ok_def runs_ok_def tickets_ok_def actions_ok_def)

lemma demo_wk_ok: "wk_ok demo_db"
  using demo_db_ok
  by (simp add: wk_ok_def ledger_ok_def runs_wf_def) (simp add: demo_db_def empty_db_def)

lemma demo_world_ok: "world_ok demo_codec demo_world"
  using demo_db_ok
  by (simp add: world_ok_def demo_world_def receipts_backed_def windows_spaced_def)
    (simp add: demo_db_def empty_db_def)

lemma demo_event_valid: "AgentEvent_valid demo_event" "AgentEvent_valid demo_again"
  by (simp_all add: demo_event_def demo_again_def AgentEvent_valid_def contract_ok_def demo_fp_def
      Entity_valid_mk)

lemma demo_reachable: "reachable demo_cfg ''t'' 1 demo_sys"
  unfolding demo_sys_def
  using reachable.more[OF reachable.start step.work[of demo_cfg _ demo_io None demo_message]]
  by (simp add: demo_cfg_def)

lemma demo_attempt_up: "attempt_up demo_io demo_db"
  by (simp add: attempt_up_def demo_io_def demo_db_def empty_db_def)

section \<open>Evaluating a whole attempt\<close>

lemmas run_defs =
  handle_def conclude_def Let_def ws_tx_def ws_record_def record_audit_def append_def open_run_def
  claimed_runs_def close_run_def apply_action_def insert_ticket_def insert_action_def new_run_def
  repointed_def runs_check_def runs_audit_offsets_ordered_def RUN_STATUSES_def start_offset_def
  contract_make_def AuditEvent_valid_def contract_ok_def audit_kind_names ticket_outcome_def
  last_seq_def

lemmas demo_defs =
  demo_wc_def demo_codec_def demo_io_def empty_db_def demo_event_def demo_start_def demo_db_def

lemma demo_sys_tickets: "tickets (w_db (sy_world demo_sys)) = [new_ticket ''t1'' 5 demo_fp]"
  by (simp add: demo_sys_def worker_put_def worker_view_def initial_def process_message_def
      raw_event_def demo_message_def run_defs demo_defs new_ticket_def)

lemma demo_handle_answers: "\<exists>v st'. handle demo_wc demo_io demo_event demo_start = (Inr v, st')"
  by (rule handle_up) (simp_all add: demo_start_def demo_wk_ok demo_attempt_up)

lemma demo_not_concluded: "\<not> run_concluded demo_db ''e1''"
  by (simp add: run_concluded_def demo_db_def empty_db_def)

lemma demo_start_simps [simp]:
  "ws_db demo_start = demo_db" "last_seq (ws_rec demo_start) run = 0"
  by (simp_all add: demo_start_def)

text \<open>The state the demo attempt leaves, with the facts its properties start from.\<close>

definition demo_done :: wstate where
  "demo_done = snd (handle demo_wc demo_io demo_event demo_start)"

lemma demo_done: "\<exists>v. handle demo_wc demo_io demo_event demo_start = (Inr v, demo_done)"
  using demo_handle_answers by (auto simp: demo_done_def)

lemma demo_done_ok: "wk_ok (ws_db demo_done)"
  using handle_wk_ok[of demo_start demo_wc demo_io demo_event] demo_wk_ok by (simp add: demo_done_def)

definition demo_claimed :: db where
  "demo_claimed = demo_db\<lparr>runs := [new_run ''e1'' ''e1'' demo_fp ''f'' 0 0]\<rparr>"

lemma demo_claimed_ok: "db_ok demo_claimed"
  using demo_db_ok
  by (simp add: demo_claimed_def db_ok_def runs_ok_def new_run_def runs_check_def
        runs_audit_offsets_ordered_def RUN_STATUSES_def actions_ok_def demo_db_def empty_db_def)

lemma demo_apply:
  "\<exists>outcome s'. apply_action ''t1'' 5 (triage 3 demo_event (Some ''e1'')) demo_claimed = Inr (outcome, s')"
  by (rule apply_total[OF demo_claimed_ok])
    (simp_all add: demo_claimed_def demo_db_def empty_db_def new_run_def)

definition demo_draft :: "string \<Rightarrow> TicketDraft" where
  "demo_draft fp = \<lparr>schema_version = 1, tkd_fingerprint = fp, tkd_run_id = ''r'', tkd_title = ''t'', tkd_body_md = []\<rparr>"

definition demo_update :: TicketUpdate where
  "demo_update = \<lparr>schema_version = 1, tku_run_id = ''r'', tku_comment_md = ''again'', tku_status = None\<rparr>"

text \<open>A duplicate, a recovery, and the incident again.\<close>

definition demo_ops :: "window_op list" where
  "demo_ops = [Deliver demo_again, Recover demo_fp 60002000, Deliver demo_again]"

lemma demo_db_events: "events demo_db = [new_event_row (cd_dump demo_codec) demo_event]"
  by (simp add: demo_db_def)

lemma demo_arrivals: "arrival demo_event = 1000" "arrival demo_again = 60001000"
  by (simp_all add: arrival_def demo_event_def demo_again_def)

lemma demo_ops_run: "\<exists>as s'. pg_run (cd_dump demo_codec) demo_ops demo_db = Inr (as, s')"
proof -
  let ?row = "new_event_row (cd_dump demo_codec) demo_event"
  have "arrival demo_again < er_received_at ?row + DEDUPE_WINDOW"
    by (simp add: arrival_def demo_again_def demo_event_def DEDUPE_WINDOW_def)
  moreover have "filter (open_event (ev_fingerprint demo_again)) (events demo_db) = [?row]"
    by (simp add: demo_db_events)
  moreover have "er_dedupe_count ?row < pg_int_max" by (simp add: pg_int_max_def)
  ultimately obtain s1 where 1: "admit (cd_dump demo_codec) DEDUPE_WINDOW demo_again demo_db
        = Inr (joined_admission demo_again (row_window ?row), s1)" "db_ok s1"
    using admit_joins[OF demo_db_ok] by blast
  have "fresh_id ''e2'' s1"
    using 1(1) by (cases rule: admit_cases)
      (simp_all add: joined_admission_def fresh_id_def image_update_where, simp add: demo_db_events)
  then have "fresh_id ''e2'' (snd (close_window demo_fp 60002000 s1))" by simp
  moreover have "db_ok (snd (close_window demo_fp 60002000 s1))" by (rule close_window_db_ok[OF 1(2)])
  ultimately have "\<exists>a s2. admit (cd_dump demo_codec) DEDUPE_WINDOW demo_again
      (snd (close_window demo_fp 60002000 s1)) = Inr (a, s2)"
    using admit_first[of "snd (close_window demo_fp 60002000 s1)" demo_again "cd_dump demo_codec" DEDUPE_WINDOW]
    by (auto simp: close_window_events filter_open_close fresh_id_def)
  then show ?thesis using 1(1) by (auto simp: demo_ops_def)
qed

lemma demo_ops_in_order: "ops_in_order DEDUPE_WINDOW demo_ops (table_windows (events demo_db))"
  by (simp add: demo_ops_def demo_db_events table_windows_def row_window_def in_order_def spec_admit_def
        spec_close_def demo_arrivals DEDUPE_WINDOW_def arrival_def[symmetric])

section \<open>A webhook delivery\<close>

definition demo_payload :: json_obj where
  "demo_payload = [(''alert_id'', JStr ''42''), (''tags'', JStr ''service:api,team:x''), (''priority'', JStr ''P2'')]"

definition demo_env :: route_env where
  "demo_env = \<lparr>en_received_at = utc 1000, en_json = (\<lambda>_. Inr (JObj demo_payload)),
     en_isoparse = (\<lambda>_. None), en_codec = demo_codec, en_uuid = (\<lambda>k. ''e'' @ show_nat (Suc k)),
     en_uuid_resolved = (\<lambda>k. ''r'' @ show_nat k), en_quarantine_id = ''q'', en_quarantine_tx = TxOk,
     en_close_tx = (\<lambda>_. TxOk), en_admit_tx = (\<lambda>_. TxOk), en_dispatch = (\<lambda>_. Acked ''1-0'' 2000)\<rparr>"

definition demo_rq :: request where
  "demo_rq = \<lparr>rq_headers = [(''x-smokejumper-token'', ''s'')], rq_body = [], rq_client = None\<rparr>"

definition demo_empty :: world where
  "demo_empty = \<lparr>w_db = empty_db, w_xadds = []\<rparr>"

lemma show_nat_digit: "n < 10 \<Longrightarrow> show_nat n = [digit_char n]"
  by (simp add: show_nat.simps)

lemma demo_uuid: "en_uuid demo_env 0 = ''e1''"
  by (simp add: demo_env_def show_nat_digit digit_char_def) code_simp

lemma demo_verified: "verify_shared_token (rq_headers demo_rq) ''s'' = Inr True"
  by (simp add: verify_shared_token_iff demo_rq_def DATADOG_TOKEN_HEADER_def) code_simp

lemma demo_alert_id: "dd_text demo_payload ''alert_id'' = ''42''"
  by (simp add: demo_payload_def dd_text_def py_strip_def) code_simp

lemma demo_date: "occurred_at_of demo_payload (utc 1000) = Inr (utc 1000)"
  by (simp add: demo_payload_def occurred_at_of_def) code_simp

lemma demo_normalize: "\<exists>e. normalize (JObj demo_payload) (utc 1000) ''e1'' = Inr e"
proof -
  have "normalize (JObj demo_payload) (utc 1000) ''e1'' \<noteq> Inl e" for e
    by (simp add: normalize_Inl demo_alert_id demo_date del: normalize.simps)
  then show ?thesis by (meson Inl_Inr_False sumE)
qed

lemma demo_datadog_event:
  "\<exists>e. datadog_event demo_env demo_rq = Inr (JObj demo_payload, e) \<and> ev_id e = ''e1''
       \<and> AgentEvent_valid e \<and> \<not> is_recovery demo_payload"
proof -
  obtain e where e: "normalize (JObj demo_payload) (utc 1000) ''e1'' = Inr e" using demo_normalize by blast
  have "\<not> is_recovery demo_payload" by (simp add: is_recovery_def demo_payload_def dd_text_def RECOVERY_TRANSITIONS_def)
  moreover have "datadog_event demo_env demo_rq = Inr (JObj demo_payload, e)"
    unfolding datadog_event_def demo_uuid using e by (simp add: demo_env_def del: normalize.simps)
  ultimately show ?thesis using normalize_valid[OF e] by blast
qed

lemma demo_env_up: "env_up n demo_env empty_db \<longleftrightarrow> int n \<le> pg_int_max"
  by (auto simp: env_up_def demo_env_def empty_db_def count_room_def fresh_id_def inj_def show_nat_inj)

definition demo_posted :: sys where
  "demo_posted = (initial ''t'' 1)
     \<lparr>sy_world := snd (datadog_webhook demo_env ''s'' demo_rq (sy_world (initial ''t'' 1)))\<rparr>"

lemma demo_posted_reachable: "reachable demo_cfg ''t'' 1 demo_posted"
proof -
  have "step demo_cfg (initial ''t'' 1) demo_posted"
    unfolding demo_posted_def
    using step.datadog[of demo_env demo_cfg "initial ''t'' 1" demo_rq]
    by (simp add: demo_cfg_def demo_env_def demo_wc_def)
  then show ?thesis using reachable.start by (rule reachable.more[rotated])
qed

lemma demo_admitted:
  assumes "ev_id e = ''e1''"
  shows "admit (cd_dump demo_codec) DEDUPE_WINDOW e empty_db
           = Inr (fresh_admission e, empty_db\<lparr>events := [new_event_row (cd_dump demo_codec) e]\<rparr>)"
  using admit_first[OF db_ok_empty, of e] by (simp add: empty_db_def)

lemma demo_posted_receipt:
  "\<exists>r \<in> set (events (w_db (sy_world demo_posted))). er_queue_message_id r = Some ''1-0''"
proof -
  obtain e where e: "datadog_event demo_env demo_rq = Inr (JObj demo_payload, e)" "ev_id e = ''e1''"
      "\<not> is_recovery demo_payload"
    using demo_datadog_event by blast
  let ?s = "empty_db\<lparr>events := [new_event_row (cd_dump demo_codec) e]\<rparr>"
  let ?w = "demo_empty\<lparr>w_db := ?s\<rparr>"
  have q: "event_for_queue (cd_load demo_codec) ''e1'' (w_db ?w) = Inr (Some (demo_event, None))"
    using e(2) by (simp add: event_for_queue_def) (simp add: demo_codec_def)
  obtain m where "admit_and_publish_one demo_codec TxOk (Acked ''1-0'' 2000) e demo_empty
      = (Inr (admission_result e (fresh_admission e) m),
         snd (dispatch_event demo_codec (Acked ''1-0'' 2000) ''e1'' ?w))"
    using admit_and_publish_one_ok[of demo_codec e demo_empty "fresh_admission e" ?s "Acked ''1-0'' 2000"]
      demo_admitted[OF e(2)] e(2)
    by (auto simp: demo_empty_def fresh_admission_def)
  then have "w_db (snd (datadog_webhook demo_env ''s'' demo_rq demo_empty)) = mark_queued ''e1'' ''1-0'' 2000 ?s"
    using e(1,3) dispatch_acked[OF q, of "''1-0''" 2000]
    by (simp add: datadog_webhook_def demo_verified) (simp add: demo_env_def)
  then show ?thesis
    using e(2) by (simp add: demo_posted_def initial_def demo_empty_def mark_queued_def)
qed

text \<open>The same environment with Redis refusing.\<close>

definition demo_env_down :: route_env where
  "demo_env_down = demo_env\<lparr>en_dispatch := (\<lambda>_. RedisDown (RedisError ''refused''))\<rparr>"

definition demo_peer :: request where
  "demo_peer = demo_rq\<lparr>rq_client := Some ''10.1.2.3''\<rparr>"

lemma demo_peer_octets:
  "map parse_octet [''10'', ''1'', ''2'', ''3''] = [Some 10, Some 1, Some 2, Some 3]"
  by (simp add: parse_octet_def is_digit_def digit_val_def digits_val_def cp_def)

lemma demo_peer_address: "ip_address ''10.1.2.3'' = Some (IPv4 0x0A010203)"
  using demo_peer_octets by (simp add: ip_address_def ipv4_int_def)

lemma demo_peer_in: "in_network (IPv4 0x0A010203) (IPv4Network 0x0A000000 8)"
  by code_simp

lemma demo_peer_verified: "hook_verify Alertmanager [] [IPv4Network 0x0A000000 8] demo_peer = Inr True"
  using demo_peer_in
  by (simp add: hook_verify_def verify_source_ip_def demo_peer_def demo_peer_address del: in_network.simps)

definition demo_unset :: WebhookSettings where
  "demo_unset = \<lparr>wh_grafana = None, wh_datadog = Some [], wh_pagerduty = None, wh_generic = None,
     wh_alertmanager_allowlist = []\<rparr>"

lemma far_date_exponent: "ratio_exponent 100000000000000000000 1000 = 56"
proof -
  have "floorlog 2 100000000000000000000 = 67" "floorlog 2 1000 = 10"
    by (simp_all add: compute_floorlog)
  then show ?thesis by (simp add: ratio_exponent_def bit_len_def)
qed

lemma far_date:
  "py_int (py_str (JInt 100000000000000000000)) = Some 100000000000000000000"
  "fromtimestamp 100000000000000000000 1000 = Inl (OSError ''[Errno 75] Value too large for defined data type'')"
proof -
  have "length (show_nat 100000000000000000000) \<le> 4300" by (simp add: show_nat.simps)
  from py_int_show_nat[OF this]
  show "py_int (py_str (JInt 100000000000000000000)) = Some 100000000000000000000"
    by (simp add: show_int_def)
qed (simp add: fromtimestamp_def far_date_exponent binary64_def round_half_even_def us_per_second_def)

lemma far_date_500:
  assumes "verify_shared_token (rq_headers rq) secret = Inr True"
    and "en_json env (rq_body rq) = Inr (JObj p)" and "dd_text p ''alert_id'' \<noteq> []"
    and "py_get p ''date'' = JInt 100000000000000000000"
  shows "http_status (datadog_webhook env secret rq w) = 500
         \<and> snd (datadog_webhook env secret rq w) = w"
proof -
  have "occurred_at_of p (en_received_at env) = Inl (OSError ''[Errno 75] Value too large for defined data type'')"
    using assms(4) far_date by (simp add: occurred_at_of_def)
  then have "normalize (JObj p) (en_received_at env) (en_uuid env 0)
      = Inl (OSError ''[Errno 75] Value too large for defined data type'')"
    using assms(3) by (simp add: normalize_Inl del: normalize.simps)
  then have "datadog_event env rq = Inl (OSError ''[Errno 75] Value too large for defined data type'')"
    using assms(2) by (simp add: datadog_event_def del: normalize.simps)
  then show ?thesis using assms(1) by (simp add: datadog_webhook_def quarantine_delivery_def http_status_def)
qed

definition demo_payload_2 :: json_obj where
  "demo_payload_2 = [(''alert_id'', JStr '' 42''), (''tags'', JList [JStr ''SERVICE: api'', JStr ''service:api'']),
     (''title'', JStr ''other'')]"

lemma demo_alert_id_2: "dd_text demo_payload_2 ''alert_id'' = ''42''"
  by (simp add: demo_payload_2_def dd_text_def py_strip_def) code_simp

lemma demo_date_2: "occurred_at_of demo_payload_2 (utc 2000) = Inr (utc 2000)"
  by (simp add: demo_payload_2_def occurred_at_of_def) code_simp

lemma demo_normalize_2: "\<exists>e. normalize (JObj demo_payload_2) (utc 2000) ''e2'' = Inr e"
proof -
  have "normalize (JObj demo_payload_2) (utc 2000) ''e2'' \<noteq> Inl e" for e
    by (simp add: normalize_Inl demo_alert_id_2 demo_date_2 del: normalize.simps)
  then show ?thesis by (meson Inl_Inr_False sumE)
qed

lemma demo_same_tags:
  "set (List.map_filter tag_pair (parse_tags (py_get demo_payload ''tags'')))
     = set (List.map_filter tag_pair (parse_tags (py_get demo_payload_2 ''tags'')))"
proof -
  have "List.map_filter tag_pair (parse_tags (py_get demo_payload ''tags'')) = [(''service'', ''api'')]"
    by code_simp
  moreover have "List.map_filter tag_pair (parse_tags (py_get demo_payload_2 ''tags''))
      = [(''service'', ''api''), (''service'', ''api'')]"
    by code_simp
  ultimately show ?thesis by simp
qed

definition demo_pd :: "string \<Rightarrow> json_obj" where
  "demo_pd event_type = [(''event'', JObj [(''event_type'', JStr event_type), (''data'',
     JObj [(''dedup_key'', JStr ''k''), (''service'', JObj [(''summary'', JStr ''api'')])])])]"

lemma demo_pd_data:
  "pagerduty_data (demo_pd t) = [(''dedup_key'', JStr ''k''), (''service'', JObj [(''summary'', JStr ''api'')])]"
  by (simp add: pagerduty_data_def demo_pd_def src_obj_def)

lemma demo_pd_event: "\<exists>e. pagerduty_event isoparse (demo_pd t) rc uid = Inr e"
proof -
  have "pagerduty_key [(''dedup_key'', JStr ''k''), (''service'', JObj [(''summary'', JStr ''api'')])] \<noteq> []"
    by code_simp
  then show ?thesis
    using build_event_ok[OF _ pagerduty_entities_valid] by (simp add: pagerduty_event_def demo_pd_data Let_def) blast
qed

lemma demo_pd_trigger:
  "\<exists>e. normalize_pagerduty isoparse uids (JObj (demo_pd ''incident.triggered'')) rc = Inr [e]"
proof -
  have "\<not> pagerduty_is_resolved (demo_pd ''incident.triggered'')" by code_simp
  then show ?thesis using demo_pd_event by auto
qed

lemma demo_pd_resolve:
  "\<exists>e. resolved_pagerduty isoparse uids (JObj (demo_pd ''incident.resolved'')) rc = Inr [e]"
proof -
  have "pagerduty_is_resolved (demo_pd ''incident.resolved'')" by code_simp
  then show ?thesis using demo_pd_event by auto
qed

definition demo_alert :: json_obj where
  "demo_alert = [(''status'', JStr ''resolved''), (''fingerprint'', JStr ''f1'')]"

definition demo_resolve_env :: route_env where
  "demo_resolve_env = demo_env\<lparr>en_json := (\<lambda>_. Inr (JObj [(''alerts'', JList [JObj demo_alert])]))\<rparr>"

lemma demo_resolve_events: "\<exists>e. hook_events demo_resolve_env Alertmanager demo_peer = Inr ([], [e])"
proof -
  have "alert_key demo_alert \<noteq> []" "alert_is_resolved demo_alert" by code_simp+
  then show ?thesis
    using label_alert_total[of demo_alert]
    by (simp add: hook_events_def demo_resolve_env_def demo_env_def label_batch_def)
qed

definition demo_settings :: "string \<Rightarrow> Settings" where
  "demo_settings env =
     \<lparr>st_env = env, st_compose_profiles = [], st_log_dir = ''logs'',
      st_database = \<lparr>db_url = ''postgresql://db/smokejumper''\<rparr>, st_redis = \<lparr>rd_url = ''redis://redis''\<rparr>,
      st_ports = default_ports,
      st_model = \<lparr>md_worker = None, md_synthesis = None, md_api_key = None\<rparr>,
      st_embedding = \<lparr>em_model = None, em_dimension = None\<rparr>,
      st_budget = \<lparr>bg_max_usd_per_run = Some 5\<rparr>,
      st_slack = \<lparr>sl_bot_token = None, sl_app_token = None, sl_channel_id = None\<rparr>,
      st_ticketing = \<lparr>ts_provider = ''linear'', ts_api_key = None, ts_team_id = None, ts_project_id = None\<rparr>,
      st_tools = \<lparr>tl_prometheus_url = None, tl_loki_url = None\<rparr>, st_webhooks = demo_unset\<rparr>"

lemma demo_settings_valid: "Settings_valid (demo_settings ''dev'')" "Settings_valid (demo_settings ''prod'')"
  by (simp_all add: Settings_valid_def demo_settings_def PortSelection_valid_def default_ports_def
      EmbeddingSettings_valid_def BudgetSettings_valid_def)

section \<open>A small documentation tree\<close>

definition demo_page :: string where
  "demo_page = ''See [the spec](../SPEC.md#x) and ![home](https://example.org).''"

definition demo_docs :: doc_tree where
  "demo_docs =
     \<lparr>dt_readme = Some (Inr ''# Smokejumper''),
      dt_spec = Some (Inr (concat REQUIRED_SPEC_HEADINGS)),
      dt_markdown =
        [([''docs'', ''a.md''], Inr demo_page),
         ([''node_modules'', ''b.md''], Inr ''[broken](nowhere.md)'')],
      dt_exists = (\<lambda>parent path. Inr (parent = [''docs''] \<and> path = ''../SPEC.md''))\<rparr>"

section \<open>A time stamp\<close>

lemma digit_chars:
  "digit_char 0 = CHR ''0''" "digit_char (Suc 0) = CHR ''1''" "digit_char 1 = CHR ''1''"
  "digit_char 2 = CHR ''2''" "digit_char 3 = CHR ''3''" "digit_char 4 = CHR ''4''"
  "digit_char 5 = CHR ''5''" "digit_char 6 = CHR ''6''" "digit_char 7 = CHR ''7''"
  "digit_char 8 = CHR ''8''" "digit_char 9 = CHR ''9''"
  by code_simp+

definition demo_stamp :: py_datetime where "demo_stamp = utc 1709210096789012"

lemma demo_iso: "isoformat demo_stamp = ''2024-02-29T12:34:56.789012+00:00''"
proof -
  have "iso_time 45296789012 = ''12:34:56.789012''"
    by (simp add: iso_time_def us_per_second_def pad_int_def show_nat.simps digit_chars Let_def)
  moreover have "civil_from_days 19782 = (2024, 2, 29)" by code_simp
  ultimately show ?thesis
    by (simp add: demo_stamp_def isoformat_def us_per_day_def iso_offset_zero pad_int_def show_nat.simps
        digit_chars)
qed

lemma demo_zulu: "zulu demo_stamp = ''2024-02-29T12:34:56.789012Z''"
  by (simp add: zulu_def demo_iso)

section \<open>Bodies as bytes\<close>

definition demo_other :: "string \<Rightarrow> byte list \<Rightarrow> utext result" where
  "demo_other encoding body = Inl (ValueError ''not UTF-8'')"

definition demo_bytes_env :: route_env where
  "demo_bytes_env = demo_env\<lparr>en_json := body_json demo_other id\<rparr>"

lemma demo_bytes_up: "env_up 1 demo_bytes_env (w_db demo_empty)"
  using demo_env_up[of 1] by (simp add: env_up_def demo_bytes_env_def demo_empty_def pg_int_max_def)

lemma demo_refusals:
  "json_refusal demo_other id (utf8 ''{'')
     = Some (ValueError ''Expecting property name enclosed in double quotes: line 1 column 2 (char 1)'')"
  "json_refusal demo_other id [123, 255]
     = Some (ValueError (squote # ''utf-8'' @ squote # '' codec can'' @ squote # ''t decode byte 0xff in position 1: invalid start byte''))"
  by code_simp+

section \<open>Audit lines\<close>

definition demo_actor :: string where
  "demo_actor = [dquote, bslash, CHR 0x0A, CHR 0xE9]"

definition demo_audit :: "uuid \<Rightarrow> string \<Rightarrow> AuditEvent" where
  "demo_audit run actor = audit_event run 1 (utc 0) actor EVENT []"

definition demo_audit_obj :: "AuditEvent \<Rightarrow> json_obj" where
  "demo_audit_obj e =
     [(''schema_version'', JInt 1), (''run_id'', JStr (aud_run_id e)), (''seq'', JInt (aud_seq e)),
      (''ts'', JStr ''2026-01-01T00:00:00Z''), (''actor'', JStr (aud_actor e)),
      (''kind'', JStr (audit_kind_value (aud_kind e))), (''payload'', JObj (aud_payload e))]"

definition demo_audit_dump :: "AuditEvent \<Rightarrow> string" where
  "demo_audit_dump e = json_dumps (JObj (demo_audit_obj e))"

lemma demo_line_reads:
  assumes "k \<in> {1, 2}"
  shows "line_reads id demo_audit_dump demo_audit_obj ((demo_audit run actor)\<lparr>aud_seq := k\<rparr>)"
  using assms
  by (auto simp: line_reads_def demo_audit_dump_def demo_audit_obj_def demo_audit_def audit_event_def show_nat_digit
      simp del: json_dumps.simps)

text \<open>
  A write that fails half way leaves its bytes in the file, and the next line is appended to
  them: \<open>append\<close> answers with a sequence number and an offset, but the record cannot be read
  back, nor any other of that file.
\<close>

definition demo_short_dump :: "AuditEvent \<Rightarrow> string" where
  "demo_short_dump e = json_dumps (JObj [(''run_id'', JStr (aud_run_id e)), (''seq'', JInt (aud_seq e))])"

definition demo_torn_text :: utext where
  "demo_torn_text =
     [123, 34, 114, 117, 110, 95, 105, 100, 34,
      123, 34, 114, 117, 110, 95, 105, 100, 34, 58, 34, 114, 34, 44, 34, 115, 101, 113, 34, 58, 49, 125, 10]"

lemma demo_torn_loads:
  "json_loads id demo_torn_text =
     Inl (ValueError (''Expecting '' @ squote # '':'' @ squote # '' delimiter: line 1 column 10 (char 9)''))"
  by (simp add: demo_torn_text_def json_loads_def json_decode_def scan_once.simps scan_object.simps skip_ws_def
      is_ws_def scan_map_def decode_error_def Let_def show_nat.simps) code_simp

lemma torn_line_unreadable:
  fixes torn rc
  defines "torn \<equiv> snd (append demo_short_dump (WriteFails 9 ''No space left on device'') (demo_audit ''q'' ''x'')
                     (new_recorder ''t'' 1))"
    and "rc \<equiv> snd (append demo_short_dump WriteOk (demo_audit ''r'' ''x'') torn)"
  shows "\<exists>off. fst (append demo_short_dump WriteOk (demo_audit ''r'' ''x'') torn) = Inr (1, off)"
    and "read_run id ''r'' rc =
          Inl (ValueError (''Expecting '' @ squote # '':'' @ squote # '' delimiter: line 1 column 10 (char 9)''))"
proof -
  let ?q = "(demo_audit ''q'' ''x'')\<lparr>aud_seq := 1\<rparr>" and ?r = "(demo_audit ''r'' ''x'')\<lparr>aud_seq := 1\<rparr>"
  have run: "aud_run_id (demo_audit x y) = x" for x y by (simp add: demo_audit_def audit_event_def)
  have ls: "last_seq torn ''r'' = 0" by (simp add: torn_def append_seq run)
  show "\<exists>off. fst (append demo_short_dump WriteOk (demo_audit ''r'' ''x'') torn) = Inr (1, off)"
    by (simp add: append_def Let_def run ls)
  have "list_all (\<lambda>c. cp c < 128) (demo_short_dump ?q)" "9 \<le> length (demo_short_dump ?q)" by code_simp+
  then have "rc_file torn = utf8 (take 9 (demo_short_dump ?q))"
    using append_torn[of demo_short_dump "new_recorder ''t'' 1" "demo_audit ''q'' ''x''" 9] by (simp add: torn_def run)
  then have "rc_file rc = utf8 (take 9 (demo_short_dump ?q) @ demo_short_dump ?r @ [CHR 0x0A])"
    by (simp add: rc_def append_def Let_def run ls audit_line_def utf8_append)
  moreover have "uc (take 9 (demo_short_dump ?q) @ demo_short_dump ?r @ [CHR 0x0A]) = demo_torn_text" by code_simp
  moreover have "filter (\<lambda>l. \<not> blank l) (file_lines (universal_newlines demo_torn_text)) = [demo_torn_text]"
    by code_simp
  ultimately show "read_run id ''r'' rc =
          Inl (ValueError (''Expecting '' @ squote # '':'' @ squote # '' delimiter: line 1 column 10 (char 9)''))"
    by (simp add: read_run_def line_record_def demo_torn_loads del: uc_append append_assoc)
qed

section \<open>The life of the process\<close>

definition demo_turns :: "turn list" where
  "demo_turns =
     [\<lparr>tn_stop = False, tn_batch = Inl (TimeoutError ''timed out''), tn_io = (\<lambda>_. (demo_io, None))\<rparr>,
      \<lparr>tn_stop = False, tn_batch = Inr [demo_message, demo_message], tn_io = (\<lambda>_. (demo_io, None))\<rparr>]"

definition demo_stop :: lifespan_io where
  "demo_stop = \<lparr>li_body = None, li_dispose = Inl (OSError ''closed''), li_aclose = Inr (),
     li_worker_end = TaskCancelled, li_outbox_end = TaskCancelled\<rparr>"

definition demo_recorder :: recorder where
  "demo_recorder = new_recorder ''t'' 1"

definition demo_probes :: probes where
  "demo_probes = \<lparr>pr_postgres = Answers (Inr ()), pr_schema = Answers (Inr (Some SCHEMA_HEAD)),
     pr_redis = Hangs, pr_groups = Inr [], pr_count = None\<rparr>"

end
