(* ===== verification/PortContracts.thy ===== *)
theory PortContracts
  imports Ports Config
begin

text \<open>
  What the Protocol classes of \<^verbatim>\<open>ports/\<close> promise, as locales, and which of the substitutes of
  \<^verbatim>\<open>ports/stubs.py\<close> keep it: the memory store and the findings only ever grow, the recorded
  model embeds text for text at its width, a channel's timestamps are distinct. \<open>AllowAll\<close> does not keep the promise of single-use
  tokens (\<open>allow_all_reuses\<close>), which is why every substitute says its name when it is built and
  \<^verbatim>\<open>prod\<close> refuses all of them (\<open>substitute_refused\<close>).
\<close>

section \<open>The line every substitute writes at boot\<close>

datatype substitute =
    AllowAll | NoopGovernance | RecordedModel | FixturePlatform | FakeChannel | FixtureTicketing | InMemoryStore

fun class_name :: "substitute \<Rightarrow> string" where
  "class_name AllowAll = ''AllowAll''"
| "class_name NoopGovernance = ''NoopGovernance''"
| "class_name RecordedModel = ''RecordedModel''"
| "class_name FixturePlatform = ''FixturePlatform''"
| "class_name FakeChannel = ''FakeChannel''"
| "class_name FixtureTicketing = ''FixtureTicketing''"
| "class_name InMemoryStore = ''InMemoryStore''"

definition announce :: "substitute \<Rightarrow> string \<Rightarrow> string" where
  "announce s port =
     ''port substitute in use: '' @ class_name s @ '' backs '' @ port @ '' and enforces nothing''"

text \<open>The port each \<^verbatim>\<open>__init__\<close> names.\<close>

fun announced_port :: "substitute \<Rightarrow> string" where
  "announced_port AllowAll = ''AuthPort''"
| "announced_port NoopGovernance = ''GovernancePort''"
| "announced_port RecordedModel = ''ModelProvider''"
| "announced_port FixturePlatform = ''PlatformPort''"
| "announced_port FakeChannel = ''ChannelAdapter''"
| "announced_port FixtureTicketing = ''TicketingPort''"
| "announced_port InMemoryStore = ''MemoryPort''"

lemma announce_inj: "announce s (announced_port s) = announce t (announced_port t) \<longleftrightarrow> s = t"
  by (cases s; cases t) (simp_all add: announce_def)

text \<open>The substitutes are exactly the selections \<^verbatim>\<open>STUB_SELECTIONS\<close> lists, so \<^verbatim>\<open>prod\<close> refuses each.\<close>

lemma substitutes_listed: "range class_name = set (map snd STUB_SELECTIONS)"
proof
  show "range class_name \<subseteq> set (map snd STUB_SELECTIONS)"
  proof
    fix n assume "n \<in> range class_name"
    then obtain s where "n = class_name s" by blast
    then show "n \<in> set (map snd STUB_SELECTIONS)" by (cases s) (simp_all add: STUB_SELECTIONS_def)
  qed
  have "list_all (\<lambda>n. n \<in> range class_name) (map snd STUB_SELECTIONS)"
    unfolding STUB_SELECTIONS_def
    by (simp add: image_iff) (metis class_name.simps)
  then show "set (map snd STUB_SELECTIONS) \<subseteq> range class_name" by (auto simp: list_all_iff)
qed

lemma substitute_refused:
  assumes "(port, class_name s) \<in> set STUB_SELECTIONS" and "port_attr (st_ports st) port = class_name s"
    and "st_env st = ''prod''"
  shows "boot_problems st \<noteq> []"
proof -
  have "port \<in> set (stubbed (st_ports st))" using assms(1,2) by (force simp: stubbed_def)
  then have "stubbed (st_ports st) \<noteq> []" by auto
  then show ?thesis using assms(3) by (simp add: boot_problems_def stub_problems_def Let_def)
qed

section \<open>Contracts\<close>

text \<open>A store that is only ever appended to: \<open>MemoryPort\<close>, and the findings written to a platform.\<close>

locale append_only =
  fixes put :: "'e \<Rightarrow> 's \<Rightarrow> 's"
    and held :: "'s \<Rightarrow> 'e list"
  assumes put_held: "held (put e s) = held s @ [e]"
begin

lemma puts_held: "held (fold put es s) = held s @ es"
  by (induction es arbitrary: s) (simp_all add: put_held)

lemma never_overwritten: "i < length (held s) \<Longrightarrow> held (fold put es s) ! i = held s ! i"
  by (simp add: puts_held nth_append)

end

interpretation mem: append_only write_episode "\<lambda>s. s"
  by unfold_locales (simp add: write_episode_def)

interpretation plat: append_only write_finding fxp_written
  by unfold_locales (simp add: write_finding_def)

text \<open>A search that is bounded by the episodes there are returns every one of them, oldest first.\<close>

lemma episodes_found:
  assumes "int (length es) \<le> limit"
  shows "search_episodes limit (fold write_episode es []) = es"
  using mem.puts_held[of es "[]"] assms by (simp add: search_episodes_def)

text \<open>\<open>ModelProvider.embed\<close>: one vector per text, in order, all of one width.\<close>

locale embedder =
  fixes embed :: "string list \<Rightarrow> rat list list"
    and width :: nat
  assumes one_per_text: "length (embed texts) = length texts"
    and vector_width: "v \<in> set (embed texts) \<Longrightarrow> length v = width"
begin

lemma embed_matrix: "sum_list (map length (embed texts)) = length texts * width"
proof -
  have "map length (embed texts) = replicate (length texts) width"
    by (intro nth_equalityI) (simp_all add: one_per_text vector_width[OF nth_mem])
  then show ?thesis by (simp add: sum_list_replicate)
qed

end

interpretation rm: embedder "\<lambda>texts. model_embed texts m" "nat (rm_dimension m)" for m
  by unfold_locales (auto simp: model_embed_def)

text \<open>The timestamps a channel answers with tell its messages apart.\<close>

fun send_all :: "(string \<times> string \<times> string option) list \<Rightarrow> sent_message list \<Rightarrow> string list" where
  "send_all [] sent = []"
| "send_all ((c, t, th) # ms) sent =
     fst (channel_send c t th sent) # send_all ms (snd (channel_send c t th sent))"

lemma send_all_stamps:
  "send_all ms sent = map (\<lambda>n. show_nat n @ ''.000000'') [length sent ..< length sent + length ms]"
proof (induction ms sent rule: send_all.induct)
  case (2 c t th ms sent)
  then show ?case by (simp add: channel_send_def upt_conv_Cons del: upt_Suc)
qed simp

lemma stamps_distinct: "distinct (send_all ms sent)"
  by (simp add: send_all_stamps distinct_map inj_on_def show_nat_inj)

text \<open>
  \<open>AuthPort.consume_approval_token\<close> spends a token once; \<open>AllowAll\<close> accepts any token, for any
  binding, any number of times.
\<close>

definition single_use :: "(string list \<Rightarrow> string \<Rightarrow> bool) \<Rightarrow> bool" where
  "single_use accepts \<longleftrightarrow> (\<forall>spent token. token \<in> set spent \<longrightarrow> \<not> accepts spent token)"

lemma allow_all_reuses: "\<not> single_use (\<lambda>spent token. allow_all_consume token binding)"
  by (auto simp: single_use_def allow_all_consume_def intro: exI[of _ "[[]]"])

end
