(* ===== verification/Swimlane.thy ===== *)
theory Swimlane
  imports PyText Complex_Main
begin

text \<open>
  The swimlane renderer, \<^verbatim>\<open>architecture/_gen/swimlane.py\<close>: lanes are rows, time is columns,
  a step is a card at a lane and a column, an edge an arrow between two cards. \<open>render\<close>
  gives the list of SVG elements the code appends, in its order, or the exception it raises
  for an unknown kind or an index out of range. Coordinates are exact rationals: every
  length of the layout is a whole number of halves, which a float holds exactly, except the
  widths estimated from the length of a label (6.3 and 5.4 per character). How a number is
  printed is not modelled. Text is a list of code points, since the diagrams use arrows
  and dashes beyond Latin-1.

  The lemmas show that a diagram whose steps lie in its grid renders, that every card lies
  inside its lane, its columns and the canvas, that cards of different cells do not overlap,
  and that no text can break the markup.
\<close>

section \<open>Data\<close>

definition PALETTE :: "(string \<times> string \<times> string \<times> string) list" where
  "PALETTE =
     [(''core'', ''#e3f3f6'', ''#0b7285'', ''#0b3a42''),
      (''files'', ''#e6f4ea'', ''#2b8a3e'', ''#1b4d24''),
      (''port'', ''#f1f3f5'', ''#5b6b7a'', ''#3d4852''),
      (''gate'', ''#fbf0da'', ''#9a6700'', ''#5c3d00''),
      (''audit'', ''#efeafb'', ''#6741b8'', ''#2f1e5c''),
      (''store'', ''#eef2fb'', ''#3f5b9a'', ''#1f2d4a''),
      (''human'', ''#fff4e6'', ''#d9480f'', ''#6b2a00''),
      (''signal'', ''#fff0f0'', ''#c92a2a'', ''#5c0d0d''),
      (''ok'', ''#e6f4ea'', ''#2b8a3e'', ''#1b4d24'')]"

definition GREY :: string where "GREY = ''#5b6b7a''"
definition INK :: string where "INK = ''#10334a''"

definition palette :: "string \<Rightarrow> (string \<times> string \<times> string) result" where
  "palette kind = (case map_of PALETTE kind of None \<Rightarrow> Inl (KeyError kind) | Some c \<Rightarrow> Inr c)"

record Step =
  sp_lane :: int
  sp_col :: int
  sp_title :: utext
  sp_lines :: "utext list"
  sp_kind :: string
  sp_span :: int
  sp_badge :: "utext option"

record Diagram =
  dg_title :: utext
  dg_subtitle :: utext
  dg_lanes :: "utext list"
  dg_columns :: "utext list"
  dg_steps :: "Step list"
  dg_edges :: "(int \<times> int \<times> utext option) list"
  dg_footer :: "utext list"
  dg_legend :: "(string \<times> utext) list"
  dg_lane_w :: int
  dg_col_w :: int
  dg_card_w :: int
  dg_line_h :: int
  dg_pad :: int

text \<open>The elements of the picture; a text holds what \<^verbatim>\<open>html.escape\<close> gives.\<close>

datatype elem =
    SvgOpen int int
  | SvgTitle utext
  | SvgDesc utext
  | SvgDefs
  | Background int int
  | Rect (re_x: rat) (re_y: rat) (re_w: rat) (re_h: rat) (re_rx: "rat option") string string "rat option"
  | Txt rat rat rat "string option" string string utext
  | Line rat rat rat rat string bool
  | Path "(rat \<times> rat) list"
  | SvgClose

definition escape_char :: "nat \<Rightarrow> utext" where
  "escape_char c =
     (if c = 38 then uc ''&amp;'' else if c = 60 then uc ''&lt;'' else if c = 62 then uc ''&gt;''
      else if c = 34 then uc ''&quot;'' else if c = 39 then uc ''&#x27;'' else [c])"

definition html_escape :: "utext \<Rightarrow> utext" where
  "html_escape s = concat (map escape_char s)"

definition text_elem ::
  "rat \<Rightarrow> rat \<Rightarrow> utext \<Rightarrow> rat \<Rightarrow> string option \<Rightarrow> string \<Rightarrow> string \<Rightarrow> elem" where
  "text_elem x y s sz weight fill anchor = Txt x y sz weight fill anchor (html_escape s)"

text \<open>\<^verbatim>\<open>xs[i]\<close>, negative indices from the end\<close>

definition py_index :: "'a list \<Rightarrow> int \<Rightarrow> 'a result" where
  "py_index xs i =
     (if 0 \<le> i \<and> i < int (length xs) then Inr (xs ! nat i)
      else if i < 0 \<and> - int (length xs) \<le> i then Inr (xs ! nat (int (length xs) + i))
      else Inl (IndexError ''list index out of range''))"

text \<open>Truthiness of an optional text: \<^verbatim>\<open>None\<close> and the empty text are false.\<close>

definition given :: "utext option \<Rightarrow> bool" where
  "given t \<longleftrightarrow> t \<noteq> None \<and> t \<noteq> Some []"

fun usplit :: "utext \<Rightarrow> utext list" where
  "usplit [] = [[]]"
| "usplit (c # cs) =
     (if c = 10 then [] # usplit cs
      else (case usplit cs of [] \<Rightarrow> [[c]] | y # ys \<Rightarrow> (c # y) # ys))"

section \<open>Layout\<close>

definition card_h :: "Diagram \<Rightarrow> Step \<Rightarrow> int" where
  "card_h d s = 34 + dg_line_h d * int (length (sp_lines s)) + 6 + (if given (sp_badge s) then 14 else 0)"

definition lane_height :: "Diagram \<Rightarrow> int \<Rightarrow> int" where
  "lane_height d li =
     (let tallest = foldl (\<lambda>t s. if sp_lane s = li
                            then max t (40 + dg_line_h d * int (length (sp_lines s))
                                        + (if given (sp_badge s) then 14 else 0))
                            else t) 0 (dg_steps d)
      in max 72 (tallest + 24))"

definition lane_hs :: "Diagram \<Rightarrow> int list" where
  "lane_hs d = map (\<lambda>li. lane_height d (int li)) [0..<length (dg_lanes d)]"

definition grid_x :: "Diagram \<Rightarrow> int" where "grid_x d = dg_pad d + dg_lane_w d"
definition grid_y :: int where "grid_y = 150"
definition grid_h :: "Diagram \<Rightarrow> int" where "grid_h d = sum_list (lane_hs d)"

definition canvas_w :: "Diagram \<Rightarrow> int" where
  "canvas_w d = grid_x d + dg_col_w d * int (length (dg_columns d)) + dg_pad d"

definition footer_h :: "Diagram \<Rightarrow> int" where
  "footer_h d = (if dg_footer d \<noteq> [] then 30 + 16 * int (length (dg_footer d)) else 0)"

definition canvas_h :: "Diagram \<Rightarrow> int" where
  "canvas_h d = grid_y + grid_h d + 40 + footer_h d + dg_pad d"

fun tops :: "int \<Rightarrow> int list \<Rightarrow> int list" where
  "tops y [] = []"
| "tops y (h # hs) = y # tops (y + h) hs"

definition lane_ys :: "Diagram \<Rightarrow> int list" where
  "lane_ys d = tops grid_y (lane_hs d)"

text \<open>\<^verbatim>\<open>_bbox\<close>: left, top, width and height of a card.\<close>

type_synonym box = "rat \<times> rat \<times> rat \<times> rat"

definition card_box :: "Diagram \<Rightarrow> Step \<Rightarrow> box result" where
  "card_box d s =
     res_bind (py_index (lane_ys d) (sp_lane s)) (\<lambda>top.
     res_bind (py_index (lane_hs d) (sp_lane s)) (\<lambda>lane_h.
       let w = dg_card_w d + (sp_span s - 1) * dg_col_w d;
           h = card_h d s;
           x = of_int (grid_x d + sp_col s * dg_col_w d) + of_int (dg_col_w d - dg_card_w d) / 2;
           y = of_int top + of_int (lane_h - h) / 2
       in Inr (x, y, of_int w, of_int h)))"

section \<open>Drawing\<close>

definition head_elems :: "Diagram \<Rightarrow> elem list" where
  "head_elems d =
     [SvgOpen (canvas_w d) (canvas_h d), SvgTitle (html_escape (dg_title d)),
      SvgDesc (html_escape (dg_subtitle d)), SvgDefs, Background (canvas_w d) (canvas_h d),
      text_elem (of_int (dg_pad d)) 62 (dg_title d) 26 (Some ''700'') INK ''start'',
      text_elem (of_int (dg_pad d)) 88 (dg_subtitle d) (25 / 2) None GREY ''start'']"

fun legend_elems :: "rat \<Rightarrow> (string \<times> utext) list \<Rightarrow> elem list result" where
  "legend_elems lx [] = Inr []"
| "legend_elems lx ((kind, lab) # rest) =
     res_bind (palette kind) (\<lambda>(fill, stroke, _).
     res_bind (legend_elems (lx + 28 + 63 / 10 * of_nat (length lab) + 26) rest) (\<lambda>es.
       Inr (Rect lx 104 22 14 (Some 3) fill stroke None
            # text_elem (lx + 28) 116 lab 11 None GREY ''start'' # es)))"

definition column_elems :: "Diagram \<Rightarrow> elem list" where
  "column_elems d = concat (map (\<lambda>(ci, c).
     let cx = grid_x d + int ci * dg_col_w d
     in [Rect (of_int cx) (of_int (grid_y - 24)) (of_int (dg_col_w d)) 24 None ''#f8f9fa'' ''#d5dde5'' None,
         text_elem (of_int cx + of_int (dg_col_w d) / 2) (of_int (grid_y - 8)) c (23 / 2)
           (Some ''700'') GREY ''middle''])
     (enumerate 0 (dg_columns d)))"

fun label_elems :: "rat \<Rightarrow> rat \<Rightarrow> utext list \<Rightarrow> elem list" where
  "label_elems x ty [] = []"
| "label_elems x ty (part # parts) =
     text_elem x (ty + 5) part (25 / 2) (Some ''700'') ''#3d4852'' ''middle''
     # label_elems x (ty + 15) parts"

definition lane_elems :: "Diagram \<Rightarrow> elem list" where
  "lane_elems d = concat (map (\<lambda>(li, (name, y, h)).
     let fill = (if even li then ''#ffffff'' else ''#fbfbfc''); parts = usplit name
     in [Rect (of_int (dg_pad d)) (of_int y) (of_int (canvas_w d - 2 * dg_pad d)) (of_int h) None
           fill ''#d5dde5'' None,
         Rect (of_int (dg_pad d)) (of_int y) (of_int (dg_lane_w d)) (of_int h) None
           ''#f1f3f5'' ''#d5dde5'' None]
        @ label_elems (of_int (dg_pad d) + of_int (dg_lane_w d) / 2)
            (of_int y + of_int h / 2 - 7 * of_int (int (length parts) - 1)) parts)
     (enumerate (0 :: nat) (zip (dg_lanes d) (zip (lane_ys d) (lane_hs d)))))"

definition separator_elems :: "Diagram \<Rightarrow> elem list" where
  "separator_elems d = map (\<lambda>ci.
     let cx = of_int (grid_x d + int ci * dg_col_w d)
     in Line cx (of_int grid_y) cx (of_int (grid_y + grid_h d)) ''#e9ecef'' False)
     [0..<Suc (length (dg_columns d))]"

fun line_elems :: "rat \<Rightarrow> rat \<Rightarrow> int \<Rightarrow> string \<Rightarrow> utext list \<Rightarrow> elem list" where
  "line_elems x ty line_h ink [] = []"
| "line_elems x ty line_h ink (l # ls) =
     text_elem (x + 10) ty l (21 / 2) None ink ''start''
     # line_elems x (ty + of_int line_h) line_h ink ls"

definition badge_elems :: "box \<Rightarrow> string \<Rightarrow> utext option \<Rightarrow> elem list" where
  "badge_elems b stroke badge =
     (case (b, badge) of
        ((x, y, w, h), Some t) \<Rightarrow>
          if t = [] then []
          else let bw = 54 / 10 * of_nat (length t) + 10
               in [Rect (x + w - bw - 6) (y + h - 17) bw 13 (Some 6) ''#ffffff'' stroke (Some (8 / 10)),
                   text_elem (x + w - 6 - bw / 2) (y + h - 15 / 2) t (17 / 2) (Some ''700'') stroke ''middle'']
      | _ \<Rightarrow> [])"

definition card_elems :: "Diagram \<Rightarrow> Step \<Rightarrow> elem list result" where
  "card_elems d s =
     res_bind (palette (sp_kind s)) (\<lambda>(fill, stroke, ink).
     res_bind (card_box d s) (\<lambda>(x, y, w, h).
       Inr (Rect x y w h (Some 7) fill stroke None
            # text_elem (x + 10) (y + 18) (sp_title s) (23 / 2) (Some ''700'') ink ''start''
            # badge_elems (x, y, w, h) stroke (sp_badge s)
            @ line_elems x (y + 33) (dg_line_h d) ink (sp_lines s))))"

definition edge_label :: "rat \<Rightarrow> rat \<Rightarrow> string \<Rightarrow> utext option \<Rightarrow> elem list" where
  "edge_label x y anchor label =
     (case label of
        None \<Rightarrow> []
      | Some t \<Rightarrow> if t = [] then [] else [text_elem x y t (19 / 2) None GREY anchor])"

definition edge_elems :: "Diagram \<Rightarrow> box list \<Rightarrow> int \<times> int \<times> utext option \<Rightarrow> elem list result" where
  "edge_elems d boxes e = (case e of (a, b, label) \<Rightarrow>
     res_bind (py_index boxes a) (\<lambda>(ax, ay, aw, ah).
     res_bind (py_index boxes b) (\<lambda>(bx, by, bw, bh).
     res_bind (py_index (dg_steps d) a) (\<lambda>sa.
     res_bind (py_index (dg_steps d) b) (\<lambda>sb.
       if sp_col sa = sp_col sb then
         (let (x1, y1, x2, y2) =
                (if ay < by then (ax + aw / 2, ay + ah, bx + bw / 2, by)
                 else (ax + aw / 2, ay, bx + bw / 2, by + bh))
          in Inr (Line x1 y1 x2 y2 ''#3d4852'' True
                  # edge_label (x1 + 6) ((y1 + y2) / 2 + 3) ''start'' label))
       else
         (let x1 = ax + aw; y1 = ay + ah / 2; x2 = bx; y2 = by + bh / 2; mx = (x1 + x2) / 2
          in Inr (Path [(x1, y1), (mx, y1), (mx, y2), (x2, y2)]
                  # edge_label mx (if y1 \<noteq> y2 then min y1 y2 - 4 else y1 - 6) ''middle'' label)))))))"

fun footer_lines :: "rat \<Rightarrow> rat \<Rightarrow> utext list \<Rightarrow> elem list" where
  "footer_lines x fy [] = []"
| "footer_lines x fy (l # ls) =
     text_elem x fy l 11 None ''#2f1e5c'' ''start'' # footer_lines x (fy + 16) ls"

definition footer_elems :: "Diagram \<Rightarrow> elem list" where
  "footer_elems d =
     (if dg_footer d = [] then []
      else let fy = of_int (grid_y + grid_h d + 28)
           in Rect (of_int (dg_pad d)) (fy - 18) (of_int (canvas_w d - 2 * dg_pad d)) (of_int (footer_h d))
                (Some 8) ''#fbfaff'' ''#6741b8'' (Some 1)
              # footer_lines (of_int (dg_pad d + 14)) fy (dg_footer d))"

definition render :: "Diagram \<Rightarrow> elem list result" where
  "render d =
     res_bind (legend_elems (of_int (dg_pad d)) (dg_legend d)) (\<lambda>legend.
     res_bind (res_mapM (card_elems d) (dg_steps d)) (\<lambda>cards.
     res_bind (res_mapM (card_box d) (dg_steps d)) (\<lambda>boxes.
     res_bind (res_mapM (edge_elems d boxes) (dg_edges d)) (\<lambda>edges.
       Inr (head_elems d @ legend @ column_elems d @ lane_elems d @ separator_elems d
            @ concat cards @ concat edges @ footer_elems d @ [SvgClose])))))"

section \<open>What a well-formed diagram is\<close>

definition step_ok :: "Diagram \<Rightarrow> Step \<Rightarrow> bool" where
  "step_ok d s \<longleftrightarrow>
     0 \<le> sp_lane s \<and> sp_lane s < int (length (dg_lanes d))
     \<and> 0 \<le> sp_col s \<and> 1 \<le> sp_span s \<and> sp_col s + sp_span s \<le> int (length (dg_columns d))
     \<and> sp_kind s \<in> fst ` set PALETTE"

definition index_ok :: "'a list \<Rightarrow> int \<Rightarrow> bool" where
  "index_ok xs i \<longleftrightarrow> 0 \<le> i \<and> i < int (length xs)"

definition diagram_ok :: "Diagram \<Rightarrow> bool" where
  "diagram_ok d \<longleftrightarrow>
     list_all (step_ok d) (dg_steps d)
     \<and> list_all (\<lambda>(a, b, _). index_ok (dg_steps d) a \<and> index_ok (dg_steps d) b) (dg_edges d)
     \<and> list_all (\<lambda>(kind, _). kind \<in> fst ` set PALETTE) (dg_legend d)
     \<and> 0 < dg_card_w d \<and> dg_card_w d \<le> dg_col_w d \<and> 0 \<le> dg_line_h d
     \<and> 0 \<le> dg_pad d \<and> 0 \<le> dg_lane_w d"

text \<open>Two steps share no cell of the grid.\<close>

definition cells_apart :: "Step \<Rightarrow> Step \<Rightarrow> bool" where
  "cells_apart s t \<longleftrightarrow>
     sp_lane s \<noteq> sp_lane t \<or> sp_col s + sp_span s \<le> sp_col t \<or> sp_col t + sp_span t \<le> sp_col s"

fun steps_apart :: "Step list \<Rightarrow> bool" where
  "steps_apart [] = True"
| "steps_apart (s # ss) = (list_all (cells_apart s) ss \<and> steps_apart ss)"

definition boxes_apart :: "box \<Rightarrow> box \<Rightarrow> bool" where
  "boxes_apart a b = (case (a, b) of ((x, y, w, h), (x', y', w', h')) \<Rightarrow>
     x + w \<le> x' \<or> x' + w' \<le> x \<or> y + h \<le> y' \<or> y' + h' \<le> y)"

definition box_within :: "rat \<Rightarrow> rat \<Rightarrow> rat \<Rightarrow> rat \<Rightarrow> box \<Rightarrow> bool" where
  "box_within l t r b bx = (case bx of (x, y, w, h) \<Rightarrow>
     l \<le> x \<and> t \<le> y \<and> x + w \<le> r \<and> y + h \<le> b \<and> 0 < w \<and> 0 < h)"

section \<open>The layout is sound\<close>

lemma py_index_ok: "index_ok xs i \<Longrightarrow> py_index xs i = Inr (xs ! nat i)"
  by (simp add: py_index_def index_ok_def)

lemma length_tops [simp]: "length (tops y hs) = length hs"
  by (induction y hs rule: tops.induct) simp_all

lemma tops_nth: "k < length hs \<Longrightarrow> tops y hs ! k = y + sum_list (take k hs)"
proof (induction y hs arbitrary: k rule: tops.induct)
  case (2 y h hs)
  then show ?case by (cases k) simp_all
qed simp

lemma length_lane_hs [simp]: "length (lane_hs d) = length (dg_lanes d)"
  by (simp add: lane_hs_def)

lemma lane_hs_nth: "k < length (dg_lanes d) \<Longrightarrow> lane_hs d ! k = lane_height d (int k)"
  by (simp add: lane_hs_def)

lemma lane_hs_pos: "h \<in> set (lane_hs d) \<Longrightarrow> 0 \<le> h"
  by (auto simp: lane_hs_def lane_height_def Let_def)

lemma sum_take_mono:
  fixes hs :: "int list"
  assumes "\<forall>h \<in> set hs. 0 \<le> h" and "i < j" and "j \<le> length hs"
  shows "sum_list (take i hs) + hs ! i \<le> sum_list (take j hs)"
proof -
  have "take j hs = take i hs @ hs ! i # drop (Suc i) (take j hs)"
    using assms(2,3) id_take_nth_drop[of i "take j hs"] by (simp add: min_def)
  moreover have "0 \<le> sum_list (drop (Suc i) (take j hs))"
    using assms(1) by (intro sum_list_nonneg) (meson in_set_dropD in_set_takeD)
  ultimately show ?thesis by (metis add.assoc le_add_same_cancel1 sum_list.Cons sum_list_append)
qed

lemma foldl_max_ge:
  fixes f :: "'a \<Rightarrow> int"
  shows "t \<le> foldl (\<lambda>t s. if p s then max t (f s) else t) t xs"
    and "x \<in> set xs \<Longrightarrow> p x \<Longrightarrow> f x \<le> foldl (\<lambda>t s. if p s then max t (f s) else t) t xs"
proof -
  show ge: "t \<le> foldl (\<lambda>t s. if p s then max t (f s) else t) t xs" for t xs
    by (induction xs arbitrary: t) (auto intro: order_trans[OF max.cobounded1])
  show "x \<in> set xs \<Longrightarrow> p x \<Longrightarrow> f x \<le> foldl (\<lambda>t s. if p s then max t (f s) else t) t xs"
  proof (induction xs arbitrary: t)
    case (Cons y ys)
    then show ?case using ge[of "max t (f x)" ys] by (auto intro: order_trans[OF max.cobounded2])
  qed simp
qed

lemma lane_height_card:
  assumes "s \<in> set (dg_steps d)" and "sp_lane s = li"
  shows "card_h d s + 24 \<le> lane_height d li"
  using foldl_max_ge(2)[of s "dg_steps d" "\<lambda>s. sp_lane s = li"
      "\<lambda>s. 40 + dg_line_h d * int (length (sp_lines s)) + (if given (sp_badge s) then 14 else 0)" 0] assms
  unfolding lane_height_def card_h_def Let_def by linarith

text \<open>A card lies in the band of its lane, twelve units from its borders, and in its columns.\<close>

definition lane_top :: "Diagram \<Rightarrow> int \<Rightarrow> int" where
  "lane_top d li = grid_y + sum_list (take (nat li) (lane_hs d))"

lemma card_box_ok:
  assumes "diagram_ok d" and "s \<in> set (dg_steps d)"
  shows "\<exists>b. card_box d s = Inr b
    \<and> box_within (of_int (grid_x d + sp_col s * dg_col_w d)) (of_int (lane_top d (sp_lane s)) + 12)
        (of_int (grid_x d + (sp_col s + sp_span s) * dg_col_w d))
        (of_int (lane_top d (sp_lane s) + lane_height d (sp_lane s)) - 12) b"
proof -
  have s: "0 \<le> sp_lane s" "nat (sp_lane s) < length (dg_lanes d)" "1 \<le> sp_span s"
    and w: "0 < dg_card_w d" "dg_card_w d \<le> dg_col_w d" "0 \<le> dg_line_h d"
    using assms by (auto simp: diagram_ok_def list_all_iff step_ok_def)
  define top h lh where "top = lane_top d (sp_lane s)" and "h = card_h d s"
    and "lh = lane_height d (sp_lane s)"
  have "py_index (lane_ys d) (sp_lane s) = Inr top" "py_index (lane_hs d) (sp_lane s) = Inr lh"
    using s by (simp_all add: py_index_def lane_ys_def tops_nth lane_hs_nth lane_top_def top_def lh_def)
  then have box: "card_box d s = Inr (of_int (grid_x d + sp_col s * dg_col_w d)
        + of_int (dg_col_w d - dg_card_w d) / 2, of_int top + of_int (lh - h) / 2,
      of_int (dg_card_w d + (sp_span s - 1) * dg_col_w d), of_int h)"
    by (simp add: card_box_def Let_def h_def)
  have "0 < h" using w(3) by (simp add: h_def card_h_def add_pos_nonneg)
  moreover have "h + 24 \<le> lh" using lane_height_card[OF assms(2) refl] by (simp add: h_def lh_def)
  then have "(of_int (h + 24) :: rat) \<le> of_int lh" by (simp only: of_int_le_iff)
  moreover have "0 < dg_card_w d + (sp_span s - 1) * dg_col_w d"
    using w s(3) by (intro add_pos_nonneg) simp_all
  then have "(0 :: rat) < of_int (dg_card_w d + (sp_span s - 1) * dg_col_w d)" by (simp only: of_int_0_less_iff)
  moreover have "(of_int (dg_card_w d) :: rat) \<le> of_int (dg_col_w d)" using w(2) by simp
  ultimately show ?thesis
    unfolding box box_within_def top_def[symmetric] lh_def[symmetric]
    by (auto simp: field_simps)
qed

lemma lane_bands_apart:
  assumes "0 \<le> i" and "i < j" and "j < int (length (dg_lanes d))"
  shows "lane_top d i + lane_height d i \<le> lane_top d j"
proof -
  have "sum_list (take (nat i) (lane_hs d)) + lane_hs d ! nat i \<le> sum_list (take (nat j) (lane_hs d))"
    using assms lane_hs_pos by (intro sum_take_mono) auto
  then show ?thesis using assms by (simp add: lane_top_def lane_hs_nth)
qed

lemma boxes_apart_sym: "boxes_apart a b = boxes_apart b a"
  by (cases a; cases b) (auto simp: boxes_apart_def)

lemma within_apart:
  assumes "box_within l t r b x" and "box_within l' t' r' b' y" and "r \<le> l' \<or> b \<le> t'"
  shows "boxes_apart x y"
  using assms by (cases x; cases y) (auto simp: box_within_def boxes_apart_def)

lemma cells_boxes_apart:
  assumes "diagram_ok d" and "s \<in> set (dg_steps d)" and "t \<in> set (dg_steps d)"
    and "cells_apart s t" and "card_box d s = Inr a" and "card_box d t = Inr b"
  shows "boxes_apart a b"
proof -
  have ok: "step_ok d s" "step_ok d t" and cw: "0 \<le> dg_col_w d"
    using assms(1-3) by (auto simp: diagram_ok_def list_all_iff)
  note a = card_box_ok[OF assms(1,2)] and b = card_box_ok[OF assms(1,3)]
  have col: "sp_col x + sp_span x \<le> sp_col y
      \<Longrightarrow> (of_int (grid_x d + (sp_col x + sp_span x) * dg_col_w d) :: rat)
            \<le> of_int (grid_x d + sp_col y * dg_col_w d)" for x y
    using cw mult_right_mono by (simp only: of_int_le_iff) simp
  have lane: "step_ok d x \<Longrightarrow> step_ok d y \<Longrightarrow> sp_lane x < sp_lane y
      \<Longrightarrow> (of_int (lane_top d (sp_lane x) + lane_height d (sp_lane x)) - 12 :: rat)
            \<le> of_int (lane_top d (sp_lane y)) + 12" for x y
    using lane_bands_apart[of "sp_lane x" "sp_lane y" d]
    by (auto simp: step_ok_def simp flip: of_int_add intro: order_trans[of _ "of_int _"])
  consider "sp_lane s < sp_lane t \<or> sp_col s + sp_span s \<le> sp_col t"
    | "sp_lane t < sp_lane s \<or> sp_col t + sp_span t \<le> sp_col s"
    using assms(4) unfolding cells_apart_def by linarith
  then show ?thesis
  proof cases
    case 1
    then show ?thesis using a b assms(5,6) col lane ok by (auto intro!: within_apart)
  next
    case 2
    then have "boxes_apart b a" using a b assms(5,6) col lane ok by (auto intro!: within_apart)
    then show ?thesis by (simp add: boxes_apart_sym)
  qed
qed

lemma canvas_bounds:
  assumes "diagram_ok d" and "step_ok d s"
  shows "dg_pad d \<le> grid_x d + sp_col s * dg_col_w d"
    and "grid_x d + (sp_col s + sp_span s) * dg_col_w d \<le> canvas_w d - dg_pad d"
    and "grid_y \<le> lane_top d (sp_lane s)"
    and "lane_top d (sp_lane s) + lane_height d (sp_lane s) \<le> grid_y + grid_h d"
proof -
  have d: "0 \<le> dg_lane_w d" "0 \<le> dg_col_w d" using assms(1) by (auto simp: diagram_ok_def)
  have s: "0 \<le> sp_col s" "sp_col s + sp_span s \<le> int (length (dg_columns d))" "0 \<le> sp_lane s"
    "nat (sp_lane s) < length (dg_lanes d)"
    using assms(2) by (auto simp: step_ok_def)
  show "dg_pad d \<le> grid_x d + sp_col s * dg_col_w d" using d s by (simp add: grid_x_def)
  show "grid_x d + (sp_col s + sp_span s) * dg_col_w d \<le> canvas_w d - dg_pad d"
    using mult_right_mono[OF s(2) d(2)] by (simp add: canvas_w_def mult.commute)
  show "grid_y \<le> lane_top d (sp_lane s)"
    using lane_hs_pos by (simp add: lane_top_def) (meson in_set_takeD sum_list_nonneg)
  show "lane_top d (sp_lane s) + lane_height d (sp_lane s) \<le> grid_y + grid_h d"
    using sum_take_mono[of "lane_hs d" "nat (sp_lane s)" "length (lane_hs d)"] lane_hs_pos s
    by (auto simp: lane_top_def grid_h_def lane_hs_nth)
qed

lemma box_within_mono:
  assumes "box_within l t r b x" and "l' \<le> l" and "t' \<le> t" and "r \<le> r'" and "b \<le> b'"
  shows "box_within l' t' r' b' x"
  using assms by (cases x) (auto simp: box_within_def)

lemma card_in_grid:
  assumes "diagram_ok d" and "s \<in> set (dg_steps d)" and "card_box d s = Inr b"
  shows "box_within (of_int (dg_pad d)) (of_int grid_y) (of_int (canvas_w d - dg_pad d))
           (of_int (grid_y + grid_h d)) b"
proof -
  have ok: "step_ok d s" using assms(1,2) by (auto simp: diagram_ok_def list_all_iff)
  note c = canvas_bounds[OF assms(1) ok]
  have "(of_int (lane_top d (sp_lane s) + lane_height d (sp_lane s)) - 12 :: rat) \<le> of_int (grid_y + grid_h d)"
    "(of_int grid_y :: rat) \<le> of_int (lane_top d (sp_lane s)) + 12"
    using c(3,4) by (simp_all flip: of_int_add add: order_trans[of _ "of_int _"])
  note ty = this
  have lr: "(of_int (dg_pad d) :: rat) \<le> of_int (grid_x d + sp_col s * dg_col_w d)"
    "(of_int (grid_x d + (sp_col s + sp_span s) * dg_col_w d) :: rat) \<le> of_int (canvas_w d - dg_pad d)"
    using c(1,2) unfolding of_int_le_iff .
  have "box_within (of_int (grid_x d + sp_col s * dg_col_w d))
      (of_int (lane_top d (sp_lane s)) + 12) (of_int (grid_x d + (sp_col s + sp_span s) * dg_col_w d))
      (of_int (lane_top d (sp_lane s) + lane_height d (sp_lane s)) - 12) b"
    using card_box_ok[OF assms(1,2)] unfolding assms(3) sum.inject by blast
  then show ?thesis using lr(1) ty(2) lr(2) ty(1) by (rule box_within_mono)
qed

lemma palette_ok: "kind \<in> fst ` set PALETTE \<Longrightarrow> \<exists>f st i. palette kind = Inr (f, st, i)"
proof -
  assume "kind \<in> fst ` set PALETTE"
  then obtain c where "map_of PALETTE kind = Some c" by (metis map_of_eq_None_iff not_Some_eq)
  then show ?thesis by (cases c) (simp add: palette_def)
qed

lemma legend_elems_ok:
  "list_all (\<lambda>(kind, _). kind \<in> fst ` set PALETTE) ls \<Longrightarrow> \<exists>es. legend_elems lx ls = Inr es"
proof (induction lx ls rule: legend_elems.induct)
  case (2 lx kind lab rest)
  then show ?case using palette_ok[of kind] by fastforce
qed simp

lemma res_mapM_ok: "(\<And>x. x \<in> set xs \<Longrightarrow> \<exists>y. f x = Inr y) \<Longrightarrow> \<exists>ys. res_mapM f xs = Inr ys"
  by (induction xs) fastforce+

lemma res_mapM_nth: "res_mapM f xs = Inr ys \<Longrightarrow> i < length xs \<Longrightarrow> f (xs ! i) = Inr (ys ! i)"
proof (induction xs arbitrary: ys i)
  case (Cons x xs)
  then show ?case by (cases i) auto
qed simp

lemma card_elems_ok:
  assumes "diagram_ok d" and "s \<in> set (dg_steps d)" and "card_box d s = Inr (x, y, w, h)"
  shows "\<exists>f st es. card_elems d s = Inr (Rect x y w h (Some 7) f st None # es)"
  using palette_ok[of "sp_kind s"] assms
  by (auto simp: card_elems_def diagram_ok_def list_all_iff step_ok_def)

lemma edge_elems_ok:
  assumes "diagram_ok d" and "e \<in> set (dg_edges d)" and "length boxes = length (dg_steps d)"
  shows "\<exists>es. edge_elems d boxes e = Inr es"
proof -
  obtain a b label where e: "e = (a, b, label)" by (cases e)
  have i: "index_ok (dg_steps d) a" "index_ok (dg_steps d) b"
    using assms(1,2) by (auto simp: diagram_ok_def list_all_iff e)
  then have "index_ok boxes a" "index_ok boxes b" using assms(3) by (simp_all add: index_ok_def)
  with i show ?thesis by (simp add: edge_elems_def e py_index_ok Let_def split: prod.splits)
qed

text \<open>
  Every card of a well-formed diagram is drawn, at the box computed for it, inside the grid;
  cards of steps that share no cell do not overlap.
\<close>

lemma render_sound:
  assumes "diagram_ok d"
  shows "\<exists>out boxes. render d = Inr out \<and> length boxes = length (dg_steps d)
    \<and> (\<forall>i < length boxes. card_box d (dg_steps d ! i) = Inr (boxes ! i)
         \<and> box_within (of_int (dg_pad d)) (of_int grid_y) (of_int (canvas_w d - dg_pad d))
             (of_int (grid_y + grid_h d)) (boxes ! i)
         \<and> (case boxes ! i of (x, y, w, h) \<Rightarrow> \<exists>f st. Rect x y w h (Some 7) f st None \<in> set out))"
proof -
  have box: "\<exists>b. card_box d s = Inr b" if "s \<in> set (dg_steps d)" for s
    using card_box_ok[OF assms that] by blast
  obtain boxes where boxes: "res_mapM (card_box d) (dg_steps d) = Inr boxes"
    using res_mapM_ok[of "dg_steps d" "card_box d"] box by blast
  have len: "length boxes = length (dg_steps d)" using res_mapM_length[OF boxes] .
  have "\<exists>es. card_elems d s = Inr es" if "s \<in> set (dg_steps d)" for s
    using box[OF that] card_elems_ok[OF assms that] by (metis prod_cases4)
  then obtain cards where cards: "res_mapM (card_elems d) (dg_steps d) = Inr cards"
    using res_mapM_ok by blast
  obtain legend where legend: "legend_elems (of_int (dg_pad d)) (dg_legend d) = Inr legend"
    using legend_elems_ok assms by (auto simp: diagram_ok_def)
  obtain edges where edges: "res_mapM (edge_elems d boxes) (dg_edges d) = Inr edges"
    using res_mapM_ok edge_elems_ok[OF assms _ len] by blast
  obtain out where out: "render d = Inr out" "set (concat cards) \<subseteq> set out"
    using legend cards boxes edges by (auto simp: render_def)
  have "card_box d (dg_steps d ! i) = Inr (boxes ! i)
      \<and> box_within (of_int (dg_pad d)) (of_int grid_y) (of_int (canvas_w d - dg_pad d))
          (of_int (grid_y + grid_h d)) (boxes ! i)
      \<and> (case boxes ! i of (x, y, w, h) \<Rightarrow> \<exists>f st. Rect x y w h (Some 7) f st None \<in> set out)"
    if i: "i < length boxes" for i
  proof -
    have s: "dg_steps d ! i \<in> set (dg_steps d)" using i len by simp
    have b: "card_box d (dg_steps d ! i) = Inr (boxes ! i)" using res_mapM_nth[OF boxes] i len by simp
    obtain x y w h where xywh: "boxes ! i = (x, y, w, h)" by (metis prod_cases4)
    have "card_elems d (dg_steps d ! i) = Inr (cards ! i)" "cards ! i \<in> set cards"
      using res_mapM_nth[OF cards] res_mapM_length[OF cards] i len by simp_all
    moreover obtain f st es where "card_elems d (dg_steps d ! i) = Inr (Rect x y w h (Some 7) f st None # es)"
      using card_elems_ok[OF assms s b[unfolded xywh]] by blast
    ultimately have "Rect x y w h (Some 7) f st None \<in> set (concat cards)"
      by (metis concat.simps(2) in_set_conv_decomp list.set_intros(1) sum.inject(2) UN_I set_concat)
    then have "\<exists>f st. Rect x y w h (Some 7) f st None \<in> set out" using out(2) by blast
    then show ?thesis using b card_in_grid[OF assms s b] xywh by simp
  qed
  then show ?thesis using out(1) len by blast
qed

lemma steps_apart_nth:
  "steps_apart ss \<Longrightarrow> i < j \<Longrightarrow> j < length ss \<Longrightarrow> cells_apart (ss ! i) (ss ! j)"
proof (induction ss arbitrary: i j)
  case (Cons s ss)
  then show ?case by (cases i; cases j) (auto simp: list_all_length)
qed simp

section \<open>Text cannot break the markup\<close>

lemma escape_codes:
  "uc ''&amp;'' = [38, 97, 109, 112, 59]" "uc ''&lt;'' = [38, 108, 116, 59]"
  "uc ''&gt;'' = [38, 103, 116, 59]" "uc ''&quot;'' = [38, 113, 117, 111, 116, 59]"
  "uc ''&#x27;'' = [38, 35, 120, 50, 55, 59]"
  by (simp_all add: uc_def cp_def)

lemma escape_char_safe: "c \<in> set (escape_char a) \<Longrightarrow> c \<notin> {60, 62, 34, 39}"
  by (auto simp: escape_char_def escape_codes split: if_splits)

lemma html_escape_safe: "c \<in> set (html_escape s) \<Longrightarrow> c \<notin> {60, 62, 34, 39}"
  using escape_char_safe unfolding html_escape_def set_concat set_map by blast

lemma escape_char_prefix: "escape_char a @ xs = escape_char b @ ys \<Longrightarrow> a = b \<and> xs = ys"
  by (auto simp: escape_char_def escape_codes split: if_splits)

lemma escape_char_not_Nil [simp]: "escape_char a \<noteq> []"
  by (simp add: escape_char_def escape_codes)

lemma html_escape_inj: "html_escape s = html_escape t \<longleftrightarrow> s = t"
proof
  show "html_escape s = html_escape t \<Longrightarrow> s = t"
  proof (induction s arbitrary: t)
    case Nil
    then show ?case by (cases t) (simp_all add: html_escape_def)
  next
    case (Cons a s)
    then obtain b t' where t: "t = b # t'"
      by (cases t) (simp_all add: html_escape_def)
    then show ?case using Cons escape_char_prefix[of a "html_escape s" b "html_escape t'"]
      by (simp add: html_escape_def)
  qed
qed simp

end
