(* ===== verification/Diagrams.thy ===== *)
theory Diagrams
  imports Swimlane
begin

text \<open>
  The diagrams the repository ships as swimlanes: the incident scenarios of
  \<^verbatim>\<open>architecture/_gen/scenarios.py\<close> and the journeys of
  \<^verbatim>\<open>architecture/_gen/journeys.py\<close>, step by step. Each is well formed (\<open>diagram_ok\<close>: every
  card in the grid, every edge between two cards, every kind in the palette) and gives
  each card a cell of its own (\<open>steps_apart\<close>).
\<close>

section \<open>\<^verbatim>\<open>architecture/_gen/scenarios.py\<close>\<close>

definition LANES :: "utext list" where
  "LANES =
     [uc ''System signals'' @ [10] @ uc ''(causal chain)'',
      uc ''First human'' @ [10] @ uc ''signal'',
      uc ''Smokejumper'' @ [10] @ uc ''hypotheses'',
      uc ''Evidence that'' @ [10] @ uc ''decides'',
      uc ''Mitigation'' @ [10] @ uc ''ladder'',
      uc ''Responder'']"

definition LEGEND :: "(string \<times> utext) list" where
  "LEGEND =
     [(''signal'', uc ''system signal''),
      (''port'', uc ''alert / chat''),
      (''core'', uc ''hypothesis held''),
      (''ok'', uc ''validated''),
      (''audit'', uc ''evidence snapshot''),
      (''gate'', uc ''action (approval)''),
      (''human'', uc ''person'')]"

definition COLS :: "utext list" where
  "COLS =
     [uc ''hours before'',
      uc ''T0 '' @ [183] @ uc '' trigger'',
      uc ''T+min '' @ [183] @ uc '' symptom'',
      uc ''detect'',
      uc ''triage'',
      uc ''investigate'',
      uc ''verify'',
      uc ''mitigate'',
      uc ''resolve'']"

text \<open>What decides whether a diagram is well formed, for the simplifier.\<close>

lemmas diagram_shape =
  Step.defs Diagram.defs LANES_def LEGEND_def COLS_def diagram_ok_def step_ok_def index_ok_def PALETTE_def
  cells_apart_def

definition S1_steps :: "Step list" where
  "S1_steps =
     [Step.make 0 0 (uc ''BurstBalance declining'')
         [uc ''EBSIOBalance% / EBSByteBalance% '' @ [8595] @ uc '' 10'' @ [8211] @ uc ''12 h'',
          uc ''nobody alerts on a leading indicator'',
          uc ''(Chen 2025: dropped for 10'' @ [8211] @ uc ''12 h before)'']
         ''signal'' 1 (Some (uc ''leading'')),
      Step.make 0 1 (uc ''IOPS hits ceiling'')
         [uc ''ReadIOPS+WriteIOPS flat at 3'' @ [215] @ uc ''GiB (min 100)'',
          uc ''BurstBalance '' @ [8594] @ uc '' 0'',
          uc ''DiskQueueDepth rises'']
         ''signal'' 1 (Some (uc ''T0'')),
      Step.make 0 2 (uc ''latency '' @ [8594] @ uc '' pool '' @ [8594] @ uc '' 5xx'')
         [uc ''ReadLatency ms '' @ [8594] @ uc '' 100s ms'',
          uc ''pg wait_event IO:DataFileRead'',
          (uc ''DatabaseConnections '' @ [8594] @ uc '' cap '' @ [183] @ uc '' pool wait ''
            @ [8593]),
          uc ''504 (LB) '' @ [183] @ uc '' 503 (health) '' @ [183] @ uc '' 500 (driver)'']
         ''signal'' 1 None,
      Step.make 1 3 (uc ''HighErrorRate api'')
         [uc ''synthetic / SLO alert, not the cause metric'',
          uc ''Honeycomb: SLO burn dismissed overnight'',
          ([8594] @ uc '' webhook v4 '' @ [8594] @ uc '' Smokejumper'')]
         ''port'' 1 (Some (uc ''B1'')),
      Step.make 2 4 (uc ''hypotheses seeded'')
         [uc ''H1 storage credit exhaustion'',
          uc ''H2 single bad query / plan flip'',
          uc ''H3 lock queue '' @ [183] @ uc '' H4 connection storm'',
          uc ''H5 T-class CPU credits'']
         ''core'' 1 (Some (uc ''board'')),
      Step.make 5 4 (uc ''sees root card'')
         [uc ''impact 4.2% of req (n=61k) '' @ [183] @ uc '' SEV2'',
          uc ''owner: platform-db'',
          uc ''checklist ticking'']
         ''human'' 1 None,
      Step.make 3 5 (uc ''witness reads ('' @ [8741] @ uc '')'')
         [uc ''CW: BurstBalance=0 '' @ [183] @ uc '' IOPS flat '' @ [183] @ uc '' latency ''
            @ [215] @ uc ''40'',
          uc ''pg_stat_statements: uniform, no single query'',
          uc ''pg_locks not granted = 0'',
          uc ''change.list: no deploy in window'']
         ''audit'' 1 (Some (uc ''E1'' @ [8211] @ uc ''E4'')),
      Step.make 2 5 (uc ''board updates'')
         [uc ''H1 '' @ [10003] @ uc '' validated (E1 all three conditions)'',
          uc ''H2 '' @ [10007] @ uc '' (E2 uniform) '' @ [183] @ uc '' H3 '' @ [10007]
            @ uc '' (E3)'',
          uc ''H4 '' @ [10007] @ uc '' ordering: IO first '' @ [183] @ uc '' H5 n/a class'']
         ''ok'' 1 None,
      Step.make 3 6 (uc ''disproof attempted'')
         [uc ''is IO latency up with balance > 20%? no'',
          uc ''connections before IO? no (E4 order)'',
          (uc ''order: balance'' @ [8594] @ uc ''IOPS'' @ [8594] @ uc ''latency'' @ [8594]
            @ uc ''conns'' @ [8594] @ uc ''5xx '' @ [10003])]
         ''audit'' 1 (Some (uc ''verify'')),
      Step.make 2 6 (uc ''B6 root_caused 0.84'')
         [uc ''cause: gp2 credits exhausted on db-main'',
          uc ''red herring named: CPU looked hot (Chen)'',
          uc ''Source chips [1][2][3][4]'']
         ''ok'' 1 (Some (uc ''B6'')),
      Step.make 4 7 (uc ''ladder (reversible first)'')
         [uc ''1 shed load / circuit-break (Honeycomb)'',
          uc ''2 cancel worst statements '' @ [183] @ uc '' ANALYZE'',
          uc ''3 failover to replica'',
          uc ''4 gp2 '' @ [8594] @ uc '' gp3 3,000 IOPS (one-way, online)'',
          uc ''5 scale class (restart)'']
         ''gate'' 1 (Some (uc ''proposed'')),
      Step.make 5 7 (uc ''approves 1 then 4'')
         [uc ''reads E1 chart '' @ [183] @ uc '' approves shed'',
          uc ''approves storage change (B5)'']
         ''human'' 1 (Some (uc ''B5'')),
      Step.make 3 7 (uc ''mitigation-verifier'')
         [uc ''DiskQueueDepth '' @ [8595] @ uc '' '' @ [183] @ uc '' latency '' @ [8595]
            @ uc '' in 4 min'',
          uc ''5xx 4.2% '' @ [8594] @ uc '' 0.3%'']
         ''audit'' 1 None,
      Step.make 0 8 (uc ''recovery confirmed'')
         [uc ''pool drained '' @ [183] @ uc '' retries settled'',
          uc ''AM resolved '' @ [8594] @ uc '' window closed'']
         ''signal'' 1 None,
      Step.make 4 8 (uc ''ticket + prevent'')
         [uc ''Linear DB-'' @ [8230] @ uc '' mitigated '' @ [183] @ uc '' resolved'',
          uc ''expiry-forecaster: BurstBalance < 30% alert'',
          uc ''postmortem: indicator visible for 10 h'']
         ''gate'' 1 None]"

definition S1_edges :: "(int \<times> int \<times> utext option) list" where
  "S1_edges =
     [(0, 1, None), (1, 2, None), (2, 3, None), (3, 4, None), (4, 5, None),
      (4, 6, None), (6, 7, None), (7, 8, None), (8, 9, None), (9, 10, None),
      (10, 11, None), (11, 12, None), (12, 13, None), (13, 14, None)]"

definition S1 :: "Diagram" where
  "S1 =
     Diagram.make
      (uc ''S1 '' @ [8212]
        @ uc '' API 5xx from database I/O saturation (gp2 burst-balance / IOPS ceiling)'')
      (uc ''The slow-burn cause hidden behind an application symptom. Mechanism from AWS RDS metric definitions (READ); timeline shape from Honeycomb 2023, GitLab 2026, Grafana Labs ''
        @ [8212] @ uc '' no first-party postmortem names BurstBalance with minutes; say so.'')
      LANES
      COLS
      S1_steps
      S1_edges
      [uc ''Discriminating queries: CloudWatch BurstBalance '' @ [183] @ uc '' EBSIOBalance% ''
         @ [183] @ uc '' ReadIOPS/WriteIOPS '' @ [183] @ uc '' ReadLatency '' @ [183]
         @ uc '' DiskQueueDepth '' @ [183] @ uc '' DatabaseConnections '' @ [183]
         @ uc '' CPUCreditBalance '' @ [8214] @ uc '' SQL: pg_stat_activity wait_event grouping ''
         @ [183] @ uc '' pg_stat_statements by total_exec_time '' @ [183]
         @ uc '' pg_locks NOT granted '' @ [8214] @ uc '' PromQL: 5xx ratio '' @ [183]
         @ uc '' p99 '' @ [183] @ uc '' hikaricp_connections_pending.'',
       uc ''Grounding: AWS RDS metric reference (READ) '' @ [183] @ uc '' Honeycomb '' @ [8216]
         @ uc ''RDS clogs & cache-refresh crash loops'' @ [8217] @ uc '' 2023, 68 min (READ) ''
         @ [183] @ uc '' GitLab INC 2026-08-27 plan flip '' @ [8594]
         @ uc '' 500s, fixed by ANALYZE (READ) '' @ [183]
         @ uc '' Grafana Labs unbounded join, 28 min human vs 8 min assistant (READ) '' @ [183]
         @ uc '' Chen RDS gp2 burst post 2025 (INFERRED, page blocked).'',
       uc ''Open: no first-party postmortem names BurstBalance with a minute timeline ''
         @ [8212] @ uc '' next probe is GitLab gl-infra '' @ [8216] @ uc ''disk util|iops''
         @ [8217] @ uc '' and SRE Weekly '' @ [8216] @ uc ''burst balance'' @ [8217]
         @ uc ''. Why it matters to Smokejumper: none of the four surveyed products publishes an IOPS example; the leading indicator is the open lane.'']
      LEGEND
      170 262 248 14 60"

lemma S1_ok: "diagram_ok S1"
  by (simp add: S1_def S1_steps_def S1_edges_def diagram_shape)

lemma S1_apart: "steps_apart (dg_steps S1)"
  by (simp add: S1_def S1_steps_def diagram_shape)

definition S2_steps :: "Step list" where
  "S2_steps =
     [Step.make 0 0 (uc ''quiet baseline'')
         [uc ''RPS flat '' @ [183] @ uc '' 5xx 0.1%'',
          uc ''no leading indicator '' @ [8212] @ uc '' that is the point'']
         ''signal'' 1 None,
      Step.make 0 1 (uc ''deploy / config marker'')
         [(uc ''CI deploy #412 '' @ [183] @ uc '' observed_generation '' @ [8593]),
          uc ''or config edit with no code deploy'',
          uc ''(Cloudflare 2025: permission '' @ [8594] @ uc '' doubled file)'']
         ''signal'' 1 (Some (uc ''T0'')),
      Step.make 0 2 (uc ''step-change in errors'')
         [uc ''5xx within 1'' @ [8211] @ uc ''15 min of marker'',
          uc ''CPU pinned (2019) or panic/crash-loop (2025)'',
          uc ''errors segregate by version label'']
         ''signal'' 1 None,
      Step.make 1 3 (uc ''synthetic check pages'')
         [uc ''Cloudflare 2019: PagerDuty at T0+3m'',
          uc ''GitHub Aug-24: impact detected at +3m'',
          ([8594] @ uc '' webhook '' @ [8594] @ uc '' Smokejumper'')]
         ''port'' 1 (Some (uc ''B1'')),
      Step.make 2 4 (uc ''hypotheses seeded'')
         [uc ''H1 the change at T0'',
          uc ''H2 attack / traffic surge (red herring '' @ [215] @ uc ''3)'',
          uc ''H3 dependency outage (S4)'',
          uc ''H4 artifact drift '' @ [183] @ uc '' H5 rollback didn'' @ [39] @ uc ''t take'']
         ''core'' 1 (Some (uc ''board'')),
      Step.make 5 4 (uc ''sees root card'')
         [uc ''impact 3.1% (n=42k) '' @ [183] @ uc '' SEV2'',
          uc ''owner: team-payments'']
         ''human'' 1 None,
      Step.make 3 5 (uc ''witness reads ('' @ [8741] @ uc '')'')
         [uc ''change.list: deploy #412 at T0'' @ [8722] @ uc ''4m (E1)'',
          uc ''5xx by version: new 9.8% '' @ [183] @ uc '' old 0.1% (E2)'',
          uc ''RPS flat, unique IPs flat (E3)'',
          uc ''dependency p99 unchanged (E4)'']
         ''audit'' 1 (Some (uc ''E1'' @ [8211] @ uc ''E4'')),
      Step.make 2 5 (uc ''board updates'')
         [uc ''H1 '' @ [10003] @ uc '' (E1+E2 segregation)'',
          uc ''H2 '' @ [10007] @ uc '' flat traffic (E3) '' @ [8212] @ uc '' red herring named'',
          uc ''H3 '' @ [10007] @ uc '' (E4) '' @ [183]
            @ uc '' H4 open until artifact hash read'']
         ''ok'' 1 None,
      Step.make 3 6 (uc ''disproof attempted'')
         [uc ''errors on old version too? no (E2)'',
          uc ''onset before marker? no (E1 order)'',
          uc ''canary vs baseline confirms'']
         ''audit'' 1 (Some (uc ''verify'')),
      Step.make 2 6 (uc ''B6 root_caused 0.91'')
         [uc ''cause: deploy #412 '' @ [183] @ uc '' commit abc123'',
          uc ''proposed: rollback (reversible)'',
          uc ''Source chips [1][2][3]'']
         ''ok'' 1 (Some (uc ''B6'')),
      Step.make 4 7 (uc ''ladder'')
         [uc ''1 kill switch / flag off (CF 2019: 2 min)'',
          uc ''2 roll back artifact/config to known-good'',
          uc ''3 roll back code '' @ [183] @ uc '' VERIFY fleet version'',
          uc ''4 restart to flush state '' @ [183] @ uc '' 5 forward-fix last'']
         ''gate'' 1 (Some (uc ''proposed'')),
      Step.make 5 7 (uc ''approves rollback'')
         [uc ''one button '' @ [183] @ uc '' B5 token consumed once'']
         ''human'' 1 (Some (uc ''B5'')),
      Step.make 3 7 (uc ''mitigation-verifier'')
         [uc ''fleet version = old? (incident.io: pipeline re-deployed it)'',
          uc ''5xx 3.1% '' @ [8594] @ uc '' 0.2% in 90 s'']
         ''audit'' 1 None,
      Step.make 0 8 (uc ''recovery confirmed'')
         [uc ''error rate baseline '' @ [183] @ uc '' queues drained'']
         ''signal'' 1 None,
      Step.make 4 8 (uc ''ticket + prevent'')
         [uc ''ticket: mitigated '' @ [8594] @ uc '' resolved'',
          uc ''action: pipeline must not re-apply revert'',
          uc ''episode saved for precedent-researcher'']
         ''gate'' 1 None]"

definition S2_edges :: "(int \<times> int \<times> utext option) list" where
  "S2_edges =
     [(0, 1, None), (1, 2, None), (2, 3, None), (3, 4, None), (4, 5, None),
      (4, 6, None), (6, 7, None), (7, 8, None), (8, 9, None), (9, 10, None),
      (10, 11, None), (11, 12, None), (12, 13, None), (13, 14, None)]"

definition S2 :: "Diagram" where
  "S2 =
     Diagram.make
      (uc ''S2 '' @ [8212] @ uc '' Bad deploy or config change '' @ [8594] @ uc '' error spike ''
        @ [8594] @ uc '' rollback'')
      (uc ''The most common cause in public postmortems and the fastest to fix when a discrete change exists. Timelines: Cloudflare 2019 (detect''
        @ [8594] @ uc ''mitigate 22 min, mitigate'' @ [8594]
        @ uc ''recover 2 min), GitHub Aug-2024 (36 min), incident.io Jul-2024 (rollback re-deployed by pipeline).'')
      LANES
      COLS
      S2_steps
      S2_edges
      [uc ''Discriminating queries: deploy list / kubectl rollout history / flag audit ''
         @ [8214] @ uc '' PromQL: sum by(version)(rate(5xx)) / sum by(version)(rate(all)) ''
         @ [183] @ uc '' changes(kube_deployment_status_observed_generation[30m]) '' @ [183]
         @ uc '' increase(container_restarts[10m]) '' @ [183]
         @ uc '' sum(rate(http_requests_total[1m])) flat '' @ [8658] @ uc '' not attack ''
         @ [8214] @ uc '' logs: panic|unwrap|FATAL.'',
       uc ''Grounding (all READ): Cloudflare 2019-07-02 WAF regex '' @ [8212]
         @ uc '' 13:42 deploy '' @ [183] @ uc '' 13:45 page '' @ [183] @ uc '' 14:07 kill ''
         @ [183] @ uc '' 14:09 recovered; attack suspected first '' @ [183]
         @ uc '' Cloudflare 2025-11-18 Bot Mgmt file '' @ [8212]
         @ uc '' 126 min to identify, DDoS red herring '' @ [183]
         @ uc '' GitHub 2024-08-14 config revert 36 min '' @ [183]
         @ uc '' GitHub 2024-03-15 framework upgrade rollback 42 min '' @ [183]
         @ uc '' incident.io 2024-07-09 pipeline re-deployed the reverted change.'',
       uc ''Why it matters to Smokejumper: change-correlator is the highest-yield question in the public record (config + deploy ''
         @ [8776]
         @ uc '' 65 of ~200 danluu postmortems); the verifier must check the fleet version AFTER rollback, not the rollback command''
         @ [39] @ uc ''s exit code.'']
      LEGEND
      170 262 248 14 60"

lemma S2_ok: "diagram_ok S2"
  by (simp add: S2_def S2_steps_def S2_edges_def diagram_shape)

lemma S2_apart: "steps_apart (dg_steps S2)"
  by (simp add: S2_def S2_steps_def diagram_shape)

definition S3_steps :: "Step list" where
  "S3_steps =
     [Step.make 0 0 (uc ''trigger accumulates'')
         [uc ''cache flush (Slack 22) '' @ [183] @ uc '' migration lock (Heroku)'',
          uc ''N+1 join (incident.io) '' @ [183] @ uc '' pool shrink (CircleCI)'',
          uc ''or plain traffic surge'']
         ''signal'' 1 (Some (uc ''varies'')),
      Step.make 0 1 ((uc ''per-request hold time '' @ [8593]))
         [uc ''pg_locks not granted (locks) or'',
          uc ''queries/request '' @ [215] @ uc ''N (N+1) or'',
          uc ''slow IO ('' @ [8594] @ uc '' S1)'']
         ''signal'' 1 (Some (uc ''T0'')),
      Step.make 0 2 (uc ''pool '' @ [8594] @ uc '' cap '' @ [8594] @ uc '' 5xx'')
         [uc ''pool in-use = max '' @ [183] @ uc '' pool wait appears'',
          uc ''pgbouncer cl_waiting '' @ [8593] @ uc '' '' @ [183]
            @ uc '' FATAL too many conns'',
          uc ''threads block '' @ [8594] @ uc '' health fails '' @ [8594] @ uc '' 502/503/504'',
          ([8216] @ uc ''context canceled'' @ [8217] @ uc '' in logs'')]
         ''signal'' 1 None,
      Step.make 1 3 (uc ''customer report / Sentry'')
         [uc ''incident.io 2023: customer + Sentry flurry'',
          uc ''GitLab 2023: Apdex SLO + DB saturation'',
          uc ''Slack 2020: DB alert '' @ [8594] @ uc '' 503s hours later'']
         ''port'' 1 (Some (uc ''B1'')),
      Step.make 2 4 (uc ''hypotheses seeded'')
         [uc ''H1 lock queue '' @ [183] @ uc '' H2 slow query / bad plan'',
          uc ''H3 many small holds '' @ [183] @ uc '' N+1 '' @ [183] @ uc '' needless txn'',
          uc ''H4 pool config regression'',
          uc ''H5 downstream / IO slow ('' @ [8594] @ uc '' S1/S4)'']
         ''core'' 1 (Some (uc ''board'')),
      Step.make 5 4 (uc ''sees root card'')
         [uc ''impact: 12% of API req (n=88k) '' @ [183] @ uc '' SEV2'',
          uc ''owner: core-api'']
         ''human'' 1 None,
      Step.make 3 5 (uc ''witness reads ('' @ [8741] @ uc '')'')
         [uc ''pg_locks not granted: 0 (E1)'',
          uc ''pg_stat_statements: all fast, '' @ [215] @ uc ''7 per req (E2)'',
          uc ''traces: 7 DB spans/req since #390 (E3)'',
          uc ''pool pending p99 18 s (E4) '' @ [183] @ uc '' DB CPU 30% (E5)'']
         ''audit'' 1 (Some (uc ''E1'' @ [8211] @ uc ''E5'')),
      Step.make 2 5 (uc ''board updates'')
         [uc ''H1 '' @ [10007] @ uc '' (E1) '' @ [183] @ uc '' H2 '' @ [10007]
            @ uc '' (E2 fast) '' @ [183] @ uc '' H5 '' @ [10007] @ uc '' (E5 idle DB)'',
          uc ''H3 '' @ [10003] @ uc '' N+1 introduced by #390 (E2+E3)'',
          uc ''H4 open: pool cap unchanged? read config'']
         ''ok'' 1 None,
      Step.make 3 6 (uc ''disproof attempted'')
         [uc ''wait high while DB idle? yes (E4+E5) '' @ [8594] @ uc '' not DB'',
          uc ''did span count rise at #390? yes (E3)'',
          uc ''red herring named: '' @ [8216] @ uc ''scale up'' @ [8217] @ uc '' (Slack 2020)'']
         ''audit'' 1 (Some (uc ''verify'')),
      Step.make 2 6 (uc ''B6 root_caused 0.79'')
         [uc ''cause: N+1 from #390 holding connections'',
          uc ''note: pool wait is the metric to alert on'',
          uc ''Source chips [2][3][4]'']
         ''ok'' 1 (Some (uc ''B6'')),
      Step.make 4 7 (uc ''ladder'')
         [uc ''1 throttle / shed inbound (Slack boot throttle)'',
          uc ''2 cancel blocker pid (locks) '' @ [8212] @ uc '' n/a here'',
          uc ''3 disable flag / job class (GitLab)'',
          uc ''4 rollback #390 '' @ [183] @ uc '' 5 rolling restart'',
          uc ''6 raise pool caps '' @ [8212] @ uc '' usually worsens; last'']
         ''gate'' 1 (Some (uc ''proposed'')),
      Step.make 5 7 (uc ''approves 1 + 4'')
         [uc ''shed first, then rollback'',
          (uc ''declines '' @ [8216] @ uc ''raise max_connections'' @ [8217])]
         ''human'' 1 (Some (uc ''B5'')),
      Step.make 3 7 (uc ''mitigation-verifier'')
         [uc ''pending p99 18 s '' @ [8594] @ uc '' 40 ms'',
          uc ''5xx 12% '' @ [8594] @ uc '' 0.4% '' @ [183] @ uc '' DB conns 200 '' @ [8594]
            @ uc '' 60'']
         ''audit'' 1 None,
      Step.make 0 8 (uc ''recovery confirmed'')
         [uc ''pool drained '' @ [183] @ uc '' no idle-in-transaction'',
          uc ''retries settled (metastable loop broken)'']
         ''signal'' 1 None,
      Step.make 4 8 (uc ''ticket + prevent'')
         [uc ''ticket mitigated '' @ [8594] @ uc '' resolved'',
          uc ''action: instrument pool wait; alert on it'',
          uc ''runbook: no pool-cap raise before diagnosis'']
         ''gate'' 1 None]"

definition S3_edges :: "(int \<times> int \<times> utext option) list" where
  "S3_edges =
     [(0, 1, None), (1, 2, None), (2, 3, None), (3, 4, None), (4, 5, None),
      (4, 6, None), (6, 7, None), (7, 8, None), (8, 9, None), (9, 10, None),
      (10, 11, None), (11, 12, None), (12, 13, None), (13, 14, None)]"

definition S3 :: "Diagram" where
  "S3 =
     Diagram.make
      (uc ''S3 '' @ [8212]
        @ uc '' Connection / thread-pool exhaustion (traffic surge, slow downstream, N+1, lock queue)'')
      (uc ''Tests saturation-finder vs change-correlator disambiguation. The discriminating metric ''
        @ [8212] @ uc '' pool WAIT time '' @ [8212]
        @ uc '' was uninstrumented in almost every postmortem read (incident.io found a 20 s wait only by monkey-patching database/sql).'')
      LANES
      COLS
      S3_steps
      S3_edges
      [uc ''Discriminating queries: SQL pg_stat_activity by wait_event '' @ [183]
         @ uc '' blocked/blocking pg_locks join '' @ [183]
         @ uc '' pgbouncer SHOW POOLS (cl_waiting, maxwait) '' @ [8214]
         @ uc '' PromQL: hikaricp_connections_pending '' @ [183]
         @ uc '' go_sql_wait_duration_seconds_total '' @ [183]
         @ uc '' pgbouncer_pools_client_waiting_connections '' @ [183]
         @ uc '' idle-in-transaction count '' @ [183] @ uc '' per-trace DB span count.'',
       uc ''Grounding (all READ): incident.io 2023 '' @ [8216] @ uc ''database-performance''
         @ [8217] @ uc '' '' @ [8212]
         @ uc '' 2 weeks, 24 deploys, cause = needless transaction on Slack modal '' @ [183]
         @ uc '' incident.io 2023 '' @ [8216] @ uc ''clouds, caches, connections'' @ [8217]
         @ uc '' '' @ [8212] @ uc '' N+1 '' @ [8594] @ uc '' anetd CPU '' @ [183]
         @ uc '' Slack 2020-05-12 HAProxy slots, scale-up '' @ [8216] @ uc ''didn'' @ [8217]
         @ uc ''t help at all'' @ [8217] @ uc '' '' @ [183]
         @ uc '' Slack 2022-02-22 Vitess scatter, metastable '' @ [183]
         @ uc '' Heroku lock-queue gist 25 min '' @ [183] @ uc '' GitLab 2023-10-30 48 min ''
         @ [183] @ uc '' CircleCI JVM pool shrink '' @ [183]
         @ uc '' incident.io PGAudit restart.'',
       uc ''Why it matters to Smokejumper: the verifier must separate '' @ [8216]
         @ uc ''DB is slow'' @ [8217] @ uc '' from '' @ [8216]
         @ uc ''DB is idle but the app holds connections'' @ [8217] @ uc '' '' @ [8212]
         @ uc '' E4+E5 together. Resolve and Cleric both centre '' @ [8216] @ uc ''pool at 9x%''
         @ [8217] @ uc '' as the clincher; the pool WAIT metric is sharper and rarer.'']
      LEGEND
      170 262 248 14 60"

lemma S3_ok: "diagram_ok S3"
  by (simp add: S3_def S3_steps_def S3_edges_def diagram_shape)

lemma S3_apart: "steps_apart (dg_steps S3)"
  by (simp add: S3_def S3_steps_def diagram_shape)

definition S4_steps :: "Step list" where
  "S4_steps =
     [Step.make 0 0 (uc ''expiry approaching'')
         [uc ''cert notAfter in 30 d (blackbox probe)'',
          uc ''or nothing '' @ [8212] @ uc '' vendor change is invisible'']
         ''signal'' 1 (Some (uc ''leading?'')),
      Step.make 0 1 (uc ''vendor change at T0'')
         [uc ''cert expires '' @ [183] @ uc '' DNS removed '' @ [183] @ uc '' prefix withdrawn'',
          uc ''ZERO internal deploy markers'',
          uc ''(AWS: DNS Enactor race removed all IPs)'']
         ''signal'' 1 (Some (uc ''T0'')),
      Step.make 0 2 (uc ''new connections fail'')
         [uc ''keep-alives survive '' @ [8594] @ uc '' errors RAMP, not step'',
          uc ''x509 expired '' @ [183] @ uc '' ENOTFOUND '' @ [183] @ uc '' connect timeout'',
          uc ''all callers of that host fail at once'',
          uc ''retries amplify (Epic launcher surge)'']
         ''signal'' 1 None,
      Step.make 1 3 (uc ''outbound error alert'')
         [uc ''DependencyErrorRate payments-processor'',
          uc ''vendor status page lags 20'' @ [8211] @ uc ''40 min'',
          ([8594] @ uc '' webhook '' @ [8594] @ uc '' Smokejumper'')]
         ''port'' 1 (Some (uc ''B1'')),
      Step.make 2 4 (uc ''hypotheses seeded'')
         [uc ''H1 vendor endpoint down / unresolvable'',
          uc ''H2 cert expired (theirs or ours)'',
          uc ''H3 our egress / resolver / SG'',
          uc ''H4 our own deploy (S2) '' @ [183] @ uc '' H5 vendor rate limit'']
         ''core'' 1 (Some (uc ''board'')),
      Step.make 5 4 (uc ''sees root card'')
         [uc ''impact: 100% of card auths (n=9.4k/min)'',
          uc ''SEV1 '' @ [183] @ uc '' owner: payments'']
         ''human'' 1 None,
      Step.make 3 5 (uc ''witness reads ('' @ [8741] @ uc '')'')
         [uc ''change.list: zero deploys/flags (E1)'',
          uc ''dig from 2 resolvers: NXDOMAIN (E2)'',
          uc ''openssl s_client: n/a '' @ [8212] @ uc '' no resolution (E3)'',
          uc ''vendor status page '' @ [8216] @ uc ''investigating'' @ [8217] @ uc '' (E4)'',
          uc ''errors from all AZs, not one (E5)'']
         ''audit'' 1 (Some (uc ''E1'' @ [8211] @ uc ''E5'')),
      Step.make 2 5 (uc ''board updates'')
         [uc ''H1 '' @ [10003] @ uc '' (E2+E5) '' @ [183] @ uc '' H2 blocked (E3) '' @ [183]
            @ uc '' H3 '' @ [10007] @ uc '' (E5)'',
          uc ''H4 '' @ [10007] @ uc '' (E1) '' @ [183] @ uc '' H5 '' @ [10007]
            @ uc '' (connect errors, not 429)'',
          uc ''red herring named: BGP hijack / DDoS'']
         ''ok'' 1 None,
      Step.make 3 6 (uc ''disproof attempted'')
         [uc ''resolves from external vantage? no'',
          uc ''did anything of ours change? no (E1)'',
          ([8594] @ uc '' verdict: theirs'')]
         ''audit'' 1 (Some (uc ''verify'')),
      Step.make 2 6 (uc ''B6 not_actionable '' @ [183] @ uc '' 0.88'')
         [uc ''cause: vendor DNS for api.processor.example'',
          uc ''nothing to fix here; mitigate impact only'',
          uc ''Source chips [1][2][4][5]'']
         ''ok'' 1 (Some (uc ''B6'')),
      Step.make 4 7 (uc ''ladder'')
         [uc ''1 fail open: flag off dependent feature'',
          uc ''2 route around: 2nd processor '' @ [183] @ uc '' pinned IP'',
          uc ''3 renew cert if OURS (Epic 37 min) '' @ [8212] @ uc '' n/a'',
          uc ''4 widen timeouts '' @ [183] @ uc '' retry budgets'',
          uc ''5 wait on vendor; freeze autoscaling'']
         ''gate'' 1 (Some (uc ''proposed'')),
      Step.make 5 7 (uc ''approves 1 + 4'')
         [uc ''flag off '' @ [183] @ uc '' retry budget'',
          uc ''posts status-page draft (C3) after review'']
         ''human'' 1 (Some (uc ''B5'')),
      Step.make 3 7 (uc ''mitigation-verifier'')
         [uc ''auth failures 100% '' @ [8594] @ uc '' 0% via fallback path'',
          uc ''vendor still down '' @ [8212] @ uc '' impact mitigated only'']
         ''audit'' 1 None,
      Step.make 0 8 (uc ''vendor recovers'')
         [uc ''dig resolves '' @ [183] @ uc '' handshake ok'',
          uc ''pools recycle '' @ [183] @ uc '' error rate '' @ [8594] @ uc '' 0'']
         ''signal'' 1 None,
      Step.make 4 8 (uc ''ticket + prevent'')
         [uc ''ticket: not_actionable '' @ [183] @ uc '' mitigated'',
          uc ''stakeholder-notifier: contract SLA clock'',
          uc ''expiry-forecaster: alert on cert < 30 d'']
         ''gate'' 1 None]"

definition S4_edges :: "(int \<times> int \<times> utext option) list" where
  "S4_edges =
     [(0, 1, None), (1, 2, None), (2, 3, None), (3, 4, None), (4, 5, None),
      (4, 6, None), (6, 7, None), (7, 8, None), (8, 9, None), (9, 10, None),
      (10, 11, None), (11, 12, None), (12, 13, None), (13, 14, None)]"

definition S4 :: "Diagram" where
  "S4 =
     Diagram.make
      (uc ''S4 '' @ [8212]
        @ uc '' Upstream dependency, certificate or DNS expiry (vendor fault)'')
      (uc ''Tests '' @ [8216] @ uc ''ours or theirs'' @ [8217]
        @ uc '' and the not_actionable verdict. AWS us-east-1 Oct-2025 (50 min to root cause), Cloudflare 1.1.1.1 Jul-2025 (9-min detection gap, BGP hijack red herring), Google Voice 2021 cert (only NEW connections failed).'')
      LANES
      COLS
      S4_steps
      S4_edges
      [uc ''Discriminating queries: dig +short host @1.1.1.1 / @8.8.8.8 '' @ [183]
         @ uc '' openssl s_client '' @ [8230] @ uc '' | x509 -noout -dates '' @ [183]
         @ uc '' curl -sv from '' @ [8805] @ uc ''2 regions '' @ [8214]
         @ uc '' PromQL: probe_ssl_earliest_cert_expiry '' @ [8722] @ uc '' time() '' @ [183]
         @ uc '' probe_success '' @ [183]
         @ uc '' sum by(host)(rate(http_client_requests{status=~'' @ [34] @ uc ''5..|0'' @ [34]
         @ uc ''})) '' @ [183] @ uc '' dns_lookup_failures '' @ [8214]
         @ uc '' logs: x509|certificate has expired|ENOTFOUND|EAI_AGAIN '' @ [8214]
         @ uc '' change events: confirm ZERO.'',
       uc ''Grounding: AWS us-east-1 2025-10-19 DynamoDB DNS '' @ [8212] @ uc '' 23:48 onset ''
         @ [183] @ uc '' 00:38 root cause '' @ [183] @ uc '' 02:25 DNS restored (READ) '' @ [183]
         @ uc '' Cloudflare 1.1.1.1 2025-07-14 '' @ [8212] @ uc '' 21:48 withdraw '' @ [183]
         @ uc '' 22:01 alert '' @ [183] @ uc '' 22:20 revert '' @ [183]
         @ uc '' 22:54 restored; BGP hijack unrelated (READ) '' @ [183]
         @ uc '' Google Voice 2021 cert 4 h 22 min, new SIP only (READ via report) '' @ [183]
         @ uc '' Epic 2021 wildcard cert 37 min (INFERRED) '' @ [183]
         @ uc '' incident.io 2025-10-20 hit via transitive vendors (READ via summary).'',
       uc ''Why it matters to Smokejumper: this is the only scenario whose correct verdict is NOT root_caused ''
         @ [8212] @ uc '' '' @ [96] @ uc ''not_actionable'' @ [96]
         @ uc '' must exist in B6 (it does not today; see reference-architecture-analysis ''
         @ [167]
         @ uc ''4). The unit of failure is the transitive dependency, not the named vendor.'']
      LEGEND
      170 262 248 14 60"

lemma S4_ok: "diagram_ok S4"
  by (simp add: S4_def S4_steps_def S4_edges_def diagram_shape)

lemma S4_apart: "steps_apart (dg_steps S4)"
  by (simp add: S4_def S4_steps_def diagram_shape)

section \<open>\<^verbatim>\<open>architecture/_gen/journeys.py\<close>\<close>

definition J_LEGEND :: "(string \<times> utext) list" where
  "J_LEGEND =
     [(''human'', uc ''person''),
      (''port'', uc ''chat surface''),
      (''core'', uc ''Smokejumper''),
      (''audit'', uc ''audit / evidence''),
      (''gate'', uc ''approval-gated''),
      (''store'', uc ''ticket / record''),
      (''signal'', uc ''system signal'')]"

definition J1_steps :: "Step list" where
  "J1_steps =
     [Step.make 3 0 (uc ''Alertmanager fires'')
         [uc ''HighErrorRate api p99 5xx'',
          uc ''posts webhook v4 batch'']
         ''signal'' 1 None,
      Step.make 2 1 (uc ''admit '' @ [183] @ uc '' dedupe '' @ [183] @ uc '' enqueue'')
         [uc ''verify token '' @ [183] @ uc '' normalize B2'',
          uc ''fingerprint '' @ [8594] @ uc '' run_id'',
          uc ''202 to Alertmanager'']
         ''core'' 1 (Some (uc ''B8 event'')),
      Step.make 1 1 (uc ''root card created'')
         [([8220] @ uc ''Investigating: HighErrorRate api'' @ [8221]),
          uc ''scope: high '' @ [8594] @ uc '' '' @ [8804] @ uc ''8 agents '' @ [183]
            @ uc '' $ cap'',
          uc ''checklist: triage '' @ [9656] @ uc '' investigate '' @ [9656] @ uc '' verify'']
         ''port'' 1 None,
      Step.make 2 2 ((uc ''triage agents '' @ [8741]))
         [uc ''impact: 3.1% of req/min (n=42k)'',
          uc ''severity: SEV2 by rubric'',
          uc ''owner: team-payments on call'']
         ''core'' 1 (Some (uc ''B11'')),
      Step.make 1 2 (uc ''card edited in place'')
         [uc ''impact + SEV + owner lines appear'',
          uc ''no new posts '' @ [8212] @ uc '' checklist ticks'']
         ''port'' 1 None,
      Step.make 2 3 ((uc ''investigate agents '' @ [8741]))
         [uc ''change-correlator '' @ [183] @ uc '' saturation-finder'',
          uc ''error-signature-summarizer'',
          uc ''precedent-researcher'']
         ''core'' 1 (Some (uc ''B4 '' @ [8594] @ uc '' MCP'')),
      Step.make 3 3 (uc ''witness reads'')
         [uc ''mcp-grafana: query_prometheus'',
          uc ''github-mcp: deployments'',
          uc ''k8s-mcp: events (read-only)'']
         ''port'' 1 (Some (uc ''EvidenceRecord'')),
      Step.make 4 3 (uc ''evidence snapshots'')
         [uc ''E1 deploy #412 t'' @ [8722] @ uc ''4m'',
          (uc ''E2 pool_wait p99 '' @ [8593]),
          uc ''E3 signature first seen svc/api'']
         ''audit'' 1 None,
      Step.make 2 4 (uc ''verify gate'')
         [uc ''adversarial-verifier: disproof tried'',
          (uc ''temporal-order: cause < effect '' @ [10003]),
          uc ''H1 validated '' @ [183] @ uc '' H2 invalidated'']
         ''core'' 1 (Some (uc ''hypothesis'')),
      Step.make 1 4 (uc ''thread reply: findings'')
         [uc ''H1 '' @ [10003] @ uc '' deploy #412 4m before onset [E1][E3]'',
          uc ''H2 '' @ [10007] @ uc '' no saturation [E2]'',
          uc ''14 tool calls '' @ [183] @ uc '' 3 sources '' @ [183] @ uc '' View steps'']
         ''port'' 1 None,
      Step.make 2 5 (uc ''synthesize B6'')
         [uc ''verdict: root_caused '' @ [183] @ uc '' confidence 0.86'',
          uc ''proposed: rollback #412 (reversible)'',
          uc ''tokens 41k '' @ [183] @ uc '' $0.31'']
         ''core'' 1 (Some (uc ''B6'')),
      Step.make 4 5 (uc ''ticket opened'')
         [uc ''Linear PAY-1187 via MCP'',
          uc ''B6 summary + Source chips'',
          uc ''run closed '' @ [183] @ uc '' byte range'']
         ''store'' 1 (Some (uc ''B8 action'')),
      Step.make 1 5 (uc ''conclusion reply'')
         [uc ''verdict + top hypothesis + citations'',
          uc ''buttons: Approve rollback '' @ [183] @ uc '' Deny '' @ [183] @ uc '' Ask'']
         ''port'' 1 None,
      Step.make 0 6 (uc ''reads, decides'')
         [uc ''opens Source 1 and Source 3'',
          uc ''clicks Approve rollback'']
         ''human'' 1 None,
      Step.make 2 6 (uc ''approval consumed once'')
         [uc ''B5 token bound to tool call sha'',
          uc ''double-click '' @ [8594] @ uc '' one consumption'',
          uc ''graph resumes from interrupt'']
         ''gate'' 1 (Some (uc ''B5'')),
      Step.make 2 7 (uc ''rollback-executor (ACT)'')
         [uc ''privileged tier '' @ [183] @ uc '' serialized'',
          uc ''argocd rollback (change source)'',
          uc ''mitigation-verifier pre/post'']
         ''gate'' 1 (Some (uc ''act'')),
      Step.make 3 7 (uc ''post-action reads'')
         [uc ''5xx rate 3.1% '' @ [8594] @ uc '' 0.2% in 90s'',
          uc ''pool_wait back to baseline'']
         ''port'' 1 None,
      Step.make 1 7 (uc ''thread reply: mitigated'')
         [([8220] @ uc ''rollback applied '' @ [183] @ uc '' verified '' @ [10003] @ uc '' [E4]''
            @ [8221]),
          uc ''status: mitigated (verified)'']
         ''port'' 1 None,
      Step.make 2 8 (uc ''recovery-confirmer'')
         [uc ''queues drained '' @ [183] @ uc '' retries settled'',
          uc ''AM resolved '' @ [8594] @ uc '' window closed'']
         ''core'' 1 None,
      Step.make 4 8 (uc ''ticket updated'')
         [uc ''PAY-1187: mitigated '' @ [183] @ uc '' resolved'',
          uc ''(fingerprint, run_id) idempotent'']
         ''store'' 1 None,
      Step.make 0 8 (uc ''reads resolution'')
         [([8220] @ uc ''Was this the cause?'' @ [8221] @ uc '' '' @ [8594] @ uc '' Yes''),
          uc ''human verdict recorded'']
         ''human'' 1 (Some (uc ''feedback'')),
      Step.make 2 9 (uc ''learn agents (scheduled)'')
         [uc ''postmortem-drafter '' @ [183] @ uc '' factors'',
          uc ''action-item-gate on follow-ups'',
          uc ''case '' @ [8594] @ uc '' episode (post-v1)'']
         ''core'' 1 None,
      Step.make 4 9 (uc ''replay proves it'')
         [uc ''smokejumper replay <run_id>'',
          uc ''same B6 from snapshots offline'']
         ''audit'' 1 None]"

definition J1_edges :: "(int \<times> int \<times> utext option) list" where
  "J1_edges =
     [(0, 1, Some (uc ''B1'')), (1, 2, None), (1, 3, None), (3, 4, None), (3, 5, None),
      (5, 6, None), (6, 7, None), (5, 8, None), (8, 9, None), (8, 10, None),
      (10, 11, None), (10, 12, None), (12, 13, None), (13, 14, Some (uc ''approve'')), (14, 15, None),
      (15, 16, None), (16, 17, None), (15, 18, None), (18, 19, None), (18, 20, None),
      (18, 21, None), (21, 22, None)]"

definition J1 :: "Diagram" where
  "J1 =
     Diagram.make
      (uc ''J1 '' @ [8212]
        @ uc '' On-call responder: from page to closed ticket without leaving Slack'')
      (uc ''One incident, one Slack thread. The responder reads, decides, approves. Smokejumper witnesses, reasons, files, and proves. Times are the design target for a high-severity alert.'')
      [uc ''Responder'' @ [10] @ uc ''(on-call)'',
       uc ''Slack thread'' @ [10] @ uc ''(root card + replies)'',
       uc ''Smokejumper'' @ [10] @ uc ''(agents '' @ [183] @ uc '' workflows)'',
       uc ''Witnesses'' @ [10] @ uc ''(MCP servers)'',
       uc ''Ticket &'' @ [10] @ uc ''Flight Recorder'']
      [uc ''t+0 '' @ [183] @ uc '' alert'',
       uc ''t+5s '' @ [183] @ uc '' admitted'',
       uc ''t+10s '' @ [183] @ uc '' triage'',
       uc ''t+1m '' @ [183] @ uc '' investigate'',
       uc ''t+2m '' @ [183] @ uc '' verify'',
       uc ''t+3m '' @ [183] @ uc '' conclude'',
       uc ''t+4m '' @ [183] @ uc '' decide'',
       uc ''t+6m '' @ [183] @ uc '' mitigate'',
       uc ''t+15m '' @ [183] @ uc '' resolve'',
       uc ''later '' @ [183] @ uc '' learn'']
      J1_steps
      J1_edges
      [uc ''What the responder never does: open Grafana, grep logs, find the deploy, or write the ticket. What the responder always does: read three citations and press one button.'',
       uc ''Every card in lanes 3'' @ [8211] @ uc ''5 is one or more B8 lines; '' @ [8216]
         @ uc ''View steps'' @ [8217]
         @ uc '' opens the full ledger (see system/c3-components.svg, step ledger). Cards in lane 2 are the ONLY Slack posts ''
         @ [8212] @ uc '' one root card edited in place plus four thread replies.'',
       uc ''Design targets, not measurements: t+3m to a cited conclusion on a high-severity alert; t+6m mitigated when a reversible action exists and a human approves.'']
      J_LEGEND
      170 214 202 14 60"

lemma J1_ok: "diagram_ok J1"
  by (simp add: J_LEGEND_def J1_def J1_steps_def J1_edges_def diagram_shape)

lemma J1_apart: "steps_apart (dg_steps J1)"
  by (simp add: J1_def J1_steps_def diagram_shape)

definition J2_steps :: "Step list" where
  "J2_steps =
     [Step.make 0 0 (uc ''clone '' @ [183] @ uc '' cp .env.example .env'')
         [uc ''fill nothing yet'',
          uc ''uv sync'']
         ''human'' 1 None,
      Step.make 1 0 (uc ''docker compose up -d --build'')
         [uc ''postgres+pgvector '' @ [183] @ uc '' redis '' @ [183] @ uc '' app'',
          uc ''alembic upgrade head at boot'']
         ''core'' 1 None,
      Step.make 1 1 (uc ''curl /healthz '' @ [8594] @ uc '' 200'')
         [uc ''postgres ok '' @ [183] @ uc '' schema head '' @ [183] @ uc '' redis ok'',
          uc ''worker ok '' @ [183] @ uc '' outbox ok'']
         ''core'' 1 (Some (uc ''proof'')),
      Step.make 0 1 (uc ''smokejumper check-config'')
         [uc ''local env '' @ [183] @ uc '' stubs allowed'',
          uc ''prod refuses stubs '' @ [8212] @ uc '' by design'']
         ''human'' 1 None,
      Step.make 2 2 (uc ''Slack app from manifest.json'')
         [uc ''scopes: app_mentions:read chat:write'',
          uc ''channels:history reactions:write'',
          uc ''Socket Mode + Interactivity ON'']
         ''port'' 1 (Some (uc ''8 steps'')),
      Step.make 2 3 (uc ''two tokens '' @ [8594] @ uc '' .env'')
         [uc ''xapp-'' @ [8230] @ uc '' app token (connections:write)'',
          uc ''xoxb-'' @ [8230] @ uc '' bot token after install'',
          uc ''no public URL '' @ [183] @ uc '' no ngrok'']
         ''port'' 1 (Some (uc ''2 creds'')),
      Step.make 0 3 (uc ''invite bot to #incidents'')
         [uc ''/invite @smokejumper'',
          uc ''SLACK_CHANNEL_ID '' @ [8594] @ uc '' .env'']
         ''human'' 1 None,
      Step.make 3 4 (uc ''point the alert source at us'')
         [uc ''Alertmanager receiver '' @ [8594] @ uc '' /webhooks/alertmanager'',
          uc ''  peer CIDR allowlist (no credential)'',
          uc ''Datadog: webhook + X-Smokejumper-Token'']
         ''signal'' 1 (Some (uc ''1 secret'')),
      Step.make 4 4 (uc ''witness credentials'')
         [uc ''GRAFANA_SERVICE_ACCOUNT_TOKEN'',
          uc ''(optional) Datadog api/app keys'',
          uc ''k8s-mcp --read-only via kubeconfig'']
         ''port'' 1 (Some (uc ''1'' @ [8211] @ uc ''2 creds'')),
      Step.make 1 5 (uc ''compose up --profile witness'')
         [uc ''mcp-grafana sidecar '' @ [183] @ uc '' k8s-mcp sidecar'',
          uc ''manifest.yaml: every tool tiered'',
          uc ''boot fails on untiered tool'']
         ''core'' 1 None,
      Step.make 1 6 (uc ''fixtures replay --source alertmanager'')
         [uc ''202 '' @ [183] @ uc '' one run '' @ [183] @ uc '' one fixture ticket'',
          uc ''GET /runs/{fp} '' @ [8594] @ uc '' B6 + audit range'']
         ''core'' 1 (Some (uc ''proof'')),
      Step.make 2 6 (uc ''first thread appears'')
         [uc ''root card + triage lines'',
          uc ''reply with citations'']
         ''port'' 1 None,
      Step.make 0 6 (uc ''operator reads the thread'')
         [uc ''@smokejumper what did you rule out?'',
          ([8594] @ uc '' hypothesis board reply'')]
         ''human'' 1 None]"

definition J2_edges :: "(int \<times> int \<times> utext option) list" where
  "J2_edges =
     [(0, 1, None), (1, 2, None), (2, 3, None), (3, 4, None), (4, 5, None),
      (5, 6, None), (6, 7, None), (7, 8, None), (8, 9, None), (9, 10, None),
      (10, 11, None), (11, 12, None)]"

definition J2 :: "Diagram" where
  "J2 =
     Diagram.make
      (uc ''J2 '' @ [8212]
        @ uc '' Operator setup: from clone to first investigated alert in about 30 minutes'')
      (uc ''The whole point of adopting official SDKs and existing MCP servers: five credentials, no public URL, no tunnel. Counted against the vendor docs read on 2026-08-29.'')
      [uc ''Operator'',
       uc ''Terminal /'' @ [10] @ uc ''compose'',
       uc ''Slack app'' @ [10] @ uc ''(manifest)'',
       uc ''Alert source'' @ [10] @ uc ''(Alertmanager / Datadog)'',
       uc ''MCP servers'' @ [10] @ uc ''(witnesses)'']
      [uc ''0'' @ [8211] @ uc ''3 min'',
       uc ''3'' @ [8211] @ uc ''6 min'',
       uc ''6'' @ [8211] @ uc ''12 min'',
       uc ''12'' @ [8211] @ uc ''18 min'',
       uc ''18'' @ [8211] @ uc ''24 min'',
       uc ''24'' @ [8211] @ uc ''30 min'',
       uc ''verify'']
      J2_steps
      J2_edges
      [uc ''Credential count for the minimum path (Slack + Alertmanager + Grafana): 4 ''
         @ [8212]
         @ uc '' xapp, xoxb, Grafana service-account token, and the Alertmanager peer CIDR (not a secret). Datadog adds one webhook token; Linear MCP adds one API key or OAuth.'',
       uc ''Three proofs on the way, each a command with a checkable output: /healthz 200 ''
         @ [183] @ uc '' check-config exit 0 '' @ [183] @ uc '' fixtures replay '' @ [8594]
         @ uc '' GET /runs/{fp}. Nothing here is '' @ [8216] @ uc ''it should work'' @ [8217]
         @ uc ''.'',
       uc ''Facts behind the counts: Slack Socket Mode quickstart (docs.slack.dev), mcp-grafana README, kubernetes-mcp-server README ''
         @ [8212] @ uc '' see docs/plans/2026-08-29-reference-architecture-analysis.md '' @ [167]
         @ uc ''5.'']
      J_LEGEND
      170 236 222 14 60"

lemma J2_ok: "diagram_ok J2"
  by (simp add: J_LEGEND_def J2_def J2_steps_def J2_edges_def diagram_shape)

lemma J2_apart: "steps_apart (dg_steps J2)"
  by (simp add: J2_def J2_steps_def diagram_shape)

section \<open>All of them\<close>

definition swimlanes :: "Diagram list" where
  "swimlanes = [S1, S2, S3, S4, J1, J2]"

lemma swimlanes_ok: "d \<in> set swimlanes \<Longrightarrow> diagram_ok d \<and> steps_apart (dg_steps d)"
  using S1_ok S2_ok S3_ok S4_ok J1_ok J2_ok S1_apart S2_apart S3_apart S4_apart J1_apart J2_apart
  by (auto simp: swimlanes_def)

end
