(* ===== verification/ComponentMap.thy ===== *)
theory ComponentMap
  imports Swimlane
begin

text \<open>
  The component diagram, \<^verbatim>\<open>architecture/_gen/c3_components.py\<close>: a script that draws boxes at
  explicit coordinates. Its helpers \<open>text\<close>, \<open>status_dot\<close>, \<open>comp\<close>, \<open>pkg\<close> and
  \<open>arrow\<close> are functions to the elements they append, \<open>comp\<close> and \<open>pkg\<close> with the
  \<open>KeyError\<close> of an unknown kind or tag; the script is a list of calls in its order, the
  loops as functions over the same tables. Numbers and text are as in \<open>Swimlane\<close>; lengths
  estimated per character are exact here and rounded in the code.

  The lemmas show that the script draws without raising, that no two component boxes
  overlap, that all lie on the canvas, and that none crosses the border of a package.
\<close>

section \<open>Drawing functions\<close>

datatype shape =
    CRect rat rat rat rat (cr_rx: rat) (cr_fill: string) (cr_stroke: string)
      (cr_dash: "string option") (cr_width: "rat option")
  | CText rat rat rat "string option" string string "string option" utext
  | CCircle rat rat string "(string \<times> bool) option"
  | CLine rat rat rat rat string "rat option" "string option" bool
  | CPath "(rat \<times> rat) list" string
  | CBack int int

definition C3_W :: int where "C3_W = 2200"
definition C3_H :: int where "C3_H = 2440"

definition C3_C :: "(string \<times> string \<times> string \<times> string) list" where
  "C3_C =
     [(''core'', ''#e3f3f6'', ''#0b7285'', ''#0b3a42''),
      (''files'', ''#e6f4ea'', ''#2b8a3e'', ''#1b4d24''),
      (''port'', ''#f1f3f5'', ''#5b6b7a'', ''#3d4852''),
      (''gate'', ''#fbf0da'', ''#9a6700'', ''#5c3d00''),
      (''audit'', ''#efeafb'', ''#6741b8'', ''#2f1e5c''),
      (''store'', ''#eef2fb'', ''#3f5b9a'', ''#1f2d4a''),
      (''ext'', ''#ffffff'', ''#5b6b7a'', ''#3d4852'')]"

definition TAGC :: "(string \<times> string) list" where
  "TAGC =
     [(''ADOPT'', ''#2b8a3e''), (''CONSUME'', ''#3f5b9a''), (''COPY'', ''#0b7285''),
      (''BUILD'', ''#9a6700''), (''KEEP'', ''#5b6b7a'')]"

definition look :: "(string \<times> 'a) list \<Rightarrow> string \<Rightarrow> 'a result" where
  "look table k = (case map_of table k of None \<Rightarrow> Inl (KeyError k) | Some v \<Rightarrow> Inr v)"

definition c3_text ::
  "rat \<Rightarrow> rat \<Rightarrow> utext \<Rightarrow> rat \<Rightarrow> string option \<Rightarrow> string \<Rightarrow> string \<Rightarrow> string option \<Rightarrow> shape" where
  "c3_text x y s sz weight fill anchor family = CText x y sz weight fill anchor family (html_escape s)"

definition status_dot :: "rat \<Rightarrow> rat \<Rightarrow> string \<Rightarrow> shape list" where
  "status_dot x y st =
     (if st = ''landed'' then [CCircle x y ''#2b8a3e'' None]
      else if st = ''planned'' then [CCircle x y ''#ffffff'' (Some (''#3f5b9a'', False))]
      else if st = ''proposed'' then [CCircle x y ''#ffffff'' (Some (''#9a6700'', True))]
      else [])"

record Component =
  cm_x :: int
  cm_y :: int
  cm_w :: int
  cm_h :: int
  cm_title :: utext
  cm_lines :: "utext list"
  cm_kind :: string
  cm_st :: string
  cm_mono :: "string option"
  cm_ts :: rat
  cm_ls :: rat
  cm_tag :: "(string \<times> utext) option"

text \<open>The label of a tag, the width estimated for it and where its box starts.\<close>

definition tag_label :: "string \<times> utext \<Rightarrow> utext" where
  "tag_label tag = (if snd tag \<noteq> [] then uc (fst tag) @ [32, 183, 32] @ snd tag else uc (fst tag))"

definition tag_width :: "utext \<Rightarrow> rat" where
  "tag_width label = 56 / 10 * of_nat (length label) + 12"

definition tag_y :: "Component \<Rightarrow> rat \<Rightarrow> rat" where
  "tag_y c tw =
     (let fits_bottom = 36 + 15 * int (length (cm_lines c)) + 2 \<le> cm_h c - 18;
          fits_title = 24 + 62 / 100 * cm_ts c * of_nat (length (cm_title c)) + tw + 14 \<le> of_int (cm_w c)
      in if fits_bottom then of_int (cm_y c + cm_h c - 18)
         else if fits_title then of_int (cm_y c + 6) else of_int (cm_y c + cm_h c - 6))"

definition tag_shapes :: "Component \<Rightarrow> shape list result" where
  "tag_shapes c =
     (case cm_tag c of
        None \<Rightarrow> Inr []
      | Some tag \<Rightarrow>
          let label = tag_label tag; tw = tag_width label; ty = tag_y c tw;
              right = of_int (cm_x c + cm_w c) in
          res_bind (look TAGC (fst tag)) (\<lambda>colour.
            Inr [CRect (right - tw - 6) ty tw 13 6 ''#ffffff'' colour None (Some (9 / 10)),
                 c3_text (right - 6 - tw / 2) (ty + 95 / 10) label (88 / 10) (Some ''700'') colour
                   ''middle'' None]))"

fun text_lines ::
  "rat \<Rightarrow> rat \<Rightarrow> rat \<Rightarrow> rat \<Rightarrow> string \<Rightarrow> string option \<Rightarrow> utext list \<Rightarrow> shape list" where
  "text_lines x y dy sz ink family [] = []"
| "text_lines x y dy sz ink family (l # ls) =
     c3_text x y l sz None ink ''start'' family # text_lines x (y + dy) dy sz ink family ls"

definition comp_rect :: "Component \<Rightarrow> string \<Rightarrow> string \<Rightarrow> shape" where
  "comp_rect c fill stroke =
     CRect (of_int (cm_x c)) (of_int (cm_y c)) (of_int (cm_w c)) (of_int (cm_h c)) 7 fill stroke
       (if cm_kind c = ''port'' \<or> cm_kind c = ''ext'' then Some ''5 4'' else None) None"

definition comp :: "Component \<Rightarrow> shape list result" where
  "comp c =
     res_bind (look C3_C (cm_kind c)) (\<lambda>(fill, stroke, ink).
     res_bind (tag_shapes c) (\<lambda>tag.
       Inr (comp_rect c fill stroke # status_dot (of_int (cm_x c + 12)) (of_int (cm_y c + 15)) (cm_st c)
            @ c3_text (of_int (cm_x c + 24)) (of_int (cm_y c + 19)) (cm_title c) (cm_ts c)
                (Some ''700'') ink ''start'' None
            # tag @ text_lines (of_int (cm_x c + 12)) (of_int (cm_y c + 36)) 15 (cm_ls c) ink
                (cm_mono c) (cm_lines c))))"

record Package =
  pk_x :: int
  pk_y :: int
  pk_w :: int
  pk_h :: int
  pk_name :: utext
  pk_sub :: utext
  pk_kind :: string

definition pkg :: "Package \<Rightarrow> shape list result" where
  "pkg p =
     res_bind (look C3_C (pk_kind p)) (\<lambda>(fill, stroke, ink).
       Inr [CRect (of_int (pk_x p)) (of_int (pk_y p)) (of_int (pk_w p)) (of_int (pk_h p)) 10
              ''#fffdf9'' stroke None (Some (14 / 10)),
            c3_text (of_int (pk_x p + 16)) (of_int (pk_y p + 26)) (pk_name p) 15 (Some ''700'') stroke
              ''start'' None,
            c3_text (of_int (pk_x p + 16)) (of_int (pk_y p + 44)) (pk_sub p) 11 None GREY ''start'' None])"

text \<open>\<^verbatim>\<open>v or default\<close>: a missing number and zero are false.\<close>

definition num_or :: "rat option \<Rightarrow> rat \<Rightarrow> rat" where
  "num_or v dflt = (case v of None \<Rightarrow> dflt | Some x \<Rightarrow> if x = 0 then dflt else x)"

definition arrow ::
  "rat \<Rightarrow> rat \<Rightarrow> rat \<Rightarrow> rat \<Rightarrow> utext option \<Rightarrow> bool \<Rightarrow> bool \<Rightarrow> rat option \<Rightarrow> rat option \<Rightarrow> shape list" where
  "arrow x1 y1 x2 y2 label bold dashed lx ly =
     CLine x1 y1 x2 y2 ''#3d4852'' (Some (if bold then 24 / 10 else 13 / 10))
       (if dashed then Some ''6 4'' else None) True
     # (case label of
          None \<Rightarrow> []
        | Some t \<Rightarrow>
            if t = [] then []
            else [c3_text (num_or lx ((x1 + x2) / 2)) (num_or ly ((y1 + y2) / 2 - 6)) t (105 / 10) None
                    GREY ''middle'' None])"

text \<open>The calls of the script; \<open>DRaw\<close> is an element appended directly.\<close>

datatype draw =
    DComp Component
  | DPkg Package
  | DText rat rat utext rat "string option" string string
  | DArrow rat rat rat rat "utext option" bool bool "rat option" "rat option"
  | DDot rat rat string
  | DKindBox rat string
  | DTagBox rat string
  | DRaw shape

fun draw_shapes :: "draw \<Rightarrow> shape list result" where
  "draw_shapes (DComp c) = comp c"
| "draw_shapes (DPkg p) = pkg p"
| "draw_shapes (DText x y s sz weight fill anchor) = Inr [c3_text x y s sz weight fill anchor None]"
| "draw_shapes (DArrow x1 y1 x2 y2 label bold dashed lx ly) = Inr (arrow x1 y1 x2 y2 label bold dashed lx ly)"
| "draw_shapes (DDot x y st) = Inr (status_dot x y st)"
| "draw_shapes (DKindBox x kind) =
     res_bind (look C3_C kind) (\<lambda>(fill, stroke, _).
       Inr [CRect x 116 22 14 3 fill stroke (if kind = ''port'' then Some ''4 3'' else None) None])"
| "draw_shapes (DTagBox x verb) =
     res_bind (look TAGC verb) (\<lambda>colour.
       Inr [CRect x 135 (tag_width (uc verb)) 13 6 ''#ffffff'' colour None (Some (9 / 10)),
            c3_text (x + tag_width (uc verb) / 2) 145 (uc verb) (88 / 10) (Some ''700'') colour ''middle'' None])"
| "draw_shapes (DRaw s) = Inr [s]"

section \<open>The loops\<close>

text \<open>The three legends.\<close>

fun status_legend :: "rat \<Rightarrow> (string \<times> utext) list \<Rightarrow> draw list" where
  "status_legend lx [] = []"
| "status_legend lx ((st, lab) # rest) =
     DDot (lx + 6) 124 st # DText (lx + 18) 128 lab (115 / 10) None GREY ''start''
     # status_legend (lx + 250) rest"

fun kind_legend :: "rat \<Rightarrow> (string \<times> utext) list \<Rightarrow> draw list" where
  "kind_legend lx [] = []"
| "kind_legend lx ((kind, lab) # rest) =
     DKindBox lx kind
     # DText (lx + 28) 128 lab (115 / 10) None GREY ''start'' # kind_legend (lx + 200) rest"

fun tag_legend :: "rat \<Rightarrow> (string \<times> utext) list \<Rightarrow> draw list" where
  "tag_legend lx [] = []"
| "tag_legend lx ((verb, lab) # rest) =
     (let w = 56 / 10 * of_nat (length verb)
      in DTagBox lx verb # DText (lx + w + 18) 145 lab 11 None GREY ''start''
         # tag_legend (lx + w + 18 + 62 / 10 * of_nat (length lab) + 24) rest)"

text \<open>The boxes of the external systems.\<close>

fun ext_boxes :: "rat \<Rightarrow> (utext \<times> utext) list \<Rightarrow> draw list" where
  "ext_boxes x [] = []"
| "ext_boxes x ((t, s) # rest) =
     DRaw (CRect x 186 214 46 6 ''#ffffff'' ''#5b6b7a'' (Some ''5 4'') None)
     # DText (x + 214 / 2) 205 t 12 (Some ''700'') ''#3d4852'' ''middle''
     # DText (x + 214 / 2) 222 s (105 / 10) None GREY ''middle''
     # ext_boxes (x + 214 + 15) rest"

text \<open>The ports, four to a row.\<close>

definition port_boxes :: "int \<Rightarrow> int \<Rightarrow> (utext \<times> utext) list \<Rightarrow> draw list" where
  "port_boxes px py ps = map (\<lambda>(i, (pn, stub)).
     DComp \<lparr>cm_x = px + int (i mod 4) * 122, cm_y = py + int (i div 4) * 84, cm_w = 116, cm_h = 74,
       cm_title = pn, cm_lines = [uc ''stub: '' @ stub, uc ''real: M2'' @ [8211] @ uc ''M5''],
       cm_kind = ''port'', cm_st = ''landed'', cm_mono = None, cm_ts = 105 / 10, cm_ls = 95 / 10,
       cm_tag = None\<rparr>)
     (enumerate (0 :: nat) ps)"

text \<open>The agent catalogue: four columns, each stacked by the heights so far.\<close>

fun cat_boxes ::
  "int \<Rightarrow> int \<Rightarrow> nat \<Rightarrow> int list \<Rightarrow> (utext \<times> utext list \<times> string \<times> string) list \<Rightarrow> draw list" where
  "cat_boxes cx0 yy i heights [] = []"
| "cat_boxes cx0 yy i heights ((ph, items, kind, st) # rest) =
     (let col = i mod 4; h = 36 + 15 * int (length items) + 4
      in DComp \<lparr>cm_x = cx0 + int col * (166 + 10), cm_y = yy + heights ! col, cm_w = 166, cm_h = h,
           cm_title = ph, cm_lines = items, cm_kind = kind, cm_st = st, cm_mono = None,
           cm_ts = 125 / 10, cm_ls = 11, cm_tag = None\<rparr>
         # cat_boxes cx0 yy (Suc i) (heights[col := heights ! col + (h + 10)]) rest)"

text \<open>The witness ports.\<close>

definition witness_boxes :: "int \<Rightarrow> string list \<Rightarrow> draw list" where
  "witness_boxes Y wp = map (\<lambda>(i, n).
     let inproc = n \<in> set [''ChatSource'', ''IncidentHistorySource''] in
     DComp \<lparr>cm_x = 76 + int i * 137, cm_y = Y + 316, cm_w = 132, cm_h = 78, cm_title = uc n,
       cm_lines = [if inproc then uc ''in-process'' else [8594] @ uc '' MCP binding'',
                   uc ''domain packs swap it''],
       cm_kind = ''port'', cm_st = ''proposed'', cm_mono = None, cm_ts = 105 / 10, cm_ls = 95 / 10,
       cm_tag = Some (if inproc then ''BUILD'' else ''CONSUME'', [])\<rparr>)
     (enumerate (0 :: nat) wp)"

text \<open>White space of Unicode, \<^verbatim>\<open>str.split()\<close> and \<^verbatim>\<open>str.strip()\<close> on code points.\<close>

fun uwords_from :: "utext \<Rightarrow> utext \<Rightarrow> utext list" where
  "uwords_from cur [] = (if cur = [] then [] else [cur])"
| "uwords_from cur (c # cs) =
     (if uspace c then (if cur = [] then uwords_from [] cs else cur # uwords_from [] cs)
      else uwords_from (cur @ [c]) cs)"

definition ustrip :: "utext \<Rightarrow> utext" where
  "ustrip s = rev (dropWhile uspace (rev (dropWhile uspace s)))"

text \<open>The words of a line kind, wrapped at about twenty characters.\<close>

fun wrap_words :: "utext \<Rightarrow> utext list \<Rightarrow> utext list" where
  "wrap_words line [] = [line]"
| "wrap_words line (wd # wds) =
     (if 20 < length line + length wd + 1 then line # wrap_words wd wds
      else wrap_words (ustrip (line @ [32] @ wd)) wds)"

fun text_draws :: "rat \<Rightarrow> rat \<Rightarrow> string \<Rightarrow> utext list \<Rightarrow> draw list" where
  "text_draws x yy fill [] = []"
| "text_draws x yy fill (l # ls) = DText x yy l 10 None fill ''start'' # text_draws x (yy + 13) fill ls"

text \<open>One column of the step ledger, and the arrow to the next.\<close>

type_synonym ledger_step = "utext \<times> utext \<times> utext list \<times> utext \<times> utext list \<times> string"

definition ledger_column :: "rat \<Rightarrow> rat \<Rightarrow> bool \<Rightarrow> ledger_step \<Rightarrow> draw list" where
  "ledger_column x sy final s = (case s of (name, who, does, kind, sees, st) \<Rightarrow>
     let (stroke, ink) = (if st \<noteq> ''landed'' then (''#6741b8'', ''#2f1e5c'') else (''#0b7285'', ''#0b3a42''))
     in [DRaw (CRect x sy 128 290 6 ''#ffffff'' stroke None None), DDot (x + 12) (sy + 16) st,
         DText (x + 22) (sy + 20) name 12 (Some ''700'') ink ''start'',
         DText (x + 8) (sy + 36) who 10 None GREY ''start'']
        @ text_draws (x + 8) (sy + 56) INK does
        @ [DRaw (CLine x (sy + 100) (x + 128) (sy + 100) ''#d5dde5'' None None False),
           DText (x + 8) (sy + 116) (uc ''B8:'') (95 / 10) (Some ''700'') ''#6741b8'' ''start'']
        @ text_draws (x + 8) (sy + 130) ''#2f1e5c'' (wrap_words [] (uwords_from [] kind))
        @ [DRaw (CLine x (sy + 172) (x + 128) (sy + 172) ''#d5dde5'' None None False),
           DText (x + 8) (sy + 188) (uc ''sees:'') (95 / 10) (Some ''700'') ''#0b7285'' ''start'']
        @ text_draws (x + 8) (sy + 202) ''#0b3a42'' sees
        @ (if final then [] else [DArrow (x + 128) (sy + 145) (x + 128 + 9) (sy + 145) None False False None None]))"

fun ledger_columns :: "rat \<Rightarrow> rat \<Rightarrow> ledger_step list \<Rightarrow> draw list" where
  "ledger_columns x sy [] = []"
| "ledger_columns x sy (s # rest) =
     ledger_column x sy (rest = []) s @ ledger_columns (x + (128 + 9)) sy rest"

section \<open>The tables\<close>

definition STATUS_LEGEND :: "(string \<times> utext) list" where
  "STATUS_LEGEND =
     [(''landed'', uc ''landed '' @ [8212] @ uc '' code + tests exist''),
      (''planned'', uc ''planned '' @ [8212] @ uc '' in SPEC '' @ [167] @ uc ''12, not built''),
      (''proposed'', uc ''proposed '' @ [8212] @ uc '' pre-plan only'')]"

definition KIND_LEGEND :: "(string \<times> utext) list" where
  "KIND_LEGEND =
     [(''core'', uc ''code you build''),
      (''files'', uc ''declarative files, zero code''),
      (''port'', uc ''port / external''),
      (''gate'', uc ''approval-gated''),
      (''audit'', uc ''audit spine''),
      (''store'', uc ''data container'')]"

definition TAG_LEGEND :: "(string \<times> utext) list" where
  "TAG_LEGEND =
     [(''ADOPT'', uc ''pip dependency''),
      (''CONSUME'', uc ''existing server / hosted''),
      (''COPY'', uc ''design copied, we write it''),
      (''BUILD'', uc ''nothing exists '' @ [8212] @ uc '' ours''),
      (''KEEP'', uc ''landed, no change'')]"

definition EXT_SYSTEMS :: "(utext \<times> utext) list" where
  "EXT_SYSTEMS =
     [(uc ''Alertmanager'', uc ''webhook '' @ [183] @ uc '' peer-network allowlist''),
      (uc ''Grafana'', uc ''webhook '' @ [183] @ uc '' shared token '' @ [183] @ uc '' batches''),
      (uc ''Datadog'', uc ''webhook '' @ [183] @ uc '' bearer token''),
      (uc ''PagerDuty v3'', uc ''webhook '' @ [183] @ uc '' HMAC raw body''),
      (uc ''Generic JSON'', uc ''webhook '' @ [183] @ uc '' HMAC sha256=''),
      (uc ''Slack '' @ [183] @ uc '' Discord '' @ [183] @ uc '' Telegram'', uc ''slack-bolt '' @ [183] @ uc '' discord.py '' @ [183] @ uc '' python-telegram-bot''),
      (uc ''Linear'', uc ''GraphQL '' @ [183] @ uc '' tickets out''),
      (uc ''Prometheus '' @ [183] @ uc '' Loki'', uc ''lab profile '' @ [183] @ uc '' read tier''),
      (uc ''LLM provider'', uc ''SDK '' @ [183] @ uc '' via ports/model.py only'')]"

definition PORT_TABLE :: "(utext \<times> utext) list" where
  "PORT_TABLE =
     [(uc ''AuthPort'', uc ''AllowAll''),
      (uc ''GovernancePort'', uc ''NoopGovernance''),
      (uc ''TenancyPort'', uc ''SingleTenant '' @ [8212] @ uc '' real''),
      (uc ''ModelProvider'', uc ''RecordedModel''),
      (uc ''PlatformPort'', uc ''FixturePlatform''),
      (uc ''TicketingPort'', uc ''FixtureTicketing''),
      (uc ''MemoryPort'', uc ''InMemoryStore''),
      (uc ''ChannelAdapter'', uc ''FakeChannel'')]"

definition CATALOGUE :: "(utext \<times> utext list \<times> string \<times> string) list" where
  "CATALOGUE =
     [(uc ''TRIAGE'',
       [uc ''impact-quantifier'',
        uc ''severity-assessor'',
        uc ''ownership-resolver'',
        uc ''known-issue-matcher''],
       ''files'', ''proposed''),
      (uc ''INVESTIGATE '' @ [8741] @ uc '' read'',
       [uc ''change-correlator'',
        uc ''saturation-finder'',
        uc ''error-signature-summarizer'',
        uc ''blast-radius-mapper'',
        uc ''vendor-fault-checker'',
        uc ''precedent-researcher'',
        uc ''hypothesis-tracker'',
        uc ''bisection-planner''],
       ''files'', ''proposed''),
      (uc ''VERIFY (gate)'',
       [uc ''adversarial-verifier'',
        uc ''temporal-order-checker'',
        uc ''mitigation-verifier''],
       ''files'', ''proposed''),
      (uc ''DETECT'',
       [uc ''symptom-classifier'',
        uc ''storm-root-picker'',
        uc ''alert-quality-auditor''],
       ''files'', ''proposed''),
      (uc ''COMMUNICATE'',
       [uc ''timeline-scribe'',
        uc ''internal-update-drafter'',
        uc ''status-page-drafter'',
        uc ''stakeholder-notifier'',
        uc ''handoff-packager''],
       ''files'', ''proposed''),
      (uc ''MITIGATE'',
       [uc ''mitigation-ranker (draft)'',
        uc ''runbook-stepper (draft)'',
        uc ''rollback-executor  ACT'',
        uc ''flag-toggler  ACT''],
       ''gate'', ''proposed''),
      (uc ''RESOLVE'',
       [uc ''recovery-confirmer'',
        uc ''divergence-tracker''],
       ''files'', ''proposed''),
      (uc ''LEARN / PREVENT'',
       [uc ''postmortem-drafter'',
        uc ''factor-extractor'',
        uc ''action-item-gate'',
        uc ''action-item-chaser'',
        uc ''trend-analyst'',
        uc ''expiry-forecaster''],
       ''files'', ''proposed'')]"

definition WITNESS_PORTS :: "string list" where
  "WITNESS_PORTS =
     [''ChangeSource'', ''MetricSource'', ''LogSource'', ''TraceSource'',
      ''TopologySource'', ''IncidentHistorySource'', ''ExternalStatusSource'', ''ChatSource'']"

definition LEDGER_STEPS :: "ledger_step list" where
  "LEDGER_STEPS =
     [(uc ''1 admit'', uc ''receiver'',
       [uc ''verify '' @ [8594] @ uc '' normalize'',
        uc ''fingerprint '' @ [8594] @ uc '' dedupe'',
        uc ''or quarantine / 401''],
       uc ''event | quarantined | rejected'',
       [uc ''202 accepted'',
        uc ''dedupe_count n''], ''landed''),
      (uc ''2 enqueue'', uc ''outbox'',
       [uc ''commit row'',
        uc ''XADD '' @ [8594] @ uc '' receipt'',
        uc ''retry if Redis down''],
       uc ''transition: queued'',
       [uc ''queue lag on /healthz''], ''landed''),
      (uc ''3 claim run'', uc ''worker'',
       [uc ''run_id = event id'',
        uc ''ON CONFLICT '' @ [8594] @ uc '' state'',
        uc ''audit start offset''],
       uc ''transition: run.open'',
       [([129525] @ uc '' '' @ [8220] @ uc ''Investigating <title>'' @ [8221]),
        uc ''run_id''], ''landed''),
      (uc ''4 route'', uc ''workflows'',
       [uc ''pick workflow by kind'',
        uc ''effort ladder by sev'',
        ([8804] @ uc ''2 / '' @ [8804] @ uc ''4 / '' @ [8804] @ uc ''8 agents'')],
       uc ''transition: workflow'',
       [([8220] @ uc ''scope: N agents,''),
        (uc ''budget $X'' @ [8221])], ''proposed''),
      (uc ''5 retrieve'', uc ''knowledge'',
       [uc ''episodes + recipes'',
        uc ''under token budget'',
        uc ''source_ref + score''],
       uc ''transition: retrieve (B3)'',
       [([8220] @ uc ''2 precedents,''),
        uc ''1 runbook'' @ [8221] @ uc '' chips''], ''planned''),
      (uc ''6 plan'', uc ''supervisor'',
       [uc ''WHICH agents'',
        uc ''context_slice each'',
        uc ''hypotheses seeded''],
       uc ''llm_call plan '' @ [183] @ uc '' hypothesis: open'',
       [uc ''hypothesis board:'',
        uc ''H1 open '' @ [183] @ uc '' H2 open''], ''planned''),
      (uc ''7 agent start'', uc ''agent_runner'',
       [uc ''load spec '' @ [183] @ uc '' prompt sha'',
        uc ''skills preloaded'',
        uc ''input validated''],
       uc ''transition: agent.start'',
       [([8220, 8627] @ uc '' change-correlator''),
        (uc ''running'' @ [8221])], ''planned''),
      (uc ''8 witness read'', uc ''mcp.gateway'',
       [uc ''tier check '' @ [215] @ uc ''2'',
        uc ''query vendor'',
        uc ''snapshot result''],
       uc ''tool_call + evidence (proposed)'',
       [uc ''citation chip [1]'',
        uc ''query '' @ [183] @ uc '' ts '' @ [183] @ uc '' sha''], ''planned''),
      (uc ''9 model turn'', uc ''ports.model'',
       [uc ''prompt_ref + sha'',
        uc ''usage '' @ [183] @ uc '' latency'',
        uc ''Decimal cost''],
       uc ''llm_call'',
       [uc ''cost so far $0.0x'',
        uc ''turn k / max''], ''planned''),
      (uc ''10 finding'', uc ''agent_runner'',
       [uc ''output validated'',
        uc ''evidence_ref per claim'',
        uc ''artifact_ref''],
       uc ''finding (B11)'',
       [([8220] @ uc ''deploy #412 landed''),
        (uc ''4m before onset [1][2]'' @ [8221])], ''planned''),
      (uc ''11 board'', uc ''hypothesis_board'',
       [uc ''H1 '' @ [8594] @ uc '' validated'',
        uc ''H2 '' @ [8594] @ uc '' invalidated'',
        uc ''H3 inconclusive''],
       uc ''hypothesis: state change'',
       [uc ''board updated'',
        ([10003] @ uc '' '' @ [10007] @ uc '' ?'')], ''proposed''),
      (uc ''12 verify'', uc ''verify agents'',
       [uc ''disproof attempted'',
        uc ''temporal order ok?'',
        uc ''gate root_caused''],
       uc ''gate: verify'',
       [([8220] @ uc ''tried to disprove H1:''),
        (uc ''no counter-evidence'' @ [8221])], ''proposed''),
      (uc ''13 conclude'', uc ''synthesize'',
       [uc ''B6 status + confidence'',
        uc ''summary_md '' @ [183] @ uc '' actions'',
        uc ''tokens '' @ [183] @ uc '' wall_ms''],
       uc ''conclusion (B6)'',
       [uc ''status '' @ [183] @ uc '' confidence'',
        uc ''findings '' @ [183] @ uc '' next steps''], ''planned''),
      (uc ''14 act'', uc ''actions'',
       [uc ''ticket create | update'',
        uc ''(fp, run_id) ledger'',
        uc ''receipt''],
       uc ''action'',
       [([8220] @ uc ''opened SMOKE-'' @ [8230] @ uc '' '' @ [8221] @ uc '' or''),
        ([8220] @ uc ''updated (#3)'' @ [8221])], ''landed''),
      (uc ''15 close'', uc ''worker'',
       [uc ''audit end offset'',
        uc ''status concluded'',
        uc ''XACK after commit''],
       uc ''transition: run.close'',
       [uc ''GET /runs/{fp}'',
        uc ''audit byte range''], ''landed'')]"

section \<open>The script\<close>

definition Y_B :: int where "Y_B = 270"
definition Y_C :: int where "Y_C = 630"
definition Y_D :: int where "Y_D = 1300"
definition Y_E :: int where "Y_E = 1730"
definition Y_L :: int where "Y_L = 1870"
definition cx0 :: int where "cx0 = 748"
definition cy0 :: int where "cy0 = Y_C + 56"
definition ledger_x :: int where "ledger_x = 76"
definition ledger_y :: int where "ledger_y = Y_L + 84"
definition side_y :: int where "side_y = ledger_y + 310"

definition c3_title :: "draw list" where
  "c3_title =
     [DText 60 70 (uc ''Smokejumper '' @ [8212] @ uc '' C4 Level 3: components inside the app container'')
         28 (Some ''700'') INK ''start'',
      DText 60 98 (uc ''One process (docker compose service '' @ [96] @ uc ''app'' @ [96] @ uc '') ''
            @ [183] @ uc '' every component by package '' @ [183]
            @ uc '' status against commit d0ed9fe on 2026-08-29 '' @ [183]
            @ uc '' reuse verdict per component from docs/plans/2026-08-29-reference-architecture-analysis.md'')
         13 None GREY ''start'']"

definition c3_receiver :: "draw list" where
  "c3_receiver =
     [DPkg (Package.make 60 Y_B 720 330 (uc ''receiver/'')
         (uc ''deterministic '' @ [183] @ uc '' no LLM '' @ [183] @ uc '' verify before parse ''
            @ [183] @ uc '' 5 sources landed'') ''core''),
      DComp (Component.make 76 (Y_B + 56) 220 118 (uc ''routes.py'')
         [uc ''POST /webhooks/datadog'',
          uc ''POST /webhooks/pagerduty'',
          uc ''POST /webhooks/grafana'',
          uc ''POST /webhooks/alertmanager'',
          uc ''POST /webhooks/generic'']
         ''core'' ''landed'' None (125 / 10) 11
         (Some (''KEEP'', uc ''Alerta webhook shape''))),
      DComp (Component.make 308 (Y_B + 56) 220 118 (uc ''verification.py'')
         [uc ''verify_shared_token'',
          uc ''verify_hmac_signature'',
          uc ''verify_pagerduty_signature'',
          uc ''verify_source_ip (CIDR)'',
          uc ''constant-time compare'']
         ''core'' ''landed'' None (125 / 10) 11
         (Some (''KEEP'', uc ''vendor schemes''))),
      DComp (Component.make 540 (Y_B + 56) 224 118 (uc ''normalizers/'')
         [uc ''datadog.py '' @ [183] @ uc '' sources.py'',
          uc ''pagerduty '' @ [183] @ uc '' grafana '' @ [183] @ uc '' alertmanager'',
          uc ''generic '' @ [183] @ uc '' identity-tag allowlist'',
          uc ''batch fan-out '' @ [8594] @ uc '' N events'',
          uc ''recovery '' @ [8594] @ uc '' window_closed_at'']
         ''core'' ''landed'' None (125 / 10) 11
         (Some (''COPY'', uc ''Alertmanager v4 + Keep enums''))),
      DComp (Component.make 76 (Y_B + 186) 220 128 (uc ''repository.py'')
         [uc ''admit() '' @ [8212] @ uc '' advisory lock per fp'',
          uc ''15-min dedupe window'',
          uc ''quarantine() '' @ [8212] @ uc '' 202 + reason'',
          uc ''close_window() on Recovered'',
          uc ''outbox: mark_queued / pending'']
         ''core'' ''landed'' None (125 / 10) 11
         (Some (''COPY'', uc ''Keep full/partial dedup''))),
      DComp (Component.make 308 (Y_B + 186) 220 128 (uc ''delivery.py (outbox)'')
         [uc ''dispatch_event '' @ [8594] @ uc '' XADD'',
          uc ''dispatch_pending retry loop'',
          uc ''OutboxHandle.status '' @ [8594] @ uc '' /healthz'',
          uc ''Redis down '' @ [8800] @ uc '' lost event'']
         ''core'' ''landed'' None (125 / 10) 11
         (Some (''KEEP'', []))),
      DComp (Component.make 540 (Y_B + 186) 224 60 (uc ''storm_policy.py'')
         [uc ''21st fp in 5 min '' @ [8594] @ uc '' kind=storm'',
          uc ''5-min quiet reset'']
         ''core'' ''planned'' None (125 / 10) 11
         (Some (''COPY'', uc ''Robusta GroupingParams''))),
      DComp (Component.make 540 (Y_B + 254) 224 60 (uc ''audit for 401 / quarantine'')
         [uc ''exact-B1 bytes '' @ [8594] @ uc '' B8'',
          uc ''rejected '' @ [183] @ uc '' quarantined kinds'']
         ''audit'' ''planned'' None (125 / 10) 11
         (Some (''BUILD'', [])))]"

definition c3_queue :: "draw list" where
  "c3_queue =
     [DPkg (Package.make 800 Y_B 380 330 (uc ''queue/ '' @ [183] @ uc '' worker.py'')
         (uc ''Redis Streams '' @ [183] @ uc '' at-least-once '' @ [183]
            @ uc '' ack after commit'') ''core''),
      DComp (Component.make 816 (Y_B + 56) 348 74 (uc ''queue/producer.py'')
         [(uc ''XADD agentevents maxlen='' @ [8230]),
          uc ''event UUID reused as run_id'']
         ''core'' ''landed'' None (125 / 10) 11
         (Some (''KEEP'', uc ''redis-py''))),
      DComp (Component.make 816 (Y_B + 140) 348 100 ((uc ''worker.py '' @ [8212] @ uc '' consumer group '' @ [96] @ uc ''intelligence''
            @ [96]))
         [uc ''XREADGROUP block 2s '' @ [183] @ uc '' count 10'',
          uc ''handle(): open_run '' @ [8594] @ uc '' engine '' @ [8594] @ uc '' apply ''
            @ [8594] @ uc '' close_run'',
          uc ''poison payload '' @ [8594] @ uc '' ack '' @ [183] @ uc '' failure '' @ [8594]
            @ uc '' leave pending'',
          uc ''queue_depth {lag, pending} '' @ [8594] @ uc '' /healthz'']
         ''core'' ''landed'' None (125 / 10) 11
         (Some (''KEEP'', []))),
      DComp (Component.make 816 (Y_B + 250) 168 64 (uc ''reclaim (XAUTOCLAIM)'')
         [uc ''stale pending of dead'',
          uc ''consumer '' @ [8212] @ uc '' M4'']
         ''core'' ''planned'' None (125 / 10) 11
         (Some (''KEEP'', uc ''redis-py''))),
      DComp (Component.make 996 (Y_B + 250) 168 64 (uc ''max in-flight = 3'')
         [uc ''semaphore '' @ [183] @ uc '' M4'',
          uc ''storm brake lag>25'']
         ''core'' ''planned'' None (125 / 10) 11
         (Some (''COPY'', uc ''Alerta flapping window'')))]"

definition c3_app :: "draw list" where
  "c3_app =
     [DPkg (Package.make 1200 Y_B 400 330 (uc ''app.py '' @ [183] @ uc '' cli.py'')
         (uc ''FastAPI + Typer '' @ [183] @ uc '' composition root reads config only'') ''core''),
      DComp (Component.make 1216 (Y_B + 56) 368 84 (uc ''app.py'')
         [uc ''GET /healthz '' @ [8212] @ uc '' postgres '' @ [183] @ uc '' schema '' @ [183]
            @ uc '' redis '' @ [183] @ uc '' worker '' @ [183] @ uc '' outbox'',
          uc ''GET /runs/{fingerprint} '' @ [8212] @ uc '' conclusion + ticket + audit range'',
          uc ''lifespan: outbox_task '' @ [8741] @ uc '' worker_task'']
         ''core'' ''landed'' None (125 / 10) 11
         (Some (''KEEP'', uc ''FastAPI''))),
      DComp (Component.make 1216 (Y_B + 150) 176 74 (uc ''cli: check-config'')
         [uc ''validates layered settings'',
          uc ''exits non-zero fail-closed'']
         ''core'' ''landed'' None (125 / 10) 11
         (Some (''KEEP'', uc ''Typer''))),
      DComp (Component.make 1408 (Y_B + 150) 176 74 (uc ''cli: fixtures replay'')
         [uc ''POST fixture w/ source cred'',
          uc ''--source <s> '' @ [183] @ uc '' M1'']
         ''core'' ''planned'' None (125 / 10) 11
         (Some (''BUILD'', []))),
      DComp (Component.make 1216 (Y_B + 234) 176 80 (uc ''cli: logs '' @ [183] @ uc '' runs latest'')
         [uc ''logs --follow (broadcast)'',
          uc ''runs latest --format id'',
          uc ''M1'']
         ''core'' ''planned'' None (125 / 10) 11
         (Some (''BUILD'', []))),
      DComp (Component.make 1408 (Y_B + 234) 176 80 (uc ''cli: replay '' @ [183] @ uc '' eval'')
         [uc ''replay <run_id> from JSONL'',
          uc ''eval '' @ [8594] @ uc '' hit/total per agent'',
          uc ''M6'']
         ''core'' ''planned'' None (125 / 10) 11
         (Some (''BUILD'', [])))]"

definition c3_config :: "draw list" where
  "c3_config =
     [DPkg (Package.make 1620 Y_B 520 330 (uc ''config.py '' @ [183] @ uc '' ports/'')
         (uc ''one Settings object '' @ [183] @ uc '' 8 Protocols '' @ [183]
            @ uc '' prod refuses stubs'') ''core''),
      DComp (Component.make 1636 (Y_B + 56) 488 84 (uc ''config.py '' @ [8212] @ uc '' Settings'')
         [uc ''defaults < base.yaml < <env>.yaml < env vars < flags'',
          uc ''_fail_closed: prod '' @ [8743] @ uc '' stubbed security port '' @ [8594]
            @ uc '' ConfigError'',
          uc ''unpriced prod model '' @ [8594] @ uc '' ConfigError (M4) '' @ [183]
            @ uc '' lab only in local'']
         ''core'' ''landed'' None (125 / 10) 11
         (Some (''KEEP'', uc ''pydantic-settings'')))]"

definition c3_workflows :: "draw list" where
  "c3_workflows =
     [DPkg (Package.make 60 Y_C 1400 640 (uc ''intelligence/'')
         (uc ''B2 in '' @ [8594] @ uc '' B6 out '' @ [183] @ uc '' never imports actions ''
            @ [183] @ uc '' the only package that thinks'') ''core''),
      DComp (Component.make 76 (Y_C + 56) 300 88 (uc ''triage.py (current engine)'')
         [uc ''deterministic '' @ [183] @ uc '' alert-grounded'',
          uc ''needs_human | inconclusive only'',
          uc ''adapter: DeterministicTriage(ConclusionEngine)'']
         ''core'' ''landed'' None (125 / 10) 11
         (Some (''KEEP'', []))),
      DComp (Component.make 76 (Y_C + 154) 300 118 (uc ''workflows/ '' @ [8212] @ uc '' deterministic edges'')
         [uc ''registry/workflows/alert.yaml'',
          uc ''slack-question '' @ [183] @ uc '' mitigate '' @ [183] @ uc '' learn'',
          uc ''effort ladder: low '' @ [8804] @ uc ''2 '' @ [183] @ uc '' med '' @ [8804]
            @ uc ''4 '' @ [183] @ uc '' high '' @ [8804] @ uc ''8 agents'',
          uc ''phase order fixed; no LLM chooses it'',
          uc ''LangGraph graph + Postgres checkpointer'']
         ''files'' ''proposed'' None (125 / 10) 11
         (Some (''ADOPT'', uc ''LangGraph 1.2 '' @ [183] @ uc '' @task''))),
      DComp (Component.make 76 (Y_C + 282) 300 150 (uc ''supervisor nodes (graph/nodes/*.py)'')
         [uc ''intake '' @ [8212] @ uc '' B2 '' @ [8594] @ uc '' state'',
          uc ''retrieve '' @ [8212] @ uc '' B3 KnowledgeBundle under budget'',
          uc ''plan '' @ [8212] @ uc '' WHICH agents + context_slice  [llm]'',
          uc ''dispatch '' @ [8212] @ uc '' N Assignments '' @ [8741] @ uc '' (gather)'',
          uc ''aggregate '' @ [8212] @ uc '' registry-stable order'',
          uc ''verify '' @ [8212] @ uc '' V1/V2 gate  [proposed]'',
          uc ''synthesize '' @ [8212] @ uc '' B6  [llm] '' @ [183]
            @ uc '' root_caused iff verified'']
         ''core'' ''planned'' None (125 / 10) 11
         (Some (''ADOPT'', uc ''LangGraph + pg checkpointer''))),
      DComp (Component.make 76 (Y_C + 442) 300 100 (uc ''hypothesis_board.py'')
         [uc ''Hypothesis{text, state, evidence_refs, owner}'',
          uc ''open '' @ [183] @ uc '' validated '' @ [183] @ uc '' invalidated '' @ [183]
            @ uc '' inconclusive'',
          uc ''written by plan/I7/V1 '' @ [183] @ uc '' read by synthesize/C2'',
          uc ''checkpointed with graph state'']
         ''audit'' ''proposed'' None (125 / 10) 11
         (Some (''BUILD'', uc ''no library exists''))),
      DComp (Component.make 76 (Y_C + 552) 300 62 (uc ''prompts/supervisor/'')
         [uc ''plan/v1.md '' @ [183] @ uc '' synthesize/v1.md '' @ [183] @ uc '' verify/v1.md'',
          uc ''sha256 stamped on every llm_call'']
         ''files'' ''planned'' None (125 / 10) 11
         (Some (''KEEP'', uc ''git + sha256, ADR-0020'')))]"

definition c3_loaders :: "draw list" where
  "c3_loaders =
     [DComp (Component.make 392 (Y_C + 56) 340 250 (uc ''agent_runner.py '' @ [8212] @ uc '' one Assignment '' @ [8594]
            @ uc '' one Finding'')
         [uc ''1 load registry/agents/<name>.yaml (AgentSpec)'',
          uc ''2 resolve prompt_ref '' @ [8594] @ uc '' text + sha256'',
          uc ''3 preload skills/<s>/SKILL.md '' @ [8804] @ uc ''5k tokens'',
          uc ''4 validate input against schemas/'' @ [8230] @ uc ''in.json'',
          uc ''5 loop '' @ [8804] @ uc ''max_turns: model turn '' @ [8594]
            @ uc '' tool call(s)'',
          uc ''    each tool call '' @ [8594] @ uc '' mcp.gateway (B4)'',
          uc ''    each model turn '' @ [8594] @ uc '' ports.model (B8 llm_call)'',
          uc ''    governor.charge() after every step'',
          uc ''6 validate output against schemas/'' @ [8230] @ uc ''out.json'',
          uc ''7 emit Finding + artifact_ref + open_questions'',
          uc ''budget breach '' @ [8594] @ uc '' partial Finding, never raise'',
          uc ''stateless: no memory between runs'']
         ''core'' ''planned'' None (125 / 10) 11
         (Some (''COPY'', uc ''HolmesGPT safeguards''))),
      DComp (Component.make 392 (Y_C + 316) 164 100 (uc ''registry_loader.py'')
         [uc ''AgentSpec pydantic schema'',
          uc ''boot resolves every prompt_ref'',
          uc ''hot-reload on Governor tick'',
          uc ''disabled agents never dispatch'']
         ''core'' ''planned'' None (125 / 10) 11
         (Some (''COPY'', uc ''PydanticAI AgentSpec shape''))),
      DComp (Component.make 568 (Y_C + 316) 164 100 (uc ''prompt_registry.py'')
         [uc ''GitPromptRegistry'',
          uc ''prompts/agents/<n>/vN.md'',
          uc ''immutable versions'',
          uc ''dangling ref fails boot'']
         ''core'' ''planned'' None (125 / 10) 11
         (Some (''KEEP'', uc ''git, ADR-0020''))),
      DComp (Component.make 392 (Y_C + 426) 164 90 (uc ''skill_loader.py'')
         [uc ''skills/<name>/SKILL.md'',
          uc ''frontmatter name/desc'',
          ([8804] @ uc ''500 lines '' @ [183] @ uc '' refs 1 deep'')]
         ''files'' ''proposed'' None (125 / 10) 11
         (Some (''ADOPT'', uc ''agentskills.io spec''))),
      DComp (Component.make 568 (Y_C + 426) 164 90 (uc ''schema_validator.py'')
         [uc ''schemas/agents/*.in|out'',
          uc ''reject before/after run'',
          uc ''evidence_ref per claim'']
         ''core'' ''proposed'' None (125 / 10) 11
         (Some (''ADOPT'', uc ''langchain ToolStrategy''))),
      DComp (Component.make 392 (Y_C + 526) 340 88 ((uc ''eval_runner.py '' @ [8594] @ uc '' '' @ [96] @ uc ''smokejumper eval'' @ [96]))
         [uc ''evals/agents/<name>/*.json '' @ [183] @ uc '' '' @ [8805] @ uc ''20 cases ''
            @ [183] @ uc '' '' @ [8805] @ uc ''3 no-fault'',
          uc ''judge: schema_valid '' @ [183] @ uc '' factual '' @ [183] @ uc '' citation ''
            @ [183] @ uc '' tool_efficiency'',
          uc ''reports hit / total per agent '' @ [183] @ uc '' CI '' @ [8805] @ uc '' 4/5'']
         ''core'' ''planned'' None (125 / 10) 11
         (Some (''COPY'', uc ''HolmesGPT tests/llm + Inspect AI'')))]"

definition c3_catalogue_head :: "draw list" where
  "c3_catalogue_head =
     [DText (of_int cx0) (of_int (cy0 - 6)) (uc ''registry/agents/*.yaml + prompts/agents/*/vN.md '' @ [8212]
            @ uc '' 32 question-agents, one directory each, zero code'')
         (115 / 10) (Some ''700'') ''#2b8a3e'' ''start'']"

definition c3_catalogue_foot :: "draw list" where
  "c3_catalogue_foot =
     [DText (of_int cx0) (of_int (Y_C + 456)) ((uc ''SPEC '' @ [167] @ uc ''5.3 today: Metrics Analyst '' @ [183]
            @ uc '' Log Analyst '' @ [183] @ uc '' Change Auditor (planned personas) '' @ [8594]))
         11 None GREY ''start'',
      DText (of_int cx0) (of_int (Y_C + 472)) (uc ''become saturation-finder '' @ [183] @ uc '' error-signature-summarizer '' @ [183]
            @ uc '' change-correlator above.'')
         11 None GREY ''start'',
      DComp (Component.make cx0 (Y_C + 486) 692 128 (uc ''Finding (B11) '' @ [8212] @ uc '' the only thing that crosses an agent boundary'')
         [uc ''agent '' @ [183] @ uc '' hypothesis '' @ [183] @ uc '' evidence[] '' @ [8594]
            @ uc '' evidence_refs[] ('' @ [8594] @ uc '' EvidenceRecord, proposed) '' @ [183]
            @ uc '' confidence '' @ [183] @ uc '' budget_spent'',
          uc ''+ artifact_ref (full result in recorder) '' @ [183] @ uc '' + open_questions[] ''
            @ [8212] @ uc '' '' @ [8804] @ uc ''2k tokens to the parent, never the trace'',
          uc ''Assignment (B11): agent '' @ [183] @ uc '' question '' @ [183]
            @ uc '' context_slice '' @ [183] @ uc '' budget '' @ [8212]
            @ uc '' sub-agents are stateless'']
         ''audit'' ''landed'' None (125 / 10) 11
         (Some (''BUILD'', uc ''+Hypothesis +Evidence typed'')))]"

definition c3_knowledge :: "draw list" where
  "c3_knowledge =
     [DPkg (Package.make 1480 Y_C 660 300 (uc ''knowledge/'')
         (uc ''retrieve(ctx) '' @ [8594] @ uc '' B3 '' @ [183]
            @ uc '' federates via mcp/, never its own client'') ''core''),
      DComp (Component.make 1496 (Y_C + 56) 300 100 (uc ''facade.py'')
         [uc ''episodes + recipes + federated'',
          uc ''token + item budget '' @ [8594] @ uc '' KnowledgeBundle'',
          uc ''source_ref + score per item'',
          uc ''graph_paths stays empty (post-v1)'']
         ''core'' ''planned'' None (125 / 10) 11
         (Some (''BUILD'', []))),
      DComp (Component.make 1808 (Y_C + 56) 316 100 (uc ''episodes (PostgresMemory)'')
         [uc ''pgvector '' @ [183] @ uc '' dimension fixed by owner'',
          uc ''valid_at / recorded_at bi-temporal'',
          uc ''supersede by insert, never delete'',
          uc ''as_of=T '' @ [8594] @ uc '' replay belief at T'']
         ''store'' ''planned'' None (125 / 10) 11
         (Some (''ADOPT'', uc ''pgvector''))),
      DComp (Component.make 1496 (Y_C + 166) 300 100 (uc ''recipes/*.yaml'')
         [uc ''Recipe{name, triggers.tags, steps, tools}'',
          uc ''trigger match on entity tags'',
          uc ''hand-authored; drafts/ post-v1 Distiller'']
         ''files'' ''planned'' None (125 / 10) 11
         (Some (''COPY'', uc ''Robusta playbooks''))),
      DComp (Component.make 1808 (Y_C + 166) 316 100 (uc ''federated (stub) '' @ [183] @ uc '' embed'')
         [uc ''federated[] = [] until M5'',
          uc ''ModelProvider.embed '' @ [8594] @ uc '' vector width check'',
          uc ''B8 embed_call recorded'']
         ''core'' ''planned'' None (125 / 10) 11
         (Some (''ADOPT'', uc ''langchain-mcp-adapters'')))]"

definition c3_governor :: "draw list" where
  "c3_governor =
     [DPkg (Package.make 1480 (Y_C + 320) 660 320 (uc ''governor/'')
         (uc ''per AGENT FILE first, per run second '' @ [183] @ uc '' fails closed'') ''core''),
      DComp (Component.make 1496 (Y_C + 376) 300 110 (uc ''budget.py + ledger.py'')
         [uc ''max_tool_calls '' @ [183] @ uc '' max_tokens '' @ [183] @ uc '' max_turns ''
            @ [183] @ uc '' timeout'',
          uc ''Decimal USD ledger in Postgres'',
          uc ''price table settings.model.prices'',
          uc ''unpriced prod model '' @ [8594] @ uc '' boot failure'',
          uc ''breach '' @ [8594] @ uc '' inconclusive w/ partial findings'']
         ''core'' ''planned'' None (125 / 10) 11
         (Some (''BUILD'', uc ''+ litellm completion_cost''))),
      DComp (Component.make 1808 (Y_C + 376) 316 110 (uc ''breaker.py'')
         [uc ''3 consecutive provider failures'',
          ([8594] @ uc '' pause consumption 60s''),
          ([8594] @ uc '' needs_human for open runs''),
          uc ''tests at 2 vs 3, pause '' @ [8722] @ uc ''1s vs +1s'']
         ''core'' ''planned'' None (125 / 10) 11
         (Some (''ADOPT'', uc ''tenacity '' @ [183] @ uc '' purgatory''))),
      DComp (Component.make 1496 (Y_C + 496) 300 124 (uc ''scheduler.py (APScheduler)'')
         [uc ''registry sync tick'',
          uc ''approval-expiry sweep (30 min)'',
          uc ''recipe-driven scheduled investigations'',
          uc ''LEARN/PREVENT agents: daily '' @ [183] @ uc '' weekly '' @ [183]
            @ uc '' monthly'',
          uc ''emit ordinary B2 events'']
         ''core'' ''planned'' None (125 / 10) 11
         (Some (''ADOPT'', uc ''APScheduler 3.11''))),
      DComp (Component.make 1808 (Y_C + 496) 316 124 (uc ''storm_brake.py'')
         [uc ''queue lag > 25 '' @ [8594] @ uc '' only critical|high dequeued'',
          uc ''tests at 25 vs 26'',
          uc ''worker max in-flight 3'',
          uc ''RPM/TPM limiter on provider'']
         ''core'' ''planned'' None (125 / 10) 11
         (Some (''COPY'', uc ''OnCall window step'')))]"

definition c3_mcp :: "draw list" where
  "c3_mcp =
     [DPkg (Package.make 60 Y_D 1120 400 (uc ''mcp/'')
         (uc ''ONE client '' @ [183] @ uc '' ONE manifest '' @ [183]
            @ uc '' TWO enforcement points (ADR-0010, -0017)'') ''core''),
      DComp (Component.make 76 (Y_D + 56) 250 110 (uc ''gateway.py '' @ [8212] @ uc '' the only MCP client'')
         [uc ''FastMCP in-memory transport'',
          uc ''Client(server) same process'',
          uc ''federated: HTTPS + cert verify'',
          uc ''every call '' @ [8594] @ uc '' B8 tool_call'']
         ''core'' ''planned'' None (125 / 10) 11
         (Some (''ADOPT'', uc ''langchain-mcp-adapters 0.3''))),
      DComp (Component.make 338 (Y_D + 56) 250 110 (uc ''manifest.yaml + loader'')
         [uc ''tool '' @ [8594] @ uc '' tier (read | privileged)'',
          uc ''unknown tool / dup / no tier '' @ [8594] @ uc '' boot fail'',
          uc ''registry tool absent '' @ [8594] @ uc '' boot fail'',
          uc ''privileged set EMPTY in prod'']
         ''files'' ''planned'' None (125 / 10) 11
         (Some (''BUILD'', []))),
      DComp (Component.make 600 (Y_D + 56) 250 110 (uc ''tiers.py '' @ [8212] @ uc '' two checks'')
         [([9312] @ uc '' on_call_tool middleware '' @ [8594] @ uc '' ToolError''),
          ([9313] @ uc '' executor re-check before dispatch''),
          uc ''each proven to deny ALONE'',
          uc ''privileged '' @ [8594] @ uc '' B5 interrupt'']
         ''gate'' ''planned'' None (125 / 10) 11
         (Some (''ADOPT'', uc ''wrap_tool_call middleware''))),
      DComp (Component.make 862 (Y_D + 56) 302 110 (uc ''approvals.py '' @ [8212] @ uc '' B5 broker'')
         [uc ''mint(binding) '' @ [8594] @ uc '' 256-bit opaque token'',
          uc ''only sha stored '' @ [183] @ uc '' 30-min expiry'',
          uc ''consume = ONE atomic UPDATE (race-safe)'',
          uc ''expire sweep '' @ [183] @ uc '' Slack buttons '' @ [183] @ uc '' resume graph'']
         ''gate'' ''planned'' None (125 / 10) 11
         (Some (''COPY'', uc ''HolmesGPT ApprovalRequirement''))),
      DComp (Component.make 76 (Y_D + 176) 250 104 (uc ''existing MCP servers (bindings only)'')
         [uc ''grafana/mcp-grafana '' @ [8594] @ uc '' Prom '' @ [183] @ uc '' Loki '' @ [183]
            @ uc '' alerting '' @ [183] @ uc '' on-call'',
          uc ''Datadog MCP (hosted, 50 calls/10s) '' @ [183] @ uc '' k8s-mcp --read-only'',
          uc ''github-mcp-server '' @ [183] @ uc '' mcp.linear.app '' @ [183]
            @ uc '' prometheus-mcp'']
         ''port'' ''planned'' None (125 / 10) (95 / 10)
         (Some (''CONSUME'', uc ''6 official servers''))),
      DComp (Component.make 338 (Y_D + 176) 250 104 (uc ''servers/ we still write (FastMCP 3.4)'')
         [uc ''knowledge.search / expand '' @ [8594] @ uc '' knowledge.facade'',
          uc ''recipe.read '' @ [8594] @ uc '' recipes/ '' @ [183] @ uc '' change.list ''
            @ [8594] @ uc '' PlatformPort'',
          uc ''channel.post_thread '' @ [183] @ uc '' channel.ask_with_buttons'',
          uc ''testing/demo_destructive_noop (test config only)'']
         ''core'' ''planned'' None (125 / 10) (95 / 10)
         (Some (''BUILD'', uc ''no external MCP has these''))),
      DComp (Component.make 600 (Y_D + 176) 250 104 (uc ''federated/loader.py'')
         [uc ''descriptors/*.yaml: endpoint,'',
          uc ''tool_allowlist, prefix'',
          uc ''remote cannot widen surface'',
          uc ''same client '' @ [183] @ uc '' same manifest '' @ [183] @ uc '' same checks'']
         ''core'' ''planned'' None (125 / 10) 11
         (Some (''ADOPT'', uc ''MultiServerMCPClient''))),
      DComp (Component.make 862 (Y_D + 176) 302 104 (uc ''evidence_snapshot.py'')
         [uc ''EvidenceRecord{ref, tool, query, ts,'',
          uc ''result_sha256, snapshot_ref}'',
          uc ''written on EVERY witness read'',
          uc ''resolvable after vendor retention'']
         ''audit'' ''proposed'' None (125 / 10) 11
         (Some (''BUILD'', uc ''13/14 products lack it'')))]"

definition c3_witness_head :: "draw list" where
  "c3_witness_head =
     [DText 76 (of_int (Y_D + 306)) (uc ''witness ports '' @ [8212]
            @ uc '' what an agent can see; 6 of 8 are bindings to the MCP servers above (COPY Keep BaseProvider shape), 2 in-process:'')
         (115 / 10) (Some ''700'') ''#0b7285'' ''start'']"

definition c3_actions :: "draw list" where
  "c3_actions =
     [DPkg (Package.make 1200 Y_D 400 400 (uc ''actions/'')
         (uc ''deterministic '' @ [183] @ uc '' no LLM '' @ [183]
            @ uc '' exactly one ticket per fingerprint'') ''core''),
      DComp (Component.make 1216 (Y_D + 56) 368 118 (uc ''service.py'')
         [uc ''open_run() '' @ [8212] @ uc '' ON CONFLICT (run_id) '' @ [8594]
            @ uc '' state read'',
          uc ''apply() '' @ [8212] @ uc '' FOR UPDATE run '' @ [183]
            @ uc '' read ticket_actions'',
          uc ''INSERT tickets ON CONFLICT (fp) WHERE closed_at IS NULL'',
          uc ''  '' @ [8594] @ uc '' created | loser UPDATEs winner'' @ [39] @ uc ''s ticket'',
          uc ''close_run() '' @ [8212] @ uc '' status + conclusion + audit_end_offset'']
         ''core'' ''landed'' None (125 / 10) 11
         (Some (''KEEP'', []))),
      DComp (Component.make 1216 (Y_D + 184) 176 96 (uc ''ticket_actions ledger'')
         [uc ''(fingerprint, run_id) unique'',
          uc ''replayed:true on redelivery'',
          uc ''partial unique index 0003'']
         ''store'' ''landed'' None (125 / 10) 11
         (Some (''KEEP'', []))),
      DComp (Component.make 1408 (Y_D + 184) 176 96 (uc ''TicketingPort adapters'')
         [(uc ''FixtureTicketing '' @ [10003]),
          uc ''LinearAdapter (GraphQL,'',
          uc ''inspect errors on 200) M2'',
          uc ''conformance suite'']
         ''core'' ''landed'' None (125 / 10) 11
         (Some (''CONSUME'', uc ''Linear MCP '' @ [183] @ uc '' gql''))),
      DComp (Component.make 1216 (Y_D + 290) 176 96 (uc ''channels/ (IR + adapters)'')
         [uc ''ir.py: Message/Section IR'',
          uc ''slack.py '' @ [183] @ uc '' discord.py '' @ [183] @ uc '' telegram.py'',
          uc ''root card edited in place'',
          uc ''thread only findings/approval'']
         ''core'' ''planned'' None (125 / 10) 11
         (Some (''ADOPT'', uc ''slack-bolt Socket Mode''))),
      DComp (Component.make 1408 (Y_D + 290) 176 96 (uc ''findings_writeback.py'')
         [uc ''PlatformPort.write_finding'',
          uc ''B10 '' @ [183] @ uc '' stub in v1'']
         ''core'' ''planned'' None (125 / 10) 11
         (Some (''BUILD'', [])))]"

definition c3_recorder :: "draw list" where
  "c3_recorder =
     [DPkg (Package.make 1620 Y_D 520 400 (uc ''recorder/'')
         (uc ''JSONL is the source of truth (ADR-0012) '' @ [183]
            @ uc '' Postgres only indexes'') ''audit''),
      DComp (Component.make 1636 (Y_D + 56) 244 118 (uc ''writer.py'')
         [uc ''audit-<date>T<time>-<pid>.jsonl'',
          uc ''fsync per line '' @ [183] @ uc '' monotonic seq'',
          uc ''byte offsets returned'',
          uc ''failures counter '' @ [8594] @ uc '' /healthz'',
          uc ''read_run(run_id) '' @ [8594] @ uc '' lines'']
         ''audit'' ''landed'' None (125 / 10) 11
         (Some (''KEEP'', []))),
      DComp (Component.make 1892 (Y_D + 56) 232 118 (uc ''runs index (Postgres)'')
         [uc ''run_id '' @ [8594] @ uc '' file + start/end offset'',
          uc ''status '' @ [183] @ uc '' conclusion jsonb'',
          uc ''GET /runs/{fp} reads it'',
          uc ''migration 0003'']
         ''store'' ''landed'' None (125 / 10) 11
         (Some (''KEEP'', []))),
      DComp (Component.make 1636 (Y_D + 184) 244 96 (uc ''broadcast.py'')
         [uc ''in-process async channel'',
          uc ''publish after append (file first)'',
          (uc ''feeds '' @ [96] @ uc ''logs --follow'' @ [96]),
          uc ''seam for SSE later'']
         ''audit'' ''planned'' None (125 / 10) 11
         (Some (''BUILD'', []))),
      DComp (Component.make 1892 (Y_D + 184) 232 96 (uc ''redaction'')
         [uc ''settings.redaction patterns'',
          uc ''runs before EVERY append'',
          uc ''credentials never in payload'']
         ''audit'' ''planned'' None (125 / 10) 11
         (Some (''BUILD'', []))),
      DComp (Component.make 1636 (Y_D + 290) 244 96 (uc ''replay.py'')
         [uc ''read run byte range'',
          uc ''feed recorded llm_call + tool_call'',
          ([8594] @ uc '' RecordedModel + RecordedExecutor''),
          uc ''--live is explicit opt-in'']
         ''audit'' ''planned'' None (125 / 10) 11
         (Some (''ADOPT'', uc ''vcrpy + @task cache''))),
      DComp (Component.make 1892 (Y_D + 290) 232 96 (uc ''B8 AuditEvent kinds'')
         [uc ''event '' @ [183] @ uc '' transition '' @ [183] @ uc '' llm_call'',
          uc ''tool_call '' @ [183] @ uc '' gate '' @ [183] @ uc '' action'',
          uc ''+ hypothesis '' @ [183] @ uc '' evidence (proposed)'',
          uc ''+ rejected '' @ [183] @ uc '' quarantined'']
         ''audit'' ''landed'' None (125 / 10) 11
         (Some (''COPY'', uc ''FH events '' @ [183] @ uc '' Dispatch Event'')))]"

definition c3_stores :: "draw list" where
  "c3_stores =
     [DText 60 (of_int (Y_E - 10)) (uc ''BACKING CONTAINERS (compose services + volume)'')
         12 (Some ''700'') GREY ''start'',
      DComp (Component.make 60 Y_E 900 96 (uc ''postgres '' @ [8212] @ uc '' pgvector/pgvector:0.8.1-pg16'')
         [uc ''tables (0001'' @ [8211] @ uc ''0004): events '' @ [183] @ uc '' quarantine ''
            @ [183] @ uc '' runs '' @ [183] @ uc '' tickets '' @ [183] @ uc '' ticket_actions ''
            @ [183] @ uc '' outbox columns'',
          uc ''planned: episodes (0006) '' @ [183] @ uc '' langgraph checkpoints '' @ [183]
            @ uc '' approvals '' @ [183] @ uc '' spend_ledger '' @ [183] @ uc '' storm counters'',
          uc ''advisory lock per fingerprint '' @ [183]
            @ uc '' partial unique index open ticket per fp'']
         ''store'' ''landed'' None (125 / 10) 11
         None),
      DComp (Component.make 980 Y_E 560 96 (uc ''redis:7.4-alpine '' @ [8212] @ uc '' appendonly'')
         [uc ''stream agentevents (maxlen) '' @ [183] @ uc '' consumer group intelligence'',
          uc ''XINFO GROUPS '' @ [8594] @ uc '' {lag, pending} on /healthz'',
          uc ''never the source of truth '' @ [8212] @ uc '' the outbox is'']
         ''store'' ''landed'' None (125 / 10) 11
         None),
      DComp (Component.make 1560 Y_E 580 96 (uc ''volume audit-logs:/app/logs'')
         [uc ''JSONL files '' @ [183] @ uc '' one per recorder start'',
          uc ''proposed: evidence snapshots beside it, content-addressed'',
          (uc ''outlives '' @ [96] @ uc ''docker compose down'' @ [96])]
         ''audit'' ''landed'' None (125 / 10) 11
         None)]"

definition c3_ledger_head :: "draw list" where
  "c3_ledger_head =
     [DText 76 (of_int (Y_L + 28)) (uc ''ONE RUN, STEP BY STEP '' @ [8212] @ uc '' the smallest things that get reported'')
         15 (Some ''700'') ''#6741b8'' ''start'',
      DText 76 (of_int (Y_L + 46)) (uc ''Each column is one reported step. Row 1: what the component does '' @ [183]
            @ uc '' Row 2: the B8 line it appends (kind) '' @ [183]
            @ uc '' Row 3: what the responder sees in the Slack thread / GET /runs '' @ [183]
            @ uc '' modelled on Cleric'' @ [39] @ uc ''s activity-log rows, Grafana'' @ [39]
            @ uc ''s hypothesis states + numbered citation chips, Datadog'' @ [39]
            @ uc ''s validated / invalidated / inconclusive.'')
         (105 / 10) None GREY ''start'']"

definition c3_side_paths :: "draw list" where
  "c3_side_paths =
     [DComp (Component.make 76 side_y 672 92 (uc ''budget / provider failure path'')
         [uc ''governor breach or breaker open '' @ [8594]
            @ uc '' synthesize inconclusive | needs_human'',
          uc ''with partial findings '' @ [8594] @ uc '' B8 gate: budget '' @ [8594]
            @ uc '' ticket still filed'',
          uc ''a run never dies silently ('' @ [167]
            @ uc ''5.7); XACK only after that Conclusion is durable'']
         ''gate'' ''planned'' None (125 / 10) 11
         None),
      DComp (Component.make 764 side_y 672 92 (uc ''privileged action path (M5)'')
         [uc ''mitigation-ranker draft '' @ [8594] @ uc '' B5 ApprovalRequest '' @ [8594]
            @ uc '' Slack buttons '' @ [8594] @ uc '' interrupt'',
          uc ''persists across restart '' @ [8594] @ uc '' consume token ONCE '' @ [8594]
            @ uc '' act '' @ [8594] @ uc '' mitigation-verifier'',
          uc ''B8: gate approval.requested '' @ [183] @ uc '' approval.decided '' @ [183]
            @ uc '' action '' @ [183] @ uc '' gate verified '' @ [8594] @ uc '' mitigated'']
         ''gate'' ''planned'' None (125 / 10) 11
         None),
      DComp (Component.make 1452 side_y 672 92 (uc ''healthy-system path (no-fault eval)'')
         [uc ''flapping monitor '' @ [8594] @ uc '' every agent returns empty candidates ''
            @ [8594] @ uc '' board all inconclusive'',
          ([8594] @ uc '' verify has nothing to validate '' @ [8594]
            @ uc '' B6 inconclusive, explicit '' @ [8220] @ uc ''no change / no saturation''
            @ [8221]),
          uc ''ticket updated, not opened '' @ [183]
            @ uc '' this run IS the no-fault eval case (12/14 products lack one)'']
         ''audit'' ''proposed'' None (125 / 10) 11
         None)]"

definition c3_flow :: "draw list" where
  "c3_flow =
     [DArrow 400 242 400 270 (Some (uc ''B1 verified inbound'')) True False (Some 470) (Some 262),
      DArrow 780 380 800 380 (Some (uc ''B2'')) True False None None,
      DArrow 990 600 990 630 (Some (uc ''B2 '' @ [8594] @ uc '' engine'')) True False (Some 1060) (Some 622),
      DArrow 560 1270 560 1300 (Some (uc ''B4 ToolCall'')) True False (Some 620) (Some 1292),
      DArrow 1400 1000 1200 1000 None False False None None,
      DText 1300 992 (uc ''B6 Conclusion '' @ [8212] @ uc '' determinism boundary'')
         (105 / 10) None GREY ''middle'',
      DArrow 1200 1000 1200 1300 None True False None None,
      DArrow 1460 690 1480 690 None False True None None,
      DText 1470 680 (uc ''B3'')
         (105 / 10) None GREY ''middle'',
      DArrow 1460 1000 1480 1000 (Some (uc ''budget'')) False True None None,
      DArrow 1600 1500 1620 1500 (Some (uc ''B8 action'')) False True None None,
      DArrow 1180 1500 1200 1500 None False True None None,
      DArrow 600 1700 600 1708 None False True None None]"

definition c3_flow_end :: "draw list" where
  "c3_flow_end =
     [DArrow 1880 1708 1880 1700 None False True None None,
      DText 1240 1704 (uc ''B8 '' @ [8212] @ uc '' every node, llm_call, tool_call, gate, action, evidence ''
            @ [8594] @ uc '' recorder'')
         (105 / 10) None ''#6741b8'' ''middle'']"

definition c3_ledger_note :: "draw list" where
  "c3_ledger_note =
     (let lx1 = of_int (ledger_x + 6 * (128 + 9)); lx2 = of_int (ledger_x + 10 * (128 + 9) - 9);
          sy = of_int ledger_y
      in [DRaw (CPath [(lx1, sy - 8), (lx1, sy - 16), (lx2, sy - 16), (lx2, sy - 8)] ''#6741b8''),
          DText ((lx1 + lx2) / 2) (sy - 21)
            (uc ''repeats per agent ('' @ [8741]
              @ uc '' across agents) and per turn within an agent, bounded by governor budget'')
            (105 / 10) None ''#6741b8'' ''middle''])"

definition c3_legends :: "draw list" where
  "c3_legends =
     status_legend 60 STATUS_LEGEND
     @ kind_legend (60 + 250 * of_nat (length STATUS_LEGEND)) KIND_LEGEND
     @ DText 60 145 (uc ''reuse tag on each box:'') (115 / 10) (Some ''700'') GREY ''start''
     # tag_legend (60 + 135) TAG_LEGEND"

definition c3_external :: "draw list" where
  "c3_external =
     DRaw (CRect 60 158 2080 84 10 ''#f8f9fa'' ''#8a99a8'' None None)
     # DText 78 176 (uc ''EXTERNAL SYSTEMS (outside the container)'') 12 (Some ''700'') GREY ''start''
     # ext_boxes 78 EXT_SYSTEMS"

definition c3_catalogue :: "draw list" where
  "c3_catalogue = c3_catalogue_head @ cat_boxes cx0 (cy0 + 8) 0 [0, 0, 0, 0] CATALOGUE @ c3_catalogue_foot"

definition c3_ledger :: "draw list" where
  "c3_ledger =
     DRaw (CRect 60 (of_int Y_L) 2080 520 10 ''#fbfaff'' ''#6741b8'' None (Some (14 / 10)))
     # c3_ledger_head @ ledger_columns (of_int ledger_x) (of_int ledger_y) LEDGER_STEPS @ c3_ledger_note"

definition c3_script :: "draw list" where
  "c3_script =
     DRaw (CBack C3_W C3_H) # c3_title @ c3_legends @ c3_external
     @ c3_receiver @ c3_queue @ c3_app @ c3_config @ port_boxes 1636 (Y_B + 150) PORT_TABLE
     @ c3_workflows @ c3_loaders @ c3_catalogue @ c3_knowledge @ c3_governor
     @ c3_mcp @ c3_witness_head @ witness_boxes Y_D WITNESS_PORTS @ c3_actions @ c3_recorder
     @ c3_stores @ c3_ledger @ c3_side_paths @ c3_flow
     @ DRaw (CLine 600 1708 1880 1708 ''#6741b8'' (Some (13 / 10)) (Some ''6 4'') False) # c3_flow_end"

text \<open>The elements in the order they are written, or the exception.\<close>

definition c3_render :: "shape list result" where
  "c3_render = res_bind (res_mapM draw_shapes c3_script) (\<lambda>ss. Inr (concat ss))"


section \<open>The boxes of the script\<close>

type_synonym frame = "int \<times> int \<times> int \<times> int"

fun draw_frames :: "draw \<Rightarrow> frame list" where
  "draw_frames (DComp c) = [(cm_x c, cm_y c, cm_w c, cm_h c)]"
| "draw_frames _ = []"

fun draw_packages :: "draw \<Rightarrow> frame list" where
  "draw_packages (DPkg p) = [(pk_x p, pk_y p, pk_w p, pk_h p)]"
| "draw_packages _ = []"

abbreviation frames :: "draw list \<Rightarrow> frame list" where
  "frames ds \<equiv> concat (map draw_frames ds)"

abbreviation packages :: "draw list \<Rightarrow> frame list" where
  "packages ds \<equiv> concat (map draw_packages ds)"

text \<open>A call that finds its colours.\<close>

fun draw_ok :: "draw \<Rightarrow> bool" where
  "draw_ok (DComp c) \<longleftrightarrow> cm_kind c \<in> fst ` set C3_C
     \<and> (case cm_tag c of None \<Rightarrow> True | Some tag \<Rightarrow> fst tag \<in> fst ` set TAGC)"
| "draw_ok (DPkg p) \<longleftrightarrow> pk_kind p \<in> fst ` set C3_C"
| "draw_ok (DKindBox _ kind) \<longleftrightarrow> kind \<in> fst ` set C3_C"
| "draw_ok (DTagBox _ verb) \<longleftrightarrow> verb \<in> fst ` set TAGC"
| "draw_ok _ \<longleftrightarrow> True"

lemma look_ok:
  assumes "k \<in> fst ` set table"
  shows "\<exists>v. look table k = Inr v"
proof -
  obtain v where "map_of table k = Some v" using assms by (metis map_of_eq_None_iff not_Some_eq)
  then show ?thesis by (simp add: look_def)
qed

lemma draw_ok_shapes: "draw_ok d \<Longrightarrow> \<exists>ss. draw_shapes d = Inr ss"
proof (cases d)
  case (DComp c)
  assume "draw_ok d"
  with DComp obtain k where k: "look C3_C (cm_kind c) = Inr k" using look_ok[of "cm_kind c" C3_C] by auto
  moreover have "\<exists>t. tag_shapes c = Inr t"
    using \<open>draw_ok d\<close> DComp look_ok[of _ TAGC]
    by (fastforce simp: tag_shapes_def Let_def split: option.splits)
  ultimately show ?thesis using DComp by (cases k) (auto simp: comp_def)
next
  case (DPkg p)
  assume "draw_ok d"
  with DPkg obtain k where "look C3_C (pk_kind p) = Inr k" using look_ok[of "pk_kind p" C3_C] by auto
  then show ?thesis using DPkg by (cases k) (auto simp: pkg_def)
next
  case (DKindBox x kind)
  assume "draw_ok d"
  with DKindBox obtain k where "look C3_C kind = Inr k" using look_ok[of kind C3_C] by auto
  then show ?thesis using DKindBox by (cases k) auto
next
  case (DTagBox x verb)
  assume "draw_ok d"
  with DTagBox obtain k where "look TAGC verb = Inr k" using look_ok[of verb TAGC] by auto
  then show ?thesis using DTagBox by auto
qed simp_all

lemmas c3_rows = Component.defs Package.defs Y_B_def Y_C_def Y_D_def Y_E_def Y_L_def cx0_def cy0_def
  ledger_x_def ledger_y_def side_y_def
lemmas c3_tables = C3_C_def TAGC_def

lemma title_frames:
  "frames c3_title =
     []"
  "packages c3_title = []" "list_all draw_ok c3_title"
  by (simp_all add: c3_title_def c3_rows c3_tables)

lemma legends_frames:
  "frames c3_legends =
     []"
  "packages c3_legends = []" "list_all draw_ok c3_legends"
  by (simp_all add: c3_legends_def STATUS_LEGEND_def KIND_LEGEND_def TAG_LEGEND_def c3_rows c3_tables)

lemma external_frames:
  "frames c3_external =
     []"
  "packages c3_external = []" "list_all draw_ok c3_external"
  by (simp_all add: c3_external_def EXT_SYSTEMS_def c3_rows c3_tables)

lemma receiver_frames:
  "frames c3_receiver =
     [(76, 326, 220, 118), (308, 326, 220, 118), (540, 326, 224, 118), (76, 456, 220, 128),
      (308, 456, 220, 128), (540, 456, 224, 60), (540, 524, 224, 60)]"
  "packages c3_receiver = [(60, 270, 720, 330)]" "list_all draw_ok c3_receiver"
  by (simp_all add: c3_receiver_def c3_rows c3_tables)

lemma queue_frames:
  "frames c3_queue =
     [(816, 326, 348, 74), (816, 410, 348, 100), (816, 520, 168, 64), (996, 520, 168, 64)]"
  "packages c3_queue = [(800, 270, 380, 330)]" "list_all draw_ok c3_queue"
  by (simp_all add: c3_queue_def c3_rows c3_tables)

lemma app_frames:
  "frames c3_app =
     [(1216, 326, 368, 84), (1216, 420, 176, 74), (1408, 420, 176, 74), (1216, 504, 176, 80),
      (1408, 504, 176, 80)]"
  "packages c3_app = [(1200, 270, 400, 330)]" "list_all draw_ok c3_app"
  by (simp_all add: c3_app_def c3_rows c3_tables)

lemma config_frames:
  "frames c3_config =
     [(1636, 326, 488, 84)]"
  "packages c3_config = [(1620, 270, 520, 330)]" "list_all draw_ok c3_config"
  by (simp_all add: c3_config_def c3_rows c3_tables)

lemma port_boxes_frames:
  "frames (port_boxes 1636 (Y_B + 150) PORT_TABLE) =
     [(1636, 420, 116, 74), (1758, 420, 116, 74), (1880, 420, 116, 74), (2002, 420, 116, 74),
      (1636, 504, 116, 74), (1758, 504, 116, 74), (1880, 504, 116, 74), (2002, 504, 116, 74)]"
  "packages (port_boxes 1636 (Y_B + 150) PORT_TABLE) = []" "list_all draw_ok (port_boxes 1636 (Y_B + 150) PORT_TABLE)"
  by (simp_all add: port_boxes_def PORT_TABLE_def c3_rows c3_tables)

lemma workflows_frames:
  "frames c3_workflows =
     [(76, 686, 300, 88), (76, 784, 300, 118), (76, 912, 300, 150), (76, 1072, 300, 100),
      (76, 1182, 300, 62)]"
  "packages c3_workflows = [(60, 630, 1400, 640)]" "list_all draw_ok c3_workflows"
  by (simp_all add: c3_workflows_def c3_rows c3_tables)

lemma loaders_frames:
  "frames c3_loaders =
     [(392, 686, 340, 250), (392, 946, 164, 100), (568, 946, 164, 100), (392, 1056, 164, 90),
      (568, 1056, 164, 90), (392, 1156, 340, 88)]"
  "packages c3_loaders = []" "list_all draw_ok c3_loaders"
  by (simp_all add: c3_loaders_def c3_rows c3_tables)

lemma catalogue_frames:
  "frames c3_catalogue =
     [(748, 694, 166, 100), (924, 694, 166, 160), (1100, 694, 166, 85), (1276, 694, 166, 85),
      (748, 804, 166, 115), (924, 864, 166, 100), (1100, 789, 166, 70), (1276, 789, 166, 130),
      (748, 1116, 692, 128)]"
  "packages c3_catalogue = []" "list_all draw_ok c3_catalogue"
  by (simp_all add: c3_catalogue_def c3_catalogue_head_def c3_catalogue_foot_def CATALOGUE_def c3_rows c3_tables)

lemma knowledge_frames:
  "frames c3_knowledge =
     [(1496, 686, 300, 100), (1808, 686, 316, 100), (1496, 796, 300, 100), (1808, 796, 316, 100)]"
  "packages c3_knowledge = [(1480, 630, 660, 300)]" "list_all draw_ok c3_knowledge"
  by (simp_all add: c3_knowledge_def c3_rows c3_tables)

lemma governor_frames:
  "frames c3_governor =
     [(1496, 1006, 300, 110), (1808, 1006, 316, 110), (1496, 1126, 300, 124), (1808, 1126, 316, 124)]"
  "packages c3_governor = [(1480, 950, 660, 320)]" "list_all draw_ok c3_governor"
  by (simp_all add: c3_governor_def c3_rows c3_tables)

lemma mcp_frames:
  "frames c3_mcp =
     [(76, 1356, 250, 110), (338, 1356, 250, 110), (600, 1356, 250, 110), (862, 1356, 302, 110),
      (76, 1476, 250, 104), (338, 1476, 250, 104), (600, 1476, 250, 104), (862, 1476, 302, 104)]"
  "packages c3_mcp = [(60, 1300, 1120, 400)]" "list_all draw_ok c3_mcp"
  by (simp_all add: c3_mcp_def c3_rows c3_tables)

lemma witness_head_frames:
  "frames c3_witness_head =
     []"
  "packages c3_witness_head = []" "list_all draw_ok c3_witness_head"
  by (simp_all add: c3_witness_head_def c3_rows c3_tables)

lemma witness_boxes_frames:
  "frames (witness_boxes Y_D WITNESS_PORTS) =
     [(76, 1616, 132, 78), (213, 1616, 132, 78), (350, 1616, 132, 78), (487, 1616, 132, 78),
      (624, 1616, 132, 78), (761, 1616, 132, 78), (898, 1616, 132, 78), (1035, 1616, 132, 78)]"
  "packages (witness_boxes Y_D WITNESS_PORTS) = []" "list_all draw_ok (witness_boxes Y_D WITNESS_PORTS)"
  by (simp_all add: witness_boxes_def WITNESS_PORTS_def c3_rows c3_tables)

lemma actions_frames:
  "frames c3_actions =
     [(1216, 1356, 368, 118), (1216, 1484, 176, 96), (1408, 1484, 176, 96), (1216, 1590, 176, 96),
      (1408, 1590, 176, 96)]"
  "packages c3_actions = [(1200, 1300, 400, 400)]" "list_all draw_ok c3_actions"
  by (simp_all add: c3_actions_def c3_rows c3_tables)

lemma recorder_frames:
  "frames c3_recorder =
     [(1636, 1356, 244, 118), (1892, 1356, 232, 118), (1636, 1484, 244, 96), (1892, 1484, 232, 96),
      (1636, 1590, 244, 96), (1892, 1590, 232, 96)]"
  "packages c3_recorder = [(1620, 1300, 520, 400)]" "list_all draw_ok c3_recorder"
  by (simp_all add: c3_recorder_def c3_rows c3_tables)

lemma stores_frames:
  "frames c3_stores =
     [(60, 1730, 900, 96), (980, 1730, 560, 96), (1560, 1730, 580, 96)]"
  "packages c3_stores = []" "list_all draw_ok c3_stores"
  by (simp_all add: c3_stores_def c3_rows c3_tables)

lemma side_paths_frames:
  "frames c3_side_paths =
     [(76, 2264, 672, 92), (764, 2264, 672, 92), (1452, 2264, 672, 92)]"
  "packages c3_side_paths = []" "list_all draw_ok c3_side_paths"
  by (simp_all add: c3_side_paths_def c3_rows c3_tables)

lemma flow_frames:
  "frames c3_flow =
     []"
  "packages c3_flow = []" "list_all draw_ok c3_flow"
  by (simp_all add: c3_flow_def c3_rows c3_tables)

lemma flow_end_frames:
  "frames c3_flow_end =
     []"
  "packages c3_flow_end = []" "list_all draw_ok c3_flow_end"
  by (simp_all add: c3_flow_end_def c3_rows c3_tables)

text \<open>The ledger has no component box.\<close>

definition plain :: "draw \<Rightarrow> bool" where
  "plain d \<longleftrightarrow> draw_frames d = [] \<and> draw_packages d = [] \<and> draw_ok d"

lemma plain_draws: "list_all plain ds \<Longrightarrow> frames ds = [] \<and> packages ds = [] \<and> list_all draw_ok ds"
  by (induction ds) (simp_all add: plain_def)

lemma text_draws_plain: "list_all plain (text_draws x y f ls)"
  by (induction x y f ls rule: text_draws.induct) (simp_all add: plain_def)

lemma ledger_column_plain: "list_all plain (ledger_column x y final s)"
  by (cases s) (simp add: ledger_column_def Let_def text_draws_plain, simp add: plain_def)

lemma ledger_columns_plain: "list_all plain (ledger_columns x y ss)"
  by (induction x y ss rule: ledger_columns.induct) (simp_all add: ledger_column_plain)

lemma ledger_plain: "list_all plain c3_ledger"
  by (simp add: c3_ledger_def c3_ledger_head_def c3_ledger_note_def ledger_columns_plain Let_def)
    (simp add: plain_def)

lemma ledger_frames:
  "frames c3_ledger = []" "packages c3_ledger = []" "list_all draw_ok c3_ledger"
  using plain_draws[OF ledger_plain] by blast+

lemmas script_frames =
  title_frames legends_frames external_frames receiver_frames queue_frames app_frames
  config_frames port_boxes_frames workflows_frames loaders_frames catalogue_frames knowledge_frames
  governor_frames mcp_frames witness_head_frames witness_boxes_frames actions_frames recorder_frames
  stores_frames side_paths_frames flow_frames flow_end_frames ledger_frames

definition c3_frames :: "frame list" where
  "c3_frames =
     [(76, 326, 220, 118), (308, 326, 220, 118), (540, 326, 224, 118), (76, 456, 220, 128),
      (308, 456, 220, 128), (540, 456, 224, 60), (540, 524, 224, 60), (816, 326, 348, 74),
      (816, 410, 348, 100), (816, 520, 168, 64), (996, 520, 168, 64), (1216, 326, 368, 84),
      (1216, 420, 176, 74), (1408, 420, 176, 74), (1216, 504, 176, 80), (1408, 504, 176, 80),
      (1636, 326, 488, 84), (1636, 420, 116, 74), (1758, 420, 116, 74), (1880, 420, 116, 74),
      (2002, 420, 116, 74), (1636, 504, 116, 74), (1758, 504, 116, 74), (1880, 504, 116, 74),
      (2002, 504, 116, 74), (76, 686, 300, 88), (76, 784, 300, 118), (76, 912, 300, 150),
      (76, 1072, 300, 100), (76, 1182, 300, 62), (392, 686, 340, 250), (392, 946, 164, 100),
      (568, 946, 164, 100), (392, 1056, 164, 90), (568, 1056, 164, 90), (392, 1156, 340, 88),
      (748, 694, 166, 100), (924, 694, 166, 160), (1100, 694, 166, 85), (1276, 694, 166, 85),
      (748, 804, 166, 115), (924, 864, 166, 100), (1100, 789, 166, 70), (1276, 789, 166, 130),
      (748, 1116, 692, 128), (1496, 686, 300, 100), (1808, 686, 316, 100), (1496, 796, 300, 100),
      (1808, 796, 316, 100), (1496, 1006, 300, 110), (1808, 1006, 316, 110), (1496, 1126, 300, 124),
      (1808, 1126, 316, 124), (76, 1356, 250, 110), (338, 1356, 250, 110), (600, 1356, 250, 110),
      (862, 1356, 302, 110), (76, 1476, 250, 104), (338, 1476, 250, 104), (600, 1476, 250, 104),
      (862, 1476, 302, 104), (76, 1616, 132, 78), (213, 1616, 132, 78), (350, 1616, 132, 78),
      (487, 1616, 132, 78), (624, 1616, 132, 78), (761, 1616, 132, 78), (898, 1616, 132, 78),
      (1035, 1616, 132, 78), (1216, 1356, 368, 118), (1216, 1484, 176, 96), (1408, 1484, 176, 96),
      (1216, 1590, 176, 96), (1408, 1590, 176, 96), (1636, 1356, 244, 118), (1892, 1356, 232, 118),
      (1636, 1484, 244, 96), (1892, 1484, 232, 96), (1636, 1590, 244, 96), (1892, 1590, 232, 96),
      (60, 1730, 900, 96), (980, 1730, 560, 96), (1560, 1730, 580, 96), (76, 2264, 672, 92),
      (764, 2264, 672, 92), (1452, 2264, 672, 92)]"

definition c3_packages :: "frame list" where
  "c3_packages =
     [(60, 270, 720, 330), (800, 270, 380, 330), (1200, 270, 400, 330), (1620, 270, 520, 330),
      (60, 630, 1400, 640), (1480, 630, 660, 300), (1480, 950, 660, 320), (60, 1300, 1120, 400),
      (1200, 1300, 400, 400), (1620, 1300, 520, 400)]"

lemma c3_script_frames: "frames c3_script = c3_frames"
  by (simp add: c3_script_def script_frames c3_frames_def)

lemma c3_script_packages: "packages c3_script = c3_packages"
  by (simp add: c3_script_def script_frames c3_packages_def)

lemma c3_script_ok: "list_all draw_ok c3_script"
  by (simp add: c3_script_def script_frames)

definition frame_apart :: "frame \<Rightarrow> frame \<Rightarrow> bool" where
  "frame_apart a b = (case (a, b) of ((x, y, w, h), (x', y', w', h')) \<Rightarrow>
     x + w \<le> x' \<or> x' + w' \<le> x \<or> y + h \<le> y' \<or> y' + h' \<le> y)"

definition frame_inside :: "frame \<Rightarrow> frame \<Rightarrow> bool" where
  "frame_inside a b = (case (a, b) of ((x, y, w, h), (x', y', w', h')) \<Rightarrow>
     x' \<le> x \<and> y' \<le> y \<and> x + w \<le> x' + w' \<and> y + h \<le> y' + h' \<and> 0 < w \<and> 0 < h)"

fun frames_apart :: "frame list \<Rightarrow> bool" where
  "frames_apart [] = True"
| "frames_apart (f # fs) = (list_all (frame_apart f) fs \<and> frames_apart fs)"

lemma c3_frames_apart: "frames_apart c3_frames"
  by code_simp

lemma c3_frames_inside: "list_all (\<lambda>f. frame_inside f (0, 0, C3_W, C3_H)) c3_frames"
  by code_simp

lemma c3_frames_packages:
  "list_all (\<lambda>f. list_all (\<lambda>p. frame_inside f p \<or> frame_apart f p) c3_packages) c3_frames"
  by code_simp

lemma c3_packages_apart: "frames_apart c3_packages"
  by code_simp

lemma c3_renders: "\<exists>out. c3_render = Inr out"
proof -
  have "\<exists>ss. draw_shapes d = Inr ss" if "d \<in> set c3_script" for d
    using c3_script_ok that draw_ok_shapes by (auto simp: list_all_iff)
  then obtain ss where "res_mapM draw_shapes c3_script = Inr ss"
    using res_mapM_ok[of c3_script draw_shapes] by blast
  then show ?thesis by (simp add: c3_render_def)
qed

end
