(* ===== verification/SqlDdl.thy ===== *)
theory SqlDdl
  imports Prelude
begin

text \<open>
  As much of Postgres as the Alembic revisions of \<^verbatim>\<open>migrations/versions\<close> use: values
  with \<open>NULL\<close>, expressions of check constraints, partial indexes and \<^verbatim>\<open>UPDATE\<close>
  in SQL's three-valued logic, tables with columns, keys and rows, and the statements
  behind Alembic's \<^verbatim>\<open>op\<close> calls with the errors they raise. A row is the list of its
  columns with their values, in the order of the table's columns.

  Uuids, texts and JSON documents are \<open>SText\<close>, instants and integers \<open>SInt\<close>; the
  declared type of a column is kept, and the range of a value is checked where the
  application's statements are modelled.

  The main result is \<open>exec_all_undo\<close>: running the opposite statements in reverse order
  gives back the database, rows included.
\<close>

section \<open>Values and expressions\<close>

datatype sqlval = SNull | SText string | SInt int | SBool bool

datatype sqlexpr =
    Col string
  | Lit sqlval
  | IsNull sqlexpr
  | IsNotNull sqlexpr
  | EqE sqlexpr sqlexpr
  | NeE sqlexpr sqlexpr
  | GeE sqlexpr sqlexpr
  | AndE sqlexpr sqlexpr
  | OrE sqlexpr sqlexpr
  | InE sqlexpr "sqlval list"

type_synonym sql_row = "(string \<times> sqlval) list"

definition sql_get :: "sql_row \<Rightarrow> string \<Rightarrow> sqlval" where
  "sql_get r c = (case map_of r c of None \<Rightarrow> SNull | Some v \<Rightarrow> v)"

definition sql_eq :: "sqlval \<Rightarrow> sqlval \<Rightarrow> sqlval" where
  "sql_eq a b = (if a = SNull \<or> b = SNull then SNull else SBool (a = b))"

fun sql_not :: "sqlval \<Rightarrow> sqlval" where
  "sql_not (SBool b) = SBool (\<not> b)"
| "sql_not _ = SNull"

fun sql_ge :: "sqlval \<Rightarrow> sqlval \<Rightarrow> sqlval" where
  "sql_ge (SInt a) (SInt b) = SBool (b \<le> a)"
| "sql_ge _ _ = SNull"

definition sql_and :: "sqlval \<Rightarrow> sqlval \<Rightarrow> sqlval" where
  "sql_and a b =
     (if a = SBool False \<or> b = SBool False then SBool False
      else if a = SBool True \<and> b = SBool True then SBool True else SNull)"

definition sql_or :: "sqlval \<Rightarrow> sqlval \<Rightarrow> sqlval" where
  "sql_or a b =
     (if a = SBool True \<or> b = SBool True then SBool True
      else if a = SBool False \<and> b = SBool False then SBool False else SNull)"

fun sql_eval :: "sql_row \<Rightarrow> sqlexpr \<Rightarrow> sqlval" where
  "sql_eval r (Col c) = sql_get r c"
| "sql_eval r (Lit v) = v"
| "sql_eval r (IsNull e) = SBool (sql_eval r e = SNull)"
| "sql_eval r (IsNotNull e) = SBool (sql_eval r e \<noteq> SNull)"
| "sql_eval r (EqE a b) = sql_eq (sql_eval r a) (sql_eval r b)"
| "sql_eval r (NeE a b) = sql_not (sql_eq (sql_eval r a) (sql_eval r b))"
| "sql_eval r (GeE a b) = sql_ge (sql_eval r a) (sql_eval r b)"
| "sql_eval r (AndE a b) = sql_and (sql_eval r a) (sql_eval r b)"
| "sql_eval r (OrE a b) = sql_or (sql_eval r a) (sql_eval r b)"
| "sql_eval r (InE a vs) = foldr (\<lambda>v. sql_or (sql_eq (sql_eval r a) v)) vs (SBool False)"

fun expr_cols :: "sqlexpr \<Rightarrow> string list" where
  "expr_cols (Col c) = [c]"
| "expr_cols (Lit v) = []"
| "expr_cols (IsNull e) = expr_cols e"
| "expr_cols (IsNotNull e) = expr_cols e"
| "expr_cols (EqE a b) = expr_cols a @ expr_cols b"
| "expr_cols (NeE a b) = expr_cols a @ expr_cols b"
| "expr_cols (GeE a b) = expr_cols a @ expr_cols b"
| "expr_cols (AndE a b) = expr_cols a @ expr_cols b"
| "expr_cols (OrE a b) = expr_cols a @ expr_cols b"
| "expr_cols (InE a vs) = expr_cols a"

section \<open>Tables\<close>

datatype sqltype = TUuid | TText | TTimestamptz | TInteger | TBigInteger | TBoolean | TJsonb

record sql_column =
  co_name :: string
  co_type :: sqltype
  co_nullable :: bool
  co_default :: "sqlval option"

record sql_table =
  tb_columns :: "sql_column list"
  tb_pkey :: "string list"
  tb_checks :: "(string \<times> sqlexpr) list"
  tb_fkeys :: "(string \<times> string \<times> string) list"
  tb_rows :: "sql_row list"

record sql_index =
  ix_name :: string
  ix_table :: string
  ix_columns :: "string list"
  ix_unique :: bool
  ix_where :: "sqlexpr option"

record pg =
  pg_version :: "string option"
  pg_extensions :: "string list"
  pg_tables :: "(string \<times> sql_table) list"
  pg_indexes :: "sql_index list"
  pg_functions :: "string list"
  pg_triggers :: "(string \<times> string \<times> string \<times> string) list"

definition empty_pg :: pg where
  "empty_pg = \<lparr>pg_version = None, pg_extensions = [], pg_tables = [], pg_indexes = [],
     pg_functions = [], pg_triggers = []\<rparr>"

abbreviation col_names :: "sql_table \<Rightarrow> string list" where
  "col_names t \<equiv> map co_name (tb_columns t)"

definition index_cols :: "sql_index \<Rightarrow> string list" where
  "index_cols ix = ix_columns ix @ (case ix_where ix of None \<Rightarrow> [] | Some e \<Rightarrow> expr_cols e)"

text \<open>A check constraint is violated only by \<open>false\<close>: \<open>NULL\<close> passes.\<close>

definition row_ok :: "sql_table \<Rightarrow> sql_row \<Rightarrow> bool" where
  "row_ok t r \<longleftrightarrow>
     list_all (\<lambda>c. co_nullable c \<or> sql_get r (co_name c) \<noteq> SNull) (tb_columns t)
     \<and> list_all (\<lambda>(_, e). sql_eval r e \<noteq> SBool False) (tb_checks t)"

text \<open>Uniqueness ignores keys with a \<open>NULL\<close>.\<close>

definition unique_on :: "string list \<Rightarrow> sql_row list \<Rightarrow> bool" where
  "unique_on cs rows \<longleftrightarrow> distinct (filter (\<lambda>k. SNull \<notin> set k) (map (\<lambda>r. map (sql_get r) cs) rows))"

definition table_ok :: "sql_table \<Rightarrow> bool" where
  "table_ok t \<longleftrightarrow> list_all (row_ok t) (tb_rows t) \<and> unique_on (tb_pkey t) (tb_rows t)"

definition indexed :: "sql_index \<Rightarrow> sql_row \<Rightarrow> bool" where
  "indexed ix r \<longleftrightarrow> (case ix_where ix of None \<Rightarrow> True | Some e \<Rightarrow> sql_eval r e = SBool True)"

definition index_ok :: "(string \<times> sql_table) list \<Rightarrow> sql_index \<Rightarrow> bool" where
  "index_ok ts ix \<longleftrightarrow>
     (ix_unique ix \<longrightarrow>
        (case map_of ts (ix_table ix) of None \<Rightarrow> False
         | Some t \<Rightarrow> unique_on (ix_columns ix) (filter (indexed ix) (tb_rows t))))"

definition fkey_ok :: "(string \<times> sql_table) list \<Rightarrow> sql_table \<Rightarrow> string \<times> string \<times> string \<Rightarrow> bool" where
  "fkey_ok ts t = (\<lambda>(c, t', c').
     (case map_of ts t' of None \<Rightarrow> False
      | Some u \<Rightarrow> list_all (\<lambda>r. sql_get r c = SNull \<or> sql_get r c \<in> set (map (\<lambda>r'. sql_get r' c') (tb_rows u)))
                   (tb_rows t)))"

definition pg_ok :: "pg \<Rightarrow> bool" where
  "pg_ok s \<longleftrightarrow>
     list_all (\<lambda>(_, t). table_ok t \<and> list_all (fkey_ok (pg_tables s) t) (tb_fkeys t)) (pg_tables s)
     \<and> list_all (index_ok (pg_tables s)) (pg_indexes s)"

section \<open>Statements\<close>

datatype ddl =
    CreateExtension string
  | DropExtension string
  | CreateTable string "sql_column list" "string list" "(string \<times> sqlexpr) list"
      "(string \<times> string \<times> string) list"
  | DropTable string
  | CreateIndex sql_index
  | DropIndex string
  | AddColumn string sql_column
  | DropColumn string string
  | AddCheck string string sqlexpr
  | DropConstraint string string
  | UpdateRows string "(string \<times> sqlexpr) list" sqlexpr
  | CreateFunction string
  | DropFunction string
  | CreateTrigger string string string string
  | DropTrigger string string

definition relations :: "pg \<Rightarrow> string set" where
  "relations s = fst ` set (pg_tables s) \<union> ix_name ` set (pg_indexes s)"

definition alter :: "string \<Rightarrow> (sql_table \<Rightarrow> sql_table) \<Rightarrow> pg \<Rightarrow> pg" where
  "alter n f s = s\<lparr>pg_tables := map (\<lambda>(m, t). (m, if m = n then f t else t)) (pg_tables s)\<rparr>"

definition on_table :: "string \<Rightarrow> pg \<Rightarrow> (sql_table \<Rightarrow> pg result) \<Rightarrow> pg result" where
  "on_table n s f =
     (case map_of (pg_tables s) n of
        None \<Rightarrow> Inl (ProgrammingError ''relation does not exist'')
      | Some t \<Rightarrow> f t)"

definition validated :: "pg \<Rightarrow> pg result" where
  "validated s = (if pg_ok s then Inr s else Inl (IntegrityError ''violates a constraint''))"

definition fkey_target :: "pg \<Rightarrow> string \<times> string \<times> string \<Rightarrow> bool" where
  "fkey_target s = (\<lambda>(_, t', c').
     (case map_of (pg_tables s) t' of None \<Rightarrow> False | Some u \<Rightarrow> c' \<in> set (col_names u)))"

definition assign_row :: "(string \<times> sqlexpr) list \<Rightarrow> sql_row \<Rightarrow> sql_row" where
  "assign_row asg r =
     map (\<lambda>(c, v). (c, case map_of asg c of None \<Rightarrow> v | Some e \<Rightarrow> sql_eval r e)) r"

definition update_rows :: "(string \<times> sqlexpr) list \<Rightarrow> sqlexpr \<Rightarrow> sql_table \<Rightarrow> sql_table" where
  "update_rows asg w t =
     t\<lparr>tb_rows := map (\<lambda>r. if sql_eval r w = SBool True then assign_row asg r else r) (tb_rows t)\<rparr>"

definition add_column :: "sql_column \<Rightarrow> sql_table \<Rightarrow> sql_table" where
  "add_column co t =
     t\<lparr>tb_columns := tb_columns t @ [co],
       tb_rows := map (\<lambda>r. r @ [(co_name co, case co_default co of None \<Rightarrow> SNull | Some v \<Rightarrow> v)]) (tb_rows t)\<rparr>"

text \<open>Dropping a column drops the constraints and indexes that mention it.\<close>

definition drop_column :: "string \<Rightarrow> sql_table \<Rightarrow> sql_table" where
  "drop_column c t =
     t\<lparr>tb_columns := filter (\<lambda>co. co_name co \<noteq> c) (tb_columns t),
       tb_pkey := (if c \<in> set (tb_pkey t) then [] else tb_pkey t),
       tb_checks := filter (\<lambda>(_, e). c \<notin> set (expr_cols e)) (tb_checks t),
       tb_fkeys := filter (\<lambda>(d, _). d \<noteq> c) (tb_fkeys t),
       tb_rows := map (filter (\<lambda>(d, _). d \<noteq> c)) (tb_rows t)\<rparr>"

definition referenced :: "pg \<Rightarrow> string \<Rightarrow> (string \<Rightarrow> bool) \<Rightarrow> bool" where
  "referenced s n p \<longleftrightarrow>
     list_ex (\<lambda>(m, t). m \<noteq> n \<and> list_ex (\<lambda>(_, t', c'). t' = n \<and> p c') (tb_fkeys t)) (pg_tables s)"

fun exec :: "ddl \<Rightarrow> pg \<Rightarrow> pg result" where
  "exec (CreateExtension e) s =
     Inr (if e \<in> set (pg_extensions s) then s else s\<lparr>pg_extensions := pg_extensions s @ [e]\<rparr>)"
| "exec (DropExtension e) s = Inr (s\<lparr>pg_extensions := removeAll e (pg_extensions s)\<rparr>)"
| "exec (CreateTable n cols pk cks fks) s =
     (let names = map co_name cols in
      if n \<in> relations s then Inl (ProgrammingError ''relation already exists'')
      else if \<not> distinct names \<or> \<not> set pk \<subseteq> set names
           \<or> \<not> list_all (\<lambda>(_, e). set (expr_cols e) \<subseteq> set names) cks
           \<or> \<not> list_all (\<lambda>fk. fst fk \<in> set names \<and> fkey_target s fk) fks
        then Inl (ProgrammingError ''column does not exist'')
      else Inr (s\<lparr>pg_tables := pg_tables s @ [(n, \<lparr>tb_columns = cols, tb_pkey = pk, tb_checks = cks,
                    tb_fkeys = fks, tb_rows = []\<rparr>)]\<rparr>))"
| "exec (DropTable n) s =
     on_table n s (\<lambda>t.
       if referenced s n (\<lambda>_. True) then Inl (InternalError ''other objects depend on it'')
       else Inr (s\<lparr>pg_tables := filter (\<lambda>(m, _). m \<noteq> n) (pg_tables s),
                  pg_indexes := filter (\<lambda>ix. ix_table ix \<noteq> n) (pg_indexes s),
                  pg_triggers := filter (\<lambda>(_, m, _, _). m \<noteq> n) (pg_triggers s)\<rparr>))"
| "exec (CreateIndex ix) s =
     on_table (ix_table ix) s (\<lambda>t.
       if ix_name ix \<in> relations s then Inl (ProgrammingError ''relation already exists'')
       else if \<not> set (index_cols ix) \<subseteq> set (col_names t)
         then Inl (ProgrammingError ''column does not exist'')
       else if \<not> index_ok (pg_tables s) ix then Inl (IntegrityError ''could not create unique index'')
       else Inr (s\<lparr>pg_indexes := pg_indexes s @ [ix]\<rparr>))"
| "exec (DropIndex n) s =
     (if n \<notin> ix_name ` set (pg_indexes s) then Inl (ProgrammingError ''index does not exist'')
      else Inr (s\<lparr>pg_indexes := filter (\<lambda>ix. ix_name ix \<noteq> n) (pg_indexes s)\<rparr>))"
| "exec (AddColumn n co) s =
     on_table n s (\<lambda>t.
       if co_name co \<in> set (col_names t) then Inl (ProgrammingError ''column already exists'')
       else validated (alter n (add_column co) s))"
| "exec (DropColumn n c) s =
     on_table n s (\<lambda>t.
       if c \<notin> set (col_names t) then Inl (ProgrammingError ''column does not exist'')
       else if referenced s n (\<lambda>c'. c' = c) \<or> list_ex (\<lambda>(_, m, _, d). m = n \<and> d = c) (pg_triggers s)
         then Inl (InternalError ''other objects depend on it'')
       else Inr ((alter n (drop_column c) s)\<lparr>pg_indexes :=
              filter (\<lambda>ix. ix_table ix \<noteq> n \<or> c \<notin> set (index_cols ix)) (pg_indexes s)\<rparr>))"
| "exec (AddCheck k n e) s =
     on_table n s (\<lambda>t.
       if k \<in> fst ` set (tb_checks t) then Inl (ProgrammingError ''constraint already exists'')
       else if \<not> set (expr_cols e) \<subseteq> set (col_names t)
         then Inl (ProgrammingError ''column does not exist'')
       else validated (alter n (\<lambda>t. t\<lparr>tb_checks := tb_checks t @ [(k, e)]\<rparr>) s))"
| "exec (DropConstraint k n) s =
     on_table n s (\<lambda>t.
       if k \<notin> fst ` set (tb_checks t) then Inl (ProgrammingError ''constraint does not exist'')
       else Inr (alter n (\<lambda>t. t\<lparr>tb_checks := filter (\<lambda>(j, _). j \<noteq> k) (tb_checks t)\<rparr>) s))"
| "exec (UpdateRows n asg w) s =
     on_table n s (\<lambda>t.
       if \<not> set (map fst asg @ concat (map (expr_cols \<circ> snd) asg) @ expr_cols w) \<subseteq> set (col_names t)
         then Inl (ProgrammingError ''column does not exist'')
       else validated (alter n (update_rows asg w) s))"
| "exec (CreateFunction f) s =
     (if f \<in> set (pg_functions s) then Inl (ProgrammingError ''function already exists'')
      else Inr (s\<lparr>pg_functions := pg_functions s @ [f]\<rparr>))"
| "exec (DropFunction f) s =
     (if f \<notin> set (pg_functions s) then Inl (ProgrammingError ''function does not exist'')
      else if list_ex (\<lambda>(_, _, g, _). g = f) (pg_triggers s)
        then Inl (InternalError ''other objects depend on it'')
      else Inr (s\<lparr>pg_functions := removeAll f (pg_functions s)\<rparr>))"
| "exec (CreateTrigger k n f c) s =
     on_table n s (\<lambda>t.
       if list_ex (\<lambda>(j, m, _, _). j = k \<and> m = n) (pg_triggers s)
         then Inl (ProgrammingError ''trigger already exists'')
       else if c \<notin> set (col_names t) then Inl (ProgrammingError ''column does not exist'')
       else if f \<notin> set (pg_functions s) then Inl (ProgrammingError ''function does not exist'')
       else Inr (s\<lparr>pg_triggers := pg_triggers s @ [(k, n, f, c)]\<rparr>))"
| "exec (DropTrigger k n) s =
     (if \<not> list_ex (\<lambda>(j, m, _, _). j = k \<and> m = n) (pg_triggers s)
        then Inl (ProgrammingError ''trigger does not exist'')
      else Inr (s\<lparr>pg_triggers := filter (\<lambda>(j, m, _, _). \<not> (j = k \<and> m = n)) (pg_triggers s)\<rparr>))"

fun exec_all :: "ddl list \<Rightarrow> pg \<Rightarrow> pg result" where
  "exec_all [] s = Inr s"
| "exec_all (d # ds) s = res_bind (exec d s) (exec_all ds)"

text \<open>The statement that takes a creating statement back.\<close>

fun undo :: "ddl \<Rightarrow> ddl option" where
  "undo (CreateExtension e) = Some (DropExtension e)"
| "undo (CreateTable n _ _ _ _) = Some (DropTable n)"
| "undo (CreateIndex ix) = Some (DropIndex (ix_name ix))"
| "undo (AddColumn n co) = Some (DropColumn n (co_name co))"
| "undo (AddCheck k n _) = Some (DropConstraint k n)"
| "undo (CreateFunction f) = Some (DropFunction f)"
| "undo (CreateTrigger k n _ _) = Some (DropTrigger k n)"
| "undo _ = None"

section \<open>Well-formed databases\<close>

text \<open>What Postgres keeps of its catalogue: names are unique and resolve, rows have the columns.\<close>

definition table_wf :: "pg \<Rightarrow> sql_table \<Rightarrow> bool" where
  "table_wf s t \<longleftrightarrow>
     set (tb_pkey t) \<subseteq> set (col_names t)
     \<and> (\<forall>(k, e) \<in> set (tb_checks t). set (expr_cols e) \<subseteq> set (col_names t))
     \<and> (\<forall>fk \<in> set (tb_fkeys t). fst fk \<in> set (col_names t) \<and> fkey_target s fk)
     \<and> (\<forall>r \<in> set (tb_rows t). map fst r = col_names t)"

definition has_cols :: "pg \<Rightarrow> string \<Rightarrow> string list \<Rightarrow> bool" where
  "has_cols s n cs \<longleftrightarrow> (\<exists>t. map_of (pg_tables s) n = Some t \<and> set cs \<subseteq> set (col_names t))"

definition pg_wf :: "pg \<Rightarrow> bool" where
  "pg_wf s \<longleftrightarrow>
     distinct (map fst (pg_tables s))
     \<and> (\<forall>(n, t) \<in> set (pg_tables s). table_wf s t)
     \<and> (\<forall>ix \<in> set (pg_indexes s). has_cols s (ix_table ix) (index_cols ix))
     \<and> (\<forall>(k, n, f, c) \<in> set (pg_triggers s). f \<in> set (pg_functions s) \<and> has_cols s n [c])"

lemma pg_wf_iff:
  "pg_wf s \<longleftrightarrow>
     distinct (map fst (pg_tables s))
     \<and> (\<forall>n t. (n, t) \<in> set (pg_tables s) \<longrightarrow> table_wf s t)
     \<and> (\<forall>ix. ix \<in> set (pg_indexes s) \<longrightarrow> has_cols s (ix_table ix) (index_cols ix))
     \<and> (\<forall>k n f c. (k, n, f, c) \<in> set (pg_triggers s) \<longrightarrow> f \<in> set (pg_functions s) \<and> has_cols s n [c])"
  unfolding pg_wf_def by blast

lemma pg_wf_empty [simp]: "pg_wf empty_pg"
  by (simp add: pg_wf_def empty_pg_def)

lemma map_of_alter:
  "map_of (pg_tables (alter n f s)) m = map_option (\<lambda>t. if m = n then f t else t) (map_of (pg_tables s) m)"
proof -
  have "map_of (map (\<lambda>(m, t). (m, if m = n then f t else t)) ts) m
      = map_option (\<lambda>t. if m = n then f t else t) (map_of ts m)" for ts
    by (induction ts) auto
  then show ?thesis by (simp add: alter_def)
qed

lemma alter_rest [simp]:
  "map fst (pg_tables (alter n f s)) = map fst (pg_tables s)"
  "pg_indexes (alter n f s) = pg_indexes s"
  "pg_triggers (alter n f s) = pg_triggers s"
  "pg_functions (alter n f s) = pg_functions s"
  "pg_extensions (alter n f s) = pg_extensions s"
  "pg_version (alter n f s) = pg_version s"
  by (auto simp: alter_def)

lemma alter_alter: "alter n g (alter n f s) = alter n (g \<circ> f) s"
  by (auto simp: alter_def split: prod.splits)

lemma alter_id: "(\<And>t. (n, t) \<in> set (pg_tables s) \<Longrightarrow> f t = t) \<Longrightarrow> alter n f s = s"
  by (auto simp: alter_def intro!: pg.equality map_idI)

lemma alter_cong:
  "(\<And>t. (n, t) \<in> set (pg_tables s) \<Longrightarrow> f t = g t) \<Longrightarrow> alter n f s = alter n g s"
  by (auto simp: alter_def intro!: pg.equality)

lemma set_alter:
  "(m, u) \<in> set (pg_tables (alter n f s)) \<longleftrightarrow>
     (\<exists>t. (m, t) \<in> set (pg_tables s) \<and> u = (if m = n then f t else t))"
  by (force simp: alter_def)

lemma pg_wf_table:
  "pg_wf s \<Longrightarrow> map_of (pg_tables s) n = Some t \<longleftrightarrow> (n, t) \<in> set (pg_tables s)"
  by (simp add: pg_wf_def)

lemma pg_wf_only:
  assumes "pg_wf s" and "map_of (pg_tables s) n = Some t" and "(n, u) \<in> set (pg_tables s)"
  shows "u = t"
  using map_of_is_SomeI[OF _ assms(3)] assms(1,2) by (simp add: pg_wf_def)

text \<open>Changing a table in place keeps the catalogue when no column is lost.\<close>

lemma fkey_target_iff:
  "fkey_target s (c, n, d) \<longleftrightarrow> has_cols s n [d]"
  by (auto simp: fkey_target_def has_cols_def split: option.splits)

lemma has_cols_alter:
  assumes "has_cols s m cs" and "\<And>t. set (col_names t) \<subseteq> set (col_names (f t))"
  shows "has_cols (alter n f s) m cs"
proof -
  obtain t where t: "map_of (pg_tables s) m = Some t" "set cs \<subseteq> set (col_names t)"
    using assms(1) by (auto simp: has_cols_def)
  show ?thesis using t assms(2)[of t] by (auto simp: has_cols_def map_of_alter)
qed

lemma table_wf_mono:
  assumes "table_wf s t" and "\<And>m cs. has_cols s m cs \<Longrightarrow> has_cols s' m cs"
  shows "table_wf s' t"
  unfolding table_wf_def
proof (intro conjI ballI)
  show "fkey_target s' fk" if "fk \<in> set (tb_fkeys t)" for fk
  proof -
    obtain c n d where fk: "fk = (c, n, d)" by (cases fk)
    have "has_cols s n [d]" using that assms(1) by (auto simp: table_wf_def fkey_target_iff fk)
    then show ?thesis using assms(2) by (simp add: fkey_target_iff fk)
  qed
qed (use assms(1) in \<open>auto simp: table_wf_def\<close>)

lemma pg_wf_alter:
  assumes "pg_wf s" and cols: "\<And>t. set (col_names t) \<subseteq> set (col_names (f t))"
    and "\<And>t. (n, t) \<in> set (pg_tables s) \<Longrightarrow> table_wf s t \<Longrightarrow> table_wf s (f t)"
  shows "pg_wf (alter n f s)"
proof -
  have keep: "has_cols (alter n f s) m cs" if "has_cols s m cs" for m cs
    using that cols by (rule has_cols_alter)
  have "table_wf s u" if "(m, u) \<in> set (pg_tables (alter n f s))" for m u
    using that assms(1,3) unfolding set_alter pg_wf_iff by metis
  then have "table_wf (alter n f s) u" if "(m, u) \<in> set (pg_tables (alter n f s))" for m u
    using that table_wf_mono[OF _ keep] by blast
  then show ?thesis using assms(1) keep unfolding pg_wf_iff by simp
qed

section \<open>Creating statements can be taken back\<close>

lemma filter_fresh:
  "k \<notin> f ` set xs \<Longrightarrow> filter (\<lambda>x. f x \<noteq> k) xs = xs"
  by (rule filter_True) auto

lemma filter_fresh_fst: "k \<notin> fst ` set xs \<Longrightarrow> filter (\<lambda>(j, _). j \<noteq> k) xs = xs"
  using filter_fresh[of k fst xs] by (simp add: split_def)

lemma drop_add_column:
  assumes "table_wf s t" and "co_name co \<notin> set (col_names t)"
  shows "drop_column (co_name co) (add_column co t) = t"
proof (rule sql_table.equality)
  let ?c = "co_name co" and ?u = "drop_column (co_name co) (add_column co t)"
  show "tb_columns ?u = tb_columns t"
    using filter_fresh[of ?c co_name] assms(2) by (simp add: drop_column_def add_column_def)
  show "tb_pkey ?u = tb_pkey t"
    using assms by (auto simp: drop_column_def add_column_def table_wf_def)
  show "tb_checks ?u = tb_checks t"
    using assms by (fastforce simp: drop_column_def add_column_def table_wf_def intro!: filter_True)
  show "tb_fkeys ?u = tb_fkeys t"
    using assms by (fastforce simp: drop_column_def add_column_def table_wf_def intro!: filter_True)
  have "filter (\<lambda>(d, _). d \<noteq> ?c) r = r" if "r \<in> set (tb_rows t)" for r
  proof -
    have "map fst r = col_names t" using that assms(1) by (simp add: table_wf_def)
    then have "fst ` set r = set (col_names t)" by (metis set_map)
    then show ?thesis using assms(2) by (intro filter_fresh_fst) simp
  qed
  then show "tb_rows ?u = tb_rows t"
    by (auto simp: drop_column_def add_column_def intro!: map_idI)
qed simp

lemma exec_undo_column:
  assumes "pg_wf s" and "exec (AddColumn n co) s = Inr s'"
  shows "exec (DropColumn n (co_name co)) s' = Inr s"
proof -
  let ?c = "co_name co"
  obtain t where t: "map_of (pg_tables s) n = Some t" "?c \<notin> set (col_names t)"
    and s': "s' = alter n (add_column co) s"
    using assms(2) by (auto simp: on_table_def validated_def split: option.splits if_splits)
  have no: "\<not> has_cols s n cs" if "?c \<in> set cs" for cs
    using t that by (auto simp: has_cols_def)
  have wf: "table_wf s u" if "(m, u) \<in> set (pg_tables s)" for m u
    using that assms(1) unfolding pg_wf_iff by blast
  have only: "u = t" if "(n, u) \<in> set (pg_tables s)" for u
    by (rule pg_wf_only[OF assms(1) t(1) that])
  have "\<not> referenced s' n (\<lambda>c'. c' = ?c)"
  proof
    assume "referenced s' n (\<lambda>c'. c' = ?c)"
    then obtain m u d where "(m, u) \<in> set (pg_tables s)" "m \<noteq> n" "(d, n, ?c) \<in> set (tb_fkeys u)"
      by (auto simp: referenced_def list_ex_iff s' set_alter)
    then show False using wf no[of "[?c]"] by (fastforce simp: table_wf_def fkey_target_iff)
  qed
  moreover have "\<not> list_ex (\<lambda>(_, m, _, d). m = n \<and> d = ?c) (pg_triggers s')"
    using assms(1) no[of "[?c]"] unfolding pg_wf_iff by (auto simp: list_ex_iff s')
  moreover have "filter (\<lambda>ix. ix_table ix \<noteq> n \<or> ?c \<notin> set (index_cols ix)) (pg_indexes s') = pg_indexes s"
    using assms(1) no unfolding pg_wf_iff by (auto simp: s' intro!: filter_True)
  moreover have "alter n (drop_column ?c) s' = s"
    unfolding s' alter_alter using drop_add_column[OF wf t(2)] only by (auto intro!: alter_id)
  moreover have "map_of (pg_tables s') n = Some (add_column co t)" by (simp add: s' map_of_alter t)
  ultimately show ?thesis by (simp add: on_table_def add_column_def)
qed

lemma exec_undo_table:
  assumes "pg_wf s" and "exec (CreateTable n cols pk cks fks) s = Inr s'"
  shows "exec (DropTable n) s' = Inr s"
proof -
  obtain u where n: "n \<notin> fst ` set (pg_tables s)" and s': "s' = s\<lparr>pg_tables := pg_tables s @ [(n, u)]\<rparr>"
    using assms(2) by (auto simp: Let_def relations_def split: if_splits)
  have no: "\<not> has_cols s n cs" for cs
    using n by (force simp: has_cols_def dest: map_of_SomeD)
  have wf: "table_wf s t" if "(m, t) \<in> set (pg_tables s)" for m t
    using that assms(1) unfolding pg_wf_iff by blast
  have "\<not> referenced s' n (\<lambda>_. True)"
  proof
    assume "referenced s' n (\<lambda>_. True)"
    then obtain m t d c where "(m, t) \<in> set (pg_tables s)" "(d, n, c) \<in> set (tb_fkeys t)"
      by (auto simp: referenced_def list_ex_iff s')
    then show False using wf no[of "[c]"] by (fastforce simp: table_wf_def fkey_target_iff)
  qed
  moreover have "map_of (pg_tables s') n = Some u"
    using n by (force simp: s' map_of_append map_add_def split: option.splits dest: map_of_SomeD)
  moreover have "filter (\<lambda>(m, _). m \<noteq> n) (pg_tables s) = pg_tables s"
    using n by (rule filter_fresh_fst)
  moreover have "filter (\<lambda>ix. ix_table ix \<noteq> n) (pg_indexes s) = pg_indexes s"
    using assms(1) no unfolding pg_wf_iff by (auto intro!: filter_True)
  moreover have "filter (\<lambda>(_, m, _, _). m \<noteq> n) (pg_triggers s) = pg_triggers s"
    using assms(1) no unfolding pg_wf_iff by (fastforce intro!: filter_True)
  ultimately show ?thesis by (simp add: on_table_def s')
qed

lemma exec_undo_check:
  assumes "pg_wf s" and "exec (AddCheck k n e) s = Inr s'"
  shows "exec (DropConstraint k n) s' = Inr s"
proof -
  let ?f = "\<lambda>t. t\<lparr>tb_checks := tb_checks t @ [(k, e)]\<rparr>"
  let ?g = "\<lambda>t. t\<lparr>tb_checks := filter (\<lambda>(j, _). j \<noteq> k) (tb_checks t)\<rparr>"
  obtain t where t: "map_of (pg_tables s) n = Some t" "k \<notin> fst ` set (tb_checks t)" and s': "s' = alter n ?f s"
    using assms(2) by (auto simp: on_table_def validated_def split: option.splits if_splits)
  have "filter (\<lambda>(j, _). j \<noteq> k) (tb_checks t) = tb_checks t"
    using t(2) by (rule filter_fresh_fst)
  then have "(?g \<circ> ?f) t = t" by (simp add: o_def)
  then have "alter n ?g s' = s"
    unfolding s' alter_alter using pg_wf_only[OF assms(1) t(1)] by (intro alter_id) simp
  then show ?thesis by (simp add: on_table_def s' map_of_alter t)
qed

lemma exec_undo_index:
  assumes "exec (CreateIndex ix) s = Inr s'"
  shows "exec (DropIndex (ix_name ix)) s' = Inr s"
proof -
  have n: "ix_name ix \<notin> ix_name ` set (pg_indexes s)" and s': "s' = s\<lparr>pg_indexes := pg_indexes s @ [ix]\<rparr>"
    using assms by (auto simp: on_table_def relations_def split: option.splits if_splits)
  have "filter (\<lambda>jx. ix_name jx \<noteq> ix_name ix) (pg_indexes s) = pg_indexes s"
    using n by (rule filter_fresh)
  then show ?thesis by (simp add: s')
qed

lemma exec_undo_function:
  assumes "pg_wf s" and "exec (CreateFunction f) s = Inr s'"
  shows "exec (DropFunction f) s' = Inr s"
proof -
  have f: "f \<notin> set (pg_functions s)" and s': "s' = s\<lparr>pg_functions := pg_functions s @ [f]\<rparr>"
    using assms(2) by (auto split: if_splits)
  have "\<not> list_ex (\<lambda>(_, _, g, _). g = f) (pg_triggers s)"
    using assms(1) f unfolding pg_wf_iff by (fastforce simp: list_ex_iff)
  then show ?thesis using f by (simp add: s')
qed

lemma exec_undo_trigger:
  assumes "exec (CreateTrigger k n f c) s = Inr s'"
  shows "exec (DropTrigger k n) s' = Inr s"
proof -
  have k: "\<not> list_ex (\<lambda>(j, m, _, _). j = k \<and> m = n) (pg_triggers s)"
    and s': "s' = s\<lparr>pg_triggers := pg_triggers s @ [(k, n, f, c)]\<rparr>"
    using assms by (auto simp: on_table_def split: option.splits if_splits)
  have "filter (\<lambda>(j, m, _, _). \<not> (j = k \<and> m = n)) (pg_triggers s) = pg_triggers s"
    using k by (fastforce simp: list_ex_iff intro!: filter_True)
  then show ?thesis by (simp add: s')
qed

lemma exec_undo_extension:
  assumes "e \<notin> set (pg_extensions s)" and "exec (CreateExtension e) s = Inr s'"
  shows "exec (DropExtension e) s' = Inr s"
  using assms by auto

lemma exec_undo:
  assumes "pg_wf s" and "undo d = Some u" and "exec d s = Inr s'"
    and "\<And>e. d = CreateExtension e \<Longrightarrow> e \<notin> set (pg_extensions s)"
  shows "exec u s' = Inr s"
proof (cases d)
  case (CreateExtension e)
  then show ?thesis using assms exec_undo_extension by auto
next
  case (CreateTable n cols pk cks fks)
  then show ?thesis using assms exec_undo_table by (auto simp del: exec.simps)
next
  case (CreateIndex ix)
  then show ?thesis using assms exec_undo_index by (auto simp del: exec.simps)
next
  case (AddColumn n co)
  then show ?thesis using assms exec_undo_column by (auto simp del: exec.simps)
next
  case (AddCheck k n e)
  then show ?thesis using assms exec_undo_check by (auto simp del: exec.simps)
next
  case (CreateFunction f)
  then show ?thesis using assms exec_undo_function by (auto simp del: exec.simps)
next
  case (CreateTrigger k n f c)
  then show ?thesis using assms exec_undo_trigger by (auto simp del: exec.simps)
qed (use assms(2) in auto)

section \<open>Creating statements keep the catalogue and the data\<close>

lemma table_wf_add_column:
  "table_wf s t \<Longrightarrow> table_wf s (add_column co t)"
  by (fastforce simp: table_wf_def add_column_def)

lemma table_wf_update: "table_wf s t \<Longrightarrow> table_wf s (update_rows asg w t)"
  by (auto simp: table_wf_def update_rows_def assign_row_def o_def split_def)

lemma pg_wf_create_table:
  assumes "pg_wf s" and "exec (CreateTable n cols pk cks fks) s = Inr s'"
  shows "pg_wf s'"
proof -
  let ?t = "\<lparr>tb_columns = cols, tb_pkey = pk, tb_checks = cks, tb_fkeys = fks, tb_rows = []\<rparr>"
  have n: "n \<notin> fst ` set (pg_tables s)" and s': "s' = s\<lparr>pg_tables := pg_tables s @ [(n, ?t)]\<rparr>"
    and wf: "table_wf s ?t"
    using assms(2) by (auto simp: Let_def relations_def table_wf_def list_all_iff split: if_splits)
  have keep: "has_cols s' m cs" if "has_cols s m cs" for m cs
    using that n by (force simp: has_cols_def s' map_of_append map_add_def split: option.splits
        dest: map_of_SomeD)
  have "table_wf s u" if "(m, u) \<in> set (pg_tables s')" for m u
    using that assms(1) wf by (auto simp: s' pg_wf_iff)
  then have "table_wf s' u" if "(m, u) \<in> set (pg_tables s')" for m u
    using that table_wf_mono[OF _ keep] by blast
  then show ?thesis using assms(1) n keep unfolding pg_wf_iff by (simp add: s')
qed

lemma pg_wf_same_tables:
  assumes "pg_wf s" and "pg_tables s' = pg_tables s"
    and "\<And>ix. ix \<in> set (pg_indexes s') \<Longrightarrow> ix \<in> set (pg_indexes s) \<or> has_cols s (ix_table ix) (index_cols ix)"
    and "\<And>k n f c. (k, n, f, c) \<in> set (pg_triggers s') \<Longrightarrow>
           (k, n, f, c) \<in> set (pg_triggers s) \<or> f \<in> set (pg_functions s') \<and> has_cols s n [c]"
    and "set (pg_functions s) \<subseteq> set (pg_functions s')"
  shows "pg_wf s'"
proof -
  have same: "has_cols s' = has_cols s" using assms(2) by (simp add: has_cols_def fun_eq_iff)
  have "table_wf s' t \<longleftrightarrow> table_wf s t" for t
    using table_wf_mono[of s t s'] table_wf_mono[of s' t s] same by auto
  moreover have "has_cols s (ix_table ix) (index_cols ix)" if "ix \<in> set (pg_indexes s')" for ix
    using assms(1) assms(3)[OF that] unfolding pg_wf_iff by blast
  moreover have "f \<in> set (pg_functions s') \<and> has_cols s n [c]" if "(k, n, f, c) \<in> set (pg_triggers s')" for k n f c
    using assms(1,5) assms(4)[OF that] unfolding pg_wf_iff by blast
  ultimately show ?thesis using assms(1,2) unfolding pg_wf_iff same by simp
qed

lemma exec_pg_wf:
  assumes "pg_wf s" and "exec d s = Inr s'" and "undo d \<noteq> None \<or> (\<exists>n asg w. d = UpdateRows n asg w)"
  shows "pg_wf s'"
proof (cases d)
  case (CreateTable n cols pk cks fks)
  then show ?thesis using assms pg_wf_create_table by blast
next
  case (AddColumn n co)
  then have "s' = alter n (add_column co) s"
    using assms(2) by (auto simp: on_table_def validated_def split: option.splits if_splits)
  moreover have "set (col_names t) \<subseteq> set (col_names (add_column co t))" for t
    by (auto simp: add_column_def)
  ultimately show ?thesis using pg_wf_alter[OF assms(1)] table_wf_add_column by blast
next
  case (AddCheck k n e)
  then obtain t where t: "map_of (pg_tables s) n = Some t" "set (expr_cols e) \<subseteq> set (col_names t)"
    and s': "s' = alter n (\<lambda>t. t\<lparr>tb_checks := tb_checks t @ [(k, e)]\<rparr>) s"
    using assms(2) by (auto simp: on_table_def validated_def split: option.splits if_splits)
  show ?thesis
    unfolding s' by (rule pg_wf_alter[OF assms(1)])
      (use pg_wf_only[OF assms(1) t(1)] t(2) in \<open>auto simp: table_wf_def\<close>)
next
  case (UpdateRows n asg w)
  then have "s' = alter n (update_rows asg w) s"
    using assms(2) by (auto simp: on_table_def validated_def split: option.splits if_splits)
  moreover have "set (col_names t) \<subseteq> set (col_names (update_rows asg w t))" for t
    by (simp add: update_rows_def)
  ultimately show ?thesis using pg_wf_alter[OF assms(1)] table_wf_update by blast
qed (use assms in \<open>auto simp: on_table_def has_cols_def split: option.splits if_splits
       intro!: pg_wf_same_tables[of s]\<close>)

lemma exec_extensions:
  assumes "exec d s = Inr s'" and "\<And>e. d \<noteq> CreateExtension e"
  shows "set (pg_extensions s') \<subseteq> set (pg_extensions s)"
  using assms by (cases d) (auto simp: on_table_def validated_def Let_def split: option.splits if_splits)

text \<open>Taking back a list of creating statements, in reverse order.\<close>

definition fresh_extensions :: "ddl list \<Rightarrow> pg \<Rightarrow> bool" where
  "fresh_extensions ds s \<longleftrightarrow> distinct ds \<and> (\<forall>e. CreateExtension e \<in> set ds \<longrightarrow> e \<notin> set (pg_extensions s))"

lemma exec_all_append: "exec_all (ds @ es) s = res_bind (exec_all ds s) (exec_all es)"
  by (induction ds arbitrary: s) (auto simp: res_bind_def split: sum.splits)

lemma fresh_extensions_exec:
  assumes "fresh_extensions (d # ds) s" and "exec d s = Inr s'"
  shows "fresh_extensions ds s'"
proof (cases "\<exists>e. d = CreateExtension e")
  case True
  then show ?thesis using assms by (auto simp: fresh_extensions_def)
next
  case False
  then show ?thesis using assms exec_extensions[OF assms(2)] by (auto simp: fresh_extensions_def)
qed

lemma exec_all_undo:
  assumes "pg_wf s" and "fresh_extensions ds s" and "exec_all ds s = Inr s'"
    and "list_all2 (\<lambda>d u. undo d = Some u) ds us"
  shows "exec_all (rev us) s' = Inr s"
  using assms
proof (induction ds arbitrary: s us)
  case (Cons d ds)
  obtain u vs where us: "us = u # vs" "undo d = Some u" "list_all2 (\<lambda>d u. undo d = Some u) ds vs"
    using Cons.prems(4) by (auto simp: list_all2_Cons1)
  obtain s1 where s1: "exec d s = Inr s1" "exec_all ds s1 = Inr s'" using Cons.prems(3) by auto
  have "exec_all (rev vs) s' = Inr s1"
    using Cons.IH[OF exec_pg_wf[OF Cons.prems(1) s1(1)] fresh_extensions_exec[OF Cons.prems(2) s1(1)] s1(2) us(3)]
      us(2) by simp
  moreover have "exec u s1 = Inr s"
    using exec_undo[OF Cons.prems(1) us(2) s1(1)] Cons.prems(2) by (auto simp: fresh_extensions_def)
  ultimately show ?case by (simp add: us(1) exec_all_append)
qed simp

lemma exec_all_pg_wf:
  assumes "pg_wf s" and "exec_all ds s = Inr s'"
    and "list_all (\<lambda>d. undo d \<noteq> None \<or> (\<exists>n asg w. d = UpdateRows n asg w)) ds"
  shows "pg_wf s'"
  using assms
proof (induction ds arbitrary: s)
  case (Cons d ds)
  then obtain s1 where "exec d s = Inr s1" "exec_all ds s1 = Inr s'" by auto
  then show ?case using Cons exec_pg_wf[OF Cons.prems(1), of d s1] by simp
qed simp

text \<open>An \<^verbatim>\<open>UPDATE\<close> of columns that are dropped afterwards leaves no trace.\<close>

lemma drop_assigned_row:
  assumes "fst ` set asg \<subseteq> {a, b}"
  shows "filter (\<lambda>(d, _). d \<noteq> a) (filter (\<lambda>(d, _). d \<noteq> b) (assign_row asg r))
           = filter (\<lambda>(d, _). d \<noteq> a) (filter (\<lambda>(d, _). d \<noteq> b) r)"
proof -
  have "filter (\<lambda>(d, _). d \<noteq> a) (filter (\<lambda>(d, _). d \<noteq> b)
          (map (\<lambda>(c, v). (c, case map_of asg c of None \<Rightarrow> v | Some e \<Rightarrow> g e)) xs))
        = filter (\<lambda>(d, _). d \<noteq> a) (filter (\<lambda>(d, _). d \<noteq> b) xs)" for g xs
  proof (induction xs)
    case (Cons x xs)
    have "map_of asg (fst x) = None" if "fst x \<noteq> a" "fst x \<noteq> b"
      using that assms by (auto simp: map_of_eq_None_iff)
    with Cons show ?case by (cases x) auto
  qed simp
  then show ?thesis by (simp add: assign_row_def)
qed

lemma drop_updated:
  assumes "fst ` set asg \<subseteq> {a, b}"
  shows "drop_column a (drop_column b (update_rows asg w t)) = drop_column a (drop_column b t)"
  using drop_assigned_row[OF assms] by (simp add: drop_column_def update_rows_def)

definition drop_allowed :: "string \<Rightarrow> string \<Rightarrow> pg \<Rightarrow> bool" where
  "drop_allowed n c s \<longleftrightarrow>
     has_cols s n [c] \<and> \<not> referenced s n (\<lambda>c'. c' = c)
     \<and> \<not> list_ex (\<lambda>(_, m, _, d). m = n \<and> d = c) (pg_triggers s)"

lemma exec_drop_column:
  "exec (DropColumn n c) s = Inr s' \<longleftrightarrow>
     drop_allowed n c s
     \<and> s' = (alter n (drop_column c) s)\<lparr>pg_indexes :=
          filter (\<lambda>ix. ix_table ix \<noteq> n \<or> c \<notin> set (index_cols ix)) (pg_indexes s)\<rparr>"
  by (auto simp: on_table_def drop_allowed_def has_cols_def split: option.splits)

definition norows :: "pg \<Rightarrow> pg" where
  "norows s = s\<lparr>pg_tables := map (\<lambda>(n, t). (n, t\<lparr>tb_rows := []\<rparr>)) (pg_tables s)\<rparr>"

lemma drop_allowed_norows: "drop_allowed n c (norows s) = drop_allowed n c s"
proof -
  have "map_of (pg_tables (norows s)) n = map_option (\<lambda>t. t\<lparr>tb_rows := []\<rparr>) (map_of (pg_tables s) n)"
    by (simp add: norows_def map_of_map)
  then have "has_cols (norows s) n [c] \<longleftrightarrow> has_cols s n [c]" by (auto simp: has_cols_def)
  moreover have "referenced (norows s) n p \<longleftrightarrow> referenced s n p" for p
    by (simp add: referenced_def list_ex_iff norows_def split_def)
  moreover have "pg_triggers (norows s) = pg_triggers s" by (simp add: norows_def)
  ultimately show ?thesis by (simp add: drop_allowed_def)
qed

lemma norows_alter:
  assumes "\<And>t. (f t)\<lparr>tb_rows := []\<rparr> = (g t)\<lparr>tb_rows := []\<rparr>"
  shows "norows (alter n f s) = norows (alter n g s)"
proof -
  have "map (\<lambda>(n, t). (n, t\<lparr>tb_rows := []\<rparr>)) (map (\<lambda>(m, t). (m, if m = n then f t else t)) ts)
      = map (\<lambda>(n, t). (n, t\<lparr>tb_rows := []\<rparr>)) (map (\<lambda>(m, t). (m, if m = n then g t else t)) ts)" for ts
    using assms by (induction ts) auto
  then show ?thesis by (simp add: norows_def alter_def)
qed

lemma norows_indexes: "norows (s\<lparr>pg_indexes := ixs\<rparr>) = (norows s)\<lparr>pg_indexes := ixs\<rparr>"
  by (simp add: norows_def)

lemma alter_indexes: "alter n f (s\<lparr>pg_indexes := ixs\<rparr>) = (alter n f s)\<lparr>pg_indexes := ixs\<rparr>"
  by (simp add: alter_def)

lemma exec_undo_update:
  assumes "pg_wf s" and "fst ` set asg \<subseteq> {co_name a, co_name b}"
    and "exec_all [AddColumn n a, AddColumn n b, UpdateRows n asg w] s = Inr s3"
  shows "exec_all [DropColumn n (co_name b), DropColumn n (co_name a)] s3 = Inr s"
proof -
  let ?a = "co_name a" and ?b = "co_name b" and ?u = "update_rows asg w"
  obtain s1 s2 where s1: "exec (AddColumn n a) s = Inr s1" and s2: "exec (AddColumn n b) s1 = Inr s2"
    and s3: "s3 = alter n ?u s2"
    using assms(3) by (auto simp: on_table_def validated_def split: option.splits if_splits)
  have wf1: "pg_wf s1" using exec_pg_wf[OF assms(1) s1] by simp
  have "exec (DropColumn n ?b) s2 = Inr s1" "exec (DropColumn n ?a) s1 = Inr s"
    using exec_undo_column[OF wf1 s2] exec_undo_column[OF assms(1) s1] by auto
  then have b: "drop_allowed n ?b s2" "s1 = (alter n (drop_column ?b) s2)\<lparr>pg_indexes :=
        filter (\<lambda>ix. ix_table ix \<noteq> n \<or> ?b \<notin> set (index_cols ix)) (pg_indexes s2)\<rparr>"
    and a: "drop_allowed n ?a s1" "s = (alter n (drop_column ?a) s1)\<lparr>pg_indexes :=
        filter (\<lambda>ix. ix_table ix \<noteq> n \<or> ?a \<notin> set (index_cols ix)) (pg_indexes s1)\<rparr>"
    by (simp_all only: exec_drop_column)
  let ?s1 = "(alter n (drop_column ?b) s3)\<lparr>pg_indexes :=
        filter (\<lambda>ix. ix_table ix \<noteq> n \<or> ?b \<notin> set (index_cols ix)) (pg_indexes s3)\<rparr>"
  have "norows s3 = norows (alter n (\<lambda>t. t) s2)"
    unfolding s3 by (rule norows_alter) (simp add: update_rows_def)
  then have "norows s3 = norows s2" by (simp add: alter_id)
  then have "exec (DropColumn n ?b) s3 = Inr ?s1"
    using b(1) drop_allowed_norows[of n ?b s2] drop_allowed_norows[of n ?b s3]
    by (simp only: exec_drop_column)
  moreover have "norows ?s1 = norows s1"
    unfolding b(2) norows_indexes s3 alter_alter alter_rest
    using norows_alter[of "drop_column ?b \<circ> ?u" "drop_column ?b" n s2]
    by (simp add: drop_column_def update_rows_def)
  then have "drop_allowed n ?a ?s1"
    using a(1) drop_allowed_norows[of n ?a s1] drop_allowed_norows[of n ?a ?s1] by simp
  moreover have "alter n (drop_column ?a \<circ> (drop_column ?b \<circ> ?u)) s2 = alter n (drop_column ?a \<circ> drop_column ?b) s2"
    using drop_updated[OF assms(2)] by (intro alter_cong) simp
  ultimately show ?thesis
    using a(2) by (simp add: exec_drop_column b(2) s3 alter_alter alter_indexes del: exec.simps)
qed

end
