(* ===== verification/Migrations.thy ===== *)
theory Migrations
  imports SqlDdl App
begin

text \<open>
  The Alembic revisions of \<^verbatim>\<open>migrations/versions/0001\<close> to \<^verbatim>\<open>0004\<close>, statement by
  statement, both directions, and \<^verbatim>\<open>migrations/env.py\<close> that runs them in one
  transaction. \<open>encode\<close> writes the tables of \<open>Database\<close> as rows of the schema at the
  head: \<open>pg_ok_encode\<close> shows that the SQL of the constraints, in three-valued logic, says
  what \<open>db_ok\<close> says, \<open>migrate_fresh\<close> that a new database is brought to the revision
  \<^verbatim>\<open>check_schema\<close> asks for, \<open>downgrade_upgrade\<close> that a downgrade gives back the
  database the upgrade started from, and \<open>upgrade_0004_backfills\<close> that the
  outbox revision does to stored events what \<open>backfill_0004\<close> says.

  The body of the trigger function is \<open>close_ticket_on_window\<close> of \<open>Database\<close>; here it is
  its name.
\<close>

section \<open>The revisions\<close>

definition column :: "string \<Rightarrow> sqltype \<Rightarrow> bool \<Rightarrow> sqlval option \<Rightarrow> sql_column" where
  "column n t nullable dflt = \<lparr>co_name = n, co_type = t, co_nullable = nullable, co_default = dflt\<rparr>"

definition source_known :: sqlexpr where
  "source_known = InE (Col ''source'') (map SText
     [''grafana'', ''alertmanager'', ''datadog'', ''pagerduty'', ''generic'', ''slack'', ''scheduled''])"

definition quarantine_invariant :: sqlexpr where
  "quarantine_invariant =
     AndE (AndE (EqE (Col ''quarantined'') (IsNull (Col ''payload'')))
                (EqE (Col ''quarantined'') (IsNull (Col ''fingerprint''))))
          (EqE (Col ''quarantined'') (IsNotNull (Col ''quarantine_reason'')))"

definition audit_offsets_ordered :: sqlexpr where
  "audit_offsets_ordered =
     OrE (IsNull (Col ''audit_end_offset'')) (GeE (Col ''audit_end_offset'') (Col ''audit_start_offset''))"

definition upgrade_0001 :: "ddl list" where
  "upgrade_0001 =
     [CreateExtension ''vector'',
      CreateTable ''events''
        [column ''id'' TUuid False None, column ''source'' TText False None,
         column ''fingerprint'' TText True None, column ''received_at'' TTimestamptz False None,
         column ''dedupe_count'' TInteger False (Some (SInt 1)),
         column ''quarantined'' TBoolean False (Some (SBool False)),
         column ''quarantine_reason'' TText True None, column ''payload'' TJsonb True None]
        [''id'']
        [(''events_source_known'', source_known), (''events_quarantine_invariant'', quarantine_invariant)]
        [],
      CreateIndex \<lparr>ix_name = ''ix_events_fingerprint_received_at'', ix_table = ''events'',
        ix_columns = [''fingerprint'', ''received_at''], ix_unique = False, ix_where = None\<rparr>,
      CreateTable ''runs''
        [column ''run_id'' TUuid False None, column ''fingerprint'' TText False None,
         column ''status'' TText False None, column ''started_at'' TTimestamptz False None,
         column ''audit_log_file'' TText False None, column ''audit_start_offset'' TBigInteger False None,
         column ''audit_end_offset'' TBigInteger True None]
        [''run_id'']
        [(''runs_audit_offsets_ordered'', audit_offsets_ordered)]
        [],
      CreateIndex \<lparr>ix_name = ''ix_runs_fingerprint'', ix_table = ''runs'',
        ix_columns = [''fingerprint''], ix_unique = False, ix_where = None\<rparr>]"

definition downgrade_0001 :: "ddl list" where
  "downgrade_0001 =
     [DropIndex ''ix_runs_fingerprint'', DropTable ''runs'',
      DropIndex ''ix_events_fingerprint_received_at'', DropTable ''events'', DropExtension ''vector'']"

definition upgrade_0002 :: "ddl list" where
  "upgrade_0002 =
     [AddColumn ''events'' (column ''window_closed_at'' TTimestamptz True None),
      CreateIndex \<lparr>ix_name = ''ix_events_open_window'', ix_table = ''events'',
        ix_columns = [''fingerprint'', ''received_at''], ix_unique = False,
        ix_where = Some (AndE (IsNull (Col ''window_closed_at''))
                              (EqE (Col ''quarantined'') (Lit (SBool False))))\<rparr>]"

definition downgrade_0002 :: "ddl list" where
  "downgrade_0002 = [DropIndex ''ix_events_open_window'', DropColumn ''events'' ''window_closed_at'']"

definition status_known :: sqlexpr where
  "status_known = InE (Col ''status'') (map SText RUN_STATUSES)"

definition concluded_has_conclusion :: sqlexpr where
  "concluded_has_conclusion =
     OrE (NeE (Col ''status'') (Lit (SText ''concluded''))) (IsNotNull (Col ''conclusion''))"

definition upgrade_0003 :: "ddl list" where
  "upgrade_0003 =
     [AddColumn ''runs'' (column ''event_id'' TUuid True None),
      AddColumn ''runs'' (column ''conclusion'' TJsonb True None),
      AddColumn ''runs'' (column ''finished_at'' TTimestamptz True None),
      AddCheck ''runs_status_known'' ''runs'' status_known,
      AddCheck ''runs_concluded_has_conclusion'' ''runs'' concluded_has_conclusion,
      CreateTable ''tickets''
        [column ''id'' TUuid False None, column ''fingerprint'' TText False None,
         column ''provider'' TText False None, column ''external_id'' TText False None,
         column ''url'' TText True None, column ''created_at'' TTimestamptz False None,
         column ''closed_at'' TTimestamptz True None,
         column ''update_count'' TInteger False (Some (SInt 0))]
        [''id''] [] [],
      CreateIndex \<lparr>ix_name = ''uq_tickets_open_fingerprint'', ix_table = ''tickets'',
        ix_columns = [''fingerprint''], ix_unique = True, ix_where = Some (IsNull (Col ''closed_at''))\<rparr>]"

definition downgrade_0003 :: "ddl list" where
  "downgrade_0003 =
     [DropIndex ''uq_tickets_open_fingerprint'', DropTable ''tickets'',
      DropConstraint ''runs_concluded_has_conclusion'' ''runs'',
      DropConstraint ''runs_status_known'' ''runs'',
      DropColumn ''runs'' ''finished_at'', DropColumn ''runs'' ''conclusion'', DropColumn ''runs'' ''event_id'']"

definition legacy_update :: ddl where
  "legacy_update =
     UpdateRows ''events''
       [(''queued_at'', Col ''received_at''), (''queue_message_id'', Lit (SText ''legacy-before-0004''))]
       (EqE (Col ''quarantined'') (Lit (SBool False)))"

definition queue_state_paired :: sqlexpr where
  "queue_state_paired = EqE (IsNull (Col ''queued_at'')) (IsNull (Col ''queue_message_id''))"

definition upgrade_0004 :: "ddl list" where
  "upgrade_0004 =
     [AddColumn ''events'' (column ''queued_at'' TTimestamptz True None),
      AddColumn ''events'' (column ''queue_message_id'' TText True None),
      legacy_update,
      AddCheck ''events_queue_state_paired'' ''events'' queue_state_paired,
      CreateIndex \<lparr>ix_name = ''ix_events_pending_queue'', ix_table = ''events'',
        ix_columns = [''received_at''], ix_unique = False,
        ix_where = Some (AndE (EqE (Col ''quarantined'') (Lit (SBool False))) (IsNull (Col ''queued_at'')))\<rparr>,
      CreateTable ''ticket_actions''
        [column ''run_id'' TUuid False None, column ''fingerprint'' TText False None,
         column ''ticket_id'' TUuid False None, column ''external_id'' TText False None,
         column ''created'' TBoolean False None, column ''update_count'' TInteger False None,
         column ''applied_at'' TTimestamptz False None]
        [''run_id''] []
        [(''run_id'', ''runs'', ''run_id''), (''ticket_id'', ''tickets'', ''id'')],
      CreateFunction ''smokejumper_close_ticket_on_window'',
      CreateTrigger ''events_close_ticket_on_window'' ''events'' ''smokejumper_close_ticket_on_window''
        ''window_closed_at'']"

definition downgrade_0004 :: "ddl list" where
  "downgrade_0004 =
     [DropTrigger ''events_close_ticket_on_window'' ''events'',
      DropFunction ''smokejumper_close_ticket_on_window'', DropTable ''ticket_actions'',
      DropIndex ''ix_events_pending_queue'', DropConstraint ''events_queue_state_paired'' ''events'',
      DropColumn ''events'' ''queue_message_id'', DropColumn ''events'' ''queued_at'']"

record revision =
  rv_id :: string
  rv_down :: "string option"
  rv_upgrade :: "ddl list"
  rv_downgrade :: "ddl list"

definition REVISIONS :: "revision list" where
  "REVISIONS =
     [\<lparr>rv_id = ''0001_core_tables'', rv_down = None, rv_upgrade = upgrade_0001, rv_downgrade = downgrade_0001\<rparr>,
      \<lparr>rv_id = ''0002_event_window_closed'', rv_down = Some ''0001_core_tables'',
        rv_upgrade = upgrade_0002, rv_downgrade = downgrade_0002\<rparr>,
      \<lparr>rv_id = ''0003_runs_and_tickets'', rv_down = Some ''0002_event_window_closed'',
        rv_upgrade = upgrade_0003, rv_downgrade = downgrade_0003\<rparr>,
      \<lparr>rv_id = ''0004_event_queue_outbox'', rv_down = Some ''0003_runs_and_tickets'',
        rv_upgrade = upgrade_0004, rv_downgrade = downgrade_0004\<rparr>]"

section \<open>Running them\<close>

text \<open>
  Alembic applies a revision to a database whose recorded version is the revision it
  revises, and records the new version; \<open>env.py\<close> opens one transaction around the whole run,
  so a statement that raises leaves the database as it was.
\<close>

fun run_upgrades :: "revision list \<Rightarrow> pg \<Rightarrow> pg result" where
  "run_upgrades [] s = Inr s"
| "run_upgrades (r # rs) s =
     (if pg_version s = rv_down r
      then res_bind (exec_all (rv_upgrade r) s) (\<lambda>s'. run_upgrades rs (s'\<lparr>pg_version := Some (rv_id r)\<rparr>))
      else run_upgrades rs s)"

text \<open>\<^verbatim>\<open>_database_url\<close>: an unset or empty variable raises.\<close>

definition database_url :: "string option \<Rightarrow> string result" where
  "database_url url =
     (case url of
        None \<Rightarrow> Inl (RuntimeError ''SMOKEJUMPER__DATABASE__URL must be set to run migrations'')
      | Some u \<Rightarrow> if u = [] then Inl (RuntimeError ''SMOKEJUMPER__DATABASE__URL must be set to run migrations'')
                  else Inr u)"

definition run_migrations :: "string option \<Rightarrow> pg \<Rightarrow> unit result \<times> pg" where
  "run_migrations url s =
     (case res_bind (database_url url) (\<lambda>_. run_upgrades REVISIONS s) of
        Inl e \<Rightarrow> (Inl e, s)
      | Inr s' \<Rightarrow> (Inr (), s'))"

lemma revisions_linear:
  "rv_down (hd REVISIONS) = None
   \<and> map rv_down (tl REVISIONS) = map (Some \<circ> rv_id) (butlast REVISIONS)
   \<and> rv_id (last REVISIONS) = SCHEMA_HEAD"
  by (simp add: REVISIONS_def SCHEMA_HEAD_def)

section \<open>A downgrade gives back the database\<close>

lemma undo_revision:
  assumes "pg_wf s" and "exec_all ds s = Inr s'" and "fresh_extensions ds s"
    and "list_all2 (\<lambda>d u. undo d = Some u) ds (rev downs)"
  shows "exec_all downs s' = Inr s"
  using exec_all_undo[OF assms(1,3,2,4)] by simp

lemma downgrade_0001_ok:
  assumes "pg_wf s" and "''vector'' \<notin> set (pg_extensions s)" and "exec_all upgrade_0001 s = Inr s'"
  shows "exec_all downgrade_0001 s' = Inr s"
  using assms(1,3) by (rule undo_revision)
    (use assms(2) in \<open>auto simp: fresh_extensions_def upgrade_0001_def downgrade_0001_def\<close>)

lemma downgrade_0002_ok:
  assumes "pg_wf s" and "exec_all upgrade_0002 s = Inr s'"
  shows "exec_all downgrade_0002 s' = Inr s"
  using assms by (rule undo_revision)
    (auto simp: fresh_extensions_def upgrade_0002_def downgrade_0002_def column_def)

lemma downgrade_0003_ok:
  assumes "pg_wf s" and "exec_all upgrade_0003 s = Inr s'"
  shows "exec_all downgrade_0003 s' = Inr s"
  using assms by (rule undo_revision)
    (auto simp: fresh_extensions_def upgrade_0003_def downgrade_0003_def column_def)

lemma downgrade_0004_ok:
  assumes "pg_wf s" and "exec_all upgrade_0004 s = Inr s'"
  shows "exec_all downgrade_0004 s' = Inr s"
proof -
  let ?new = "take 3 upgrade_0004" and ?rest = "drop 3 upgrade_0004"
  have "exec_all (?new @ ?rest) s = Inr s'" using assms(2) by simp
  then obtain s3 where new: "exec_all ?new s = Inr s3" and rest: "exec_all ?rest s3 = Inr s'"
    unfolding exec_all_append by auto
  have "exec_all (take 5 downgrade_0004) s' = Inr s3"
  proof (rule undo_revision[OF _ rest])
    show "pg_wf s3"
      by (rule exec_all_pg_wf[OF assms(1) new]) (simp add: upgrade_0004_def legacy_update_def)
  qed (auto simp: fresh_extensions_def upgrade_0004_def downgrade_0004_def)
  moreover have "exec_all (drop 5 downgrade_0004) s3 = Inr s"
    using exec_undo_update[OF assms(1), of
        "[(''queued_at'', Col ''received_at''), (''queue_message_id'', Lit (SText ''legacy-before-0004''))]"
        "column ''queued_at'' TTimestamptz True None" "column ''queue_message_id'' TText True None"
        "''events''" "EqE (Col ''quarantined'') (Lit (SBool False))" s3] new
    by (simp add: upgrade_0004_def downgrade_0004_def legacy_update_def column_def
        del: exec.simps exec_all.simps)
  ultimately have "exec_all (take 5 downgrade_0004 @ drop 5 downgrade_0004) s' = Inr s"
    unfolding exec_all_append by simp
  then show ?thesis by simp
qed

theorem downgrade_upgrade:
  assumes "r \<in> set REVISIONS" and "pg_wf s" and "rv_down r = None \<longrightarrow> ''vector'' \<notin> set (pg_extensions s)"
    and "exec_all (rv_upgrade r) s = Inr s'"
  shows "exec_all (rv_downgrade r) s' = Inr s"
  using assms downgrade_0001_ok downgrade_0002_ok downgrade_0003_ok downgrade_0004_ok
  by (auto simp: REVISIONS_def)

section \<open>The schema at the head\<close>

definition null_or :: "('a \<Rightarrow> sqlval) \<Rightarrow> 'a option \<Rightarrow> sqlval" where
  "null_or f x = (case x of None \<Rightarrow> SNull | Some v \<Rightarrow> f v)"

definition event_cells_0003 :: "event_row \<Rightarrow> sql_row" where
  "event_cells_0003 r =
     [(''id'', SText (er_id r)), (''source'', SText (er_source r)),
      (''fingerprint'', null_or SText (er_fingerprint r)), (''received_at'', SInt (er_received_at r)),
      (''dedupe_count'', SInt (er_dedupe_count r)), (''quarantined'', SBool (er_quarantined r)),
      (''quarantine_reason'', null_or SText (er_quarantine_reason r)),
      (''payload'', null_or SText (er_payload r)),
      (''window_closed_at'', null_or SInt (er_window_closed_at r))]"

definition event_cells :: "event_row \<Rightarrow> sql_row" where
  "event_cells r =
     event_cells_0003 r @
       [(''queued_at'', null_or SInt (er_queued_at r)),
        (''queue_message_id'', null_or SText (er_queue_message_id r))]"

definition run_cells :: "(Conclusion \<Rightarrow> string) \<Rightarrow> run_row \<Rightarrow> sql_row" where
  "run_cells js r =
     [(''run_id'', SText (rr_run_id r)), (''fingerprint'', SText (rr_fingerprint r)),
      (''status'', SText (rr_status r)), (''started_at'', SInt (rr_started_at r)),
      (''audit_log_file'', SText (rr_audit_log_file r)),
      (''audit_start_offset'', SInt (rr_audit_start_offset r)),
      (''audit_end_offset'', null_or SInt (rr_audit_end_offset r)),
      (''event_id'', null_or SText (rr_event_id r)),
      (''conclusion'', null_or (SText \<circ> js) (rr_conclusion r)),
      (''finished_at'', null_or SInt (rr_finished_at r))]"

definition ticket_cells :: "ticket_row \<Rightarrow> sql_row" where
  "ticket_cells t =
     [(''id'', SText (tk_id t)), (''fingerprint'', SText (tk_fingerprint t)),
      (''provider'', SText (tk_provider t)), (''external_id'', SText (tk_external_id t)),
      (''url'', null_or SText (tk_url t)), (''created_at'', SInt (tk_created_at t)),
      (''closed_at'', null_or SInt (tk_closed_at t)), (''update_count'', SInt (tk_update_count t))]"

definition action_cells :: "action_row \<Rightarrow> sql_row" where
  "action_cells a =
     [(''run_id'', SText (ta_run_id a)), (''fingerprint'', SText (ta_fingerprint a)),
      (''ticket_id'', SText (ta_ticket_id a)), (''external_id'', SText (ta_external_id a)),
      (''created'', SBool (ta_created a)), (''update_count'', SInt (ta_update_count a)),
      (''applied_at'', SInt (ta_applied_at a))]"

definition with_rows :: "(string \<Rightarrow> sql_row list) \<Rightarrow> pg \<Rightarrow> pg" where
  "with_rows rows s = s\<lparr>pg_tables := map (\<lambda>(n, t). (n, t\<lparr>tb_rows := rows n\<rparr>)) (pg_tables s)\<rparr>"

definition schema_after :: "nat \<Rightarrow> pg" where
  "schema_after k = (case run_upgrades (take k REVISIONS) empty_pg of Inr s \<Rightarrow> s | Inl _ \<Rightarrow> empty_pg)"

text \<open>The database of the model, as rows of the schema the revisions create.\<close>

definition encode :: "(Conclusion \<Rightarrow> string) \<Rightarrow> db \<Rightarrow> pg" where
  "encode js s = with_rows
     (\<lambda>n. if n = ''events'' then map event_cells (events s)
          else if n = ''runs'' then map (run_cells js) (runs s)
          else if n = ''tickets'' then map ticket_cells (tickets s)
          else map action_cells (ticket_actions s)) (schema_after 4)"

definition encode_0003 :: "(Conclusion \<Rightarrow> string) \<Rightarrow> db \<Rightarrow> pg" where
  "encode_0003 js s = with_rows
     (\<lambda>n. if n = ''events'' then map event_cells_0003 (events s)
          else if n = ''runs'' then map (run_cells js) (runs s)
          else map ticket_cells (tickets s)) (schema_after 3)"

subsection \<open>What the revisions create\<close>

definition event_columns_0003 :: "sql_column list" where
  "event_columns_0003 =
     [column ''id'' TUuid False None, column ''source'' TText False None,
      column ''fingerprint'' TText True None, column ''received_at'' TTimestamptz False None,
      column ''dedupe_count'' TInteger False (Some (SInt 1)),
      column ''quarantined'' TBoolean False (Some (SBool False)),
      column ''quarantine_reason'' TText True None, column ''payload'' TJsonb True None,
      column ''window_closed_at'' TTimestamptz True None]"

definition queue_columns :: "sql_column list" where
  "queue_columns = [column ''queued_at'' TTimestamptz True None, column ''queue_message_id'' TText True None]"

definition run_columns :: "sql_column list" where
  "run_columns =
     [column ''run_id'' TUuid False None, column ''fingerprint'' TText False None,
      column ''status'' TText False None, column ''started_at'' TTimestamptz False None,
      column ''audit_log_file'' TText False None, column ''audit_start_offset'' TBigInteger False None,
      column ''audit_end_offset'' TBigInteger True None, column ''event_id'' TUuid True None,
      column ''conclusion'' TJsonb True None, column ''finished_at'' TTimestamptz True None]"

definition ticket_columns :: "sql_column list" where
  "ticket_columns =
     [column ''id'' TUuid False None, column ''fingerprint'' TText False None,
      column ''provider'' TText False None, column ''external_id'' TText False None,
      column ''url'' TText True None, column ''created_at'' TTimestamptz False None,
      column ''closed_at'' TTimestamptz True None, column ''update_count'' TInteger False (Some (SInt 0))]"

definition action_columns :: "sql_column list" where
  "action_columns =
     [column ''run_id'' TUuid False None, column ''fingerprint'' TText False None,
      column ''ticket_id'' TUuid False None, column ''external_id'' TText False None,
      column ''created'' TBoolean False None, column ''update_count'' TInteger False None,
      column ''applied_at'' TTimestamptz False None]"

definition event_checks_0003 :: "(string \<times> sqlexpr) list" where
  "event_checks_0003 =
     [(''events_source_known'', source_known), (''events_quarantine_invariant'', quarantine_invariant)]"

definition run_checks :: "(string \<times> sqlexpr) list" where
  "run_checks =
     [(''runs_audit_offsets_ordered'', audit_offsets_ordered), (''runs_status_known'', status_known),
      (''runs_concluded_has_conclusion'', concluded_has_conclusion)]"

definition table_of ::
  "sql_column list \<Rightarrow> string \<Rightarrow> (string \<times> sqlexpr) list \<Rightarrow> (string \<times> string \<times> string) list \<Rightarrow> sql_row list \<Rightarrow> sql_table" where
  "table_of cols key cks fks rows =
     \<lparr>tb_columns = cols, tb_pkey = [key], tb_checks = cks, tb_fkeys = fks, tb_rows = rows\<rparr>"

definition indexes_0003 :: "sql_index list" where
  "indexes_0003 =
     [\<lparr>ix_name = ''ix_events_fingerprint_received_at'', ix_table = ''events'',
        ix_columns = [''fingerprint'', ''received_at''], ix_unique = False, ix_where = None\<rparr>,
      \<lparr>ix_name = ''ix_runs_fingerprint'', ix_table = ''runs'',
        ix_columns = [''fingerprint''], ix_unique = False, ix_where = None\<rparr>,
      \<lparr>ix_name = ''ix_events_open_window'', ix_table = ''events'',
        ix_columns = [''fingerprint'', ''received_at''], ix_unique = False,
        ix_where = Some (AndE (IsNull (Col ''window_closed_at''))
                              (EqE (Col ''quarantined'') (Lit (SBool False))))\<rparr>,
      \<lparr>ix_name = ''uq_tickets_open_fingerprint'', ix_table = ''tickets'',
        ix_columns = [''fingerprint''], ix_unique = True, ix_where = Some (IsNull (Col ''closed_at''))\<rparr>]"

definition pending_index :: sql_index where
  "pending_index =
     \<lparr>ix_name = ''ix_events_pending_queue'', ix_table = ''events'', ix_columns = [''received_at''],
       ix_unique = False,
       ix_where = Some (AndE (EqE (Col ''quarantined'') (Lit (SBool False))) (IsNull (Col ''queued_at'')))\<rparr>"

definition tables_0003 :: "sql_row list \<Rightarrow> sql_row list \<Rightarrow> sql_row list \<Rightarrow> (string \<times> sql_table) list" where
  "tables_0003 es rs ts =
     [(''events'', table_of event_columns_0003 ''id'' event_checks_0003 [] es),
      (''runs'', table_of run_columns ''run_id'' run_checks [] rs),
      (''tickets'', table_of ticket_columns ''id'' [] [] ts)]"

definition head_tables ::
  "sql_row list \<Rightarrow> sql_row list \<Rightarrow> sql_row list \<Rightarrow> sql_row list \<Rightarrow> (string \<times> sql_table) list" where
  "head_tables es rs ts as =
     [(''events'', table_of (event_columns_0003 @ queue_columns) ''id''
         (event_checks_0003 @ [(''events_queue_state_paired'', queue_state_paired)]) [] es),
      (''runs'', table_of run_columns ''run_id'' run_checks [] rs),
      (''tickets'', table_of ticket_columns ''id'' [] [] ts),
      (''ticket_actions'', table_of action_columns ''run_id'' []
         [(''run_id'', ''runs'', ''run_id''), (''ticket_id'', ''tickets'', ''id'')] as)]"

lemma schema_0003:
  "schema_after 3 =
     \<lparr>pg_version = Some ''0003_runs_and_tickets'', pg_extensions = [''vector''],
      pg_tables = tables_0003 [] [] [], pg_indexes = indexes_0003, pg_functions = [], pg_triggers = []\<rparr>"
  by code_simp

lemma migrate_fresh:
  "run_upgrades REVISIONS empty_pg = Inr
     \<lparr>pg_version = Some SCHEMA_HEAD, pg_extensions = [''vector''], pg_tables = head_tables [] [] [] [],
      pg_indexes = indexes_0003 @ [pending_index],
      pg_functions = [''smokejumper_close_ticket_on_window''],
      pg_triggers = [(''events_close_ticket_on_window'', ''events'', ''smokejumper_close_ticket_on_window'',
                      ''window_closed_at'')]\<rparr>"
  by code_simp

lemma encode_0003_eq:
  "encode_0003 js s = (schema_after 3)\<lparr>pg_tables :=
     tables_0003 (map event_cells_0003 (events s)) (map (run_cells js) (runs s)) (map ticket_cells (tickets s))\<rparr>"
  by (simp add: encode_0003_def with_rows_def schema_0003 tables_0003_def table_of_def)

lemma encode_eq:
  "encode js s =
     \<lparr>pg_version = Some SCHEMA_HEAD, pg_extensions = [''vector''],
      pg_tables = head_tables (map event_cells (events s)) (map (run_cells js) (runs s))
        (map ticket_cells (tickets s)) (map action_cells (ticket_actions s)),
      pg_indexes = indexes_0003 @ [pending_index],
      pg_functions = [''smokejumper_close_ticket_on_window''],
      pg_triggers = [(''events_close_ticket_on_window'', ''events'', ''smokejumper_close_ticket_on_window'',
                      ''window_closed_at'')]\<rparr>"
proof -
  have "take 4 REVISIONS = REVISIONS" by (simp add: REVISIONS_def)
  then show ?thesis
    by (simp add: encode_def with_rows_def schema_after_def migrate_fresh head_tables_def table_of_def)
qed

subsection \<open>The constraints say what the model says\<close>

lemma sql_bools [simp]:
  "null_or f x = SNull \<longleftrightarrow> x = None \<or> (\<exists>v. x = Some v \<and> f v = SNull)"
  "sql_and (SBool a) (SBool b) = SBool (a \<and> b)"
  "sql_or (SBool a) (SBool b) = SBool (a \<or> b)"
  "sql_eq (SBool a) (SBool b) = SBool (a = b)"
  "sql_eq (SText v) (SText w) = SBool (v = w)"
  by (auto simp: null_or_def sql_and_def sql_or_def sql_eq_def split: option.splits)

lemma row_ok_event:
  "row_ok (table_of (event_columns_0003 @ queue_columns) ''id''
      (event_checks_0003 @ [(''events_queue_state_paired'', queue_state_paired)]) [] rows) (event_cells r)
   \<longleftrightarrow> events_check r"
  by (auto simp: row_ok_def table_of_def event_columns_0003_def queue_columns_def column_def
      event_checks_0003_def event_cells_def event_cells_0003_def sql_get_def source_known_def
      quarantine_invariant_def queue_state_paired_def events_check_def events_source_known_def
      events_quarantine_invariant_def events_queue_state_paired_def)

lemma row_ok_run:
  "row_ok (table_of run_columns ''run_id'' run_checks [] rows) (run_cells js r) \<longleftrightarrow> runs_check r"
  by (auto simp: row_ok_def table_of_def run_columns_def column_def run_checks_def run_cells_def sql_get_def
      audit_offsets_ordered_def status_known_def concluded_has_conclusion_def runs_check_def
      runs_audit_offsets_ordered_def RUN_STATUSES_def null_or_def sql_or_def split: option.splits)

lemma row_ok_ticket: "row_ok (table_of ticket_columns ''id'' [] [] rows) (ticket_cells t)"
  by (simp add: row_ok_def table_of_def ticket_columns_def column_def ticket_cells_def sql_get_def)

lemma row_ok_action: "row_ok (table_of action_columns ''run_id'' [] fks rows) (action_cells a)"
  by (simp add: row_ok_def table_of_def action_columns_def column_def action_cells_def sql_get_def)

lemma unique_on_key:
  assumes "\<And>x. sql_get (cells x) c = SText (key x)"
  shows "unique_on [c] (map cells xs) \<longleftrightarrow> distinct (map key xs)"
  using assms by (induction xs) (auto simp: unique_on_def)

lemma distinct_at_most_one: "distinct (map f xs) \<longleftrightarrow> (\<forall>v. at_most_one (\<lambda>x. f x = v) xs)"
proof (induction xs)
  case (Cons x xs)
  have "at_most_one (\<lambda>y. f y = v) (x # xs) \<longleftrightarrow>
      (if f x = v then v \<notin> f ` set xs else at_most_one (\<lambda>y. f y = v) xs)" for v
    by (auto simp: at_most_one_def filter_empty_conv) (metis image_eqI)
  moreover have "at_most_one (\<lambda>y. f y = f x) xs" if "f x \<notin> f ` set xs"
  proof -
    have "filter (\<lambda>y. f y = f x) xs = []" using that by (auto simp: filter_empty_conv) (metis image_eqI)
    then show ?thesis by (simp add: at_most_one_def)
  qed
  ultimately show ?case using Cons by auto
qed simp

lemma open_tickets_unique:
  "unique_on [''fingerprint''] (filter (indexed ix) (map ticket_cells ts)) \<longleftrightarrow>
     (\<forall>fp. at_most_one (open_ticket fp) ts)"
  if "ix_where ix = Some (IsNull (Col ''closed_at''))"
proof -
  have "indexed ix (ticket_cells t) \<longleftrightarrow> tk_closed_at t = None" for t
    using that by (simp add: indexed_def ticket_cells_def sql_get_def)
  then have "filter (indexed ix) (map ticket_cells ts) = map ticket_cells (filter (\<lambda>t. tk_closed_at t = None) ts)"
    by (simp add: filter_map o_def)
  moreover have "sql_get (ticket_cells t) ''fingerprint'' = SText (tk_fingerprint t)" for t
    by (simp add: ticket_cells_def sql_get_def)
  moreover have "filter (open_ticket fp) ts = filter (\<lambda>t. tk_fingerprint t = fp) (filter (\<lambda>t. tk_closed_at t = None) ts)" for fp
    by (simp add: open_ticket_def conj_commute cong: filter_cong)
  ultimately show ?thesis by (simp add: unique_on_key distinct_at_most_one at_most_one_def del: filter_filter)
qed

text \<open>What the constraints ask of the tables beside \<open>events\<close>, whatever columns and checks that has.\<close>

lemma pg_ok_shape:
  assumes "pg_tables p = (''events'', table_of cols ''id'' cks [] es)
       # (''runs'', table_of run_columns ''run_id'' run_checks [] (map (run_cells js) rs))
       # (''tickets'', table_of ticket_columns ''id'' [] [] (map ticket_cells ts)) # rest"
    and "pg_indexes p = indexes_0003 @ ixs" and "list_all (\<lambda>ix. \<not> ix_unique ix) ixs"
  shows "pg_ok p \<longleftrightarrow>
     list_all (row_ok (table_of cols ''id'' cks [] es)) es \<and> unique_on [''id''] es
     \<and> runs_ok rs \<and> tickets_ok ts
     \<and> list_all (\<lambda>(_, t). table_ok t \<and> list_all (fkey_ok (pg_tables p) t) (tb_fkeys t)) rest"
proof -
  have "table_ok (table_of run_columns ''run_id'' run_checks [] (map (run_cells js) rs)) \<longleftrightarrow> runs_ok rs"
  proof -
    have "sql_get (run_cells js r) ''run_id'' = SText (rr_run_id r)" for r
      by (simp add: run_cells_def sql_get_def)
    then show ?thesis
      by (simp add: table_ok_def row_ok_run runs_ok_def unique_on_key list.pred_map o_def conj_commute
          table_of_def[of _ _ _ _ "map _ _"] row_ok_run[unfolded table_of_def])
  qed
  moreover have "table_ok (table_of ticket_columns ''id'' [] [] (map ticket_cells ts)) \<longleftrightarrow> distinct (map tk_id ts)"
  proof -
    have "sql_get (ticket_cells t) ''id'' = SText (tk_id t)" for t
      by (simp add: ticket_cells_def sql_get_def)
    then show ?thesis
      by (simp add: table_ok_def unique_on_key list.pred_map o_def table_of_def[of _ _ _ _ "map _ _"]
          row_ok_ticket[unfolded table_of_def] list.pred_True)
  qed
  moreover have "list_all (index_ok (pg_tables p)) (indexes_0003 @ ixs) \<longleftrightarrow> (\<forall>fp. at_most_one (open_ticket fp) ts)"
  proof -
    have "list_all (index_ok (pg_tables p)) ixs"
      using assms(3) by (auto simp: list_all_iff index_ok_def)
    then show ?thesis
      by (simp add: indexes_0003_def index_ok_def assms(1) table_of_def[of _ _ _ _ "map _ _"] open_tickets_unique)
  qed
  ultimately show ?thesis
    by (simp add: pg_ok_def assms(1,2) tickets_ok_def table_ok_def[of "table_of cols _ _ _ _"])
      (auto simp: table_of_def)
qed

lemma event_id_cell: "sql_get (event_cells r) ''id'' = SText (er_id r)"
  "sql_get (event_cells_0003 r @ xs) ''id'' = SText (er_id r)"
  by (simp_all add: event_cells_def event_cells_0003_def sql_get_def)

lemma fkey_ok_key:
  assumes "\<And>x. sql_get (cells x) c = SText (key x)" and "\<And>y. sql_get (cells' y) c' = SText (key' y)"
    and "map_of ts n = Some u" and "tb_rows u = map cells' ys" and "tb_rows t = map cells xs"
  shows "fkey_ok ts t (c, n, c') \<longleftrightarrow> key ` set xs \<subseteq> key' ` set ys"
  using assms by (auto simp: fkey_ok_def list_all_iff)

lemma actions_table_ok:
  "table_ok (table_of action_columns ''run_id'' [] fks (map action_cells as)) \<longleftrightarrow> distinct (map ta_run_id as)"
proof -
  have "sql_get (action_cells a) ''run_id'' = SText (ta_run_id a)" for a
    by (simp add: action_cells_def sql_get_def)
  then show ?thesis
    by (simp add: table_ok_def unique_on_key list.pred_map o_def table_of_def[of _ _ _ _ "map _ _"]
        row_ok_action[unfolded table_of_def] list.pred_True)
qed

lemma actions_fkeys_ok:
  "list_all (fkey_ok (head_tables es (map (run_cells js) rs) (map ticket_cells ts) as')
      (table_of cols key cks [(''run_id'', ''runs'', ''run_id''), (''ticket_id'', ''tickets'', ''id'')]
         (map action_cells as))) [(''run_id'', ''runs'', ''run_id''), (''ticket_id'', ''tickets'', ''id'')]
   \<longleftrightarrow> ta_run_id ` set as \<subseteq> rr_run_id ` set rs \<and> ta_ticket_id ` set as \<subseteq> tk_id ` set ts"
proof -
  let ?ts = "head_tables es (map (run_cells js) rs) (map ticket_cells ts) as'"
  let ?t = "table_of cols key cks [(''run_id'', ''runs'', ''run_id''), (''ticket_id'', ''tickets'', ''id'')]
         (map action_cells as)"
  have "fkey_ok ?ts ?t (''run_id'', ''runs'', ''run_id'') \<longleftrightarrow> ta_run_id ` set as \<subseteq> rr_run_id ` set rs"
    by (rule fkey_ok_key[where cells = action_cells and cells' = "run_cells js"])
      (auto simp: action_cells_def run_cells_def sql_get_def head_tables_def table_of_def)
  moreover have "fkey_ok ?ts ?t (''ticket_id'', ''tickets'', ''id'') \<longleftrightarrow> ta_ticket_id ` set as \<subseteq> tk_id ` set ts"
    by (rule fkey_ok_key[where cells = action_cells and cells' = ticket_cells])
      (auto simp: action_cells_def ticket_cells_def sql_get_def head_tables_def table_of_def)
  ultimately show ?thesis by simp
qed

theorem pg_ok_encode: "pg_ok (encode js s) \<longleftrightarrow> db_ok s"
proof -
  let ?es = "map event_cells (events s)" and ?rs = "map (run_cells js) (runs s)"
    and ?ts = "map ticket_cells (tickets s)" and ?as = "map action_cells (ticket_actions s)"
  let ?cks = "event_checks_0003 @ [(''events_queue_state_paired'', queue_state_paired)]"
  let ?fks = "[(''run_id'', ''runs'', ''run_id''), (''ticket_id'', ''tickets'', ''id'')]"
  have "pg_ok (encode js s) \<longleftrightarrow>
     list_all (row_ok (table_of (event_columns_0003 @ queue_columns) ''id'' ?cks [] ?es)) ?es
     \<and> unique_on [''id''] ?es \<and> runs_ok (runs s) \<and> tickets_ok (tickets s)
     \<and> list_all (\<lambda>(_, t). table_ok t \<and> list_all (fkey_ok (pg_tables (encode js s)) t) (tb_fkeys t))
         [(''ticket_actions'', table_of action_columns ''run_id'' [] ?fks ?as)]"
    by (rule pg_ok_shape[where ixs = "[pending_index]"]) (simp_all add: encode_eq head_tables_def pending_index_def)
  also have "\<dots> \<longleftrightarrow> events_ok (events s) \<and> runs_ok (runs s) \<and> tickets_ok (tickets s) \<and> actions_ok s"
  proof -
    have "list_all (row_ok (table_of (event_columns_0003 @ queue_columns) ''id'' ?cks [] ?es)) ?es
        \<longleftrightarrow> list_all events_check (events s)"
      by (simp add: list.pred_map o_def row_ok_event)
    moreover have "unique_on [''id''] ?es \<longleftrightarrow> distinct (map er_id (events s))"
      by (rule unique_on_key) (rule event_id_cell)
    moreover have "table_ok (table_of action_columns ''run_id'' [] ?fks ?as)
        \<and> list_all (fkey_ok (head_tables ?es ?rs ?ts ?as) (table_of action_columns ''run_id'' [] ?fks ?as)) ?fks
        \<longleftrightarrow> actions_ok s"
      unfolding actions_table_ok actions_fkeys_ok by (auto simp: actions_ok_def)
    moreover have "tb_fkeys (table_of action_columns ''run_id'' [] ?fks ?as) = ?fks"
      by (simp add: table_of_def)
    ultimately show ?thesis by (auto simp: encode_eq events_ok_def)
  qed
  finally show ?thesis by (simp add: db_ok_def)
qed

section \<open>The outbox revision on stored events\<close>

text \<open>
  Before revision 0004 there is no queue state and no action ledger; the revision adds both
  empty and marks every normalized event as offered.
\<close>

definition before_0004 :: "db \<Rightarrow> db" where
  "before_0004 s =
     s\<lparr>events := map (\<lambda>r. r\<lparr>er_queued_at := None, er_queue_message_id := None\<rparr>) (events s), ticket_actions := []\<rparr>"

lemma row_ok_0003:
  assumes "events_check r" and "set cols \<subseteq> set queue_columns"
  shows "row_ok (table_of (event_columns_0003 @ cols) ''id'' event_checks_0003 [] rows) (event_cells_0003 r @ xs)"
proof -
  have "list_all co_nullable cols" using assms(2) by (auto simp: queue_columns_def column_def list_all_iff)
  then have "list_all (\<lambda>c. co_nullable c \<or> P c) cols" for P by (auto simp: list_all_iff)
  then show ?thesis
    using assms(1)
    by (auto simp: row_ok_def table_of_def event_columns_0003_def column_def event_checks_0003_def
        event_cells_0003_def sql_get_def source_known_def quarantine_invariant_def events_check_def
        events_source_known_def events_quarantine_invariant_def)
qed

definition db_0004 :: "(event_row \<Rightarrow> sql_row) \<Rightarrow> sql_column list \<Rightarrow> (string \<times> sqlexpr) list
    \<Rightarrow> (Conclusion \<Rightarrow> string) \<Rightarrow> db \<Rightarrow> pg" where
  "db_0004 cells cols cks js s = (schema_after 3)\<lparr>pg_tables :=
     [(''events'', table_of (event_columns_0003 @ cols) ''id'' cks [] (map cells (events s))),
      (''runs'', table_of run_columns ''run_id'' run_checks [] (map (run_cells js) (runs s))),
      (''tickets'', table_of ticket_columns ''id'' [] [] (map ticket_cells (tickets s)))]\<rparr>"

lemma db_0004_ok:
  assumes "db_ok s" and "\<And>r. sql_get (cells r) ''id'' = SText (er_id r)"
    and "\<And>r. r \<in> set (events s) \<Longrightarrow> events_check r \<Longrightarrow>
           row_ok (table_of (event_columns_0003 @ cols) ''id'' cks [] (map cells (events s))) (cells r)"
  shows "pg_ok (db_0004 cells cols cks js s)"
proof -
  have "pg_ok (db_0004 cells cols cks js s) \<longleftrightarrow>
     list_all (row_ok (table_of (event_columns_0003 @ cols) ''id'' cks [] (map cells (events s)))) (map cells (events s))
     \<and> unique_on [''id''] (map cells (events s)) \<and> runs_ok (runs s) \<and> tickets_ok (tickets s)
     \<and> list_all (\<lambda>(_, t). table_ok t \<and> list_all (fkey_ok (pg_tables (db_0004 cells cols cks js s)) t) (tb_fkeys t))
         ([] :: (string \<times> sql_table) list)"
    by (rule pg_ok_shape[where ixs = "[]"]) (simp_all add: db_0004_def schema_0003)
  then show ?thesis
    using assms by (auto simp: unique_on_key[OF assms(2)] db_ok_def events_ok_def list_all_iff)
qed

lemma add_queue_column:
  assumes "db_ok s" and "set (cols @ [co]) \<subseteq> set queue_columns" and "co_name co \<notin> co_name ` set cols"
  shows "exec (AddColumn ''events'' co) (db_0004 (\<lambda>r. event_cells_0003 r @ xs) cols event_checks_0003 js s)
    = Inr (db_0004 (\<lambda>r. event_cells_0003 r @ xs @ [(co_name co, SNull)]) (cols @ [co]) event_checks_0003 js s)"
proof -
  let ?p = "db_0004 (\<lambda>r. event_cells_0003 r @ xs) cols event_checks_0003 js s"
  let ?q = "db_0004 (\<lambda>r. event_cells_0003 r @ xs @ [(co_name co, SNull)]) (cols @ [co]) event_checks_0003 js s"
  have co: "co_default co = None" "co_name co \<notin> co_name ` set event_columns_0003"
    using assms(2) by (auto simp: queue_columns_def event_columns_0003_def column_def)
  have "alter ''events'' (add_column co) ?p = ?q"
    by (simp add: alter_def add_column_def db_0004_def table_of_def co)
  moreover have "pg_ok ?q"
    by (rule db_0004_ok[OF assms(1)]) (use assms(2) row_ok_0003 in \<open>auto simp: event_id_cell\<close>)
  ultimately show ?thesis
    using co(2) assms(3) by (auto simp: on_table_def db_0004_def table_of_def validated_def)
qed

definition backfilled :: "event_row \<Rightarrow> event_row" where
  "backfilled r =
     (if er_quarantined r then r\<lparr>er_queued_at := None, er_queue_message_id := None\<rparr>
      else r\<lparr>er_queued_at := Some (er_received_at r), er_queue_message_id := Some ''legacy-before-0004''\<rparr>)"

lemma backfill_events: "events (backfill_0004 (before_0004 s)) = map backfilled (events s)"
  by (auto simp: backfill_0004_def before_0004_def update_where_def backfilled_def)

lemma backfilled_cells:
  "(if sql_eval (event_cells_0003 r @ [(''queued_at'', SNull), (''queue_message_id'', SNull)])
         (EqE (Col ''quarantined'') (Lit (SBool False))) = SBool True
    then assign_row [(''queued_at'', Col ''received_at''), (''queue_message_id'', Lit (SText ''legacy-before-0004''))]
           (event_cells_0003 r @ [(''queued_at'', SNull), (''queue_message_id'', SNull)])
    else event_cells_0003 r @ [(''queued_at'', SNull), (''queue_message_id'', SNull)])
   = event_cells (backfilled r)"
  by (simp add: event_cells_def event_cells_0003_def backfilled_def sql_get_def assign_row_def null_or_def)

lemma backfilled_id [simp]: "er_id (backfilled r) = er_id r"
  by (simp add: backfilled_def)

lemma backfilled_ok: "events_check r \<Longrightarrow> events_check (backfilled r)"
  by (auto simp: backfilled_def events_check_def events_source_known_def events_quarantine_invariant_def
      events_queue_state_paired_def)

lemma run_legacy_update:
  assumes "db_ok s"
  shows "exec legacy_update (db_0004 (\<lambda>r. event_cells_0003 r @ [(''queued_at'', SNull), (''queue_message_id'', SNull)])
             queue_columns event_checks_0003 js s)
    = Inr (db_0004 (\<lambda>r. event_cells (backfilled r)) queue_columns event_checks_0003 js s)" (is "exec _ ?p = Inr ?q")
proof -
  let ?asg = "[(''queued_at'', Col ''received_at''), (''queue_message_id'', Lit (SText ''legacy-before-0004''))]"
  let ?w = "EqE (Col ''quarantined'') (Lit (SBool False))"
  have "alter ''events'' (update_rows ?asg ?w) ?p = ?q"
    unfolding alter_def update_rows_def db_0004_def table_of_def using backfilled_cells by (simp add: o_def)
  moreover have "pg_ok ?q"
  proof (rule db_0004_ok[OF assms])
    show "row_ok (table_of (event_columns_0003 @ queue_columns) ''id'' event_checks_0003 []
        (map (\<lambda>r. event_cells (backfilled r)) (events s))) (event_cells (backfilled r))"
      if "events_check r" for r
      using row_ok_0003[OF backfilled_ok[OF that]] by (simp add: event_cells_def[of "backfilled r"])
  qed (simp add: event_id_cell)
  moreover have "map_of (pg_tables ?p) ''events'' = Some (table_of (event_columns_0003 @ queue_columns) ''id''
      event_checks_0003 [] (map (\<lambda>r. event_cells_0003 r @ [(''queued_at'', SNull), (''queue_message_id'', SNull)]) (events s)))"
    by (simp add: db_0004_def)
  ultimately show ?thesis
    by (simp add: legacy_update_def on_table_def validated_def)
      (simp add: table_of_def event_columns_0003_def queue_columns_def column_def)
qed

lemma add_queue_check:
  assumes "db_ok s"
  shows "exec (AddCheck ''events_queue_state_paired'' ''events'' queue_state_paired)
      (db_0004 (\<lambda>r. event_cells (backfilled r)) queue_columns event_checks_0003 js s)
    = Inr (db_0004 (\<lambda>r. event_cells (backfilled r)) queue_columns
        (event_checks_0003 @ [(''events_queue_state_paired'', queue_state_paired)]) js s)" (is "exec _ ?p = Inr ?q")
proof -
  have "alter ''events'' (\<lambda>t. t\<lparr>tb_checks := tb_checks t @ [(''events_queue_state_paired'', queue_state_paired)]\<rparr>) ?p = ?q"
    by (simp add: alter_def db_0004_def table_of_def)
  moreover have "pg_ok ?q"
    by (rule db_0004_ok[OF assms]) (auto simp: event_id_cell row_ok_event backfilled_ok)
  ultimately show ?thesis
    by (simp add: on_table_def validated_def db_0004_def table_of_def)
      (simp add: event_checks_0003_def queue_state_paired_def queue_columns_def column_def)
qed

theorem upgrade_0004_backfills:
  assumes "db_ok s"
  shows "exec_all upgrade_0004 (encode_0003 js s)
    = Inr ((encode js (backfill_0004 (before_0004 s)))\<lparr>pg_version := Some ''0003_runs_and_tickets''\<rparr>)"
proof -
  let ?c1 = "column ''queued_at'' TTimestamptz True None" and ?c2 = "column ''queue_message_id'' TText True None"
  have start: "encode_0003 js s = db_0004 (\<lambda>r. event_cells_0003 r @ []) [] event_checks_0003 js s"
    by (simp add: encode_0003_eq db_0004_def tables_0003_def)
  have "exec (AddColumn ''events'' ?c1) (encode_0003 js s)
      = Inr (db_0004 (\<lambda>r. event_cells_0003 r @ [(''queued_at'', SNull)]) [?c1] event_checks_0003 js s)"
    using add_queue_column[OF assms, of "[]" ?c1 "[]"] unfolding start
    by (simp add: queue_columns_def column_def del: exec.simps)
  moreover have "exec (AddColumn ''events'' ?c2)
        (db_0004 (\<lambda>r. event_cells_0003 r @ [(''queued_at'', SNull)]) [?c1] event_checks_0003 js s)
      = Inr (db_0004 (\<lambda>r. event_cells_0003 r @ [(''queued_at'', SNull), (''queue_message_id'', SNull)])
          queue_columns event_checks_0003 js s)"
    using add_queue_column[OF assms, of "[?c1]" ?c2 "[(''queued_at'', SNull)]"]
    by (simp add: queue_columns_def column_def del: exec.simps)
  moreover have "exec_all (drop 4 upgrade_0004) (db_0004 (\<lambda>r. event_cells (backfilled r)) queue_columns
        (event_checks_0003 @ [(''events_queue_state_paired'', queue_state_paired)]) js s)
      = Inr ((encode js (backfill_0004 (before_0004 s)))\<lparr>pg_version := Some ''0003_runs_and_tickets''\<rparr>)"
  proof -
    have keep: "runs (backfill_0004 (before_0004 s)) = runs s" "tickets (backfill_0004 (before_0004 s)) = tickets s"
      "ticket_actions (backfill_0004 (before_0004 s)) = []"
      by (simp_all add: backfill_0004_def before_0004_def)
    show ?thesis
      by (simp add: upgrade_0004_def db_0004_def schema_0003 on_table_def relations_def indexes_0003_def
          index_cols_def index_ok_def table_of_def fkey_target_def event_columns_0003_def queue_columns_def
          run_columns_def ticket_columns_def action_columns_def column_def encode_eq head_tables_def
          pending_index_def backfill_events keep o_def)
  qed
  ultimately have "exec_all (take 4 upgrade_0004 @ drop 4 upgrade_0004) (encode_0003 js s)
      = Inr ((encode js (backfill_0004 (before_0004 s)))\<lparr>pg_version := Some ''0003_runs_and_tickets''\<rparr>)"
    using run_legacy_update[OF assms, of js] add_queue_check[OF assms, of js] unfolding exec_all_append
    by (simp add: upgrade_0004_def del: exec.simps)
  then show ?thesis by simp
qed

section \<open>Whole runs\<close>

lemma run_migrations_url: "run_migrations (Some (c # cs)) s =
    (case run_upgrades REVISIONS s of Inl e \<Rightarrow> (Inl e, s) | Inr s' \<Rightarrow> (Inr (), s'))"
  by (simp add: run_migrations_def database_url_def)

lemma migrate_empty: "run_migrations (Some (c # cs)) empty_pg = (Inr (), encode js empty_db)"
  by (simp add: run_migrations_url migrate_fresh encode_eq empty_db_def)

lemma run_upgrades_head: "pg_version s = Some SCHEMA_HEAD \<Longrightarrow> run_upgrades REVISIONS s = Inr s"
  by (simp add: REVISIONS_def SCHEMA_HEAD_def)

lemma migrate_head: "run_migrations (Some (c # cs)) (encode js s) = (Inr (), encode js s)"
  by (simp add: run_migrations_url run_upgrades_head encode_eq)

lemma run_upgrades_0003:
  assumes "pg_version s = Some ''0003_runs_and_tickets''"
  shows "run_upgrades REVISIONS s =
     res_bind (exec_all upgrade_0004 s) (\<lambda>s'. Inr (s'\<lparr>pg_version := Some SCHEMA_HEAD\<rparr>))"
  using assms by (simp add: REVISIONS_def SCHEMA_HEAD_def)

lemma migrate_0003:
  assumes "db_ok s"
  shows "run_migrations (Some (c # cs)) (encode_0003 js s) = (Inr (), encode js (backfill_0004 (before_0004 s)))"
proof -
  have "pg_version (encode_0003 js s) = Some ''0003_runs_and_tickets''"
    by (simp add: encode_0003_eq schema_0003)
  then show ?thesis
    by (simp add: run_migrations_url run_upgrades_0003 upgrade_0004_backfills[OF assms])
      (simp add: encode_eq)
qed

lemma encode_0003_wf: "pg_wf (encode_0003 js s)"
proof -
  have "\<forall>r \<in> set (map event_cells_0003 (events s)). map fst r = map co_name event_columns_0003"
    "\<forall>r \<in> set (map (run_cells js) (runs s)). map fst r = map co_name run_columns"
    "\<forall>r \<in> set (map ticket_cells (tickets s)). map fst r = map co_name ticket_columns"
    by (auto simp: event_cells_0003_def run_cells_def ticket_cells_def event_columns_0003_def
        run_columns_def ticket_columns_def column_def)
  then show ?thesis
    by (simp add: pg_wf_def encode_0003_eq schema_0003 tables_0003_def table_wf_def table_of_def)
      (auto simp: event_columns_0003_def run_columns_def ticket_columns_def column_def event_checks_0003_def
        run_checks_def source_known_def quarantine_invariant_def audit_offsets_ordered_def status_known_def
        concluded_has_conclusion_def indexes_0003_def has_cols_def index_cols_def)
qed

text \<open>
  A run whose status the application does not know, or a concluded run, stops revision 0003;
  the transaction then leaves the database at 0002 as it was.
\<close>

lemma run_migrations_atomic: "fst (run_migrations url s) = Inl e \<Longrightarrow> snd (run_migrations url s) = s"
  by (auto simp: run_migrations_def split: sum.splits)

definition concluded_0002 :: pg where
  "concluded_0002 = with_rows
     (\<lambda>n. if n = ''runs'' then [[(''run_id'', SText ''r''), (''fingerprint'', SText ''f''),
            (''status'', SText ''concluded''), (''started_at'', SInt 0), (''audit_log_file'', SText ''a''),
            (''audit_start_offset'', SInt 0), (''audit_end_offset'', SNull)]] else [])
     (schema_after 2)"

lemma concluded_run_stops_0003:
  "run_migrations (Some ''u'') concluded_0002 = (Inl (IntegrityError ''violates a constraint''), concluded_0002)"
  by code_simp

end
