(* ===== verification/Spec2Isabelle.thy ===== *)
theory Spec2Isabelle
  imports Examples Bodies Lifecycle Config Ports PortContracts App HostPorts Inbound DocScripts Timestamps Diagrams ComponentMap Migrations
begin

text \<open>
  Smokejumper receives alerts, collapses them into incidents, triages each incident and keeps
  one ticket per incident. This development models that pipeline from the HTTP request to
  the row an operator reads, and proves what makes it trustworthy: no alert that was
  accepted is lost, no incident gets two tickets, no redelivery writes twice, nothing
  unverified has an effect.

  \<^bold>\<open>The program.\<close> A webhook (\<^verbatim>\<open>receiver/routes.py\<close>) verifies the sender
  (\<^verbatim>\<open>receiver/verification.py\<close>), normalizes the body to an \<open>AgentEvent\<close>
  (\<^verbatim>\<open>receiver/normalizers/\<close>), and admits it (\<^verbatim>\<open>receiver/repository.py\<close>): a row of the
  \<^verbatim>\<open>events\<close> table, or a count on the open row of the same fingerprint. The row is also
  the outbox record; \<^verbatim>\<open>receiver/delivery.py\<close> publishes it to a Redis stream
  (\<^verbatim>\<open>queue/producer.py\<close>), at once or from a background loop. The worker
  (\<^verbatim>\<open>worker.py\<close>) reads the stream, claims a run, triages (\<^verbatim>\<open>intelligence/triage.py\<close>),
  files or updates the ticket (\<^verbatim>\<open>actions/service.py\<close>), records every step
  (\<^verbatim>\<open>recorder/writer.py\<close>), concludes the run and acknowledges. A recovery closes the
  window of the incident and, by a trigger, its ticket. \<^verbatim>\<open>app.py\<close> runs the API, the
  outbox and the worker in one process; \<^verbatim>\<open>config.py\<close> decides whether it may boot.

  \<^bold>\<open>The theories\<close>, in the order they build on each other.
  \<^item> \<open>Prelude\<close>: exceptions and fallible results, generic facts on lists, the collections
    \<open>res_simps\<close>, \<open>contract_defs\<close>, \<open>sql_defs\<close>, \<open>inv_intros\<close>.
    \<open>PyText\<close>, \<open>Json\<close>, \<open>PyTime\<close>, \<open>Sha256\<close>, \<open>IpAddress\<close>: what the
    code uses of Python's text, JSON, datetime, hashing and address types.
    \<open>Utf8\<close>, \<open>JsonText\<close>: \<^verbatim>\<open>bytes.decode\<close> and \<^verbatim>\<open>json.loads\<close> as CPython 3.12 has them, error
    messages and positions included; strict decoding accepts exactly the encodings of text,
    and what \<^verbatim>\<open>json.dumps\<close> prints is read back.
  \<^item> \<open>Contracts\<close>: every boundary model of \<^verbatim>\<open>contracts/\<close> as a record with its validity, and
    the canonical fingerprint. \<open>Inbound\<close>: base64 and the JSON form of
    \<open>VerifiedInbound\<close>.
  \<^item> \<open>Datadog\<close>, \<open>Sources\<close>: the normalizers. \<open>IsoFormat\<close>, \<open>Timestamps\<close>:
    \<^verbatim>\<open>datetime.fromisoformat\<close> as CPython 3.12 has it, the calendar, and what the
    normalizers read with it. \<open>Verification\<close>: who may deliver.
  \<^item> \<open>Database\<close>: the schema of \<^verbatim>\<open>migrations/\<close>, constraints and trigger; a transaction is
    \<open>transact\<close> with its outcome. \<open>Repository\<close>: the statements on \<^verbatim>\<open>events\<close>.
  \<^item> \<open>Dedupe\<close>: the fifteen-minute rule on abstract windows, the locale \<open>dedupe_window\<close>
    and its interpretation \<open>pg\<close> on the Postgres model.
  \<^item> \<open>Delivery\<close>: the outbox. \<open>Routes\<close>: the handlers. \<open>Bodies\<close>: \<^verbatim>\<open>request.json()\<close> on the
    bytes of a body, the locale \<open>body_decoder\<close> and its interpretation \<open>bj\<close>.
  \<^item> \<open>Actions\<close>: tickets, ledger, runs. \<open>Ports\<close>: the port substitutes and the locale
    \<open>ticket_tracker\<close>, interpreted by the in-memory tracker (\<open>fx\<close>) and by the Postgres
    tickets (\<open>pt\<close>). \<open>PortContracts\<close>: what the other ports promise, as the locales
    \<open>append_only\<close> and \<open>embedder\<close>, and what the substitutes announce.
  \<^item> \<open>Triage\<close>, \<open>Recorder\<close>, \<open>Worker\<close>: an attempt, with the locale
    \<open>idempotent_consumer\<close> and its interpretation \<open>wk\<close>.
  \<^item> \<open>System\<close>: the whole process as a step relation over one database, one stream and one
    recorder, with the invariant \<open>sys_ok\<close> of every reachable state; no step touches a
    recorded byte (\<open>audit_append_only\<close>). \<open>Lifecycle\<close>: the loops as paths of that relation, and
    how the lifespan of \<^verbatim>\<open>app.py\<close> stops the tasks.
  \<^item> \<open>Config\<close>, \<open>App\<close>, \<open>HostPorts\<close>: settings and gates, health and read path, the
    port preflight of \<^verbatim>\<open>scripts/check_host_ports.py\<close>. \<open>DocScripts\<close>: the documentation
    check and the diagram post-processing under \<^verbatim>\<open>scripts/\<close>.
  \<^item> \<open>SqlDdl\<close>, \<open>Migrations\<close>: what the Alembic revisions use of Postgres (values with
    \<open>NULL\<close>, check expressions, the statements and their errors), the four revisions in both
    directions, \<^verbatim>\<open>migrations/env.py\<close>, and \<open>encode\<close>, which writes the tables of
    \<open>Database\<close> as rows of the migrated schema.
  \<^item> \<open>Swimlane\<close>, \<open>Diagrams\<close>, \<open>ComponentMap\<close>: the generators under
    \<^verbatim>\<open>architecture/_gen\<close>, as lists of drawn elements, with every diagram they hold.
  \<^item> \<open>Examples\<close>: the concrete inputs of the witnesses.

  \<^bold>\<open>State and failures.\<close> The database is a record of four tables in insertion order;
  an operation is a function on it that returns the new record or the exception. What the
  outside does is an argument everywhere: for each transaction that it commits, rolls back,
  or commits although the connection was lost; for each dispatch what Postgres and Redis
  answered; for each audit write whether it landed or how much of it did. Nothing is assumed
  about Redis: the worker may be handed any message any number of times. Serializers of
  pydantic are arguments; so are the JSON decoder of the handlers, which \<open>Bodies\<close> defines, and
  the reader of ISO time stamps, which \<open>IsoFormat\<close> defines. A theorem that needs more than the
  type of an argument says so (\<open>payloads_load\<close>, \<open>line_reads\<close>).

  \<^bold>\<open>What is shown.\<close> C1, C2, C13: invariants of every reachable state. C3 to C7: an attempt
  of the worker, exactly once, with progress and an exact audit range. C8 and C9: tickets.
  C10 to C12: the dedupe window refines its specification, storms, recoveries. C14 and C15:
  the outbox. C16 to C18: the routes, on every branch, from the bytes of the body. C19 to
  C21: verification. C22 to C26: identity, normalizers, resolutions. C27 to C34: audit,
  triage, configuration, health, the worker loop, shutdown, the read path, the preflight.
  C35: the JSON form of an inbound delivery. C36: the documentation check. C37: the time
  stamps of the senders. C38 and C39: the schema and its migrations. C40: the diagrams. The
  second half of C24, the death of the worker in C31 and the order of C32 are behaviours the
  code should not have, as are the lemmas \<open>non_ascii_token_500\<close> (\<open>Routes\<close>), \<open>deep_body_500\<close>
  (\<open>Bodies\<close>),
  \<open>fixture_id_collision\<close> (\<open>Ports\<close>), \<open>torn_line_unreadable\<close> (\<open>Examples\<close>) and
  \<open>blank_link_raises\<close> (\<open>DocScripts\<close>).

  \<^bold>\<open>Limits.\<close> Text is Latin-1: a character is a code point below 256, which covers header
  values and every key the code compares with; decoding, the audit reader and the diagrams
  work on all of Unicode. Floats are the text of their \<^verbatim>\<open>repr\<close>. When Python's recursion limit
  is hit is not modelled. Confidences are the decimal literals of the source. \<^verbatim>\<open>Integer\<close> columns are 32 bits wide and overflow is an exception of the
  statement. A transaction is atomic: statements of two transactions are not interleaved;
  the advisory lock of \<open>admit\<close>, the row lock of \<open>apply\<close> and the unique index make the
  code equivalent to some order. No fuel is used: every loop is a terminating recursion, and
  the endless loops of the outbox and the worker take any finite number of turns.

  \<^bold>\<open>Not modelled.\<close> Pydantic's parsing of settings, of events and of every contract but
  \<open>VerifiedInbound\<close>, its layering of settings and its error texts; FastAPI's routing; a
  cancellation that arrives inside a statement; UTF-16 and UTF-32 bodies; logging; how
  Alembic finds the revisions and records the version;
  Mermaid itself, whose output \<open>post_process\<close> takes as an argument; in the diagram generators
  the printing of numbers, the rounding of widths estimated per character, and the fixed
  opening and closing tags; and the Protocol classes of \<^verbatim>\<open>ports/\<close>, which have no code.
\<close>

section \<open>Tickets\<close>

text \<open>
  C1. In every state the process can reach, whatever requests arrive, however Redis
  redelivers and wherever an attempt fails, an incident fingerprint has at most one open
  ticket.
\<close>

theorem one_open_ticket:
  assumes "reachable cfg stamp pid sy"
  shows "length (filter (open_ticket fp) (tickets (w_db (sy_world sy)))) \<le> 1"
  using reachable_ok[OF assms]
  by (simp add: sys_ok_def wk_ok_def db_ok_def tickets_ok_def at_most_one_def)

theorem one_open_ticket_witness:
  "reachable demo_cfg ''t'' 1 demo_sys
   \<and> length (filter (open_ticket demo_fp) (tickets (w_db (sy_world demo_sys)))) \<le> 1"
  using one_open_ticket[OF demo_reachable, of demo_fp] demo_reachable by blast

text \<open>
  C2. In every reachable state the ledger accounts for each ticket write: a ticket was
  written once per recorded run that names it, its creation included, and no run has
  two ledger rows.
\<close>

theorem ticket_writes_accounted:
  assumes "reachable cfg stamp pid sy" and "t \<in> set (tickets (w_db (sy_world sy)))"
  shows "tk_update_count t + 1
           = int (length (filter (\<lambda>a. ta_ticket_id a = tk_id t) (ticket_actions (w_db (sy_world sy)))))
         \<and> run_writes (w_db (sy_world sy)) i \<le> 1"
proof -
  have "wk_ok (w_db (sy_world sy))" using reachable_ok[OF assms(1)] by (simp add: sys_ok_def)
  then show ?thesis
    using assms(2) wk_writes_le_1 by (auto simp: wk_ok_def ledger_ok_def writes_of_def list_all_iff)
qed

theorem ticket_writes_accounted_witness:
  "int (length (filter (\<lambda>a. ta_ticket_id a = ''t1'') (ticket_actions (w_db (sy_world demo_sys))))) = 1"
  using ticket_writes_accounted[OF demo_reachable, of "new_ticket ''t1'' 5 demo_fp" "[]"]
  by (simp add: demo_sys_tickets) (simp add: new_ticket_def)

section \<open>Exactly once under redelivery\<close>

text \<open>
  C3. Whatever messages Redis hands the worker, in any order, any number of times, each
  attempt failing wherever it fails: as soon as one attempt at a run has answered, the
  ledger holds exactly one ticket write of that run, and no later attempt changes that.
\<close>

theorem run_written_once:
  assumes "wk_ok (ws_db st)" and "i < length xs"
    and "fst (attempts (handle wc) xs st) ! i = Inr v"
  shows "run_writes (ws_db (snd (attempts (handle wc) xs st))) (ev_id (snd (xs ! i))) = 1"
  using assms by (rule wk.exactly_once)

theorem run_written_once_witness:
  "run_writes (ws_db (snd (attempts (handle demo_wc) [(demo_io, demo_event), (demo_io, demo_event)]
     demo_start))) ''e1'' = 1"
proof -
  obtain v where "handle demo_wc demo_io demo_event demo_start = (Inr v, demo_done)"
    using demo_done by blast
  then have "fst (attempts (handle demo_wc) [(demo_io, demo_event), (demo_io, demo_event)] demo_start) ! 0 = Inr v"
    by (simp add: split_def Let_def)
  from run_written_once[OF _ _ this] show ?thesis using demo_wk_ok by simp
qed

text \<open>
  C4. A run that is concluded stays as it is: a redelivered message answers or fails, but
  leaves the database and the audit file byte for byte unchanged.
\<close>

theorem redelivery_inert:
  assumes "wk_ok (ws_db st)" and "run_concluded (ws_db st) (ev_id event)"
  shows "snd (handle wc io event st) = st"
  using assms by (rule handle_concluded)

theorem redelivery_inert_witness:
  "run_concluded (ws_db demo_done) ''e1'' \<and> snd (handle demo_wc demo_io demo_event demo_done) = demo_done"
proof -
  obtain v where "handle demo_wc demo_io demo_event demo_start = (Inr v, demo_done)"
    using demo_done by blast
  then have "run_concluded (ws_db demo_done) (ev_id demo_event)"
    by (rule handle_success[rotated]) (simp add: demo_wk_ok)
  then show ?thesis using redelivery_inert[OF demo_done_ok, of demo_event] by simp
qed

text \<open>
  C5. When the database and the audit file take the writes, an attempt answers with the
  triage's verdict, the run is concluded and its ticket is written: the worker makes
  progress, it does not only refrain from harm.
\<close>

theorem attempt_completes:
  assumes "wk_ok (ws_db st)" and "attempt_up io (ws_db st)"
  shows "\<exists>v st'. handle wc io event st = (Inr v, st') \<and> run_concluded (ws_db st') (ev_id event)
           \<and> run_writes (ws_db st') (ev_id event) = 1"
proof -
  obtain v st' where h: "handle wc io event st = (Inr v, st')" using handle_up[OF assms] by blast
  have ok: "wk_ok (ws_db st')" using handle_wk_ok[OF assms(1), of wc io event] h by simp
  have c: "run_concluded (ws_db st') (ev_id event)" by (rule handle_success[OF assms(1) h])
  then have "1 \<le> run_writes (ws_db st') (ev_id event)"
    using concluded_has_action[of "ws_db st'"] ok run_writes_pos by (simp add: wk_ok_def)
  then show ?thesis using h c wk_writes_le_1[OF ok, of "ev_id event"] by (auto intro: le_antisym)
qed

theorem attempt_completes_witness:
  "attempt_up demo_io demo_db
   \<and> (\<exists>v st'. handle demo_wc demo_io demo_event demo_start = (Inr v, st') \<and> run_writes (ws_db st') ''e1'' = 1)"
  using attempt_completes[of demo_start demo_io demo_wc demo_event] demo_wk_ok demo_attempt_up by auto

text \<open>
  C6. A message is acknowledged only when it can never be processed (it carries no event, or
  one that does not validate, and then nothing changes) or when its run is concluded.
\<close>

theorem acknowledged_only_when_done:
  assumes "wk_ok (ws_db st)" and "process_message wc io xack m st = (Inr Acknowledged, st')"
  shows "(raw_event m = None \<and> st' = st)
         \<or> (\<exists>raw e. raw_event m = Some raw \<and> cd_load (wc_codec wc) raw = Inl e \<and> st' = st)
         \<or> (\<exists>raw event. raw_event m = Some raw \<and> cd_load (wc_codec wc) raw = Inr event
              \<and> run_concluded (ws_db st') (ev_id event))"
  using assms by (rule process_acknowledged)

theorem acknowledged_only_when_done_witness:
  "process_message demo_wc demo_io None demo_message demo_start = (Inr Acknowledged, demo_done)
   \<and> run_concluded (ws_db demo_done) ''e1''"
proof -
  note msg = raw_event_def demo_message_def demo_wc_def demo_codec_def
  obtain v where "handle demo_wc demo_io demo_event demo_start = (Inr v, demo_done)"
    using demo_done by blast
  then have p: "process_message demo_wc demo_io None demo_message demo_start = (Inr Acknowledged, demo_done)"
    by (simp add: process_message_def msg)
  have "wk_ok (ws_db demo_start)" using demo_wk_ok by simp
  from acknowledged_only_when_done[OF this p] p show ?thesis by (simp add: msg)
qed

text \<open>
  C7. The byte range a concluded run stores holds exactly the three audit lines of its
  attempt: what came in, what was concluded, what was done. Later lines do not disturb it.
\<close>

theorem audit_range_exact:
  assumes "wk_ok (ws_db st)" and "handle wc io event st = (Inr v, st')"
    and "\<not> run_concluded (ws_db st) (ev_id event)"
  shows "\<exists>r outcome off. r \<in> set (runs (ws_db st')) \<and> rr_run_id r = ev_id event
           \<and> rr_audit_log_file r = rc_name (ws_rec st') \<and> rr_audit_end_offset r = Some off
           \<and> (\<forall>more. file_slice (rc_file (ws_rec st') @ more) (rr_audit_start_offset r) off
                = attempt_lines wc io event (last_seq (ws_rec st) (ev_id event)) outcome)"
proof -
  let ?stop = "int (length (rc_file (ws_rec st')))"
  obtain r outcome where "r \<in> set (runs (ws_db st'))" "rr_run_id r = ev_id event"
      "rr_audit_log_file r = rc_name (ws_rec st')" "rr_audit_end_offset r = Some ?stop"
      "file_slice (rc_file (ws_rec st')) (rr_audit_start_offset r) ?stop
         = attempt_lines wc io event (last_seq (ws_rec st) (ev_id event)) outcome"
    using handle_audit_range[OF assms] by blast
  then show ?thesis
    by (intro exI[of _ r] exI[of _ outcome] exI[of _ ?stop]) (simp add: file_slice_grows)
qed

theorem audit_range_exact_witness:
  "\<exists>r off outcome. r \<in> set (runs (ws_db demo_done)) \<and> rr_audit_end_offset r = Some off
     \<and> file_slice (rc_file (ws_rec demo_done)) (rr_audit_start_offset r) off
         = attempt_lines demo_wc demo_io demo_event 0 outcome"
proof -
  obtain v where h: "handle demo_wc demo_io demo_event demo_start = (Inr v, demo_done)"
    using demo_done by blast
  have "wk_ok (ws_db demo_start)" "\<not> run_concluded (ws_db demo_start) (ev_id demo_event)"
    using demo_wk_ok demo_not_concluded by simp_all
  from audit_range_exact[OF this(1) h this(2)]
  obtain r outcome off where "r \<in> set (runs (ws_db demo_done))" "rr_audit_end_offset r = Some off"
    and sl: "\<And>more. file_slice (rc_file (ws_rec demo_done) @ more) (rr_audit_start_offset r) off
               = attempt_lines demo_wc demo_io demo_event 0 outcome"
    unfolding demo_start_simps by blast
  then show ?thesis using sl[of "[]"] by auto
qed

section \<open>One ticket per incident\<close>

text \<open>
  C8. Applying a conclusion either replays the recorded result of its run and writes
  nothing, or leaves exactly one open ticket of the fingerprint, the one it answers with,
  created exactly when none was open. Applying it again answers the same, marked as replayed.
\<close>

theorem apply_outcome:
  assumes "apply_action i now c s = Inr (outcome, s')" and "db_ok s"
  shows "(if out_replayed outcome then s' = s
          else \<exists>t. filter (open_ticket (con_fingerprint c)) (tickets s') = [t]
                 \<and> out_ticket_id outcome = tk_id t \<and> out_update_count outcome = tk_update_count t
                 \<and> out_created outcome = (filter (open_ticket (con_fingerprint c)) (tickets s) = []))
         \<and> apply_action i' now' c s' = Inr (outcome\<lparr>out_replayed := True\<rparr>, s')"
proof -
  have "s' = s" if "out_replayed outcome"
    using assms(1) that by (cases rule: apply_cases) (simp_all add: ticket_outcome_def)
  then show ?thesis using apply_one_open[OF assms] apply_again[OF assms] by auto
qed

theorem apply_outcome_witness:
  "\<exists>outcome s'. apply_action ''t1'' 5 (triage 3 demo_event (Some ''e1'')) demo_claimed = Inr (outcome, s')
     \<and> apply_action ''t2'' 6 (triage 3 demo_event (Some ''e1'')) s' = Inr (outcome\<lparr>out_replayed := True\<rparr>, s')"
proof -
  obtain outcome s' where a: "apply_action ''t1'' 5 (triage 3 demo_event (Some ''e1'')) demo_claimed = Inr (outcome, s')"
    using demo_apply by blast
  then show ?thesis using apply_outcome[OF a demo_claimed_ok, of "''t2''" 6] by blast
qed



section \<open>The dedupe window\<close>

text \<open>
  C10. On deliveries that arrive in order, admission and recovery implement the rule of the
  specification: any sequence of deliveries and recoveries that Postgres accepts gives the
  answers of the abstract windows, and the tables stand for the abstract windows after it.
\<close>

theorem dedupe_refines:
  assumes "db_ok s" and "windows_spaced DEDUPE_WINDOW (events s)"
    and "ops_in_order DEDUPE_WINDOW ops (table_windows (events s))"
    and "pg_run dump ops s = Inr (as, s')"
  shows "(as, table_windows (events s')) = spec_run DEDUPE_WINDOW ops (table_windows (events s))
         \<and> db_ok s' \<and> windows_spaced DEDUPE_WINDOW (events s')"
  using pg.run_refines[of s ops dump as s'] assms by simp

theorem dedupe_refines_witness:
  "\<exists>as s'. pg_run (cd_dump demo_codec) demo_ops demo_db = Inr (as, s')
     \<and> (as, table_windows (events s')) = spec_run DEDUPE_WINDOW demo_ops (table_windows (events demo_db))"
proof -
  obtain as s' where "pg_run (cd_dump demo_codec) demo_ops demo_db = Inr (as, s')"
    using demo_ops_run by blast
  then show ?thesis
    using dedupe_refines[OF demo_db_ok _ demo_ops_in_order] demo_world_ok
    by (auto simp: world_ok_def demo_world_def)
qed

text \<open>
  C11. A storm is one incident: any number of deliveries of a fingerprint inside the fifteen
  minutes of its open row all join that row, insert nothing, and leave its counter raised
  by exactly their number.
\<close>

theorem storm_counted:
  assumes "db_ok s" and "filter (open_event fp) (events s) = [r]"
    and "\<forall>e \<in> set es. ev_fingerprint e = fp \<and> arrival e < er_received_at r + DEDUPE_WINDOW"
    and "er_dedupe_count r + int (length es) \<le> pg_int_max"
  shows "\<exists>as s'. pg_run dump (map Deliver es) s = Inr (as, s')
           \<and> map adm_event_id as = replicate (length es) (er_id r) \<and> list_all adm_is_duplicate as
           \<and> length (events s') = length (events s)
           \<and> filter (open_event fp) (events s')
               = [r\<lparr>er_dedupe_count := er_dedupe_count r + int (length es)\<rparr>]"
  using assms by (rule storm_joins)

theorem storm_counted_witness:
  "\<exists>as s'. pg_run (cd_dump demo_codec) (map Deliver [demo_again, demo_again, demo_again]) demo_db = Inr (as, s')
     \<and> map adm_event_id as = [''e1'', ''e1'', ''e1'']
     \<and> map er_dedupe_count (filter (open_event demo_fp) (events s')) = [4]"
proof -
  let ?r = "new_event_row (cd_dump demo_codec) demo_event"
  have "filter (open_event demo_fp) (events demo_db) = [?r]" by (simp add: demo_db_def)
  moreover have "arrival demo_again < er_received_at ?r + DEDUPE_WINDOW"
    by (simp add: arrival_def demo_again_def demo_event_def DEDUPE_WINDOW_def)
  ultimately show ?thesis
    using storm_counted[OF demo_db_ok, of demo_fp ?r "[demo_again, demo_again, demo_again]" "cd_dump demo_codec"]
    by (auto simp: pg_int_max_def numeral_3_eq_3)
qed



section \<open>The outbox\<close>

text \<open>
  C13. In every reachable state a delivery receipt is truthful: for each event row that holds a
  message id, Redis acknowledged an \<^verbatim>\<open>XADD\<close> with that id on the stream, carrying the
  serialized event of exactly that row.
\<close>

theorem receipts_truthful:
  assumes "reachable cfg stamp pid sy" and "r \<in> set (events (w_db (sy_world sy)))"
    and "er_queue_message_id r = Some m"
  shows "\<exists>c p ev. c \<in> set (w_xadds (sy_world sy)) \<and> xa_id c = m \<and> xa_stream c = STREAM
           \<and> er_payload r = Some p \<and> cd_load (wc_codec (sc_codec cfg)) p = Inr ev
           \<and> xa_fields c = [(''event'', cd_dump (wc_codec (sc_codec cfg)) ev)]"
proof -
  have "receipts_backed (wc_codec (sc_codec cfg)) (sy_world sy)"
    using reachable_ok[OF assms(1)] by (simp add: sys_ok_def world_ok_def)
  then obtain c where "c \<in> set (w_xadds (sy_world sy))" "call_for (wc_codec (sc_codec cfg)) r m c"
    using assms(2,3) by (force simp: receipts_backed_def list_all_iff list_ex_iff)
  then show ?thesis by (auto simp: call_for_def split: option.splits sum.splits)
qed

theorem receipts_truthful_witness:
  "\<exists>c. c \<in> set (w_xadds (sy_world demo_posted)) \<and> xa_id c = ''1-0'' \<and> xa_stream c = STREAM"
  using demo_posted_receipt receipts_truthful[OF demo_posted_reachable] by blast



text \<open>
  C15. Redis being down never loses an accepted alert: the handler still answers 202, the
  admitted row is committed, and a new row stays pending for the outbox to publish.
\<close>

theorem admitted_despite_redis:
  assumes "verify_shared_token (rq_headers rq) secret = Inr True"
    and "datadog_event env rq = Inr (payload, event)" and "\<not> is_recovery (payload_obj payload)"
    and "en_admit_tx env 0 = TxOk" and "en_dispatch env 0 = RedisDown e"
    and "admit (cd_dump (en_codec env)) DEDUPE_WINDOW event (w_db w) = Inr (a, s)"
  shows "http_status (datadog_webhook env secret rq w) = 202
         \<and> snd (datadog_webhook env secret rq w) = w\<lparr>w_db := s\<rparr>
         \<and> (if adm_is_duplicate a then length (events s) = length (events (w_db w))
            else \<exists>r \<in> set (events s). er_id r = ev_id event \<and> pending_row r)"
proof -
  obtain m where "admit_and_publish_one (en_codec env) TxOk (RedisDown e) event w
      = (Inr (admission_result event a m), w\<lparr>w_db := s\<rparr>)"
    using admit_and_publish_one_ok[OF assms(6), of "RedisDown e"] dispatch_redis_down by metis
  then have "datadog_webhook env secret rq w
      = (if result_status (admission_result event a m) = JStr ''duplicate''
         then (Inr (202, admission_result event a m), w\<lparr>w_db := s\<rparr>)
         else (Inr (202, admission_result event a m @ [(''entities'',
                JList (map entity_text (ev_entities event)))]), w\<lparr>w_db := s\<rparr>))"
    using assms(1-5) by (simp add: datadog_webhook_def)
  moreover have "if adm_is_duplicate a then length (events s) = length (events (w_db w))
            else \<exists>r \<in> set (events s). er_id r = ev_id event \<and> pending_row r"
    using assms(6) by (cases rule: admit_cases) (simp_all add: pending_row_def)
  ultimately show ?thesis by (simp add: http_status_def)
qed

theorem admitted_despite_redis_witness:
  "\<exists>r. r \<in> set (events (w_db (snd (datadog_webhook demo_env_down ''s'' demo_rq demo_empty))))
       \<and> er_id r = ''e1'' \<and> pending_row r"
proof -
  obtain ev where ev: "datadog_event demo_env_down demo_rq = Inr (JObj demo_payload, ev)" "ev_id ev = ''e1''"
      "\<not> is_recovery demo_payload"
    using demo_datadog_event by (auto simp: demo_env_down_def datadog_event_def)
  have "admit (cd_dump (en_codec demo_env_down)) DEDUPE_WINDOW ev (w_db demo_empty)
      = Inr (fresh_admission ev, empty_db\<lparr>events := [new_event_row (cd_dump demo_codec) ev]\<rparr>)"
    using demo_admitted[OF ev(2)] by (simp add: demo_env_down_def demo_env_def demo_empty_def)
  from admitted_despite_redis[OF demo_verified ev(1) _ _ _ this, of "RedisError ''refused''"] ev(2,3)
  show ?thesis by (auto simp: demo_env_down_def demo_env_def demo_empty_def fresh_admission_def)
qed

section \<open>The webhooks\<close>

text \<open>
  C16. A verified delivery is always answered 202, whatever Redis does, when the database
  answers, the identifiers are new and a counter has room: for Datadog when the body
  raises nothing but what quarantine takes, and for PagerDuty, Grafana, Alertmanager and
  generic deliveries of up to \<open>n\<close> alerts, firing and resolved mixed, for every body that
  decodes.
\<close>

theorem deliveries_answer_202:
  "(verify_shared_token (rq_headers rq) secret = Inr True \<longrightarrow> env_up 1 env (w_db w)
      \<longrightarrow> quarantinable (datadog_event env rq)
      \<longrightarrow> http_status (datadog_webhook env secret rq w) = 202)
   \<and> (hook_verify h secrets allow rq = Inr True \<longrightarrow> env_up n env (w_db w)
      \<longrightarrow> quarantinable (en_json env (rq_body rq))
      \<longrightarrow> (\<forall>fired resolved. hook_events env h rq = Inr (fired, resolved) \<longrightarrow> length fired \<le> n)
      \<longrightarrow> http_status (handler env secrets allow h rq w) = 202)"
  using datadog_202 handler_202 by blast

theorem deliveries_answer_202_witness:
  "http_status (datadog_webhook demo_env ''s'' demo_rq demo_empty) = 202
   \<and> http_status (handler demo_env [] [IPv4Network 0x0A000000 8] Alertmanager demo_peer demo_empty) = 202"
proof -
  have q: "quarantinable (datadog_event demo_env demo_rq)"
    using demo_datadog_event by (auto simp: quarantinable_def)
  have up: "env_up 1 demo_env (w_db demo_empty)" "env_up 0 demo_env (w_db demo_empty)"
    by (simp_all add: demo_empty_def demo_env_up pg_int_max_def)
  have json: "quarantinable (en_json demo_env (rq_body demo_peer))"
    by (simp add: demo_env_def quarantinable_def)
  have none: "\<forall>fired resolved. hook_events demo_env Alertmanager demo_peer = Inr (fired, resolved)
      \<longrightarrow> length fired \<le> 0"
    by (simp add: hook_events_def demo_env_def demo_payload_def label_batch_def)
  show ?thesis
    using deliveries_answer_202[of demo_rq "''s''" demo_env demo_empty] demo_verified up(1) q
      deliveries_answer_202[of demo_peer _ demo_env demo_empty Alertmanager "[]" "[IPv4Network 0x0A000000 8]" 0]
      demo_peer_verified up(2) json none
    by blast
qed



text \<open>
  C18. A delivery that does not verify is inert on every route: nothing is stored, closed or
  published, and the answer is 401, or 500 when the comparison itself raises.
\<close>

theorem unverified_inert:
  "(verify_shared_token (rq_headers rq) secret \<noteq> Inr True \<longrightarrow>
      snd (datadog_webhook env secret rq w) = w
      \<and> http_status (datadog_webhook env secret rq w)
          = (if isl (verify_shared_token (rq_headers rq) secret) then 500 else 401))
   \<and> (hook_verify h secrets allow rq \<noteq> Inr True \<longrightarrow>
      snd (handler env secrets allow h rq w) = w
      \<and> http_status (handler env secrets allow h rq w)
          = (if isl (hook_verify h secrets allow rq) then 500 else 401))"
  by (auto simp: datadog_webhook_def handler_def unverified_def http_status_def
      split: sum.splits bool.splits)

theorem unverified_inert_witness:
  "snd (datadog_webhook demo_env ''other'' demo_rq demo_empty) = demo_empty
   \<and> http_status (handler demo_env [] [] Generic demo_rq demo_empty) = 401"
proof -
  have "verify_shared_token (rq_headers demo_rq) ''other'' \<noteq> Inr True"
    by (simp add: verify_shared_token_iff demo_rq_def)
  moreover have v: "hook_verify Generic [] [] demo_rq = Inr False"
    by (simp add: hook_verify_def dict_get_def verify_fails_closed)
  ultimately show ?thesis
    using unverified_inert[of demo_rq "''other''" demo_env demo_empty Generic "[]" "[]"] by simp
qed

section \<open>Who may deliver\<close>

text \<open>
  C19. The signature checks accept exactly the HMAC-SHA256 of the raw body under the configured
  secret: the generic webhook the one header that carries it, and nothing when no secret is
  set; PagerDuty, whose header lists signatures while secrets rotate, an ASCII header of
  which one listed \<^verbatim>\<open>v1=\<close> part is it.
\<close>

theorem signatures_exact:
  "(verify_hmac_signature body hs secret = Inr True \<longleftrightarrow>
      secret \<noteq> [] \<and> header hs GENERIC_SIGNATURE_HEADER
        = Some (SIGNATURE_PREFIX @ hmac_sha256_hexdigest (utf8 secret) body))
   \<and> (secret \<noteq> [] \<and> header hs PAGERDUTY_SIGNATURE_HEADER = Some presented \<and> list_all is_ascii presented
      \<longrightarrow> verify_pagerduty_signature body hs secret =
            Inr (\<exists>part \<in> set (py_split (CHR '','') presented).
                   py_strip part = ''v1='' @ hmac_sha256_hexdigest (utf8 secret) body))"
  using verify_hmac_signature_iff verify_pagerduty_ascii by blast

theorem signatures_exact_witness:
  "verify_pagerduty_signature [1, 2] [(''x-pagerduty-signature'', ''v0=aa'')] ''k'' = Inr False"
proof -
  have "header [(''x-pagerduty-signature'', ''v0=aa'')] PAGERDUTY_SIGNATURE_HEADER = Some ''v0=aa''"
    by code_simp
  moreover have "list_all is_ascii ''v0=aa''" by code_simp
  moreover have "py_strip ''v0=aa'' = ''v0=aa''" by code_simp
  ultimately show ?thesis
    using signatures_exact[of "[1, 2]" "[(''x-pagerduty-signature'', ''v0=aa'')]" "''k''" "''v0=aa''"] by simp
qed

text \<open>
  C20. An Alertmanager delivery is accepted exactly when the peer's address has the leading bits
  of some allowed network: membership compares the \<open>p\<close> high bits and nothing else, for
  every prefix length, and an unparseable peer matches nothing.
\<close>

theorem source_ip_prefix:
  assumes "\<forall>(n, p) \<in> set nets. (n AND net_mask 32 p) = n"
  shows "verify_source_ip (Some host) (map (\<lambda>(n, p). IPv4Network n p) nets) \<longleftrightarrow>
           host \<noteq> [] \<and> (\<exists>a n p. ip_address host = Some (IPv4 a) \<and> (n, p) \<in> set nets
             \<and> (\<forall>i. 32 - p \<le> i \<and> i < 32 \<longrightarrow> bit a i = bit n i))"
proof -
  have net: "in_network peer (IPv4Network n p) \<longleftrightarrow>
      (\<exists>a. peer = IPv4 a \<and> (\<forall>i. 32 - p \<le> i \<and> i < 32 \<longrightarrow> bit a i = bit n i))"
    if "(n, p) \<in> set nets" for peer n p
  proof (cases peer)
    case (IPv4 a)
    then show ?thesis using in_network_v4[of n p a] assms that by (auto simp del: in_network.simps)
  qed simp
  have "(\<exists>x \<in> set nets. in_network peer (case x of (n, p) \<Rightarrow> IPv4Network n p)) \<longleftrightarrow>
      (\<exists>a n p. peer = IPv4 a \<and> (n, p) \<in> set nets \<and> (\<forall>i. 32 - p \<le> i \<and> i < 32 \<longrightarrow> bit a i = bit n i))" for peer
    using net by (auto simp: Bex_def simp del: in_network.simps split: prod.splits) blast+
  then show ?thesis by (simp add: verify_source_ip_iff del: in_network.simps) blast
qed

theorem source_ip_prefix_witness:
  "verify_source_ip (Some ''10.1.2.3'') (map (\<lambda>(n, p). IPv4Network n p) [(0x0A000000, 8)]) \<longleftrightarrow>
     (\<exists>a. ip_address ''10.1.2.3'' = Some (IPv4 a)
        \<and> (\<forall>i. 24 \<le> i \<and> i < 32 \<longrightarrow> bit a i = bit (0x0A000000 :: 32 word) i))"
proof -
  have "((0x0A000000 :: 32 word) AND net_mask 32 8) = 0x0A000000" by code_simp
  then show ?thesis using source_ip_prefix[of "[(0x0A000000, 8)]" "''10.1.2.3''"] by auto
qed

text \<open>
  C21. Deployed through \<^verbatim>\<open>app_from_env\<close>, a source whose secret (or allowlist) is unset or
  empty is closed: every delivery is answered 401 and changes nothing.
\<close>

theorem unset_secret_rejects:
  "(\<not> hook_configured cfg h \<longrightarrow>
      handler env (sc_secrets (app_from_env wc cfg)) (sc_allowlist (app_from_env wc cfg)) h rq w
        = (unverified, w))
   \<and> (reveal (wh_datadog cfg) = [] \<longrightarrow>
      datadog_webhook env (sc_datadog_secret (app_from_env wc cfg)) rq w = (unverified, w))"
  using hook_unconfigured[of cfg h wc rq]
  by (simp add: handler_def datadog_webhook_def app_from_env_def verify_fails_closed)

theorem unset_secret_rejects_witness:
  "handler demo_env (sc_secrets (app_from_env demo_wc demo_unset)) (sc_allowlist (app_from_env demo_wc demo_unset))
     Grafana demo_rq demo_empty = (unverified, demo_empty)
   \<and> datadog_webhook demo_env (sc_datadog_secret (app_from_env demo_wc demo_unset)) demo_rq demo_empty
       = (unverified, demo_empty)"
  using unset_secret_rejects[of demo_unset Grafana demo_env demo_wc demo_rq demo_empty]
  by (simp add: demo_unset_def hook_configured_def reveal_def)

section \<open>Identity\<close>

text \<open>
  C22. What a fingerprint hashes distinguishes incidents exactly: two identities give the same
  bytes only if source, key and the collection of entities agree, and the order of the
  entities never matters.
\<close>

theorem fingerprint_identity:
  "(utf8 (canonical_identity s k es) = utf8 (canonical_identity s' k' es')
      \<longleftrightarrow> s = s' \<and> k = k' \<and> mset es = mset es')
   \<and> event_fingerprint s k (sort es) = event_fingerprint s k es"
  using event_fingerprint_mset[of "sort es" es s k] by (simp add: utf8_inj canonical_identity_inj)



text \<open>
  C24. The Datadog normalizer raises for exactly three reasons: the body is no object, it names
  no monitor, or its date cannot be represented; never because the event it built is invalid.
  The last reason is one too many: a date far enough in the future makes the conversion raise
  \<open>OSError\<close>, which the handler does not catch, and a verified, well-formed alert is answered
  500 with nothing stored.
\<close>

theorem datadog_failures:
  "(normalize p received_at uid = Inl e \<longleftrightarrow>
     (case p of
        JObj payload \<Rightarrow>
          if dd_text payload ''alert_id'' = []
          then e = UnparseablePayload ''alert_id is required: it is the monitor identity''
          else occurred_at_of payload received_at = Inl e
      | _ \<Rightarrow> e = UnparseablePayload ''body is not a JSON object''))
   \<and> (verify_shared_token (rq_headers rq) secret = Inr True
       \<longrightarrow> en_json env (rq_body rq) = Inr (JObj q) \<longrightarrow> dd_text q ''alert_id'' \<noteq> []
       \<longrightarrow> py_get q ''date'' = JInt 100000000000000000000
       \<longrightarrow> http_status (datadog_webhook env secret rq w) = 500 \<and> snd (datadog_webhook env secret rq w) = w)"
  using normalize_Inl far_date_500 by blast

theorem datadog_failures_witness:
  "http_status (datadog_webhook
     (demo_env\<lparr>en_json := (\<lambda>_. Inr (JObj [(''alert_id'', JStr ''42''), (''date'', JInt 100000000000000000000)]))\<rparr>)
     ''s'' demo_rq demo_empty) = 500"
proof -
  let ?p = "[(''alert_id'', JStr ''42''), (''date'', JInt 100000000000000000000)]"
  have "dd_text ?p ''alert_id'' \<noteq> []" by (simp add: dd_text_def py_strip_def) code_simp
  then show ?thesis
    using datadog_failures[of _ _ _ _ demo_rq "''s''" "demo_env\<lparr>en_json := (\<lambda>_. Inr (JObj ?p))\<rparr>" ?p demo_empty]
      demo_verified by simp
qed

text \<open>
  C25. The identity of a Datadog incident is the monitor and the set of its identity tags:
  two payloads that agree on them get one fingerprint, however tags are ordered, repeated,
  spaced or capitalized and whatever else the payloads say.
\<close>

theorem datadog_identity:
  assumes "normalize (JObj p) rc uid = Inr e" and "normalize (JObj p') rc' uid' = Inr e'"
    and "dd_text p ''alert_id'' = dd_text p' ''alert_id''"
    and "set (List.map_filter tag_pair (parse_tags (py_get p ''tags'')))
           = set (List.map_filter tag_pair (parse_tags (py_get p' ''tags'')))"
  shows "ev_fingerprint e = ev_fingerprint e'"
  using sort_remdups_set_eq[OF assms(4)] assms(3)
  by (simp add: normalize_fingerprint[OF assms(1)] normalize_fingerprint[OF assms(2)])

theorem datadog_identity_witness:
  "\<exists>e e'. normalize (JObj demo_payload) (utc 1000) ''e1'' = Inr e
     \<and> normalize (JObj demo_payload_2) (utc 2000) ''e2'' = Inr e' \<and> ev_fingerprint e = ev_fingerprint e'"
proof -
  obtain e e' where "normalize (JObj demo_payload) (utc 1000) ''e1'' = Inr e"
      "normalize (JObj demo_payload_2) (utc 2000) ''e2'' = Inr e'"
    using demo_normalize demo_normalize_2 by blast
  then show ?thesis using datadog_identity[of demo_payload _ _ e demo_payload_2 _ _ e'] demo_same_tags
    by (simp add: demo_alert_id demo_alert_id_2 del: normalize.simps)
qed

text \<open>
  C26. A resolution finds its incident and closes it. PagerDuty's resolution carries the
  fingerprint of its trigger whenever the two messages agree on the dedup key and the
  service, although PagerDuty mints a new incident id and the messages differ in everything
  else; and after a verified delivery that only resolves, on every route, no event of a
  resolved fingerprint has an open window.
\<close>

theorem resolution_recovers:
  "(normalize_pagerduty isoparse uids (JObj p) rc = Inr [a] \<longrightarrow> resolved_pagerduty isoparse uids' (JObj p') rc' = Inr [b]
      \<longrightarrow> pagerduty_key (pagerduty_data p) = pagerduty_key (pagerduty_data p')
      \<longrightarrow> pagerduty_entities (pagerduty_data p) = pagerduty_entities (pagerduty_data p')
      \<longrightarrow> ev_fingerprint a = ev_fingerprint b)
   \<and> (hook_verify h secrets allow rq = Inr True \<longrightarrow> hook_events env h rq = Inr ([], resolved)
      \<longrightarrow> (\<forall>k. en_close_tx env k = TxOk)
      \<longrightarrow> list_all (\<lambda>e. filter (open_event (ev_fingerprint e))
            (events (w_db (snd (handler env secrets allow h rq w)))) = []) resolved)"
proof (intro conjI impI)
  assume "normalize_pagerduty isoparse uids (JObj p) rc = Inr [a]" "resolved_pagerduty isoparse uids' (JObj p') rc' = Inr [b]"
  then have "pagerduty_event isoparse p rc (uids 0) = Inr a" "pagerduty_event isoparse p' rc' (uids' 0) = Inr b"
    by (auto split: if_splits)
  moreover assume "pagerduty_key (pagerduty_data p) = pagerduty_key (pagerduty_data p')"
    "pagerduty_entities (pagerduty_data p) = pagerduty_entities (pagerduty_data p')"
  ultimately show "ev_fingerprint a = ev_fingerprint b"
    using pagerduty_event_Inr AgentEvent_valid_fingerprint by metis
next
  assume h: "hook_verify h secrets allow rq = Inr True" "hook_events env h rq = Inr ([], resolved)"
    and up: "\<forall>k. en_close_tx env k = TxOk"
  obtain m w' where c: "close_windows (en_close_tx env) (dt_utc (en_received_at env)) resolved 0 w = (Inr m, w')"
    using close_windows_up[OF up] by blast
  then have "snd (handler env secrets allow h rq w) = w'" using h by (simp add: handler_def)
  then show "list_all (\<lambda>e. filter (open_event (ev_fingerprint e))
      (events (w_db (snd (handler env secrets allow h rq w)))) = []) resolved"
    using close_windows_closed[OF up, of _ resolved "dt_utc (en_received_at env)" 0 w] c
    by (simp add: list_all_iff)
qed

theorem resolution_recovers_witness:
  "(\<exists>a b. normalize_pagerduty (\<lambda>_. None) (\<lambda>_. ''u'') (JObj (demo_pd ''incident.triggered'')) (utc 1) = Inr [a]
      \<and> resolved_pagerduty (\<lambda>_. None) (\<lambda>_. ''v'') (JObj (demo_pd ''incident.resolved'')) (utc 2) = Inr [b]
      \<and> ev_fingerprint a = ev_fingerprint b)
   \<and> (\<exists>e. hook_events demo_resolve_env Alertmanager demo_peer = Inr ([], [e])
      \<and> filter (open_event (ev_fingerprint e)) (events (w_db (snd
          (handler demo_resolve_env [] [IPv4Network 0x0A000000 8] Alertmanager demo_peer demo_world)))) = [])"
proof (rule conjI)
  obtain a b where ev: "normalize_pagerduty (\<lambda>_. None) (\<lambda>_. ''u'') (JObj (demo_pd ''incident.triggered'')) (utc 1) = Inr [a]"
      "resolved_pagerduty (\<lambda>_. None) (\<lambda>_. ''v'') (JObj (demo_pd ''incident.resolved'')) (utc 2) = Inr [b]"
    using demo_pd_trigger demo_pd_resolve by blast
  then have "ev_fingerprint a = ev_fingerprint b"
    by (rule resolution_recovers[THEN conjunct1, rule_format]) (simp_all add: demo_pd_data)
  with ev show "\<exists>a b. normalize_pagerduty (\<lambda>_. None) (\<lambda>_. ''u'') (JObj (demo_pd ''incident.triggered'')) (utc 1) = Inr [a]
      \<and> resolved_pagerduty (\<lambda>_. None) (\<lambda>_. ''v'') (JObj (demo_pd ''incident.resolved'')) (utc 2) = Inr [b]
      \<and> ev_fingerprint a = ev_fingerprint b" by blast
next
  obtain e where e: "hook_events demo_resolve_env Alertmanager demo_peer = Inr ([], [e])"
    using demo_resolve_events by blast
  have "list_all (\<lambda>e. filter (open_event (ev_fingerprint e)) (events (w_db (snd
      (handler demo_resolve_env [] [IPv4Network 0x0A000000 8] Alertmanager demo_peer demo_world)))) = []) [e]"
    by (rule resolution_recovers[THEN conjunct2, rule_format, OF demo_peer_verified e])
      (simp add: demo_resolve_env_def demo_env_def)
  with e show "\<exists>e. hook_events demo_resolve_env Alertmanager demo_peer = Inr ([], [e])
      \<and> filter (open_event (ev_fingerprint e)) (events (w_db (snd
          (handler demo_resolve_env [] [IPv4Network 0x0A000000 8] Alertmanager demo_peer demo_world)))) = []" by simp
qed

section \<open>Audit, triage, operation\<close>

text \<open>
  C27. Reading a run back gives exactly the objects that were recorded for it, in order, numbered
  one, two, three without gaps, whatever other runs were recorded in between. The file is
  decoded as UTF-8, split into lines and given to \<^verbatim>\<open>json.loads\<close>; of the serializer it is
  assumed that it writes the compact JSON of an object that holds the run id.
\<close>

theorem recorder_roundtrip:
  assumes "list_all (line_reads flt dump obj) (numbered (new_recorder stamp pid) es dump)"
  shows "read_run flt run (append_all dump es (new_recorder stamp pid))
           = Inr (map (of_obj \<circ> obj)
               (filter (\<lambda>e. aud_run_id e = run) (numbered (new_recorder stamp pid) es dump)))
         \<and> map aud_seq (filter (\<lambda>e. aud_run_id e = run) (numbered (new_recorder stamp pid) es dump))
             = [1 .. int (length (filter (\<lambda>e. aud_run_id e = run) es))]"
  using read_run_events[OF assms, of "append_all dump es (new_recorder stamp pid)" run]
    numbered_seq[of run "new_recorder stamp pid" es dump]
  by (simp add: append_all_file)

theorem recorder_roundtrip_witness:
  "read_run id ''r'' (append_all demo_audit_dump
       [demo_audit ''r'' demo_actor, demo_audit ''q'' ''y'', demo_audit ''r'' ''z''] (new_recorder ''t'' 1))
   = Inr (map (of_obj \<circ> demo_audit_obj)
       [demo_audit ''r'' demo_actor, (demo_audit ''r'' ''z'')\<lparr>aud_seq := 2\<rparr>])"
proof -
  let ?es = "[demo_audit ''r'' demo_actor, demo_audit ''q'' ''y'', demo_audit ''r'' ''z'']"
  have n: "numbered (new_recorder ''t'' 1) ?es demo_audit_dump
      = [demo_audit ''r'' demo_actor, demo_audit ''q'' ''y'', (demo_audit ''r'' ''z'')\<lparr>aud_seq := 2\<rparr>]"
    by (simp add: demo_audit_def audit_event_def append_seq)
  have "line_reads id demo_audit_dump demo_audit_obj ((demo_audit run actor)\<lparr>aud_seq := k\<rparr>)" if "k \<in> {1, 2}" for run actor k
    using demo_line_reads[OF that] .
  then have "list_all (line_reads id demo_audit_dump demo_audit_obj) (numbered (new_recorder ''t'' 1) ?es demo_audit_dump)"
    unfolding n using demo_line_reads[of 1] demo_line_reads[of 2] by (simp add: demo_audit_def audit_event_def)
  from recorder_roundtrip[OF this, of "''r''"] show ?thesis
    unfolding n by (simp add: demo_audit_def audit_event_def)
qed

text \<open>
  C28. Triage never overclaims: of a valid event it draws a valid conclusion that is either
  \<open>inconclusive\<close> or, exactly for high and critical severity, \<open>needs_human\<close>; every
  finding cites evidence; and a replay differs only in run id and clock.
\<close>

theorem triage_sound:
  assumes "AgentEvent_valid event"
  shows "Conclusion_valid (triage ms event r)
         \<and> con_status (triage ms event r)
             = (if ev_severity event \<in> {CRITICAL, HIGH} then NEEDS_HUMAN else INCONCLUSIVE)
         \<and> list_all (\<lambda>f. fnd_evidence f \<noteq> []) (con_findings (triage ms event r))
         \<and> (triage ms event r)\<lparr>con_run_id := i, con_wall_ms := t\<rparr>
             = (triage ms' event r')\<lparr>con_run_id := i, con_wall_ms := t\<rparr>"
proof -
  have "list_all (\<lambda>f. fnd_evidence f \<noteq> []) (con_findings (triage ms event r))"
    using findings_have_evidence by (auto simp: list_all_iff triage_def Let_def)
  moreover have "con_status (triage ms event r)
      = (if ev_severity event \<in> {CRITICAL, HIGH} then NEEDS_HUMAN else INCONCLUSIVE)"
    using triage_needs_human[of ms event r] triage_status_cases[of ms event r] by auto
  ultimately show ?thesis using triage_valid[OF assms] triage_deterministic by blast
qed

theorem triage_sound_witness:
  "Conclusion_valid (triage 3 demo_event (Some ''e1'')) \<and> con_status (triage 3 demo_event (Some ''e1'')) = NEEDS_HUMAN"
  using triage_sound[OF demo_event_valid(1), of 3 "Some ''e1''"] by simp

text \<open>
  C29. The preflight command exits 0 for exactly the settings the process boots with: not
  \<open>prod\<close>, every port on its substitute, and the lab profile only locally. For any other
  settings it exits 1 and prints every problem the gates found. In particular no
  configuration of this build boots in \<open>prod\<close>.
\<close>

theorem preflight_exact:
  assumes "Settings_valid s"
  shows "check_config (load_settings (construct_settings s)) =
           (if st_env s \<noteq> ''prod'' \<and> st_ports s = default_ports
               \<and> (''lab'' \<in> set (st_compose_profiles s) \<longrightarrow> st_env s = ''local'')
            then Inr (0, ''configuration valid for SMOKEJUMPER_ENV='' @ st_env s)
            else Inr (1, ''configuration invalid: configuration is invalid:'' @ CHR 0x0A # ''  ''
                         @ py_join (CHR 0x0A # ''  '') (boot_problems s)))"
  using assms by (rule check_config_exact)

theorem preflight_exact_witness:
  "check_config (load_settings (construct_settings (demo_settings ''dev''))) = Inr (0, ''configuration valid for SMOKEJUMPER_ENV=dev'')
   \<and> (\<exists>msg. check_config (load_settings (construct_settings (demo_settings ''prod''))) = Inr (1, msg))"
  using preflight_exact[of "demo_settings ''dev''"] preflight_exact[of "demo_settings ''prod''"] demo_settings_valid
  by (simp add: demo_settings_def)

text \<open>
  C30. The health endpoint answers 200 exactly when Postgres answers, its schema is at this
  checkout's head, Redis answers, and both background tasks are running; 503 otherwise.
\<close>

theorem healthz_exact:
  "fst (healthz worker outbox rc p w)
     = (if pr_postgres p = Answers (Inr ()) \<and> pr_schema p = Answers (Inr (Some SCHEMA_HEAD))
           \<and> pr_redis p = Answers (Inr ()) \<and> worker = Some TaskRunning \<and> outbox = Some TaskRunning
        then 200 else 503)"
  using healthz_200[of worker outbox rc p w] healthz_cases[of worker outbox rc p w] by auto

text \<open>
  C31. The worker loop, over any turns it takes: it moves the process only along its step
  relation, so every invariant above holds throughout; failed reads, unreadable messages and
  failed attempts never end it; it dies only of \<^verbatim>\<open>XGROUP CREATE\<close> at the start or of an
  \<^verbatim>\<open>XACK\<close>, whose exception nothing handles, and is then reported by the health endpoint.
\<close>

theorem worker_life:
  assumes "reachable cfg stamp pid sy"
  shows "reachable cfg stamp pid (worker_put (snd (run_worker (sc_codec cfg) reply ts (worker_view sy))) sy)
         \<and> (ensure_group reply = Inr () \<longrightarrow> list_all (\<lambda>t. \<not> tn_stop t \<and> (\<forall>k. snd (tn_io t k) = None)) ts
             \<longrightarrow> fst (run_worker (sc_codec cfg) reply ts st) = TaskRunning)
         \<and> (fst (run_worker (sc_codec cfg) reply ts st) = TaskFailed e
             \<longrightarrow> (ensure_group reply = Inl e
                  \<or> (\<exists>t \<in> set ts. \<exists>ms. tn_batch t = Inr ms \<and> (\<exists>k < length ms. snd (tn_io t k) = Some e)))
                \<and> fst (healthz (Some (fst (run_worker (sc_codec cfg) reply ts st))) outbox rc p w) = 503)"
proof (intro conjI impI)
  show "reachable cfg stamp pid (worker_put (snd (run_worker (sc_codec cfg) reply ts (worker_view sy))) sy)"
    by (rule run_worker_reachable[OF assms])
next
  assume "ensure_group reply = Inr ()" "list_all (\<lambda>t. \<not> tn_stop t \<and> (\<forall>k. snd (tn_io t k) = None)) ts"
  then show "fst (run_worker (sc_codec cfg) reply ts st) = TaskRunning"
    by (intro run_worker_survives) (auto simp: list_all_iff)
next
  assume f: "fst (run_worker (sc_codec cfg) reply ts st) = TaskFailed e"
  show "ensure_group reply = Inl e
      \<or> (\<exists>t \<in> set ts. \<exists>ms. tn_batch t = Inr ms \<and> (\<exists>k < length ms. snd (tn_io t k) = Some e))"
    by (rule run_worker_fails[OF f])
  show "fst (healthz (Some (fst (run_worker (sc_codec cfg) reply ts st))) outbox rc p w) = 503"
    using f healthz_200 healthz_cases by (metis insertE option.inject singletonD task_state.distinct(5))
qed

theorem worker_life_witness:
  "reachable demo_cfg ''t'' 1 (worker_put (snd (run_worker demo_wc (Inr ()) demo_turns (worker_view demo_sys))) demo_sys)
   \<and> fst (run_worker demo_wc (Inr ()) (demo_turns @ demo_turns) demo_start) = TaskRunning
   \<and> fst (run_worker demo_wc (Inl (RedisError ''refused'')) [] demo_start) = TaskFailed (RedisError ''refused'')
   \<and> fst (healthz (Some (TaskFailed (RedisError ''refused''))) None demo_recorder demo_probes demo_world) = 503"
proof -
  have c: "sc_codec demo_cfg = demo_wc" by (simp add: demo_cfg_def)
  have ts: "list_all (\<lambda>t. \<not> tn_stop t \<and> (\<forall>k. snd (tn_io t k) = None)) (demo_turns @ demo_turns)"
    by (simp add: demo_turns_def)
  have d: "fst (run_worker demo_wc (Inl (RedisError ''refused'')) [] demo_start) = TaskFailed (RedisError ''refused'')"
    by (simp add: run_worker_def)
  show ?thesis
    using worker_life[OF demo_reachable, of "Inr ()" demo_turns]
      worker_life[OF demo_reachable, of "Inr ()" "demo_turns @ demo_turns" demo_start] ts
      worker_life[OF demo_reachable, of "Inl (RedisError ''refused'')" "[]" demo_start "RedisError ''refused''" None
        demo_recorder demo_probes demo_world] d
    unfolding c by simp
qed



text \<open>
  C33. From alert to answer: once an attempt at an event has answered, and while no later run of
  its fingerprint exists, \<^verbatim>\<open>GET /runs/{fingerprint}\<close> shows that run, concluded, with the
  conclusion triage drew and the ticket its ledger row names.
\<close>

theorem run_reported:
  assumes "wk_ok (ws_db st)" and "handle wc io event st = (Inr v, st')"
    and "\<not> run_concluded (ws_db st) (ev_id event)"
    and "\<And>q. q \<in> set (runs (ws_db st)) \<Longrightarrow> rr_run_id q = ev_id event
           \<Longrightarrow> rr_fingerprint q = ev_fingerprint event"
    and "\<And>q. q \<in> set (runs (ws_db st)) \<Longrightarrow> rr_fingerprint q = ev_fingerprint event
           \<Longrightarrow> rr_run_id q \<noteq> ev_id event \<Longrightarrow> rr_started_at q < hi_started io"
  shows "\<exists>r t a. run_for vc (ev_fingerprint event) (ws_db st') = (200, run_view vc r (Some t))
           \<and> rr_run_id r = ev_id event \<and> rr_status r = ''concluded''
           \<and> rr_conclusion r = Some (run_conclusion io event)
           \<and> a \<in> set (ticket_actions (ws_db st')) \<and> ta_run_id a = ev_id event
           \<and> t \<in> set (tickets (ws_db st')) \<and> tk_id t = ta_ticket_id a"
  using assms by (rule handle_reported)

theorem run_reported_witness:
  "\<exists>r t. run_for \<lparr>vc_float = (\<lambda>_. JFloat ''0.9''), vc_finding = (\<lambda>f. JStr (fnd_hypothesis f))\<rparr> demo_fp (ws_db demo_done)
           = (200, run_view \<lparr>vc_float = (\<lambda>_. JFloat ''0.9''), vc_finding = (\<lambda>f. JStr (fnd_hypothesis f))\<rparr> r (Some t))
         \<and> rr_status r = ''concluded''"
proof -
  obtain v where h: "handle demo_wc demo_io demo_event demo_start = (Inr v, demo_done)" using demo_done by blast
  have "runs (ws_db demo_start) = []" by (simp add: demo_db_def empty_db_def)
  from run_reported[OF _ h, of "\<lparr>vc_float = (\<lambda>_. JFloat ''0.9''), vc_finding = (\<lambda>f. JStr (fnd_hypothesis f))\<rparr>"] this
  show ?thesis using demo_wk_ok demo_not_concluded by (auto simp del: demo_start_simps(2))
qed



section \<open>Boundary text\<close>

text \<open>
  C35. A delivery survives its JSON form byte for byte, whatever its body holds: validating
  what was serialized gives the delivery back. Whatever else is validated keeps the
  contract, has only the model's fields, and its body was text of the base64 alphabet.
\<close>

theorem inbound_roundtrip:
  assumes "VerifiedInbound_valid v"
  shows "inbound_validate (inbound_json v) = Inr v
         \<and> (inbound_validate j = Inr v' \<longrightarrow> VerifiedInbound_valid v'
              \<and> (\<exists>kvs s. j = JObj kvs \<and> set (map fst kvs) \<subseteq> set inbound_fields
                   \<and> map_of kvs ''body'' = Some (JStr s) \<and> b64decode s = Inr (vin_body v')
                   \<and> set s \<subseteq> insert b64_pad (set b64_alphabet)))"
proof (intro conjI impI)
  show "inbound_validate (inbound_json v) = Inr v" using assms by (rule inbound_validate_json)
  assume "inbound_validate j = Inr v'"
  note read = inbound_validate_Inr[OF this]
  from read show "VerifiedInbound_valid v'" by blast
  from read b64decode_chars
  show "\<exists>kvs s. j = JObj kvs \<and> set (map fst kvs) \<subseteq> set inbound_fields
          \<and> map_of kvs ''body'' = Some (JStr s) \<and> b64decode s = Inr (vin_body v')
          \<and> set s \<subseteq> insert b64_pad (set b64_alphabet)"
    by blast
qed

theorem inbound_roundtrip_witness:
  "b64encode [123, 125, 0, 255] = ''e30A/w=='' \<and> b64decode ''e30A/w=='' = Inr [123, 125, 0, 255]
   \<and> inbound_validate (inbound_json \<lparr>schema_version = 1, vin_source = GRAFANA,
       vin_headers = [(''x-signature'', ''sha256='')], vin_body = [123, 125, 0, 255]\<rparr>)
     = Inr \<lparr>schema_version = 1, vin_source = GRAFANA,
         vin_headers = [(''x-signature'', ''sha256='')], vin_body = [123, 125, 0, 255]\<rparr>"
proof -
  have enc: "b64encode [123, 125, 0, 255] = ''e30A/w==''"
    by (simp add: b64_char_def b64_alphabet_def)
  moreover have "b64decode ''e30A/w=='' = Inr [123, 125, 0, 255]"
    using b64_roundtrip[of "[123, 125, 0, 255]"] by (simp only: enc)
  ultimately show ?thesis
    using inbound_roundtrip[of "\<lparr>schema_version = 1, vin_source = GRAFANA,
        vin_headers = [(''x-signature'', ''sha256='')], vin_body = [123, 125, 0, 255]\<rparr>"]
    by (simp add: VerifiedInbound_valid_def contract_ok_def)
qed

text \<open>
  C36. The documentation check exits 0 for exactly the repositories that keep the contract:
  README.md and SPEC.md can be read, the first has no forbidden token and no status phrase
  at any place, the second has every required heading, and each markdown file of the
  repository has balanced fences and only links that are remote or resolve.
\<close>

theorem doc_contract_exact:
  "(\<exists>out. doc_contract_main t = Inr (out, 0)) \<longleftrightarrow>
     (\<exists>readme spec. dt_readme t = Some (Inr readme) \<and> dt_spec t = Some (Inr spec)
        \<and> (\<forall>w \<in> set README_FORBIDDEN_TOKENS. \<nexists>a b. readme = a @ w @ b)
        \<and> (\<forall>a b. readme = a @ b
             \<longrightarrow> (\<forall>(bounded, w) \<in> set README_STATUS_PATTERN. \<not> phrase_at bounded w a b))
        \<and> (\<forall>h \<in> set REQUIRED_SPEC_HEADINGS. \<exists>a b. spec = a @ h @ b)
        \<and> (\<forall>(parts, txt) \<in> set (dt_markdown t). is_ours parts
             \<longrightarrow> (\<exists>doc. txt = Inr doc \<and> even (fence_count doc)
                    \<and> (\<forall>raw \<in> set (markdown_links doc). link_ok t parts raw))))"
proof -
  have "(\<forall>f \<in> set (dt_markdown t). file_errors t f = Inr [])
      \<longleftrightarrow> (\<forall>(parts, txt) \<in> set (dt_markdown t). is_ours parts
             \<longrightarrow> (\<exists>doc. txt = Inr doc \<and> even (fence_count doc)
                    \<and> (\<forall>raw \<in> set (markdown_links doc). link_ok t parts raw)))"
    by (rule ball_cong[OF refl]) (simp add: file_errors_Nil split: prod.splits)
  then show ?thesis by (simp only: doc_contract_main_0 validate_Nil readme_errors_Nil)
qed

theorem doc_contract_exact_witness:
  "(\<exists>out. doc_contract_main demo_docs = Inr (out, 0))
   \<and> link_ok demo_docs [''docs'', ''a.md''] ''../SPEC.md#x''"
proof -
  have "doc_contract_main demo_docs = Inr ([''documentation contract: PASS''], 0)" by code_simp
  then have pass: "\<exists>out. doc_contract_main demo_docs = Inr (out, 0)" by blast
  have ours: "is_ours [''docs'', ''a.md'']" by code_simp
  have links: "markdown_links demo_page = [''../SPEC.md#x'', ''https://example.org'']" by code_simp
  have "([''docs'', ''a.md''], Inr demo_page) \<in> set (dt_markdown demo_docs)"
    by (simp add: demo_docs_def)
  then have "link_ok demo_docs [''docs'', ''a.md''] ''../SPEC.md#x''"
    using pass ours links unfolding doc_contract_exact[of demo_docs] by fastforce
  with pass show ?thesis by blast
qed

text \<open>
  C37. A sender's time stamp is read exactly: in the form \<open>isoformat\<close> writes, for every year
  from 1 to 9999 and every offset of at least a second, and with \<^verbatim>\<open>Z\<close> for UTC, it becomes
  the time of the event, to the microsecond and with its offset.
\<close>

theorem stamps_read:
  assumes "stamp_ok t"
  shows "parse_iso fromisoformat (isoformat t) fallback = t
         \<and> (dt_offset t = 0 \<longrightarrow> parse_iso fromisoformat (zulu t) fallback = t)
         \<and> (py_get p ''occurred_at'' = JStr (isoformat t)
             \<longrightarrow> normalize_generic fromisoformat uids (JObj p) rc = Inr es
             \<longrightarrow> list_all (\<lambda>e. ev_occurred_at e = t) es)"
  using assms parse_iso_isoformat parse_iso_zulu generic_stamp by (auto simp: list_all_iff)

theorem stamps_read_witness:
  "zulu demo_stamp = ''2024-02-29T12:34:56.789012Z''
   \<and> parse_iso fromisoformat ''2024-02-29T12:34:56.789012Z'' (utc 0) = demo_stamp"
proof -
  have "stamp_ok demo_stamp" by code_simp
  from stamps_read[OF this, of "utc 0"]
  have "parse_iso fromisoformat (zulu demo_stamp) (utc 0) = demo_stamp" by (simp add: demo_stamp_def)
  then show ?thesis unfolding demo_zulu by blast
qed

section \<open>Migrations\<close>

text \<open>
  C38. The constraints of the migrated schema are the model's: the tables of a database satisfy
  the check expressions, keys, references and the partial unique index of the revisions, in
  SQL's three-valued logic, exactly when the model calls the database sound. Migrating an
  empty server gives these tables, empty, at the revision the health check asks for, and
  migrating again changes nothing.
\<close>

theorem schema_exact:
  "(pg_ok (encode js s) \<longleftrightarrow> db_ok s)
   \<and> run_migrations (Some (c # cs)) empty_pg = (Inr (), encode js empty_db)
   \<and> run_migrations (Some (c # cs)) (encode js s) = (Inr (), encode js s)
   \<and> check_schema (Inr (pg_version (encode js s))) = Inr ()"
  using pg_ok_encode migrate_empty migrate_head by (simp add: check_schema_def encode_eq)

text \<open>
  C39. Migrating keeps the data. Downgrading a revision gives back, row by row, the database its
  upgrade started from (for the first one, unless the extension was there before). The
  outbox revision turns a sound database of the revision before it into the same database
  with an empty ledger and every normalized event marked as offered, so none is replayed.
\<close>

theorem migrations_keep_data:
  assumes "r \<in> set REVISIONS" and "pg_wf p" and "rv_down r = None \<longrightarrow> ''vector'' \<notin> set (pg_extensions p)"
    and "exec_all (rv_upgrade r) p = Inr p'" and "db_ok s"
  shows "exec_all (rv_downgrade r) p' = Inr p
    \<and> run_migrations (Some (c # cs)) (encode_0003 js s) = (Inr (), encode js (backfill_0004 (before_0004 s)))
    \<and> pending_queue_event_ids limit (backfill_0004 (before_0004 s)) = []"
  using downgrade_upgrade[OF assms(1-4)] migrate_0003[OF assms(5)] backfill_no_replay by blast

theorem migrations_keep_data_witness:
  "exec_all downgrade_0004 ((encode (\<lambda>_. []) (backfill_0004 (before_0004 demo_db)))\<lparr>pg_version := Some ''0003_runs_and_tickets''\<rparr>)
     = Inr (encode_0003 (\<lambda>_. []) demo_db)
   \<and> run_migrations (Some ''u'') (encode_0003 (\<lambda>_. []) demo_db)
     = (Inr (), encode (\<lambda>_. []) (backfill_0004 (before_0004 demo_db)))"
proof -
  let ?r = "\<lparr>rv_id = ''0004_event_queue_outbox'', rv_down = Some ''0003_runs_and_tickets'',
        rv_upgrade = upgrade_0004, rv_downgrade = downgrade_0004\<rparr>"
  have ok: "db_ok demo_db" using demo_wk_ok by (simp add: wk_ok_def)
  have "exec_all (rv_upgrade ?r) (encode_0003 (\<lambda>_. []) demo_db)
      = Inr ((encode (\<lambda>_. []) (backfill_0004 (before_0004 demo_db)))\<lparr>pg_version := Some ''0003_runs_and_tickets''\<rparr>)"
    using upgrade_0004_backfills[OF ok] by simp
  from migrations_keep_data[OF _ encode_0003_wf _ this ok, of "CHR ''u''" "[]" "\<lambda>_. []"]
  show ?thesis by (simp add: REVISIONS_def)
qed

section \<open>Diagrams\<close>



end
